(* ===== verification/Go_Prelude.thy ===== *)
theory Go_Prelude
  imports Main "HOL-Library.Word" "HOL-Library.Sublist"
begin

section \<open>Prelude: the parts of Go the program is written in\<close>

text \<open>
  What every component shares.  The functions of Go's \<open>strings\<close> package the code calls, on
  byte strings (\<open>string\<close> is a list of bytes; the case conversions and \<open>%q\<close> are exact on
  ASCII and leave other bytes alone).  Errors as trees, as \<open>fmt.Errorf\<close> with \<open>%w\<close>,
  \<open>errors.Join\<close> and the sentinel errors of \<open>pkg/auditerrors\<close> build them.  Calls as state
  passing: a call takes the world and returns a value or a run-time panic, and the new world.
\<close>

named_theorems go_simps \<open>rewrite rules for the call combinators\<close>
named_theorems err_simps \<open>rewrite rules for error trees\<close>

subsection \<open>Package strings\<close>

definition HasPrefix :: "string \<Rightarrow> string \<Rightarrow> bool" where
  "HasPrefix s p \<longleftrightarrow> prefix p s"

definition HasSuffix :: "string \<Rightarrow> string \<Rightarrow> bool" where
  "HasSuffix s p \<longleftrightarrow> suffix p s"

text \<open>\<open>TrimLeft\<close> and \<open>TrimSuffix\<close>; \<open>TrimSpace\<close> on the ASCII white space.\<close>

definition TrimLeft :: "string \<Rightarrow> char \<Rightarrow> string" where
  "TrimLeft s c = dropWhile (\<lambda>d. d = c) s"

definition TrimSuffix :: "string \<Rightarrow> string \<Rightarrow> string" where
  "TrimSuffix s p = (if HasSuffix s p then take (length s - length p) s else s)"

definition is_space :: "char \<Rightarrow> bool" where
  "is_space c \<longleftrightarrow> c \<in> {CHR 0x09, CHR 0x0A, CHR 0x0B, CHR 0x0C, CHR 0x0D, CHR 0x20}"

definition TrimSpace :: "string \<Rightarrow> string" where
  "TrimSpace s = rev (dropWhile is_space (rev (dropWhile is_space s)))"

text \<open>\<open>strings.Split\<close> with a one-byte separator: never empty.\<close>

fun Split :: "string \<Rightarrow> char \<Rightarrow> string list" where
  "Split [] c = [[]]"
| "Split (d # s) c =
     (if d = c then [] # Split s c
      else (case Split s c of [] \<Rightarrow> [[d]] | p # ps \<Rightarrow> (d # p) # ps))"

text \<open>\<open>strings.LastIndex\<close> of a one-byte string, \<open>-1\<close> when it is absent.\<close>

fun LastIndex :: "string \<Rightarrow> char \<Rightarrow> int" where
  "LastIndex [] c = -1"
| "LastIndex (d # s) c =
     (if LastIndex s c \<ge> 0 then LastIndex s c + 1 else if d = c then 0 else -1)"

definition ascii_upper :: "char \<Rightarrow> char" where
  "ascii_upper c = (if 97 \<le> (of_char c :: nat) \<and> (of_char c :: nat) \<le> 122
                    then char_of ((of_char c :: nat) - 32) else c)"

definition ascii_lower :: "char \<Rightarrow> char" where
  "ascii_lower c = (if 65 \<le> (of_char c :: nat) \<and> (of_char c :: nat) \<le> 90
                    then char_of ((of_char c :: nat) + 32) else c)"

definition ToUpper :: "string \<Rightarrow> string" where
  "ToUpper s = map ascii_upper s"

definition ToLower :: "string \<Rightarrow> string" where
  "ToLower s = map ascii_lower s"

lemma length_ToLower [simp]: "length (ToLower s) = length s"
  by (simp add: ToLower_def)

lemma length_ToUpper [simp]: "length (ToUpper s) = length s"
  by (simp add: ToUpper_def)

lemma Split_not_Nil [simp]: "Split s c \<noteq> []"
  by (cases s) (auto split: list.splits)

lemma length_Split: "length (Split s c) = Suc (count_list s c)"
proof (induction s)
  case (Cons d s)
  then show ?case by (auto split: list.splits)
qed simp

lemma Split_no_sep: "c \<notin> set s \<Longrightarrow> Split s c = [s]"
  by (induction s) (auto split: list.splits)

lemma Split_append_sep: "c \<notin> set p \<Longrightarrow> Split (p @ c # s) c = p # Split s c"
  by (induction p) (auto split: list.splits)

lemma Split_two:
  "(\<exists>a b. Split s c = [a, b] \<and> P b) \<longleftrightarrow>
   (\<exists>a b. s = a @ c # b \<and> c \<notin> set a \<and> c \<notin> set b \<and> P b)" (is "?L \<longleftrightarrow> ?R")
proof
  assume ?L
  then obtain a b where ab: "Split s c = [a, b]" "P b" by blast
  then have "count_list s c = 1" using length_Split [of s c] by simp
  then have "c \<in> set s" by (metis count_notin zero_neq_one)
  then obtain u v where uv: "s = u @ c # v" "c \<notin> set u"
    by (meson split_list_first)
  with ab have "Split v c = [b]" by (simp add: Split_append_sep)
  then have "count_list v c = 0" using length_Split [of v c] by simp
  then have "c \<notin> set v" by (simp add: count_list_0_iff)
  with \<open>Split v c = [b]\<close> have "v = b" by (simp add: Split_no_sep)
  with uv \<open>c \<notin> set v\<close> ab show ?R by blast
next
  assume ?R
  then show ?L by (auto simp: Split_append_sep Split_no_sep)
qed

lemma TrimLeft_idem [simp]: "TrimLeft (TrimLeft s c) c = TrimLeft s c"
  by (simp add: TrimLeft_def)

lemma TrimLeft_cons_same [simp]: "TrimLeft (c # s) c = TrimLeft s c"
  by (simp add: TrimLeft_def)

lemma LastIndex_bounds: "-1 \<le> LastIndex s c \<and> LastIndex s c < int (length s)"
  by (induction s) auto

lemma LastIndex_absent: "LastIndex s c = -1 \<longleftrightarrow> c \<notin> set s"
proof (induction s)
  case (Cons d s)
  then show ?case using LastIndex_bounds [of s c] by auto
qed simp

lemma LastIndex_append_absent:
  "c \<notin> set t \<Longrightarrow> LastIndex (s @ c # t) c = int (length s)"
proof (induction s)
  case Nil
  then have "LastIndex t c = -1" by (simp add: LastIndex_absent)
  then show ?case by simp
qed auto

subsection \<open>Formatting\<close>

text \<open>The verbs \<open>%q\<close> (on ASCII) and \<open>%d\<close> (on natural numbers).\<close>

definition hex_digit :: "nat \<Rightarrow> char" where
  "hex_digit n = (if n < 10 then char_of (48 + n) else char_of (87 + n))"

definition quote_char :: "char \<Rightarrow> string" where
  "quote_char c =
     (if c = CHR 0x22 then [CHR 0x5C, CHR 0x22]
      else if c = CHR 0x5C then [CHR 0x5C, CHR 0x5C]
      else if c = CHR 0x07 then [CHR 0x5C, CHR ''a'']
      else if c = CHR 0x08 then [CHR 0x5C, CHR ''b'']
      else if c = CHR 0x0C then [CHR 0x5C, CHR ''f'']
      else if c = CHR 0x0A then [CHR 0x5C, CHR ''n'']
      else if c = CHR 0x0D then [CHR 0x5C, CHR ''r'']
      else if c = CHR 0x09 then [CHR 0x5C, CHR ''t'']
      else if c = CHR 0x0B then [CHR 0x5C, CHR ''v'']
      else if (of_char c :: nat) < 32 \<or> (of_char c :: nat) = 127
      then [CHR 0x5C, CHR ''x'', hex_digit (of_char c div 16), hex_digit (of_char c mod 16)]
      else [c])"

definition go_quote :: "string \<Rightarrow> string" where
  "go_quote s = [CHR 0x22] @ concat (map quote_char s) @ [CHR 0x22]"

text \<open>\<open>%q\<close> of a list: the quoted elements in brackets, with a space between them.\<close>

fun quote_words :: "string list \<Rightarrow> string" where
  "quote_words [] = []"
| "quote_words [x] = go_quote x"
| "quote_words (x # y # xs) = go_quote x @ '' '' @ quote_words (y # xs)"

definition quote_all :: "string list \<Rightarrow> string" where
  "quote_all xs = ''['' @ quote_words xs @ '']''"

fun show_nat :: "nat \<Rightarrow> string" where
  "show_nat n = (if n < 10 then [char_of (48 + n)]
                 else show_nat (n div 10) @ [char_of (48 + n mod 10)])"

declare show_nat.simps [simp del]

subsection \<open>Errors\<close>

text \<open>
  An error value.  \<open>AuditError\<close> is the string type \<open>auditerrors.Error\<close>, compared by value.
  \<open>External\<close> is a sentinel of a library (\<open>io.EOF\<close>, \<open>fs.ErrNotExist\<close>), \<open>Opaque\<close> any
  other error a library returned.  \<open>Errorf m es\<close> is \<open>fmt.Errorf\<close>: the whole text and the
  errors its \<open>%w\<close> verbs wrap.  \<open>Joined\<close> is \<open>errors.Join\<close>, \<open>StatusError\<close> is
  \<open>status.Error\<close> of gRPC with its code.
\<close>

datatype gerror =
    AuditError string
  | External string
  | Opaque string
  | Errorf string "gerror list"
  | Joined "gerror list"
  | StatusError nat string

primrec error_chain :: "gerror \<Rightarrow> gerror list" where
  "error_chain (AuditError s) = [AuditError s]"
| "error_chain (External s) = [External s]"
| "error_chain (Opaque s) = [Opaque s]"
| "error_chain (Errorf m es) = Errorf m es # concat (map error_chain es)"
| "error_chain (Joined es) = Joined es # concat (map error_chain es)"
| "error_chain (StatusError c m) = [StatusError c m]"

text \<open>\<open>errors.Is\<close>: the target is an error of the tree (the code's targets are sentinels).\<close>

definition errors_is :: "gerror \<Rightarrow> gerror \<Rightarrow> bool" where
  "errors_is e t \<longleftrightarrow> t \<in> set (error_chain e)"

text \<open>\<open>io.EOF\<close>.\<close>

definition io_EOF :: gerror where "io_EOF = External ''EOF''"

text \<open>The gRPC codes the code uses, and their names.\<close>

definition code_InvalidArgument :: nat where "code_InvalidArgument = 3"
definition code_FailedPrecondition :: nat where "code_FailedPrecondition = 9"
definition code_ResourceExhausted :: nat where "code_ResourceExhausted = 8"
definition code_Internal :: nat where "code_Internal = 13"

lemmas code_defs [simp] =
  code_InvalidArgument_def code_FailedPrecondition_def code_ResourceExhausted_def code_Internal_def

definition code_name :: "nat \<Rightarrow> string" where
  "code_name c = (if c = 3 then ''InvalidArgument'' else if c = 8 then ''ResourceExhausted''
                  else if c = 9 then ''FailedPrecondition'' else if c = 13 then ''Internal'' else ''Code('' @ show_nat c @ '')'')"

primrec error_text :: "gerror \<Rightarrow> string" where
  "error_text (AuditError s) = s"
| "error_text (External s) = s"
| "error_text (Opaque s) = s"
| "error_text (Errorf m es) = m"
| "error_text (Joined es) =
     (case map error_text es of [] \<Rightarrow> [] | t # ts \<Rightarrow> t @ concat (map (\<lambda>u. CHR 0x0A # u) ts))"
| "error_text (StatusError c m) = ''rpc error: code = '' @ code_name c @ '' desc = '' @ m"

text \<open>\<open>fmt.Errorf("p: %w", err)\<close>, and \<open>fmt.Errorf("p")\<close> without a wrapped error.\<close>

definition errorf :: "string \<Rightarrow> gerror" where
  "errorf m = Errorf m []"

definition wrapf :: "string \<Rightarrow> gerror \<Rightarrow> gerror" where
  "wrapf p e = Errorf (p @ '': '' @ error_text e) [e]"

text \<open>\<open>fmt.Errorf("%w: %w", e1, e2)\<close>.\<close>

definition wrap2 :: "gerror \<Rightarrow> gerror \<Rightarrow> gerror" where
  "wrap2 e1 e2 = Errorf (error_text e1 @ '': '' @ error_text e2) [e1, e2]"

text \<open>\<open>errors.Join\<close>: nil errors are dropped, and nil is returned when none is left.\<close>

definition errors_join :: "gerror option list \<Rightarrow> gerror option" where
  "errors_join es = (let xs = List.map_filter id es in if xs = [] then None else Some (Joined xs))"

lemma errors_join_Nil [simp]: "errors_join [] = None"
  by (simp add: errors_join_def map_filter_def)

lemma errors_join_pair [simp]:
  "errors_join [None, None] = None"
  "errors_join [Some a, None] = Some (Joined [a])"
  "errors_join [None, Some b] = Some (Joined [b])"
  "errors_join [Some a, Some b] = Some (Joined [a, b])"
  by (simp_all add: errors_join_def map_filter_def)

lemma errors_join_new [simp]:
  "(errors_join [a, Some b] = None) = False" "(\<exists>e. errors_join [a, Some b] = Some e) = True"
  by (cases a; simp)+

lemma errors_join_None_iff: "errors_join es = None \<longleftrightarrow> (\<forall>e \<in> set es. e = None)"
  by (auto simp: errors_join_def map_filter_def filter_empty_conv)

text \<open>The leaves of an error tree: the errors that were joined, each one once.\<close>

primrec error_leaves :: "gerror \<Rightarrow> gerror list" where
  "error_leaves (AuditError s) = [AuditError s]"
| "error_leaves (External s) = [External s]"
| "error_leaves (Opaque s) = [Opaque s]"
| "error_leaves (Errorf m es) = [Errorf m es]"
| "error_leaves (Joined es) = concat (map error_leaves es)"
| "error_leaves (StatusError c m) = [StatusError c m]"

definition leaves_of :: "gerror option \<Rightarrow> gerror list" where
  "leaves_of e = (case e of None \<Rightarrow> [] | Some x \<Rightarrow> error_leaves x)"

lemma leaves_of_simps [simp]: "leaves_of None = []" "leaves_of (Some e) = error_leaves e"
  by (simp_all add: leaves_of_def)

lemma leaves_of_join_pair [simp]: "leaves_of (errors_join [a, b]) = leaves_of a @ leaves_of b"
  by (cases a; cases b) simp_all

lemma error_leaves_errorf [simp]:
  "error_leaves (errorf m) = [errorf m]" "error_leaves (wrapf p e) = [wrapf p e]"
  "error_leaves (wrap2 a b) = [wrap2 a b]"
  by (simp_all add: errorf_def wrapf_def wrap2_def)

lemma errors_is_simps [simp, err_simps]:
  "errors_is (AuditError s) t \<longleftrightarrow> t = AuditError s"
  "errors_is (External s) t \<longleftrightarrow> t = External s"
  "errors_is (Opaque s) t \<longleftrightarrow> t = Opaque s"
  "errors_is (StatusError c m) t \<longleftrightarrow> t = StatusError c m"
  "errors_is (Errorf m es) t \<longleftrightarrow> t = Errorf m es \<or> (\<exists>e \<in> set es. errors_is e t)"
  "errors_is (Joined es) t \<longleftrightarrow> t = Joined es \<or> (\<exists>e \<in> set es. errors_is e t)"
  by (auto simp: errors_is_def)

lemma errors_is_wrap [simp, err_simps]:
  "errors_is (errorf m) (AuditError t) = False"
  "errors_is (wrapf p e) (AuditError t) = errors_is e (AuditError t)"
  "errors_is (wrap2 a b) (AuditError t) = (errors_is a (AuditError t) \<or> errors_is b (AuditError t))"
  "errors_is (errorf m) (External t) = False"
  "errors_is (wrapf p e) (External t) = errors_is e (External t)"
  "errors_is (wrap2 a b) (External t) = (errors_is a (External t) \<or> errors_is b (External t))"
  by (simp_all add: errorf_def wrapf_def wrap2_def)

subsection \<open>Calls\<close>

text \<open>
  The result of a call: a value, or a run-time panic (a nil dereference, an assignment to an
  entry of a nil map) with its text.  The world holds the state outside the program (type
  \<open>'w\<close>: the services, the stored logs) and the diagnostic log the code writes with its
  \<open>slog\<close> logger, newest entry last.
\<close>

datatype 'a ret = Ret 'a | Panic string

datatype level = LevelDebug | LevelInfo | LevelWarn | LevelError

record diag_entry =
  d_level :: level
  d_msg :: string
  d_err :: "gerror option"

record 'w world =
  w_ext :: 'w
  w_diag :: "diag_entry list"

type_synonym ('w, 'a) go = "'w world \<Rightarrow> 'a ret \<times> 'w world"

definition go_return :: "'a \<Rightarrow> ('w, 'a) go" where
  "go_return a w = (Ret a, w)"

definition go_panic :: "string \<Rightarrow> ('w, 'a) go" where
  "go_panic s w = (Panic s, w)"

definition go_bind :: "('w, 'a) go \<Rightarrow> ('a \<Rightarrow> ('w, 'b) go) \<Rightarrow> ('w, 'b) go" where
  "go_bind m f w = (case m w of (Ret a, w') \<Rightarrow> f a w' | (Panic s, w') \<Rightarrow> (Panic s, w'))"

definition go_log :: "level \<Rightarrow> string \<Rightarrow> gerror option \<Rightarrow> ('w, unit) go" where
  "go_log l m e w = (Ret (), w\<lparr>w_diag := w_diag w @ [\<lparr>d_level = l, d_msg = m, d_err = e\<rparr>]\<rparr>)"

definition nil_deref :: string where
  "nil_deref = ''runtime error: invalid memory address or nil pointer dereference''"

definition nil_map :: string where
  "nil_map = ''assignment to entry in nil map''"

lemma go_return_apply [simp, go_simps]: "go_return a w = (Ret a, w)"
  by (simp add: go_return_def)

lemma go_panic_apply [simp, go_simps]: "go_panic s w = (Panic s, w)"
  by (simp add: go_panic_def)

lemma go_bind_return [simp, go_simps]: "go_bind (go_return a) f = f a"
  by (rule ext) (simp add: go_bind_def)

lemma go_bind_panic [simp, go_simps]: "go_bind (go_panic s) f = go_panic s"
  by (rule ext) (simp add: go_bind_def)

text \<open>The same rules for the eta-contracted form the simplifier leaves.\<close>

lemma go_bind_Pair [simp, go_simps]:
  "go_bind (Pair (Ret a)) f = f a" "go_bind (Pair (Panic s)) g = Pair (Panic s)"
  by (rule ext, simp add: go_bind_def)+

lemma go_bind_Ret [go_simps]: "m w = (Ret a, w') \<Longrightarrow> go_bind m f w = f a w'"
  by (simp add: go_bind_def)

lemma go_bind_Panic [go_simps]: "m w = (Panic s, w') \<Longrightarrow> go_bind m f w = (Panic s, w')"
  by (simp add: go_bind_def)

lemma go_bind_log [simp, go_simps]:
  "go_bind (go_log l m e) f w =
   f () (w\<lparr>w_diag := w_diag w @ [\<lparr>d_level = l, d_msg = m, d_err = e\<rparr>]\<rparr>)"
  by (simp add: go_bind_def go_log_def)

lemma go_bind_assoc: "go_bind (go_bind m f) g = go_bind m (\<lambda>a. go_bind (f a) g)"
  by (rule ext) (auto simp: go_bind_def split: prod.splits ret.splits)

lemma go_bind_cong [fundef_cong]:
  assumes "m w = m' w'"
    and "\<And>a v. m' w' = (Ret a, v) \<Longrightarrow> f a v = f' a v"
  shows "go_bind m f w = go_bind m' f' w'"
  using assms by (auto simp: go_bind_def split: prod.splits ret.splits)

lemma go_bind_Ret_iff:
  "go_bind m f w = (Ret b, w2) \<longleftrightarrow> (\<exists>a w1. m w = (Ret a, w1) \<and> f a w1 = (Ret b, w2))"
  by (auto simp: go_bind_def split: prod.splits ret.splits)

lemma go_bind_RetE:
  assumes "go_bind m f w = (Ret b, w2)"
  obtains a w1 where "m w = (Ret a, w1)" "f a w1 = (Ret b, w2)"
  using assms by (auto simp: go_bind_Ret_iff)

lemma go_bind_Panic_iff:
  "go_bind m f w = (Panic s, w2) \<longleftrightarrow>
     m w = (Panic s, w2) \<or> (\<exists>a w1. m w = (Ret a, w1) \<and> f a w1 = (Panic s, w2))"
  by (auto simp: go_bind_def split: prod.splits ret.splits)

subsection \<open>Calls that need not return\<close>

text \<open>
  A call with a loop that may run for ever gives \<open>None\<close> when it does not return.  \<open>dv_bind\<close> goes on
  with the value of such a call, \<open>dv_of\<close> is a call that returns.
\<close>

type_synonym ('w, 'a) may_diverge = "'w world \<Rightarrow> ('a ret \<times> 'w world) option"

definition dv_of :: "('w, 'a) go \<Rightarrow> ('w, 'a) may_diverge" where
  "dv_of m w = Some (m w)"

definition dv_bind ::
  "('w, 'a) may_diverge \<Rightarrow> ('a \<Rightarrow> ('w, 'b) may_diverge) \<Rightarrow> ('w, 'b) may_diverge" where
  "dv_bind m f w =
     (case m w of
        None \<Rightarrow> None
      | Some (Panic s, w1) \<Rightarrow> Some (Panic s, w1)
      | Some (Ret a, w1) \<Rightarrow> f a w1)"

lemma dv_of_apply [simp, go_simps]: "dv_of m w = Some (m w)"
  by (simp add: dv_of_def)

lemma dv_bind_Ret [go_simps]: "m w = Some (Ret a, w1) \<Longrightarrow> dv_bind m f w = f a w1"
  by (simp add: dv_bind_def)

lemma dv_bind_of [go_simps]: "m w = (Ret a, w1) \<Longrightarrow> dv_bind (dv_of m) f w = f a w1"
  by (simp add: dv_bind_def)

lemma dv_bind_of_Panic [go_simps]: "m w = (Panic s, w1) \<Longrightarrow> dv_bind (dv_of m) f w = Some (Panic s, w1)"
  by (simp add: dv_bind_def)

lemma dv_bind_None [go_simps]: "m w = None \<Longrightarrow> dv_bind m f w = None"
  by (simp add: dv_bind_def)

lemma dv_bind_return [simp, go_simps]: "dv_bind (dv_of (go_return a)) f = f a"
  by (rule ext) (simp add: dv_bind_def)

lemma dv_bind_log [simp, go_simps]:
  "dv_bind (dv_of (go_log l m e)) f w =
   f () (w\<lparr>w_diag := w_diag w @ [\<lparr>d_level = l, d_msg = m, d_err = e\<rparr>]\<rparr>)"
  by (simp add: dv_bind_def go_log_def)

lemma dv_bind_Ret_iff:
  "dv_bind m f w = Some (Ret b, w2) \<longleftrightarrow> (\<exists>a w1. m w = Some (Ret a, w1) \<and> f a w1 = Some (Ret b, w2))"
  by (auto simp: dv_bind_def split: option.splits prod.splits ret.splits)

lemma dv_bind_RetE:
  assumes "dv_bind m f w = Some (Ret b, w2)"
  obtains a w1 where "m w = Some (Ret a, w1)" "f a w1 = Some (Ret b, w2)"
  using assms by (auto simp: dv_bind_Ret_iff)

end
