(* ===== verification/Api.thy ===== *)
theory Api
  imports Go_Prelude
begin

section \<open>The messages: clients/go/apis/v1alpha1\<close>

text \<open>
  The audit log request and what it carries.  A Go pointer to a message is an \<open>option\<close>
  (\<open>None\<close> is nil), a Go map that may be nil is an \<open>option\<close> of a map, and an enum is the
  32-bit integer it is in Go, so that values outside the declared constants exist in the model
  too.  Of the messages of other repositories (\<open>AuditLog\<close>, \<open>Status\<close>, \<open>Struct\<close>) the
  fields the code reads or writes are kept.
\<close>

subsection \<open>Enums\<close>

type_synonym log_type = "32 word"
type_synonym log_mode = "32 word"

definition LT_UNSPECIFIED :: log_type where "LT_UNSPECIFIED = 0"
definition LT_ADMIN_ACTIVITY :: log_type where "LT_ADMIN_ACTIVITY = 1"
definition LT_DATA_ACCESS :: log_type where "LT_DATA_ACCESS = 2"
definition LT_CONSENT_EVENT :: log_type where "LT_CONSENT_EVENT = 3"
definition LT_SYSTEM_EVENT :: log_type where "LT_SYSTEM_EVENT = 50"

lemmas log_type_defs =
  LT_UNSPECIFIED_def LT_ADMIN_ACTIVITY_def LT_DATA_ACCESS_def LT_CONSENT_EVENT_def
  LT_SYSTEM_EVENT_def

text \<open>\<open>AuditLogRequest_LogType_name\<close> as its entries, and the two lookup maps.\<close>

definition LogType_entries :: "(log_type \<times> string) list" where
  "LogType_entries =
     [(LT_UNSPECIFIED, ''UNSPECIFIED''), (LT_ADMIN_ACTIVITY, ''ADMIN_ACTIVITY''),
      (LT_DATA_ACCESS, ''DATA_ACCESS''), (LT_CONSENT_EVENT, ''CONSENT_EVENT''),
      (LT_SYSTEM_EVENT, ''SYSTEM_EVENT'')]"

definition LogType_name :: "log_type \<rightharpoonup> string" where
  "LogType_name t = map_of LogType_entries t"

definition LogType_value :: "string \<rightharpoonup> log_type" where
  "LogType_value s = map_of (map (\<lambda>(v, n). (n, v)) LogType_entries) s"

definition MODE_UNSPECIFIED :: log_mode where "MODE_UNSPECIFIED = 0"
definition MODE_FAIL_CLOSE :: log_mode where "MODE_FAIL_CLOSE = 1"
definition MODE_BEST_EFFORT :: log_mode where "MODE_BEST_EFFORT = 2"

lemmas log_mode_defs = MODE_UNSPECIFIED_def MODE_FAIL_CLOSE_def MODE_BEST_EFFORT_def

definition LogMode_entries :: "(log_mode \<times> string) list" where
  "LogMode_entries =
     [(MODE_UNSPECIFIED, ''LOG_MODE_UNSPECIFIED''), (MODE_FAIL_CLOSE, ''FAIL_CLOSE''),
      (MODE_BEST_EFFORT, ''BEST_EFFORT'')]"

definition LogMode_name :: "log_mode \<rightharpoonup> string" where
  "LogMode_name m = map_of LogMode_entries m"

definition LogMode_value :: "string \<rightharpoonup> log_mode" where
  "LogMode_value s = map_of (map (\<lambda>(v, n). (n, v)) LogMode_entries) s"

text \<open>\<open>ShouldFailClose\<close> of \<open>auditlogutil.go\<close>.\<close>

definition ShouldFailClose :: "log_mode \<Rightarrow> bool" where
  "ShouldFailClose m \<longleftrightarrow> m = MODE_FAIL_CLOSE"

lemma mode_distinct [simp]:
  "MODE_UNSPECIFIED \<noteq> MODE_FAIL_CLOSE" "MODE_FAIL_CLOSE \<noteq> MODE_UNSPECIFIED"
  "MODE_UNSPECIFIED \<noteq> MODE_BEST_EFFORT" "MODE_BEST_EFFORT \<noteq> MODE_UNSPECIFIED"
  "MODE_FAIL_CLOSE \<noteq> MODE_BEST_EFFORT" "MODE_BEST_EFFORT \<noteq> MODE_FAIL_CLOSE"
  by (simp_all add: log_mode_defs)

lemma ShouldFailClose_simps [simp]:
  "ShouldFailClose MODE_FAIL_CLOSE" "\<not> ShouldFailClose MODE_BEST_EFFORT"
  "\<not> ShouldFailClose MODE_UNSPECIFIED"
  by (simp_all add: ShouldFailClose_def)

lemma LogMode_name_value:
  "LogMode_value s = Some m \<longleftrightarrow> LogMode_name m = Some s"
  by (auto simp: LogMode_value_def LogMode_name_def LogMode_entries_def log_mode_defs
      split: if_splits)

lemma LogType_name_value:
  "LogType_value s = Some t \<longleftrightarrow> LogType_name t = Some s"
  by (auto simp: LogType_value_def LogType_name_def LogType_entries_def log_type_defs
      split: if_splits)

subsection \<open>Struct messages\<close>

text \<open>
  \<open>google.protobuf.Value\<close>.  A \<open>Struct\<close> is its \<open>Fields\<close> map, which may be nil; a double is
  its 64 bits.
\<close>

type_synonym float64 = "64 word"

datatype pvalue =
    NullValue
  | NumberValue float64
  | StringValue string
  | BoolValue bool
  | StructValue "(string \<rightharpoonup> pvalue) option"
  | ListValue "pvalue list"

type_synonym pstruct = "(string \<rightharpoonup> pvalue) option"

subsection \<open>The audit log and the request\<close>

record authentication_info =
  principal_email :: string

record rpc_status =
  st_code :: nat
  st_message :: string

record request_attributes =
  reason :: string

record request_metadata =
  attributes :: "request_attributes option"

record audit_log =
  service_name :: string
  method_name :: string
  resource_name :: string
  authentication :: "authentication_info option"
  status :: "rpc_status option"
  request_meta :: "request_metadata option"
  request :: "pstruct option"
  response :: "pstruct option"
  metadata :: "pstruct option"

definition empty_audit_log :: audit_log where
  "empty_audit_log =
     \<lparr>service_name = [], method_name = [], resource_name = [], authentication = None,
      status = None, request_meta = None, request = None, response = None, metadata = None\<rparr>"

record entry_operation =
  op_producer :: string
  op_id :: string

type_synonym timestamp = int
type_synonym labels = "string \<rightharpoonup> string"

record log_request =
  req_type :: log_type
  payload :: "audit_log option"
  req_labels :: "labels option"
  mode :: log_mode
  operation :: "entry_operation option"
  req_timestamp :: "timestamp option"
  req_context :: "pstruct option"
  justification_token :: string

definition empty_log_request :: log_request where
  "empty_log_request =
     \<lparr>req_type = LT_UNSPECIFIED, payload = None, req_labels = None, mode = MODE_UNSPECIFIED,
      operation = None, req_timestamp = None, req_context = None, justification_token = []\<rparr>"

text \<open>The generated getters are safe on a nil receiver.\<close>

definition GetType :: "log_request option \<Rightarrow> log_type" where
  "GetType x = (case x of Some r \<Rightarrow> req_type r | None \<Rightarrow> LT_UNSPECIFIED)"

definition GetPayload :: "log_request option \<Rightarrow> audit_log option" where
  "GetPayload x = (case x of Some r \<Rightarrow> payload r | None \<Rightarrow> None)"

definition GetLabels :: "log_request option \<Rightarrow> labels option" where
  "GetLabels x = (case x of Some r \<Rightarrow> req_labels r | None \<Rightarrow> None)"

definition GetMode :: "log_request option \<Rightarrow> log_mode" where
  "GetMode x = (case x of Some r \<Rightarrow> mode r | None \<Rightarrow> MODE_UNSPECIFIED)"

definition GetOperation :: "log_request option \<Rightarrow> entry_operation option" where
  "GetOperation x = (case x of Some r \<Rightarrow> operation r | None \<Rightarrow> None)"

definition GetTimestamp :: "log_request option \<Rightarrow> timestamp option" where
  "GetTimestamp x = (case x of Some r \<Rightarrow> req_timestamp r | None \<Rightarrow> None)"

definition GetContext :: "log_request option \<Rightarrow> pstruct option" where
  "GetContext x = (case x of Some r \<Rightarrow> req_context r | None \<Rightarrow> None)"

definition GetJustificationToken :: "log_request option \<Rightarrow> string" where
  "GetJustificationToken x = (case x of Some r \<Rightarrow> justification_token r | None \<Rightarrow> [])"

lemmas getter_defs =
  GetType_def GetPayload_def GetLabels_def GetMode_def GetOperation_def GetTimestamp_def
  GetContext_def GetJustificationToken_def

lemma getters_nil [simp]:
  "GetType None = LT_UNSPECIFIED" "GetPayload None = None" "GetLabels None = None"
  "GetMode None = MODE_UNSPECIFIED" "GetOperation None = None" "GetTimestamp None = None"
  "GetContext None = None" "GetJustificationToken None = []"
  by (simp_all add: getter_defs)

lemma getters_Some [simp]:
  "GetType (Some r) = req_type r" "GetPayload (Some r) = payload r"
  "GetLabels (Some r) = req_labels r" "GetMode (Some r) = mode r"
  "GetOperation (Some r) = operation r" "GetTimestamp (Some r) = req_timestamp r"
  "GetContext (Some r) = req_context r" "GetJustificationToken (Some r) = justification_token r"
  by (simp_all add: getter_defs)

text \<open>The getters of the payload that the code chains on them.\<close>

definition GetAuthenticationInfo :: "audit_log option \<Rightarrow> authentication_info option" where
  "GetAuthenticationInfo p = (case p of Some a \<Rightarrow> authentication a | None \<Rightarrow> None)"

definition GetPrincipalEmail :: "authentication_info option \<Rightarrow> string" where
  "GetPrincipalEmail a = (case a of Some i \<Rightarrow> principal_email i | None \<Rightarrow> [])"

definition GetMetadata :: "audit_log option \<Rightarrow> pstruct option" where
  "GetMetadata p = (case p of Some a \<Rightarrow> metadata a | None \<Rightarrow> None)"

definition GetFields :: "pstruct option \<Rightarrow> (string \<rightharpoonup> pvalue) option" where
  "GetFields s = (case s of Some f \<Rightarrow> f | None \<Rightarrow> None)"

lemma payload_getters [simp]:
  "GetAuthenticationInfo None = None" "GetAuthenticationInfo (Some a) = authentication a"
  "GetPrincipalEmail None = []" "GetPrincipalEmail (Some i) = principal_email i"
  "GetMetadata None = None" "GetMetadata (Some a) = metadata a"
  "GetFields None = None" "GetFields (Some f) = f"
  by (simp_all add: GetAuthenticationInfo_def GetPrincipalEmail_def GetMetadata_def GetFields_def)

subsection \<open>The sentinel errors of clients/go/pkg/auditerrors\<close>

definition ErrInvalidRequest :: gerror where
  "ErrInvalidRequest = AuditError ''invalid audit log request''"

definition ErrPreconditionFailed :: gerror where
  "ErrPreconditionFailed = AuditError ''precondition failed''"

definition ErrLogRequestMissingPayload :: gerror where
  "ErrLogRequestMissingPayload = AuditError ''missing payload in log request''"

definition ErrJustificationMissing :: gerror where
  "ErrJustificationMissing = AuditError ''missing justification token''"

definition ErrJustificationInvalid :: gerror where
  "ErrJustificationInvalid = AuditError ''invalid justification token''"

definition ErrInterceptor :: gerror where
  "ErrInterceptor = AuditError ''audit interceptor''"

definition InterceptorError :: "gerror \<Rightarrow> gerror" where
  "InterceptorError e = wrap2 ErrInterceptor e"

lemmas sentinel_defs [err_simps] =
  ErrInvalidRequest_def ErrPreconditionFailed_def ErrLogRequestMissingPayload_def
  ErrJustificationMissing_def ErrJustificationInvalid_def ErrInterceptor_def

lemma errors_is_InterceptorError:
  "errors_is (InterceptorError e) ErrInterceptor"
  by (simp add: InterceptorError_def ErrInterceptor_def)

subsection \<open>Contexts, requests that are processed, and processors\<close>

text \<open>
  What the code reads and sets of a \<open>context.Context\<close>: the incoming gRPC metadata (nil when there
  is none; as the function \<open>md.Get\<close>), the audit log request an interceptor stored under
  \<open>auditLogReqKey\<close>, and the metadata a client sends with its calls.  The stored value is a pointer: whoever holds the context can change the
  request, so a call that may do so returns its final contents.
\<close>

type_synonym md = "string \<Rightarrow> string list"

record ctx =
  incoming_md :: "md option"
  ctx_log_req :: "log_request option"
  outgoing_md :: "md option"

text \<open>
  The interface \<open>LogProcessor\<close>, with \<open>StoppableProcessor\<close> as an optional method.  \<open>Process\<close>
  takes the request pointer, and returns its error and the request it may have changed.
  \<open>p_type\<close> is the name \<open>%T\<close> prints for the dynamic type.
\<close>

type_synonym ('w, 'a) proc_fun =
  "ctx \<Rightarrow> log_request option \<Rightarrow> ('w, 'a \<times> log_request option) go"

type_synonym 'w process = "('w, gerror option) proc_fun"

record 'w processor =
  p_type :: string
  p_process :: "'w process"
  p_stop :: "('w, gerror option) go option"

text \<open>
  The fields a log entry is identified by: \<open>validation.ValidateAuditLog\<close> reads these and no
  other.
\<close>

definition audit_identity ::
  "audit_log \<Rightarrow> string \<times> string \<times> string \<times> authentication_info option" where
  "audit_identity a = (service_name a, method_name a, resource_name a, authentication a)"

definition same_identity :: "log_request \<Rightarrow> log_request \<Rightarrow> bool" where
  "same_identity r q \<longleftrightarrow>
     map_option audit_identity (payload r) = map_option audit_identity (payload q)"

lemma same_identity_refl [simp, intro]: "same_identity r r"
  by (simp add: same_identity_def)

lemma same_identity_trans [trans]:
  "same_identity r q \<Longrightarrow> same_identity q s \<Longrightarrow> same_identity r s"
  by (simp add: same_identity_def)

end
