(* ===== verification/Validation.thy ===== *)
theory Validation
  imports Api
begin

section \<open>Validation: pkg/validation and the client's default validator\<close>

text \<open>
  \<open>pkg/validation/validation.go\<close>: the checks on an audit log payload and on a whole log entry
  given as JSON text, and \<open>clients/go/pkg/audit/validation.go\<close>: the log processor that runs the
  payload checks on every request.  The library \<open>protojson\<close> is a parameter (record
  \<open>protojson\<close>).  The specification is \<open>valid_audit_log\<close>, stated without the code's string
  functions; the lemmas show that the code accepts exactly what it describes and that it reports
  every violated requirement, once and in order.
\<close>

record log_entry =
  insert_id :: string
  entry_labels :: "labels option"
  json_payload :: "pstruct option"

text \<open>The functions of \<open>protojson\<close> and \<open>structpb\<close> the code calls on text.\<close>

record protojson =
  unmarshal_entry :: "string \<Rightarrow> gerror + log_entry"
  marshal_entry :: "log_entry \<Rightarrow> gerror + string"
  marshal_struct :: "pstruct \<Rightarrow> gerror + string"
  unmarshal_audit_log :: "string \<Rightarrow> gerror + audit_log"

type_synonym validator = "log_entry \<Rightarrow> gerror option"

subsection \<open>The code\<close>

definition validateEmail :: "string \<Rightarrow> gerror option" where
  "validateEmail email =
     (if email = [] then Some (errorf ''PrincipalEmail cannot be empty'')
      else let parts = Split email (CHR ''@'') in
        if length parts \<noteq> 2 \<or> parts ! 1 = []
        then Some (errorf (''PrincipalEmail '' @ go_quote email @ '' is malformed''))
        else None)"

definition ValidateAuditLog :: "audit_log option \<Rightarrow> gerror option" where
  "ValidateAuditLog p =
     (case p of
        None \<Rightarrow> Some (errorf ''audit log payload cannot be nil'')
      | Some a \<Rightarrow>
          let r0 = None;
              r1 = (if method_name a = []
                    then errors_join [r0, Some (errorf ''MethodName cannot be empty'')] else r0);
              r2 = (if service_name a = []
                    then errors_join [r1, Some (errorf ''ServiceName cannot be empty'')] else r1);
              r3 = (if resource_name a = []
                    then errors_join [r2, Some (errorf ''ResourceName cannot be empty'')] else r2)
          in case authentication a of
               None \<Rightarrow> errors_join [r3, Some (errorf ''AuthenticationInfo cannot be nil'')]
             | Some i \<Rightarrow>
                 (case validateEmail (principal_email i) of
                    Some e \<Rightarrow> errors_join [r3, Some e]
                  | None \<Rightarrow> r3))"

definition requiredLabels :: "string list" where
  "requiredLabels = [''environment'', ''accessing_process_name'']"

text \<open>
  \<open>ValidateLabels\<close> ranges over a Go map: \<open>order\<close> is the order the run visits the required
  labels in.
\<close>

fun missing_labels :: "labels \<Rightarrow> string list \<Rightarrow> gerror option \<Rightarrow> gerror option" where
  "missing_labels ls [] acc = acc"
| "missing_labels ls (k # ks) acc =
     missing_labels ls ks
       (if ls k = None
        then errors_join [acc, Some (errorf (''missing required label: '' @ go_quote k))]
        else acc)"

definition ValidateLabels :: "string list \<Rightarrow> validator" where
  "ValidateLabels order le =
     (case entry_labels le of
        None \<Rightarrow> Some (errorf ''missing labels'')
      | Some ls \<Rightarrow> missing_labels ls order None)"

definition validatePayload :: "protojson \<Rightarrow> validator" where
  "validatePayload pj le =
     (case json_payload le of
        None \<Rightarrow> Some (errorf ''missing audit log payload'')
      | Some p \<Rightarrow>
          (case marshal_struct pj p of
             Inl e \<Rightarrow> Some (wrapf ''failed to extract audit log from JSON payload'' e)
           | Inr val \<Rightarrow>
               (case unmarshal_audit_log pj val of
                  Inl e \<Rightarrow> Some (wrapf ''failed to parse JSON payload'' e)
                | Inr al \<Rightarrow>
                    (case ValidateAuditLog (Some al) of
                       Some e \<Rightarrow> Some (wrapf ''invalid payload'' e)
                     | None \<Rightarrow> None))))"

fun run_validators :: "validator list \<Rightarrow> log_entry \<Rightarrow> gerror option \<Rightarrow> gerror option" where
  "run_validators [] le acc = acc"
| "run_validators (v # vs) le acc = run_validators vs le (errors_join [acc, v le])"

definition Validate :: "protojson \<Rightarrow> string \<Rightarrow> validator list \<Rightarrow> gerror option" where
  "Validate pj log extra =
     (case unmarshal_entry pj log of
        Inl e \<Rightarrow> Some (wrapf ''failed to parse log entry as JSON'' e)
      | Inr le \<Rightarrow> run_validators (validatePayload pj # extra) le None)"

text \<open>\<open>RequestValidator\<close>: its \<open>process\<close>, and \<open>Process\<close>, which wraps the error.\<close>

definition validate_request :: "log_request option \<Rightarrow> gerror option" where
  "validate_request r =
     (case r of
        None \<Rightarrow> Some (errorf ''AuditLogRequest cannot be nil'')
      | Some q \<Rightarrow>
          (case ValidateAuditLog (GetPayload (Some q)) of
             Some e \<Rightarrow> Some (wrapf ''AuditLogRequest does not have a valid payload'' e)
           | None \<Rightarrow> None))"

definition RequestValidator_Process :: "'w process" where
  "RequestValidator_Process c r =
     (case validate_request r of
        Some e \<Rightarrow> go_return (Some (wrap2 ErrInvalidRequest e), r)
      | None \<Rightarrow> go_return (None, r))"

definition NewRequestValidator :: "'w processor" where
  "NewRequestValidator =
     \<lparr>p_type = ''*audit.RequestValidator'', p_process = RequestValidator_Process, p_stop = None\<rparr>"

subsection \<open>What a valid payload is\<close>

definition valid_email :: "string \<Rightarrow> bool" where
  "valid_email e \<longleftrightarrow> count_list e (CHR ''@'') = 1 \<and> last e \<noteq> CHR ''@''"

definition valid_identity ::
  "string \<times> string \<times> string \<times> authentication_info option \<Rightarrow> bool" where
  "valid_identity i =
     (case i of (s, m, r, au) \<Rightarrow>
        s \<noteq> [] \<and> m \<noteq> [] \<and> r \<noteq> [] \<and>
        (case au of Some x \<Rightarrow> valid_email (principal_email x) | None \<Rightarrow> False))"

definition valid_audit_log :: "audit_log option \<Rightarrow> bool" where
  "valid_audit_log p =
     (case p of Some a \<Rightarrow> valid_identity (audit_identity a) | None \<Rightarrow> False)"

definition valid_request :: "log_request \<Rightarrow> bool" where
  "valid_request r \<longleftrightarrow> valid_audit_log (payload r)"

lemma valid_request_same_identity:
  "same_identity r q \<Longrightarrow> valid_request r = valid_request q"
  by (auto simp: same_identity_def valid_request_def valid_audit_log_def split: option.splits)

subsection \<open>Lemmas\<close>

lemma Split_pair_iff:
  "(\<exists>a b. Split s c = [a, b] \<and> b \<noteq> []) \<longleftrightarrow> count_list s c = 1 \<and> last s \<noteq> c"
proof
  assume "\<exists>a b. Split s c = [a, b] \<and> b \<noteq> []"
  then obtain a b where "s = a @ c # b" "c \<notin> set a" "c \<notin> set b" "b \<noteq> []"
    by (metis Split_two [of s c "\<lambda>b. b \<noteq> []"])
  then show "count_list s c = 1 \<and> last s \<noteq> c"
    by (metis One_nat_def add_0 count_list.simps(2) count_list_append count_notin
        last_ConsR last_appendR last_in_set list.distinct(1) plus_1_eq_Suc)
next
  assume h: "count_list s c = 1 \<and> last s \<noteq> c"
  then have "length (Split s c) = 2" by (simp add: length_Split)
  then obtain a b where ab: "Split s c = [a, b]"
    by (auto simp: length_Suc_conv numeral_2_eq_2)
  then obtain u v where "s = u @ c # v" "b = v"
    using Split_two [of s c "\<lambda>x. x = b"] by auto
  with h have "b \<noteq> []" by auto
  with ab show "\<exists>a b. Split s c = [a, b] \<and> b \<noteq> []" by blast
qed

lemma length_two_conv: "length xs = 2 \<and> xs ! 1 \<noteq> [] \<longleftrightarrow> (\<exists>a b. xs = [a, b] \<and> b \<noteq> [])"
  by (auto simp: length_Suc_conv numeral_2_eq_2)

lemma validateEmail_iff: "validateEmail e = None \<longleftrightarrow> valid_email e"
  using length_two_conv [of "Split e (CHR ''@'')"] Split_pair_iff [of e "CHR ''@''"]
  by (auto simp: validateEmail_def valid_email_def Let_def)

lemma validateEmail_leaves:
  "leaves_of (validateEmail e) = (case validateEmail e of None \<Rightarrow> [] | Some x \<Rightarrow> [x])"
  by (auto simp: validateEmail_def Let_def)

text \<open>The requirements in the order the code checks them, each with the error it reports.\<close>

definition audit_log_violations :: "audit_log \<Rightarrow> gerror list" where
  "audit_log_violations a =
     (if method_name a = [] then [errorf ''MethodName cannot be empty''] else []) @
     (if service_name a = [] then [errorf ''ServiceName cannot be empty''] else []) @
     (if resource_name a = [] then [errorf ''ResourceName cannot be empty''] else []) @
     (case authentication a of
        None \<Rightarrow> [errorf ''AuthenticationInfo cannot be nil'']
      | Some i \<Rightarrow>
          (if principal_email i = [] then [errorf ''PrincipalEmail cannot be empty'']
           else if valid_email (principal_email i) then []
           else [errorf (''PrincipalEmail '' @ go_quote (principal_email i) @ '' is malformed'')]))"

lemma validateEmail_result:
  "validateEmail e =
     (if e = [] then Some (errorf ''PrincipalEmail cannot be empty'')
      else if valid_email e then None
      else Some (errorf (''PrincipalEmail '' @ go_quote e @ '' is malformed'')))"
  using validateEmail_iff [of e] by (auto simp: validateEmail_def Let_def split: if_splits)

lemma ValidateAuditLog_leaves:
  "leaves_of (ValidateAuditLog (Some a)) = audit_log_violations a"
  by (simp add: ValidateAuditLog_def audit_log_violations_def validateEmail_result Let_def
      split: option.splits)

lemma valid_email_not_Nil: "valid_email e \<Longrightarrow> e \<noteq> []"
  by (auto simp: valid_email_def)

lemma violations_Nil: "audit_log_violations a = [] \<longleftrightarrow> valid_audit_log (Some a)"
  by (auto simp: audit_log_violations_def valid_audit_log_def valid_identity_def
      audit_identity_def valid_email_not_Nil split: option.splits if_splits)

lemma ValidateAuditLog_Some_leaves:
  "ValidateAuditLog (Some a) = Some e \<Longrightarrow> leaves_of (Some e) \<noteq> []"
  by (auto simp: ValidateAuditLog_def validateEmail_result Let_def errors_join_def
      List.map_filter_simps split: option.splits if_splits)

lemma ValidateAuditLog_iff: "ValidateAuditLog p = None \<longleftrightarrow> valid_audit_log p"
proof (cases p)
  case None
  then show ?thesis by (simp add: ValidateAuditLog_def valid_audit_log_def)
next
  case (Some a)
  have "ValidateAuditLog (Some a) = None \<longleftrightarrow> audit_log_violations a = []"
    using ValidateAuditLog_leaves [of a] ValidateAuditLog_Some_leaves [of a]
    by (cases "ValidateAuditLog (Some a)") auto
  then show ?thesis by (simp add: Some violations_Nil)
qed

lemma missing_labels_leaves:
  "leaves_of (missing_labels ls ks acc) =
   leaves_of acc @ map (\<lambda>k. errorf (''missing required label: '' @ go_quote k))
                      (filter (\<lambda>k. ls k = None) ks)"
  by (induction ks arbitrary: acc) auto

lemma missing_labels_None:
  "missing_labels ls ks acc = None \<longleftrightarrow> acc = None \<and> (\<forall>k \<in> set ks. ls k \<noteq> None)"
  by (induction ks arbitrary: acc) (auto simp: errors_join_None_iff)

lemma ValidateLabels_None:
  "ValidateLabels order le = None \<longleftrightarrow>
     (\<exists>ls. entry_labels le = Some ls \<and> set order \<subseteq> dom ls)"
  by (auto simp: ValidateLabels_def missing_labels_None split: option.splits)

lemma run_validators_None:
  "run_validators vs le acc = None \<longleftrightarrow> acc = None \<and> (\<forall>v \<in> set vs. v le = None)"
  by (induction vs arbitrary: acc) (auto simp: errors_join_None_iff)

lemma run_validators_leaves:
  "leaves_of (run_validators vs le acc) =
   leaves_of acc @ concat (map (\<lambda>v. leaves_of (v le)) vs)"
  by (induction vs arbitrary: acc) simp_all

lemma validatePayload_None:
  "validatePayload pj le = None \<longleftrightarrow>
     (\<exists>p val al. json_payload le = Some p \<and> marshal_struct pj p = Inr val \<and>
        unmarshal_audit_log pj val = Inr al \<and> valid_audit_log (Some al))"
  by (auto simp: validatePayload_def simp flip: ValidateAuditLog_iff
      split: option.splits sum.splits)

lemma validate_request_None:
  "validate_request r = None \<longleftrightarrow> (\<exists>q. r = Some q \<and> valid_request q)"
  by (auto simp: validate_request_def valid_request_def simp flip: ValidateAuditLog_iff
      split: option.splits)

lemma RequestValidator_Process_eq:
  "RequestValidator_Process c r w =
     (Ret (map_option (wrap2 ErrInvalidRequest) (validate_request r), r), w)"
  by (simp add: RequestValidator_Process_def split: option.splits)

text \<open>The validator's own errors are plain texts: none of them is a sentinel.\<close>

definition plain_error :: "gerror option \<Rightarrow> bool" where
  "plain_error e \<longleftrightarrow> (\<forall>x t. e = Some x \<longrightarrow> \<not> errors_is x (AuditError t))"

lemma validate_request_plain: "plain_error (validate_request r)"
proof -
  have "plain_error (ValidateAuditLog p)" for p
    by (simp add: ValidateAuditLog_def validateEmail_result plain_error_def Let_def
        split: option.splits)
  then show ?thesis
    by (auto simp: validate_request_def plain_error_def split: option.splits)
qed

end
