(* ===== verification/Processors.thy ===== *)
theory Processors
  imports Validation
begin

section \<open>What the stages of the audit client expect of a log processor\<close>

text \<open>
  The interface \<open>LogProcessor\<close> (\<open>clients/go/pkg/audit/client.go\<close>) says only \<open>Process\<close>; the
  client relies on more, and says so in its comments: a validator checks the request, a mutator
  completes it.  The contracts are stated here as locales over the \<open>Process\<close> function.  A
  validator leaves the request and the world alone and does not panic.  Every processor keeps the
  request it was given and its log mode (\<open>mode_process\<close>); a mutator keeps the request's identity
  as well, the fields \<open>ValidateAuditLog\<close> reads.  Every validator, mutator and backend of the
  program is an interpretation.
\<close>

locale validator_process =
  fixes proc :: "'w process"
  assumes pure: "\<exists>e. proc c r w = (Ret (e, r), w)"
begin

definition verdict :: "ctx \<Rightarrow> log_request option \<Rightarrow> 'w world \<Rightarrow> gerror option" where
  "verdict c r w = (case fst (proc c r w) of Ret (e, _) \<Rightarrow> e | Panic _ \<Rightarrow> None)"

lemma proc_eq: "proc c r w = (Ret (verdict c r w, r), w)"
  using pure [of c r w] by (auto simp: verdict_def)

lemma no_panic: "proc c r w \<noteq> (Panic s, w')"
  by (simp add: proc_eq)

end

locale mode_process =
  fixes proc :: "'w process"
  assumes keeps_request:
    "proc c (Some r) w = (Ret (e, r'), w') \<Longrightarrow> \<exists>q. r' = Some q \<and> mode q = mode r"
begin

lemma keeps_mode:
  "proc c (Some r) w = (Ret (e, r'), w') \<Longrightarrow> GetMode r' = mode r"
  using keeps_request by fastforce

lemma not_dropped: "proc c (Some r) w \<noteq> (Ret (e, None), w')"
  using keeps_request by fastforce

end

locale mutator_process = mode_process +
  assumes keeps_identity:
    "proc c (Some r) w = (Ret (e, Some q), w') \<Longrightarrow> same_identity r q"
begin

lemma keeps_valid:
  "proc c (Some r) w = (Ret (e, Some q), w') \<Longrightarrow> valid_request q = valid_request r"
  using keeps_identity by (metis valid_request_same_identity)

end

text \<open>A validator is a mutator that changes nothing.\<close>

sublocale validator_process \<subseteq> mutator_process proc
  by unfold_locales (simp_all add: proc_eq)

interpretation request_validator: validator_process RequestValidator_Process
  by unfold_locales (simp add: RequestValidator_Process_eq)

end
