(* ===== verification/Client.thy ===== *)
theory Client
  imports Processors
begin

section \<open>The audit client: clients/go/pkg/audit/client.go\<close>

text \<open>
  The client runs its validators, mutators and backends, in this order, on a request.  The three
  loops of \<open>Log\<close> have the same body up to the stage's name in the messages: \<open>run_stage\<close> is that
  loop, and \<open>Log\<close> composes it three times.  A stage either lets the request proceed or finishes
  the call with an error that may be nil.
\<close>

record 'w client =
  validators :: "'w processor list"
  mutators :: "'w processor list"
  backends :: "'w processor list"
  logMode :: log_mode

type_synonym 'w client_option = "ctx \<Rightarrow> 'w client \<Rightarrow> ('w, gerror option \<times> 'w client) go"

subsection \<open>Options and construction\<close>

definition WithValidator :: "'w processor \<Rightarrow> 'w client_option" where
  "WithValidator p c o1 = go_return (None, o1\<lparr>validators := validators o1 @ [p]\<rparr>)"

definition WithMutator :: "'w processor \<Rightarrow> 'w client_option" where
  "WithMutator p c o1 = go_return (None, o1\<lparr>mutators := mutators o1 @ [p]\<rparr>)"

definition WithBackend :: "'w processor \<Rightarrow> 'w client_option" where
  "WithBackend p c o1 = go_return (None, o1\<lparr>backends := backends o1 @ [p]\<rparr>)"

definition WithLogMode :: "log_mode \<Rightarrow> 'w client_option" where
  "WithLogMode m c o1 = go_return (None, o1\<lparr>logMode := m\<rparr>)"

text \<open>\<open>WithRuntimeInfo\<close>: \<open>info\<close> is what \<open>newRuntimeInfo\<close> returned, as a log processor.\<close>

definition WithRuntimeInfo :: "gerror + 'w processor \<Rightarrow> 'w client_option" where
  "WithRuntimeInfo info c o1 =
     (case info of
        Inl err \<Rightarrow> go_return (Some (wrapf ''error extracting runtime environment info'' err), o1)
      | Inr r \<Rightarrow> go_return (None, o1\<lparr>mutators := mutators o1 @ [r]\<rparr>))"

fun apply_client_options ::
  "ctx \<Rightarrow> 'w client_option list \<Rightarrow> 'w client \<Rightarrow> ('w, gerror + 'w client) go" where
  "apply_client_options c [] cl = go_return (Inr cl)"
| "apply_client_options c (f # fs) cl =
     go_bind (f c cl) (\<lambda>(err, cl').
       case err of
         Some e \<Rightarrow> go_return (Inl (wrapf ''failed to apply client options'' e))
       | None \<Rightarrow> apply_client_options c fs cl')"

definition default_client :: "'w client" where
  "default_client =
     \<lparr>validators = [NewRequestValidator], mutators = [], backends = [],
      logMode = MODE_UNSPECIFIED\<rparr>"

definition NewClient :: "ctx \<Rightarrow> 'w client_option list \<Rightarrow> ('w, gerror + 'w client) go" where
  "NewClient c opts = apply_client_options c opts default_client"

subsection \<open>Stop\<close>

fun stop_processors :: "'w processor list \<Rightarrow> gerror option \<Rightarrow> ('w, gerror option) go" where
  "stop_processors [] merr = go_return merr"
| "stop_processors (p # ps) merr =
     (case p_stop p of
        None \<Rightarrow> stop_processors ps merr
      | Some stop \<Rightarrow>
          go_bind stop (\<lambda>err.
            case err of
              Some e \<Rightarrow> stop_processors ps (errors_join [merr, Some e])
            | None \<Rightarrow> stop_processors ps merr))"

definition Stop :: "'w client \<Rightarrow> ('w, gerror option) go" where
  "Stop cl = go_bind (stop_processors (validators cl) None) (stop_processors (backends cl))"

subsection \<open>Log\<close>

definition handleReturn :: "gerror option \<Rightarrow> log_mode \<Rightarrow> ('w, gerror option) go" where
  "handleReturn err requestedLogMode =
     (case err of
        None \<Rightarrow> go_return None
      | Some e \<Rightarrow>
          if ShouldFailClose requestedLogMode then go_return (Some e)
          else go_bind (go_log LevelError
                 ''failed to audit log; continuing without audit logging'' (Some e))
               (\<lambda>_. go_return None))"

datatype stage_result = Proceed | Finish "gerror option"

fun run_stage ::
  "string \<Rightarrow> 'w processor list \<Rightarrow> ctx \<Rightarrow> log_request option \<Rightarrow>
     ('w, stage_result \<times> log_request option) go" where
  "run_stage stage [] c r = go_return (Proceed, r)"
| "run_stage stage (p # ps) c r =
     go_bind (p_process p c r) (\<lambda>(err, r').
       case err of
         None \<Rightarrow> run_stage stage ps c r'
       | Some e \<Rightarrow>
           if errors_is e ErrPreconditionFailed
           then go_bind (go_log LevelWarn
                  (''stopped log request processing as '' @ stage @ '' precondition failed'') (Some e))
                (\<lambda>_. go_return (Finish None, r'))
           else go_bind (handleReturn
                  (Some (wrapf (''failed to execute '' @ stage @ '' '' @ p_type p) e)) (GetMode r'))
                (\<lambda>ret. go_return (Finish ret, r')))"

text \<open>One stage after another: the next one runs only if this one let the request proceed.\<close>

definition then_stage ::
  "('w, stage_result \<times> log_request option) go \<Rightarrow>
     (log_request option \<Rightarrow> ('w, stage_result \<times> log_request option) go) \<Rightarrow>
     ('w, stage_result \<times> log_request option) go" where
  "then_stage m k = go_bind m (\<lambda>(res, r).
     case res of Proceed \<Rightarrow> k r | Finish e \<Rightarrow> go_return (Finish e, r))"

definition Log_stages ::
  "'w client \<Rightarrow> ctx \<Rightarrow> log_request option \<Rightarrow> ('w, stage_result \<times> log_request option) go" where
  "Log_stages cl c r =
     then_stage (run_stage ''validator'' (validators cl) c r)
       (\<lambda>r1. then_stage (run_stage ''mutator'' (mutators cl) c r1)
          (\<lambda>r2. run_stage ''backend'' (backends cl) c r2))"

text \<open>
  \<open>logReq.Mode = c.logMode\<close> dereferences the request, and the receiver \<open>c\<close>: a nil request
  panics here, before the validator that would report it.
\<close>

definition set_mode :: "'w client \<Rightarrow> log_request option \<Rightarrow> ('w, log_request option) go" where
  "set_mode cl r =
     (if GetMode r = MODE_UNSPECIFIED
      then (case r of
              None \<Rightarrow> go_panic nil_deref
            | Some q \<Rightarrow> go_return (Some (q\<lparr>mode := logMode cl\<rparr>)))
      else go_return r)"

definition Log ::
  "'w client option \<Rightarrow> ctx \<Rightarrow> log_request option \<Rightarrow>
     ('w, gerror option \<times> log_request option) go" where
  "Log c0 c r =
     (case c0 of
        None \<Rightarrow> go_panic nil_deref
      | Some cl \<Rightarrow>
          go_bind (set_mode cl r) (\<lambda>r0.
          go_bind (Log_stages cl c r0) (\<lambda>(res, r').
            case res of
              Proceed \<Rightarrow> go_return (None, r')
            | Finish e \<Rightarrow> go_return (e, r'))))"

subsection \<open>Lemmas: construction and Stop\<close>

lemma simple_options_ok:
  "WithValidator p c cl w = (Ret (None, cl\<lparr>validators := validators cl @ [p]\<rparr>), w)"
  "WithMutator p c cl w = (Ret (None, cl\<lparr>mutators := mutators cl @ [p]\<rparr>), w)"
  "WithBackend p c cl w = (Ret (None, cl\<lparr>backends := backends cl @ [p]\<rparr>), w)"
  "WithLogMode m c cl w = (Ret (None, cl\<lparr>logMode := m\<rparr>), w)"
  by (simp_all add: WithValidator_def WithMutator_def WithBackend_def WithLogMode_def)

lemma apply_client_options_simple:
  "apply_client_options c (WithValidator p # fs) cl =
     apply_client_options c fs (cl\<lparr>validators := validators cl @ [p]\<rparr>)"
  "apply_client_options c (WithMutator p # fs) cl =
     apply_client_options c fs (cl\<lparr>mutators := mutators cl @ [p]\<rparr>)"
  "apply_client_options c (WithBackend p # fs) cl =
     apply_client_options c fs (cl\<lparr>backends := backends cl @ [p]\<rparr>)"
  "apply_client_options c (WithLogMode m # fs) cl =
     apply_client_options c fs (cl\<lparr>logMode := m\<rparr>)"
  by (simp_all add: WithValidator_def WithMutator_def WithBackend_def WithLogMode_def)

text \<open>An option that only extends the client.\<close>

definition extends_client :: "'w client \<Rightarrow> 'w client \<Rightarrow> bool" where
  "extends_client a b \<longleftrightarrow>
     prefix (validators a) (validators b) \<and> prefix (mutators a) (mutators b) \<and>
     prefix (backends a) (backends b)"

lemma extends_client_refl [simp, intro]: "extends_client a a"
  by (simp add: extends_client_def)

lemma extends_client_trans [trans]:
  "extends_client a b \<Longrightarrow> extends_client b d \<Longrightarrow> extends_client a d"
  by (auto simp: extends_client_def elim: prefix_order.trans)

definition extending_option :: "'w client_option \<Rightarrow> bool" where
  "extending_option f \<longleftrightarrow>
     (\<forall>c cl w e cl' w'. f c cl w = (Ret (e, cl'), w') \<longrightarrow> extends_client cl cl')"

lemma client_options_extend [intro]:
  "extending_option (WithValidator p)" "extending_option (WithMutator p)"
  "extending_option (WithBackend p)" "extending_option (WithLogMode m)"
  "extending_option (WithRuntimeInfo i)"
  by (auto simp: extending_option_def extends_client_def WithRuntimeInfo_def simple_options_ok
      split: sum.splits)

lemma apply_client_options_extend:
  assumes "\<forall>f \<in> set fs. extending_option f"
    and "apply_client_options c fs cl w = (Ret (Inr cl'), w')"
  shows "extends_client cl cl'"
  using assms
proof (induction fs arbitrary: cl w)
  case (Cons f fs)
  then obtain cl1 w1 where f: "f c cl w = (Ret (None, cl1), w1)"
    and rest: "apply_client_options c fs cl1 w1 = (Ret (Inr cl'), w')"
    by (auto simp: go_bind_Ret_iff split: option.splits)
  from Cons.prems(1) have "extending_option f" by simp
  with f have "extends_client cl cl1" unfolding extending_option_def by blast
  also from Cons.IH [OF _ rest] Cons.prems(1) have "extends_client cl1 cl'" by simp
  finally show ?case .
qed simp

text \<open>What the stoppable processors of a list return, each one stopped in the world of the last.\<close>

fun stop_results :: "'w processor list \<Rightarrow> 'w world \<Rightarrow> gerror list" where
  "stop_results [] w = []"
| "stop_results (p # ps) w =
     (case p_stop p of
        None \<Rightarrow> stop_results ps w
      | Some stop \<Rightarrow>
          (case stop w of
             (Ret None, w') \<Rightarrow> stop_results ps w'
           | (Ret (Some e), w') \<Rightarrow> error_leaves e @ stop_results ps w'
           | (Panic s, w') \<Rightarrow> []))"

fun stop_world :: "'w processor list \<Rightarrow> 'w world \<Rightarrow> 'w world" where
  "stop_world [] w = w"
| "stop_world (p # ps) w =
     (case p_stop p of None \<Rightarrow> stop_world ps w | Some stop \<Rightarrow> stop_world ps (snd (stop w)))"

definition stops_without_panic :: "'w processor \<Rightarrow> bool" where
  "stops_without_panic p \<longleftrightarrow> (\<forall>stop w. p_stop p = Some stop \<longrightarrow> (\<exists>e w'. stop w = (Ret e, w')))"

lemma stop_processors_collect:
  assumes "\<forall>p \<in> set ps. stops_without_panic p"
  shows "\<exists>res. stop_processors ps merr w = (Ret res, stop_world ps w) \<and>
     leaves_of res = leaves_of merr @ stop_results ps w"
  using assms
proof (induction ps arbitrary: merr w)
  case (Cons p ps)
  show ?case
  proof (cases "p_stop p")
    case None
    with Cons show ?thesis by simp
  next
    case (Some stop)
    with Cons.prems obtain e w' where st: "stop w = (Ret e, w')"
      by (fastforce simp: stops_without_panic_def)
    show ?thesis
    proof (cases e)
      case None
      with Cons.IH [of merr w'] Cons.prems Some st show ?thesis by (simp add: go_bind_def)
    next
      case (Some x)
      with Cons.IH [of "errors_join [merr, Some x]" w'] Cons.prems \<open>p_stop p = Some stop\<close> st
      show ?thesis by (simp add: go_bind_def)
    qed
  qed
qed simp

lemma stop_results_append:
  "\<forall>p \<in> set ps. stops_without_panic p \<Longrightarrow>
     stop_results (ps @ qs) w = stop_results ps w @ stop_results qs (stop_world ps w)"
proof (induction ps arbitrary: w)
  case (Cons p ps)
  show ?case
  proof (cases "p_stop p")
    case None
    with Cons show ?thesis by simp
  next
    case (Some stop)
    with Cons.prems obtain e w' where "stop w = (Ret e, w')"
      by (fastforce simp: stops_without_panic_def)
    with Cons Some show ?thesis by (cases e) auto
  qed
qed simp

lemma stop_world_append: "stop_world (ps @ qs) w = stop_world qs (stop_world ps w)"
  by (induction ps w rule: stop_world.induct) (auto split: option.splits)

lemma Stop_collects:
  assumes "\<forall>p \<in> set (validators cl @ backends cl). stops_without_panic p"
  shows "\<exists>res. Stop cl w = (Ret res, stop_world (validators cl @ backends cl) w) \<and>
     leaves_of res = stop_results (validators cl @ backends cl) w"
proof -
  from assms have v: "\<forall>p \<in> set (validators cl). stops_without_panic p"
    and b: "\<forall>p \<in> set (backends cl). stops_without_panic p" by auto
  from stop_processors_collect [OF v, of None w] obtain r1 where
    r1: "stop_processors (validators cl) None w = (Ret r1, stop_world (validators cl) w)"
    "leaves_of r1 = stop_results (validators cl) w" by auto
  from stop_processors_collect [OF b, of r1 "stop_world (validators cl) w"] obtain r2 where
    "stop_processors (backends cl) r1 (stop_world (validators cl) w) =
       (Ret r2, stop_world (backends cl) (stop_world (validators cl) w))"
    "leaves_of r2 = leaves_of r1 @ stop_results (backends cl) (stop_world (validators cl) w)"
    by auto
  with r1 show ?thesis
    by (simp add: Stop_def go_bind_Ret stop_results_append [OF v] stop_world_append)
qed

end
