(* ===== verification/Client_Log.thy ===== *)
theory Client_Log
  imports Client
begin

section \<open>What Log guarantees\<close>

text \<open>
  The theory of \<open>Log\<close>: its three stages are one loop over the concatenated processors; which
  errors it returns, depending on the log mode; no failure is lost; what a failed validator or
  mutator keeps from running; and which requests can reach a backend.
\<close>

subsection \<open>The three stages as one loop\<close>

fun run_tagged ::
  "(string \<times> 'w processor) list \<Rightarrow> ctx \<Rightarrow> log_request option \<Rightarrow>
     ('w, stage_result \<times> log_request option) go" where
  "run_tagged [] c r = go_return (Proceed, r)"
| "run_tagged ((stage, p) # ps) c r = then_stage (run_stage stage [p] c r) (run_tagged ps c)"

definition tagged :: "'w client \<Rightarrow> (string \<times> 'w processor) list" where
  "tagged cl = map (Pair ''validator'') (validators cl) @ map (Pair ''mutator'') (mutators cl) @
               map (Pair ''backend'') (backends cl)"

lemma then_stage_assoc:
  "then_stage (then_stage m f) g = then_stage m (\<lambda>r. then_stage (f r) g)"
  by (rule ext) (auto simp: then_stage_def go_bind_def split: prod.splits ret.splits stage_result.splits)

lemma then_stage_Proceed [simp]:
  "then_stage (go_return (Proceed, r)) k = k r" "then_stage (Pair (Ret (Proceed, r))) k = k r"
  by (simp_all add: then_stage_def)

lemma run_stage_Cons:
  "run_stage stage (p # ps) c r = then_stage (run_stage stage [p] c r) (run_stage stage ps c)"
proof (rule ext)
  fix w
  show "run_stage stage (p # ps) c r w =
        then_stage (run_stage stage [p] c r) (run_stage stage ps c) w"
  proof (cases "p_process p c r w")
    case (Pair x w1)
    show ?thesis
    proof (cases x)
      case (Panic m)
      with Pair show ?thesis by (simp add: then_stage_def go_bind_def)
    next
      case (Ret er)
      obtain err r1 where "er = (err, r1)" by (cases er)
      with Pair Ret have p: "p_process p c r w = (Ret (err, r1), w1)" by simp
      show ?thesis
      proof (cases err)
        case None
        with p show ?thesis by (simp add: then_stage_def go_bind_def)
      next
        case (Some e)
        with p show ?thesis
          by (simp add: then_stage_def go_bind_def handleReturn_def go_log_def)
      qed
    qed
  qed
qed

lemma run_stage_tagged: "run_stage stage ps c r = run_tagged (map (Pair stage) ps) c r"
proof (induction ps arbitrary: r)
  case (Cons p ps)
  have "run_stage stage (p # ps) c r = then_stage (run_stage stage [p] c r) (run_stage stage ps c)"
    by (rule run_stage_Cons)
  also have "run_stage stage ps c = run_tagged (map (Pair stage) ps) c"
    using Cons.IH by (rule ext)
  finally show ?case by (simp del: run_stage.simps)
qed simp

lemma run_tagged_append:
  "run_tagged (xs @ ys) c = (\<lambda>r. then_stage (run_tagged xs c r) (run_tagged ys c))"
proof (induction xs)
  case (Cons x xs)
  show ?case
    by (cases x, rule ext) (simp add: then_stage_assoc Cons.IH del: run_stage.simps)
qed (rule ext, simp)

lemma Log_stages_tagged: "Log_stages cl c r = run_tagged (tagged cl) c r"
  by (simp add: Log_stages_def tagged_def run_stage_tagged run_tagged_append)

subsection \<open>The log mode\<close>

text \<open>The mode a call works with: the request's own, or else the client's.\<close>

definition effective_mode :: "'w client \<Rightarrow> log_request \<Rightarrow> log_mode" where
  "effective_mode cl q = (if mode q = MODE_UNSPECIFIED then logMode cl else mode q)"

lemma effective_mode_update [simp]:
  "effective_mode (cl\<lparr>mutators := ms, backends := bs\<rparr>) q = effective_mode cl q"
  "effective_mode (cl\<lparr>mutators := ms\<rparr>) q = effective_mode cl q"
  "effective_mode (cl\<lparr>backends := bs\<rparr>) q = effective_mode cl q"
  by (simp_all add: effective_mode_def)

lemma set_mode_Some:
  "set_mode cl (Some q) w = (Ret (Some (q\<lparr>mode := effective_mode cl q\<rparr>)), w)"
  by (simp add: set_mode_def effective_mode_def)

lemma Log_Some:
  "Log (Some cl) c (Some q) =
     go_bind (Log_stages cl c (Some (q\<lparr>mode := effective_mode cl q\<rparr>))) (\<lambda>(res, r').
       case res of Proceed \<Rightarrow> go_return (None, r') | Finish e \<Rightarrow> go_return (e, r'))"
  by (rule ext) (simp add: Log_def go_bind_Ret [OF set_mode_Some])

lemma handleReturn_cases:
  assumes "handleReturn (Some e) m w = (Ret ret, w')"
  shows "(ret = Some e \<and> ShouldFailClose m \<and> w' = w) \<or>
         (ret = None \<and> \<not> ShouldFailClose m \<and> (\<exists>d. w_diag w' = w_diag w @ [d] \<and>
            d_level d = LevelError \<and> d_err d = Some e \<and> w_ext w' = w_ext w))"
  using assms by (auto simp: handleReturn_def split: if_splits)

text \<open>
  A finished stage: either the error is returned in fail-close mode, or it is nil and the last
  diagnostic entry holds the reason.
\<close>

definition finished_well :: "gerror option \<Rightarrow> log_request option \<Rightarrow> 'w world \<Rightarrow> bool" where
  "finished_well ret r w \<longleftrightarrow>
     (case ret of
        Some e \<Rightarrow> ShouldFailClose (GetMode r) \<and> \<not> errors_is e ErrPreconditionFailed
      | None \<Rightarrow> w_diag w \<noteq> [] \<and> d_level (last (w_diag w)) \<in> {LevelWarn, LevelError} \<and>
                 (\<exists>e. d_err (last (w_diag w)) = Some e \<and>
                      (d_level (last (w_diag w)) = LevelWarn \<longleftrightarrow> errors_is e ErrPreconditionFailed)))"

lemma run_stage_single_finished:
  assumes "run_stage stage [p] c r w = (Ret (Finish ret, r'), w')"
  shows "finished_well ret r' w'"
proof -
  from assms obtain err w1 where
    "p_process p c r w = (Ret (err, r'), w1)" and e0: "err \<noteq> None"
    by (auto elim!: go_bind_RetE split: option.splits if_splits)
  then obtain e where p: "p_process p c r w = (Ret (Some e, r'), w1)" by auto
  show ?thesis
  proof (cases "errors_is e ErrPreconditionFailed")
    case True
    with assms p show ?thesis by (auto simp: go_bind_Ret finished_well_def)
  next
    case False
    let ?e = "wrapf (''failed to execute '' @ stage @ '' '' @ p_type p) e"
    from False have ne: "\<not> errors_is ?e ErrPreconditionFailed"
      by (simp add: ErrPreconditionFailed_def)
    from False assms p have "handleReturn (Some ?e) (GetMode r') w1 = (Ret ret, w')"
      by (auto simp: go_bind_Ret elim!: go_bind_RetE)
    from handleReturn_cases [OF this] ne show ?thesis
      by (auto simp: finished_well_def)
  qed
qed

lemma then_stage_Finish:
  assumes "then_stage m k w = (Ret (Finish ret, r'), w')"
  shows "m w = (Ret (Finish ret, r'), w') \<or>
         (\<exists>r1 w1. m w = (Ret (Proceed, r1), w1) \<and> k r1 w1 = (Ret (Finish ret, r'), w'))"
  using assms by (auto simp: then_stage_def elim!: go_bind_RetE split: stage_result.splits)

lemma then_stage_Ret_Proceed:
  assumes "then_stage m k w = (Ret (Proceed, r'), w')"
  shows "\<exists>r1 w1. m w = (Ret (Proceed, r1), w1) \<and> k r1 w1 = (Ret (Proceed, r'), w')"
  using assms by (auto simp: then_stage_def elim!: go_bind_RetE split: stage_result.splits)

lemma run_tagged_finished:
  "run_tagged xs c r w = (Ret (Finish ret, r'), w') \<Longrightarrow> finished_well ret r' w'"
proof (induction xs arbitrary: r w)
  case (Cons x xs)
  obtain stage p where x: "x = (stage, p)" by (cases x)
  from Cons.prems x consider
    "run_stage stage [p] c r w = (Ret (Finish ret, r'), w')"
    | r1 w1 where "run_tagged xs c r1 w1 = (Ret (Finish ret, r'), w')"
    using then_stage_Finish by (fastforce simp del: run_stage.simps)
  then show ?case
    using Cons.IH run_stage_single_finished by cases blast+
qed simp

lemma Log_returned_error:
  assumes "Log (Some cl) c r w = (Ret (Some e, r'), w')"
  shows "ShouldFailClose (GetMode r') \<and> \<not> errors_is e ErrPreconditionFailed"
proof -
  from assms obtain r0 w0 where
    "Log_stages cl c r0 w0 = (Ret (Finish (Some e), r'), w')"
    by (auto simp: Log_def elim!: go_bind_RetE split: stage_result.splits)
  then have "finished_well (Some e) r' w'"
    by (simp add: Log_stages_tagged run_tagged_finished)
  then show ?thesis by (simp add: finished_well_def)
qed

lemma Log_returned_nil:
  assumes "Log (Some cl) c (Some q) w = (Ret (None, r'), w')"
  shows "run_tagged (tagged cl) c (Some (q\<lparr>mode := effective_mode cl q\<rparr>)) w =
           (Ret (Proceed, r'), w') \<or> finished_well None r' w'"
  using assms run_tagged_finished
  by (fastforce simp: Log_Some Log_stages_tagged elim!: go_bind_RetE split: stage_result.splits)

subsection \<open>Processors that keep the mode\<close>

lemma run_stage_single_mode:
  assumes "mode_process (p_process p)"
    and "run_stage stage [p] c (Some q) w = (Ret (res, r'), w')"
  shows "\<exists>q'. r' = Some q' \<and> mode q' = mode q"
proof -
  from assms(2) obtain err w1 where "p_process p c (Some q) w = (Ret (err, r'), w1)"
    by (auto elim!: go_bind_RetE split: option.splits if_splits)
  then show ?thesis by (rule mode_process.keeps_request [OF assms(1)])
qed

lemma run_tagged_mode:
  assumes "\<forall>x \<in> set xs. mode_process (p_process (snd x))"
    and "run_tagged xs c (Some q) w = (Ret (res, r'), w')"
  shows "\<exists>q'. r' = Some q' \<and> mode q' = mode q"
  using assms
proof (induction xs arbitrary: q w)
  case (Cons x xs)
  obtain stage p where x: "x = (stage, p)" by (cases x)
  with Cons.prems obtain s1 r1 w1 where
    s1: "run_stage stage [p] c (Some q) w = (Ret (s1, r1), w1)"
    by (auto simp: then_stage_def simp del: run_stage.simps elim!: go_bind_RetE)
  from run_stage_single_mode [OF _ s1] Cons.prems x obtain q1 where
    q1: "r1 = Some q1" "mode q1 = mode q" by auto
  show ?case
  proof (cases s1)
    case Proceed
    with s1 q1 Cons.prems x have "run_tagged xs c (Some q1) w1 = (Ret (res, r'), w')"
      by (simp add: then_stage_def go_bind_Ret del: run_stage.simps)
    with Cons.IH [of q1 w1] Cons.prems q1 show ?thesis by auto
  next
    case (Finish e)
    with s1 q1 Cons.prems x show ?thesis
      by (auto simp: then_stage_def go_bind_Ret simp del: run_stage.simps)
  qed
qed auto

definition keeps_modes :: "'w client \<Rightarrow> bool" where
  "keeps_modes cl \<longleftrightarrow>
     (\<forall>p \<in> set (validators cl @ mutators cl @ backends cl). mode_process (p_process p))"

lemma keeps_modes_tagged: "keeps_modes cl \<Longrightarrow> \<forall>x \<in> set (tagged cl). mode_process (p_process (snd x))"
  by (auto simp: keeps_modes_def tagged_def)

lemma Log_keeps_mode:
  assumes "keeps_modes cl" "Log (Some cl) c (Some q) w = (Ret (e, r'), w')"
  shows "\<exists>q'. r' = Some q' \<and> mode q' = effective_mode cl q"
proof -
  from assms(2) obtain res w1 where
    "run_tagged (tagged cl) c (Some (q\<lparr>mode := effective_mode cl q\<rparr>)) w = (Ret (res, r'), w1)"
    by (auto simp: Log_Some Log_stages_tagged elim!: go_bind_RetE split: stage_result.splits)
  from run_tagged_mode [OF keeps_modes_tagged [OF assms(1)] this] show ?thesis by simp
qed

subsection \<open>A failed validator ends the call\<close>

lemma run_stage_validators:
  assumes "\<forall>p \<in> set ps. validator_process (p_process p)"
  shows "(\<forall>p \<in> set ps. validator_process.verdict (p_process p) c r w = None) \<and>
           run_stage stage ps c r w = (Ret (Proceed, r), w) \<or>
         (\<exists>p \<in> set ps. validator_process.verdict (p_process p) c r w \<noteq> None) \<and>
           (\<exists>ret w'. run_stage stage ps c r w = (Ret (Finish ret, r), w') \<and> w_ext w' = w_ext w)"
  using assms
proof (induction ps)
  case (Cons p ps)
  then have vp: "validator_process (p_process p)" by simp
  let ?v = "validator_process.verdict (p_process p) c r w"
  from validator_process.proc_eq [OF vp, of c r w] have
    eq: "p_process p c r w = (Ret (?v, r), w)" .
  show ?case
  proof (cases ?v)
    case None
    with Cons eq show ?thesis by (simp add: go_bind_def)
  next
    case (Some e)
    then have "\<exists>ret w'. run_stage stage (p # ps) c r w = (Ret (Finish ret, r), w') \<and> w_ext w' = w_ext w"
      using eq by (auto simp: handleReturn_def go_bind_def go_log_def)
    with Some show ?thesis by fastforce
  qed
qed simp

lemma Log_validator_rejects:
  assumes "\<forall>p \<in> set (validators cl). validator_process (p_process p)"
    and "p \<in> set (validators cl)"
    and "validator_process.verdict (p_process p) c (Some (q\<lparr>mode := effective_mode cl q\<rparr>)) w \<noteq> None"
  shows "\<exists>ret w'. Log (Some (cl\<lparr>mutators := ms, backends := bs\<rparr>)) c (Some q) w =
            (Ret (ret, Some (q\<lparr>mode := effective_mode cl q\<rparr>)), w') \<and> w_ext w' = w_ext w \<and>
         Log (Some cl) c (Some q) w = Log (Some (cl\<lparr>mutators := ms, backends := bs\<rparr>)) c (Some q) w"
proof -
  let ?r = "Some (q\<lparr>mode := effective_mode cl q\<rparr>)"
  from run_stage_validators [OF assms(1), of c ?r w "''validator''"] assms(2,3)
  obtain ret w' where
    st: "run_stage ''validator'' (validators cl) c ?r w = (Ret (Finish ret, ?r), w')"
    and ext: "w_ext w' = w_ext w" by auto
  have "Log (Some (cl\<lparr>mutators := ms', backends := bs'\<rparr>)) c (Some q) w = (Ret (ret, ?r), w')"
    for ms' bs'
    using st by (simp add: Log_Some Log_stages_def then_stage_def go_bind_def)
  from this [where ms' = ms and bs' = bs]
    this [where ms' = "mutators cl" and bs' = "backends cl"] ext
  show ?thesis by simp
qed

subsection \<open>What can reach a backend\<close>

lemma run_stage_mutators_valid:
  assumes "\<forall>p \<in> set ps. mutator_process (p_process p)"
    and "run_stage stage ps c (Some q) w = (Ret (Proceed, r'), w')"
  shows "\<exists>q'. r' = Some q' \<and> same_identity q q' \<and> mode q' = mode q"
  using assms
proof (induction ps arbitrary: q w)
  case (Cons p ps)
  then obtain w1 r1 where
    p1: "p_process p c (Some q) w = (Ret (None, r1), w1)"
    and rest: "run_stage stage ps c r1 w1 = (Ret (Proceed, r'), w')"
    by (auto elim!: go_bind_RetE split: option.splits if_splits)
  from Cons.prems have mp: "mutator_process (p_process p)" by simp
  from mode_process.keeps_request [OF mutator_process.axioms(1) [OF mp] p1] obtain q1 where
    q1: "r1 = Some q1" "mode q1 = mode q" by auto
  from mutator_process.keeps_identity [OF mp] p1 q1 have "same_identity q q1" by simp
  with Cons.IH [of q1 w1] rest q1 Cons.prems show ?case
    by (auto intro: same_identity_trans)
qed auto

text \<open>
  A backend that panics on an invalid request.  If putting it in front changes nothing, no invalid
  request ever reaches it.
\<close>

definition guard_valid :: "'w processor \<Rightarrow> 'w processor" where
  "guard_valid p = p\<lparr>p_process := \<lambda>c r.
     if (case r of Some q \<Rightarrow> valid_request q | None \<Rightarrow> False) then p_process p c r
     else go_panic ''invalid request''\<rparr>"

fun guard_first :: "'w processor list \<Rightarrow> 'w processor list" where
  "guard_first [] = []"
| "guard_first (b # bs) = guard_valid b # bs"

lemma run_stage_guard_first:
  "valid_request q \<Longrightarrow>
     run_stage stage (guard_first bs) c (Some q) w = run_stage stage bs c (Some q) w"
  by (cases bs) (simp_all add: guard_valid_def cong del: option.case_cong_weak if_weak_cong)

lemma request_validator_verdict:
  "validator_process.verdict RequestValidator_Process c r w =
     map_option (wrap2 ErrInvalidRequest) (validate_request r)"
  using request_validator.proc_eq [of c r w] by (simp add: RequestValidator_Process_eq)

definition checks_requests :: "'w client \<Rightarrow> bool" where
  "checks_requests cl \<longleftrightarrow>
     NewRequestValidator \<in> set (validators cl) \<and>
     (\<forall>p \<in> set (validators cl). validator_process (p_process p)) \<and>
     (\<forall>p \<in> set (mutators cl). mutator_process (p_process p))"

lemma validators_proceed_valid:
  assumes "NewRequestValidator \<in> set ps" "\<forall>p \<in> set ps. validator_process (p_process p)"
    and "run_stage stage ps c r w = (Ret (Proceed, r'), w')"
  shows "r' = r \<and> w' = w \<and> (\<exists>q. r = Some q \<and> valid_request q)"
proof -
  from run_stage_validators [OF assms(2), of c r w stage] assms(3)
  have ok: "\<forall>p \<in> set ps. validator_process.verdict (p_process p) c r w = None"
    and eq: "r' = r" "w' = w" by auto
  from ok assms(1) have
    "validator_process.verdict (p_process NewRequestValidator) c r w = None" by blast
  then have "validate_request r = None"
    by (simp add: NewRequestValidator_def request_validator_verdict)
  with eq show ?thesis by (simp add: validate_request_None)
qed

lemma stages_to_backend_valid:
  assumes "checks_requests cl"
    and "run_stage ''validator'' (validators cl) c r w = (Ret (Proceed, r1), w1)"
    and "run_stage ''mutator'' (mutators cl) c r1 w1 = (Ret (Proceed, r2), w2)"
  shows "\<exists>q. r2 = Some q \<and> valid_request q"
proof -
  from assms(1) have v: "NewRequestValidator \<in> set (validators cl)"
    "\<forall>p \<in> set (validators cl). validator_process (p_process p)"
    "\<forall>p \<in> set (mutators cl). mutator_process (p_process p)"
    by (auto simp: checks_requests_def)
  from validators_proceed_valid [OF v(1,2) assms(2)] obtain q where
    q: "r1 = Some q" "valid_request q" by auto
  with assms(3) have "run_stage ''mutator'' (mutators cl) c (Some q) w1 = (Ret (Proceed, r2), w2)"
    by simp
  from run_stage_mutators_valid [OF v(3) this] q show ?thesis
    by (metis valid_request_same_identity)
qed

lemma Log_stages_guard_first:
  assumes "checks_requests cl"
  shows "Log_stages cl c r w = Log_stages (cl\<lparr>backends := guard_first (backends cl)\<rparr>) c r w"
proof (cases "run_stage ''validator'' (validators cl) c r w")
  case V: (Pair a1 w1)
  show ?thesis
  proof (cases "\<exists>r1. a1 = Ret (Proceed, r1)")
    case False
    with V show ?thesis
      by (auto simp: Log_stages_def then_stage_def go_bind_def split: ret.splits stage_result.splits)
  next
    case True
    then obtain r1 where v1: "run_stage ''validator'' (validators cl) c r w = (Ret (Proceed, r1), w1)"
      using V by auto
    show ?thesis
    proof (cases "\<exists>r2 w2. run_stage ''mutator'' (mutators cl) c r1 w1 = (Ret (Proceed, r2), w2)")
      case False
      with v1 show ?thesis
        by (auto simp: Log_stages_def then_stage_def go_bind_def split: prod.splits ret.splits stage_result.splits)
    next
      case True
      then obtain r2 w2 where m1: "run_stage ''mutator'' (mutators cl) c r1 w1 = (Ret (Proceed, r2), w2)"
        by auto
      from stages_to_backend_valid [OF assms v1 m1] obtain q where "r2 = Some q" "valid_request q"
        by auto
      with v1 m1 show ?thesis
        by (simp add: Log_stages_def then_stage_def go_bind_def run_stage_guard_first)
    qed
  qed
qed

lemma Log_guard_first:
  assumes "checks_requests cl"
  shows "Log (Some cl) c (Some q) w =
         Log (Some (cl\<lparr>backends := guard_first (backends cl)\<rparr>)) c (Some q) w"
  by (simp add: Log_Some go_bind_def Log_stages_guard_first [OF assms])

lemma NewClient_validates:
  assumes "\<forall>f \<in> set opts. extending_option f" "NewClient c opts w = (Ret (Inr cl), w')"
  shows "\<exists>vs. validators cl = NewRequestValidator # vs"
proof -
  from apply_client_options_extend [OF assms(1)] assms(2)
  have "extends_client default_client cl" by (simp add: NewClient_def)
  then show ?thesis
    by (auto simp: extends_client_def default_client_def prefix_def)
qed

end
