(* ===== verification/Config.thy ===== *)
theory Config
  imports Api
begin

section \<open>The configuration: clients/go/apis/v1alpha1/config.go\<close>

text \<open>
  The configuration records with their \<open>SetDefault\<close> and \<open>Validate\<close> methods.  The methods have
  pointer receivers: \<open>SetDefault\<close> returns the changed record, and so does \<open>Config.Validate\<close>,
  which sets the defaults before it checks.  Pointers to sub-records are options; the elements
  of the pointer lists are taken to be non-nil.
\<close>

definition Version_const :: string where "Version_const = ''v1alpha1''"

definition DirectiveDefault :: string where "DirectiveDefault = ''AUDIT''"
definition DirectiveRequestOnly :: string where "DirectiveRequestOnly = ''AUDIT_REQUEST_ONLY''"
definition DirectiveRequestAndResponse :: string where
  "DirectiveRequestAndResponse = ''AUDIT_REQUEST_AND_RESPONSE''"

lemmas directive_defs =
  DirectiveDefault_def DirectiveRequestOnly_def DirectiveRequestAndResponse_def

subsection \<open>Records\<close>

record remote_config =
  rm_address :: string
  InsecureEnabled :: bool
  ImpersonateAccount :: string

record cloudlogging_config =
  DefaultProject :: bool
  Project :: string

record backend_config =
  be_remote :: "remote_config option"
  be_cloudlogging :: "cloudlogging_config option"

record regex_condition =
  PrincipalInclude :: string
  PrincipalExclude :: string

record condition_config =
  co_regex :: "regex_condition option"

record jwks =
  jwks_Endpoint :: string

record from_raw_jwt =
  jwt_key :: string
  jwt_prefix :: string
  jwt_jwks :: "jwks option"

record security_context =
  from_raw_jwts :: "from_raw_jwt list"

record audit_rule =
  Selector :: string
  Directive :: string
  LogType :: string

record justification_config =
  PublicKeysEndpoint :: string
  j_enabled :: bool
  AllowBreakglass :: bool

record config =
  cfg_version :: string
  cfg_backend :: "backend_config option"
  cfg_condition :: "condition_config option"
  cfg_security :: "security_context option"
  cfg_rules :: "audit_rule list"
  cfg_labels :: "(string \<times> string) list"
  cfg_log_mode :: string
  cfg_justification :: "justification_config option"

subsection \<open>Validate and SetDefault of the parts\<close>

definition Remote_Validate :: "remote_config \<Rightarrow> gerror option" where
  "Remote_Validate b =
     (if rm_address b = [] then Some (errorf ''backend address is nil'') else None)"

definition CloudLogging_SetDefault :: "cloudlogging_config \<Rightarrow> cloudlogging_config" where
  "CloudLogging_SetDefault cl =
     (if Project cl = [] \<and> \<not> DefaultProject cl then cl\<lparr>DefaultProject := True\<rparr> else cl)"

definition CloudLogging_Validate :: "cloudlogging_config \<Rightarrow> gerror option" where
  "CloudLogging_Validate cl =
     (if Project cl = [] \<and> \<not> DefaultProject cl
      then Some (errorf ''backend cloudlogging no project or using default project is set'')
      else if Project cl \<noteq> [] \<and> DefaultProject cl
      then Some (errorf ''backend cloudlogging project is set while using default project'')
      else None)"

definition Backend_SetDefault :: "backend_config \<Rightarrow> backend_config" where
  "Backend_SetDefault b = b\<lparr>be_cloudlogging := map_option CloudLogging_SetDefault (be_cloudlogging b)\<rparr>"

definition Backend_Validate :: "backend_config \<Rightarrow> gerror option" where
  "Backend_Validate b =
     (let m1 = (case be_remote b of
                  None \<Rightarrow> None
                | Some r \<Rightarrow> (case Remote_Validate r of
                    Some err \<Rightarrow> errors_join [None, Some err] | None \<Rightarrow> None));
          m2 = (case be_cloudlogging b of
                  None \<Rightarrow> m1
                | Some c \<Rightarrow> (case CloudLogging_Validate c of
                    Some err \<Rightarrow> errors_join [m1, Some err] | None \<Rightarrow> m1));
          backendSet = (be_remote b \<noteq> None \<or> be_cloudlogging b \<noteq> None)
      in if backendSet then m2 else errors_join [m2, Some (errorf ''no backend is set'')])"

definition FromRawJWT_Validate :: "from_raw_jwt \<Rightarrow> gerror option" where
  "FromRawJWT_Validate j =
     (if jwt_key j = [] then Some (errorf ''key must be specified'') else None)"

fun validate_jwts :: "nat \<Rightarrow> from_raw_jwt list \<Rightarrow> gerror option \<Rightarrow> gerror option" where
  "validate_jwts i [] merr = merr"
| "validate_jwts i (j # js) merr =
     validate_jwts (Suc i) js
       (case FromRawJWT_Validate j of
          Some err \<Rightarrow>
            errors_join [merr, Some (wrapf (''FromRawJWT['' @ show_nat i @ '']'') err)]
        | None \<Rightarrow> merr)"

definition SecurityContext_Validate :: "security_context \<Rightarrow> gerror option" where
  "SecurityContext_Validate sc =
     (if from_raw_jwts sc = []
      then Some (errorf ''one and only one SecurityContext option must be specified'')
      else validate_jwts 0 (from_raw_jwts sc) None)"

definition AuditRule_SetDefault :: "audit_rule \<Rightarrow> audit_rule" where
  "AuditRule_SetDefault r =
     (let r1 = (if Directive r = [] then r\<lparr>Directive := DirectiveDefault\<rparr> else r)
      in if LogType r1 = [] then r1\<lparr>LogType := ''DATA_ACCESS''\<rparr> else r1)"

definition AuditRule_Validate :: "audit_rule \<Rightarrow> gerror option" where
  "AuditRule_Validate r =
     (if Selector r = [] then Some (errorf ''audit rule selector is empty'')
      else if Directive r = [] then Some (errorf ''audit rule directive is empty'')
      else if LogType r = [] then Some (errorf ''audit rule log type is empty'')
      else if Directive r \<noteq> DirectiveDefault \<and> Directive r \<noteq> DirectiveRequestOnly \<and>
              Directive r \<noteq> DirectiveRequestAndResponse
      then Some (errorf (''unexpected rule.Directive '' @ go_quote (Directive r) @ '' want one of ['' @
             go_quote DirectiveDefault @ '', '' @ go_quote DirectiveRequestOnly @ '', '' @
             go_quote DirectiveRequestAndResponse @ '']''))
      else if LogType r \<noteq> ''ADMIN_ACTIVITY'' \<and> LogType r \<noteq> ''DATA_ACCESS''
      then Some (errorf (''unexpected rule.LogType '' @ go_quote (LogType r) @ '' want one of ['' @
             go_quote ''ADMIN_ACTIVITY'' @ '', '' @ go_quote ''DATA_ACCESS'' @ '']''))
      else None)"

fun validate_rules :: "audit_rule list \<Rightarrow> gerror option \<Rightarrow> gerror option" where
  "validate_rules [] merr = merr"
| "validate_rules (r # rs) merr =
     validate_rules rs
       (case AuditRule_Validate r of Some err \<Rightarrow> errors_join [merr, Some err] | None \<Rightarrow> merr)"

definition Justification_Validate :: "justification_config \<Rightarrow> gerror option" where
  "Justification_Validate j =
     (if j_enabled j \<and> PublicKeysEndpoint j = []
      then Some (errorf ''public_keys_endpoint must be specified when justification is enabled'')
      else None)"

subsection \<open>The configuration as a whole\<close>

definition Config_SetDefault :: "config \<Rightarrow> config" where
  "Config_SetDefault cfg =
     (let c1 = (if cfg_version cfg = [] then cfg\<lparr>cfg_version := Version_const\<rparr> else cfg);
          c2 = (if cfg_log_mode c1 = [] \<or> ToUpper (cfg_log_mode c1) = ''LOG_MODE_UNSPECIFIED''
                then c1\<lparr>cfg_log_mode := ''FAIL_CLOSE''\<rparr> else c1);
          c3 = c2\<lparr>cfg_backend := map_option Backend_SetDefault (cfg_backend c2)\<rparr>
      in c3\<lparr>cfg_rules := map AuditRule_SetDefault (cfg_rules c3)\<rparr>)"

definition join_result :: "gerror option \<Rightarrow> gerror option \<Rightarrow> gerror option" where
  "join_result merr err = (case err of Some e \<Rightarrow> errors_join [merr, Some e] | None \<Rightarrow> merr)"

definition check_config :: "config \<Rightarrow> gerror option" where
  "check_config cfg =
     (let m1 = (if cfg_version cfg \<noteq> Version_const
                then errors_join [None, Some (errorf (''unexpected Version '' @
                       go_quote (cfg_version cfg) @ '' want '' @ go_quote Version_const))]
                else None);
          m2 = (case cfg_backend cfg of
                  None \<Rightarrow> errors_join [m1, Some (errorf ''backend is nil'')]
                | Some b \<Rightarrow> join_result m1 (Backend_Validate b));
          m3 = (case cfg_security cfg of
                  None \<Rightarrow> m2
                | Some sc \<Rightarrow> join_result m2 (SecurityContext_Validate sc));
          m4 = validate_rules (cfg_rules cfg) m3;
          m5 = (if cfg_log_mode cfg \<noteq> []
                then if LogMode_value (ToUpper (cfg_log_mode cfg)) = None
                  then errors_join [m4, Some (errorf (''invalid LogMode '' @ go_quote (cfg_log_mode cfg)))]
                  else m4
                else m4)
      in (case cfg_justification cfg of
            None \<Rightarrow> m5
          | Some j \<Rightarrow> join_result m5 (Justification_Validate j)))"

definition Config_Validate :: "config \<Rightarrow> gerror option \<times> config" where
  "Config_Validate cfg = (let c = Config_SetDefault cfg in (check_config c, c))"

text \<open>A lookup of a missing key in the Go map gives the zero value.\<close>

definition GetLogMode :: "config \<Rightarrow> log_mode" where
  "GetLogMode cfg =
     (case LogMode_value (ToUpper (cfg_log_mode cfg)) of Some m \<Rightarrow> m | None \<Rightarrow> MODE_UNSPECIFIED)"

subsection \<open>What a valid configuration is\<close>

definition wf_rule :: "audit_rule \<Rightarrow> bool" where
  "wf_rule r \<longleftrightarrow> Selector r \<noteq> [] \<and>
     Directive r \<in> {DirectiveDefault, DirectiveRequestOnly, DirectiveRequestAndResponse} \<and>
     LogType r \<in> {''ADMIN_ACTIVITY'', ''DATA_ACCESS''}"

definition wf_backend :: "backend_config \<Rightarrow> bool" where
  "wf_backend b \<longleftrightarrow>
     (be_remote b \<noteq> None \<or> be_cloudlogging b \<noteq> None) \<and>
     (\<forall>r. be_remote b = Some r \<longrightarrow> rm_address r \<noteq> []) \<and>
     (\<forall>c. be_cloudlogging b = Some c \<longrightarrow> DefaultProject c = (Project c = []))"

definition wf_config :: "config \<Rightarrow> bool" where
  "wf_config c \<longleftrightarrow>
     cfg_version c = Version_const \<and>
     (\<exists>b. cfg_backend c = Some b \<and> wf_backend b) \<and>
     (\<forall>sc. cfg_security c = Some sc \<longrightarrow>
        from_raw_jwts sc \<noteq> [] \<and> (\<forall>j \<in> set (from_raw_jwts sc). jwt_key j \<noteq> [])) \<and>
     (\<forall>r \<in> set (cfg_rules c). wf_rule r) \<and>
     (ToUpper (cfg_log_mode c) = ''FAIL_CLOSE'' \<or> ToUpper (cfg_log_mode c) = ''BEST_EFFORT'') \<and>
     (\<forall>j. cfg_justification c = Some j \<longrightarrow> j_enabled j \<longrightarrow> PublicKeysEndpoint j \<noteq> [])"

subsection \<open>Lemmas\<close>

lemma join_result_None [simp]:
  "join_result m e = None \<longleftrightarrow> m = None \<and> e = None"
  by (cases m; cases e) (simp_all add: join_result_def)

lemma CloudLogging_SetDefault_idem [simp]:
  "CloudLogging_SetDefault (CloudLogging_SetDefault c) = CloudLogging_SetDefault c"
  by (simp add: CloudLogging_SetDefault_def)

lemma Backend_SetDefault_idem [simp]: "Backend_SetDefault (Backend_SetDefault b) = Backend_SetDefault b"
  by (simp add: Backend_SetDefault_def option.map_comp comp_def)

lemma AuditRule_SetDefault_idem [simp]:
  "AuditRule_SetDefault (AuditRule_SetDefault r) = AuditRule_SetDefault r"
  by (simp add: AuditRule_SetDefault_def DirectiveDefault_def Let_def)

lemma Config_SetDefault_fields [simp]:
  "cfg_version (Config_SetDefault c) = (if cfg_version c = [] then Version_const else cfg_version c)"
  "cfg_log_mode (Config_SetDefault c) =
     (if cfg_log_mode c = [] \<or> ToUpper (cfg_log_mode c) = ''LOG_MODE_UNSPECIFIED''
      then ''FAIL_CLOSE'' else cfg_log_mode c)"
  "cfg_backend (Config_SetDefault c) = map_option Backend_SetDefault (cfg_backend c)"
  "cfg_rules (Config_SetDefault c) = map AuditRule_SetDefault (cfg_rules c)"
  "cfg_condition (Config_SetDefault c) = cfg_condition c"
  "cfg_security (Config_SetDefault c) = cfg_security c"
  "cfg_labels (Config_SetDefault c) = cfg_labels c"
  "cfg_justification (Config_SetDefault c) = cfg_justification c"
  by (simp_all add: Config_SetDefault_def Let_def)

lemma ToUpper_FAIL_CLOSE: "ToUpper ''FAIL_CLOSE'' = ''FAIL_CLOSE''"
  by code_simp

lemma config_eqI:
  fixes a b :: config
  assumes "cfg_version a = cfg_version b" "cfg_backend a = cfg_backend b"
    "cfg_condition a = cfg_condition b" "cfg_security a = cfg_security b"
    "cfg_rules a = cfg_rules b" "cfg_labels a = cfg_labels b"
    "cfg_log_mode a = cfg_log_mode b" "cfg_justification a = cfg_justification b"
  shows "a = b"
  using assms by simp

lemma Config_SetDefault_idem: "Config_SetDefault (Config_SetDefault c) = Config_SetDefault c"
  by (rule config_eqI)
    (simp_all add: ToUpper_FAIL_CLOSE option.map_comp comp_def Version_const_def)

lemma AuditRule_Validate_None: "AuditRule_Validate r = None \<longleftrightarrow> wf_rule r"
  by (auto simp: AuditRule_Validate_def wf_rule_def directive_defs)

lemma validate_rules_None:
  "validate_rules rs m = None \<longleftrightarrow> m = None \<and> (\<forall>r \<in> set rs. wf_rule r)"
  by (induction rs arbitrary: m)
    (auto simp: errors_join_None_iff simp flip: AuditRule_Validate_None split: option.splits)

lemma Backend_Validate_None: "Backend_Validate b = None \<longleftrightarrow> wf_backend b"
  by (auto simp: Backend_Validate_def wf_backend_def Remote_Validate_def CloudLogging_Validate_def
      Let_def errors_join_None_iff split: option.splits)

lemma validate_jwts_None:
  "validate_jwts i js m = None \<longleftrightarrow> m = None \<and> (\<forall>j \<in> set js. jwt_key j \<noteq> [])"
  by (induction js arbitrary: i m) (auto simp: errors_join_None_iff FromRawJWT_Validate_def)

lemma SecurityContext_Validate_None:
  "SecurityContext_Validate sc = None \<longleftrightarrow>
     from_raw_jwts sc \<noteq> [] \<and> (\<forall>j \<in> set (from_raw_jwts sc). jwt_key j \<noteq> [])"
  by (simp add: SecurityContext_Validate_def validate_jwts_None)

lemma LogMode_value_known:
  "LogMode_value s \<noteq> None \<longleftrightarrow>
     s = ''LOG_MODE_UNSPECIFIED'' \<or> s = ''FAIL_CLOSE'' \<or> s = ''BEST_EFFORT''"
  by (simp add: LogMode_value_def LogMode_entries_def)

lemma ToUpper_Nil [simp]: "ToUpper s = [] \<longleftrightarrow> s = []"
  by (simp add: ToUpper_def)

lemma check_config_None:
  "check_config c = None \<longleftrightarrow>
     cfg_version c = Version_const \<and>
     (\<exists>b. cfg_backend c = Some b \<and> wf_backend b) \<and>
     (\<forall>sc. cfg_security c = Some sc \<longrightarrow> SecurityContext_Validate sc = None) \<and>
     (\<forall>r \<in> set (cfg_rules c). wf_rule r) \<and>
     (cfg_log_mode c \<noteq> [] \<longrightarrow> LogMode_value (ToUpper (cfg_log_mode c)) \<noteq> None) \<and>
     (\<forall>j. cfg_justification c = Some j \<longrightarrow> Justification_Validate j = None)"
  by (auto simp: check_config_def Let_def validate_rules_None Backend_Validate_None
      simp del: not_None_eq split: option.splits)

lemma log_mode_text_known:
  assumes "cfg_log_mode c \<noteq> []" "ToUpper (cfg_log_mode c) \<noteq> ''LOG_MODE_UNSPECIFIED''"
  shows "LogMode_value (ToUpper (cfg_log_mode c)) \<noteq> None \<longleftrightarrow>
     ToUpper (cfg_log_mode c) = ''FAIL_CLOSE'' \<or> ToUpper (cfg_log_mode c) = ''BEST_EFFORT''"
  using assms by (simp add: LogMode_value_known del: not_None_eq)

lemma SetDefault_log_mode:
  "cfg_log_mode (Config_SetDefault c) \<noteq> [] \<and>
   ToUpper (cfg_log_mode (Config_SetDefault c)) \<noteq> ''LOG_MODE_UNSPECIFIED''"
  by (simp add: ToUpper_FAIL_CLOSE)

lemma Config_Validate_None:
  "fst (Config_Validate c) = None \<longleftrightarrow> wf_config (snd (Config_Validate c))"
proof -
  let ?d = "Config_SetDefault c"
  have m: "cfg_log_mode ?d \<noteq> []" "ToUpper (cfg_log_mode ?d) \<noteq> ''LOG_MODE_UNSPECIFIED''"
    using SetDefault_log_mode [of c] by auto
  have "check_config ?d = None \<longleftrightarrow> wf_config ?d"
    unfolding check_config_None wf_config_def SecurityContext_Validate_None
      Justification_Validate_def using m log_mode_text_known [OF m] by auto
  then show ?thesis by (simp add: Config_Validate_def Let_def)
qed

lemma GetLogMode_wf:
  assumes "wf_config c"
  shows "GetLogMode c \<in> {MODE_FAIL_CLOSE, MODE_BEST_EFFORT}"
  using assms
  by (auto simp: wf_config_def GetLogMode_def LogMode_value_def LogMode_entries_def)

lemma Config_Validate_idem:
  "fst (Config_Validate c) = e \<Longrightarrow> Config_Validate (snd (Config_Validate c)) = (e, snd (Config_Validate c))"
  by (auto simp: Config_Validate_def Let_def Config_SetDefault_idem)

text \<open>A valid configuration already has its defaults.\<close>

lemma wf_rule_SetDefault: "wf_rule r \<Longrightarrow> AuditRule_SetDefault r = r"
  by (auto simp: wf_rule_def AuditRule_SetDefault_def directive_defs Let_def)

lemma wf_backend_SetDefault: "wf_backend b \<Longrightarrow> Backend_SetDefault b = b"
  by (cases "be_cloudlogging b")
    (auto simp: wf_backend_def Backend_SetDefault_def CloudLogging_SetDefault_def)

lemma wf_config_SetDefault:
  assumes "wf_config c"
  shows "Config_SetDefault c = c"
proof (rule config_eqI)
  from assms show "cfg_rules (Config_SetDefault c) = cfg_rules c"
    by (simp add: wf_config_def map_idI wf_rule_SetDefault)
  from assms show "cfg_backend (Config_SetDefault c) = cfg_backend c"
    by (auto simp: wf_config_def wf_backend_SetDefault)
  from assms show "cfg_log_mode (Config_SetDefault c) = cfg_log_mode c"
    by (auto simp: wf_config_def ToUpper_def)
qed (use assms in \<open>simp_all add: wf_config_def Version_const_def\<close>)

lemma wf_config_Validate: "wf_config c \<Longrightarrow> Config_Validate c = (None, c)"
  using Config_Validate_None [of c]
  by (simp add: Config_Validate_def Let_def wf_config_SetDefault)

end
