(* ===== verification/Rules.thy ===== *)
theory Rules
  imports Config
begin

section \<open>Matching methods: rules.go, and serviceName of interceptor.go\<close>

text \<open>
  Which audit rule applies to a gRPC method (\<open>clients/go/pkg/audit/rules.go\<close>), and the service
  name cut out of the method name (\<open>interceptor.go\<close>), with the regular expression
  \<open>^/{1,2}(.*?)/\<close> written as a recursive matcher.
\<close>

subsection \<open>The code\<close>

definition wildcard :: string where "wildcard = ''*''"

definition isRuleApplicable :: "audit_rule \<Rightarrow> string \<Rightarrow> bool" where
  "isRuleApplicable rule methodName =
     (let sel = Selector rule in
      if sel = wildcard then True
      else
        let sel' = TrimLeft sel (CHR ''/'');
            methodName' = TrimLeft methodName (CHR ''/'')
        in if HasSuffix sel' wildcard
           then HasPrefix methodName' (take (length sel' - 1) sel')
           else sel' = methodName')"

fun most_relevant_loop ::
  "string \<Rightarrow> audit_rule list \<Rightarrow> nat \<Rightarrow> audit_rule option \<Rightarrow> audit_rule option" where
  "most_relevant_loop methodName [] longest mostRelevant = mostRelevant"
| "most_relevant_loop methodName (r # rs) longest mostRelevant =
     (if isRuleApplicable r methodName \<and> length (Selector r) > longest
      then if length (Selector r) = length methodName then Some r
           else most_relevant_loop methodName rs (length (Selector r)) (Some r)
      else most_relevant_loop methodName rs longest mostRelevant)"

definition mostRelevantRule :: "string \<Rightarrow> audit_rule list \<Rightarrow> audit_rule option" where
  "mostRelevantRule methodName rules = most_relevant_loop methodName rules 0 None"

text \<open>\<open>(.*?)/\<close> from here on: the text before the first slash; the dot does not match a newline.\<close>

fun lazy_segment :: "string \<Rightarrow> string option" where
  "lazy_segment [] = None"
| "lazy_segment (c # s) =
     (if c = CHR ''/'' then Some []
      else if c = CHR 0x0A then None
      else map_option (Cons c) (lazy_segment s))"

text \<open>Group 1 of the match: two slashes are tried before one.\<close>

definition serviceName_group :: "string \<Rightarrow> string option" where
  "serviceName_group m =
     (case m of
        [] \<Rightarrow> None
      | c # m1 \<Rightarrow>
          if c \<noteq> CHR ''/'' then None
          else (case m1 of
            [] \<Rightarrow> None
          | d # m2 \<Rightarrow>
              if d = CHR ''/''
              then (case lazy_segment m2 of Some g \<Rightarrow> Some g | None \<Rightarrow> lazy_segment m1)
              else lazy_segment m1))"

definition serviceName :: "string \<Rightarrow> gerror + string" where
  "serviceName methodName =
     (case serviceName_group methodName of
        Some g \<Rightarrow>
          if g = [] then Inl (errorf (''failed capturing non-nil service name with regexp '' @
                 go_quote ''^/{1,2}(.*?)/'' @ '' from '' @ go_quote methodName))
          else Inr g
      | None \<Rightarrow> Inl (errorf (''failed capturing non-nil service name with regexp '' @
                 go_quote ''^/{1,2}(.*?)/'' @ '' from '' @ go_quote methodName)))"

subsection \<open>Lemmas on rules\<close>

text \<open>What a selector selects: everything, the methods with a prefix, or one method.\<close>

definition selects :: "string \<Rightarrow> string \<Rightarrow> bool" where
  "selects sel m \<longleftrightarrow> sel = ''*'' \<or>
     (\<exists>p. TrimLeft sel (CHR ''/'') = p @ ''*'' \<and> prefix p (TrimLeft m (CHR ''/''))) \<or>
     TrimLeft sel (CHR ''/'') = TrimLeft m (CHR ''/'') \<and> \<not> suffix ''*'' (TrimLeft sel (CHR ''/''))"

lemma isRuleApplicable_iff: "isRuleApplicable r m \<longleftrightarrow> selects (Selector r) m"
  by (auto simp: isRuleApplicable_def selects_def HasSuffix_def HasPrefix_def wildcard_def
      suffix_def Let_def)

lemma isRuleApplicable_slash: "isRuleApplicable r (CHR ''/'' # m) = isRuleApplicable r m"
  by (simp add: isRuleApplicable_def)

text \<open>The rules that count: applicable, with a selector that is not empty.\<close>

definition relevant :: "string \<Rightarrow> audit_rule \<Rightarrow> bool" where
  "relevant m r \<longleftrightarrow> isRuleApplicable r m \<and> Selector r \<noteq> []"

lemma most_relevant_loop_None:
  "most_relevant_loop m rs longest mr = None \<longleftrightarrow>
     mr = None \<and> (\<forall>r \<in> set rs. \<not> (isRuleApplicable r m \<and> longest < length (Selector r)))"
  by (induction m rs longest mr rule: most_relevant_loop.induct) auto

text \<open>The two steps of the loop.\<close>

lemma most_relevant_loop_take:
  "isRuleApplicable q m \<Longrightarrow> longest < length (Selector q) \<Longrightarrow>
     most_relevant_loop m (q # rs) longest mr =
       (if length (Selector q) = length m then Some q
        else most_relevant_loop m rs (length (Selector q)) (Some q))"
  by simp

lemma most_relevant_loop_skip:
  "\<not> (isRuleApplicable q m \<and> longest < length (Selector q)) \<Longrightarrow>
     most_relevant_loop m (q # rs) longest mr = most_relevant_loop m rs longest mr"
  by (simp only: most_relevant_loop.simps if_False)

lemma most_relevant_loop_Some:
  "most_relevant_loop m rs longest mr = Some r \<Longrightarrow>
     mr = Some r \<or> r \<in> set rs \<and> isRuleApplicable r m \<and> longest < length (Selector r)"
proof (induction rs arbitrary: longest mr)
  case (Cons q rs)
  show ?case
  proof (cases "isRuleApplicable q m \<and> longest < length (Selector q)")
    case upd: True
    show ?thesis
    proof (cases "length (Selector q) = length m")
      case False
      with Cons.prems upd have "most_relevant_loop m rs (length (Selector q)) (Some q) = Some r"
        by (simp add: most_relevant_loop_take)
      from Cons.IH [OF this] upd show ?thesis by fastforce
    qed (use Cons.prems upd in \<open>auto simp: most_relevant_loop_take\<close>)
  next
    case False
    from Cons.prems have "most_relevant_loop m rs longest mr = Some r"
      by (simp only: most_relevant_loop_skip [OF False])
    from Cons.IH [OF this] show ?thesis by auto
  qed
qed simp

lemma most_relevant_loop_longest:
  assumes "most_relevant_loop m rs longest mr = Some r"
    and "length (Selector r) \<noteq> length m"
    and "r' \<in> set rs" "isRuleApplicable r' m"
    and "\<forall>q. mr = Some q \<longrightarrow> longest = length (Selector q)"
  shows "length (Selector r') \<le> max longest (length (Selector r))"
  using assms
proof (induction rs arbitrary: longest mr)
  case (Cons q rs)
  show ?case
  proof (cases "isRuleApplicable q m \<and> longest < length (Selector q)")
    case upd: True
    have ne: "length (Selector q) \<noteq> length m"
    proof
      assume "length (Selector q) = length m"
      with Cons.prems(1) upd have "r = q" by (simp add: most_relevant_loop_take)
      with Cons.prems(2) \<open>length (Selector q) = length m\<close> show False by simp
    qed
    with Cons.prems(1) upd have
      rest: "most_relevant_loop m rs (length (Selector q)) (Some q) = Some r"
      by (simp add: most_relevant_loop_take)
    from most_relevant_loop_Some [OF rest] have le: "length (Selector q) \<le> length (Selector r)"
      by auto
    show ?thesis
    proof (cases "r' = q")
      case False
      with Cons.prems have "r' \<in> set rs" by simp
      from Cons.IH [OF rest Cons.prems(2) this Cons.prems(4)] le show ?thesis by simp
    qed (use le in simp)
  next
    case False
    from Cons.prems(1) have rest: "most_relevant_loop m rs longest mr = Some r"
      by (simp only: most_relevant_loop_skip [OF False])
    show ?thesis
    proof (cases "r' = q")
      case True
      with False Cons.prems(4) show ?thesis by auto
    next
      case ne: False
      with Cons.prems have "r' \<in> set rs" by simp
      from Cons.IH [OF rest Cons.prems(2) this Cons.prems(4,5)] show ?thesis .
    qed
  qed
qed simp

lemma mostRelevantRule_None:
  "mostRelevantRule m rs = None \<longleftrightarrow> (\<forall>r \<in> set rs. \<not> relevant m r)"
  by (auto simp: mostRelevantRule_def most_relevant_loop_None relevant_def)

lemma mostRelevantRule_Some:
  "mostRelevantRule m rs = Some r \<Longrightarrow> r \<in> set rs \<and> relevant m r"
  using most_relevant_loop_Some [of m rs 0 None r] by (auto simp: mostRelevantRule_def relevant_def)

lemma mostRelevantRule_longest:
  assumes "mostRelevantRule m rs = Some r" "length (Selector r) \<noteq> length m"
    and "r' \<in> set rs" "isRuleApplicable r' m"
  shows "length (Selector r') \<le> length (Selector r)"
  using most_relevant_loop_longest [of m rs 0 None r r'] assms by (simp add: mostRelevantRule_def)

text \<open>
  A rule whose selector is as long as the method name: it is chosen unless a selector that is as
  long or longer selects the method before it; then it makes no difference.
\<close>

lemma most_relevant_loop_exact:
  assumes "isRuleApplicable r m" "length (Selector r) = length m" "longest < length m"
    and "\<forall>q \<in> set pre. isRuleApplicable q m \<longrightarrow> length (Selector q) < length m"
  shows "most_relevant_loop m (pre @ r # rs) longest mr = Some r"
  using assms(3,4)
proof (induction pre arbitrary: longest mr)
  case Nil
  with assms(1,2) show ?case by simp
next
  case (Cons q pre)
  then have q: "isRuleApplicable q m \<longrightarrow> length (Selector q) < length m" by simp
  from Cons show ?case
    unfolding append_Cons
    by (cases "isRuleApplicable q m \<and> longest < length (Selector q)") (use q in auto)
qed

lemma most_relevant_loop_no_use:
  assumes "length (Selector r) = length m"
    and "length m \<le> longest \<or> (\<exists>q \<in> set pre. isRuleApplicable q m \<and> length m \<le> length (Selector q))"
  shows "most_relevant_loop m (pre @ r # rs) longest mr = most_relevant_loop m (pre @ rs) longest mr"
  using assms(2)
proof (induction pre arbitrary: longest mr)
  case Nil
  with assms(1) show ?case by simp
next
  case (Cons q pre)
  show ?case
  proof (cases "isRuleApplicable q m \<and> longest < length (Selector q)")
    case True
    with Cons.prems have "length m \<le> length (Selector q) \<or>
        (\<exists>q \<in> set pre. isRuleApplicable q m \<and> length m \<le> length (Selector q))" by auto
    from Cons.IH [OF this] True show ?thesis by (simp add: most_relevant_loop_take)
  next
    case False
    with Cons.prems have "length m \<le> longest \<or>
        (\<exists>q \<in> set pre. isRuleApplicable q m \<and> length m \<le> length (Selector q))" by auto
    from Cons.IH [OF this] show ?thesis by (simp only: append_Cons most_relevant_loop_skip [OF False])
  qed
qed

subsection \<open>Lemmas on service names\<close>

lemma lazy_segment_Some:
  "lazy_segment s = Some g \<longleftrightarrow>
     (\<exists>rest. s = g @ CHR ''/'' # rest) \<and> CHR ''/'' \<notin> set g \<and> CHR 0x0A \<notin> set g"
proof (induction s arbitrary: g)
  case (Cons c s)
  show ?case
  proof (cases g)
    case Nil
    then show ?thesis by auto
  next
    case (Cons d g')
    then show ?thesis using Cons.IH [of g'] by auto
  qed
qed simp

lemma serviceName_group_Some:
  assumes "g \<noteq> []"
  shows "serviceName_group m = Some g \<longleftrightarrow>
     CHR ''/'' \<notin> set g \<and> CHR 0x0A \<notin> set g \<and>
     (\<exists>rest. m = ''/'' @ g @ ''/'' @ rest \<or> m = ''//'' @ g @ ''/'' @ rest)"
proof -
  have one: "serviceName_group (CHR ''/'' # s) = lazy_segment s" if "\<forall>t. s \<noteq> CHR ''/'' # t" for s
    using that by (auto simp: serviceName_group_def split: list.splits)
  have two: "serviceName_group (CHR ''/'' # CHR ''/'' # t) = Some g \<longleftrightarrow> lazy_segment t = Some g" for t
    using assms by (auto simp: serviceName_group_def split: option.splits)
  consider (none) "\<forall>s. m \<noteq> CHR ''/'' # s"
    | (single) s where "m = CHR ''/'' # s" "\<forall>t. s \<noteq> CHR ''/'' # t"
    | (double) t where "m = CHR ''/'' # CHR ''/'' # t" by blast
  then show ?thesis
  proof cases
    case none
    then show ?thesis by (auto simp: serviceName_group_def split: list.splits)
  next
    case single
    with assms show ?thesis by (auto simp: one lazy_segment_Some)
  next
    case double
    with assms show ?thesis by (auto simp: two lazy_segment_Some Cons_eq_append_conv)
  qed
qed

lemma serviceName_Inr:
  "serviceName m = Inr g \<longleftrightarrow> g \<noteq> [] \<and> serviceName_group m = Some g"
  by (auto simp: serviceName_def split: option.splits)

end
