(* ===== verification/Struct_Conv.thy ===== *)
theory Struct_Conv
  imports Api
begin

section \<open>Go values as protobuf structs: toProtoStruct of interceptor.go\<close>

text \<open>
  The interceptors store requests and responses in the audit log as \<open>google.protobuf.Struct\<close>.
  A value that is not one is marshalled to JSON, parsed into a \<open>map[string]interface{}\<close> and
  rebuilt.  A Go value is modelled as \<open>encoding/json\<close> sees it: by the tree of its JSON text, or
  by the error \<open>json.Marshal\<close> returns.  A generated message struct is the list of its fields by
  their JSON names, which all have the option \<open>omitempty\<close>; a number becomes a \<open>float64\<close> when the
  text is parsed again.
\<close>

datatype json =
    JNull
  | JBool bool
  | JNum float64
  | JStr string
  | JArr "json list"
  | JObj "string \<rightharpoonup> json"

datatype msg_field = FString string | FUint nat

datatype goval =
    GoStruct "pstruct option"
  | GoJson json
  | GoMsg "(string \<times> msg_field) list"
  | GoUnmarshalable gerror

definition GoNil :: goval where
  "GoNil = GoJson JNull"

subsection \<open>The code\<close>

primrec jsonValueToStructValue :: "json \<Rightarrow> pvalue" where
  "jsonValueToStructValue (JBool x) = BoolValue x"
| "jsonValueToStructValue (JNum x) = NumberValue x"
| "jsonValueToStructValue (JStr x) = StringValue x"
| "jsonValueToStructValue JNull = NullValue"
| "jsonValueToStructValue (JObj x) = StructValue (Some (map_option jsonValueToStructValue \<circ> x))"
| "jsonValueToStructValue (JArr x) = ListValue (map jsonValueToStructValue x)"

definition jsonMapToProtoStruct :: "(string \<rightharpoonup> json) \<Rightarrow> pstruct" where
  "jsonMapToProtoStruct m = Some (\<lambda>k. map_option jsonValueToStructValue (m k))"

text \<open>
  The \<open>float64\<close> nearest to a natural number below \<open>2 ^ 64\<close> (ties to even), as its bits: exponent
  and 52 bits of fraction; the number of bits of the value gives the exponent.
\<close>

fun bit_length :: "nat \<Rightarrow> nat" where
  "bit_length n = (if n = 0 then 0 else Suc (bit_length (n div 2)))"

declare bit_length.simps [simp del]

definition round_to_even :: "nat \<Rightarrow> nat \<Rightarrow> nat" where
  "round_to_even n k =
     (let q = n div 2 ^ k; r = n mod 2 ^ k
      in if 2 * r > 2 ^ k \<or> 2 * r = 2 ^ k \<and> odd q then q + 1 else q)"

definition float64_of_nat :: "nat \<Rightarrow> float64" where
  "float64_of_nat n =
     (if n = 0 then 0
      else let e = bit_length n - 1;
               m = (if e \<le> 52 then n * 2 ^ (52 - e) else round_to_even n (e - 52))
           in of_nat ((1022 + e) * 2 ^ 52 + m))"

definition field_json :: "msg_field \<Rightarrow> json option" where
  "field_json f =
     (case f of
        FString s \<Rightarrow> (if s = [] then None else Some (JStr s))
      | FUint n \<Rightarrow> (if n = 0 then None else Some (JNum (float64_of_nat n))))"

definition msg_json :: "(string \<times> msg_field) list \<Rightarrow> json" where
  "msg_json fs = JObj (\<lambda>k. Option.bind (map_of fs k) field_json)"

definition json_Marshal :: "goval \<Rightarrow> gerror + json" where
  "json_Marshal v =
     (case v of
        GoStruct s \<Rightarrow> Inl (Opaque ''not reached'')
      | GoJson j \<Rightarrow> Inr j
      | GoMsg fs \<Rightarrow> Inr (msg_json fs)
      | GoUnmarshalable e \<Rightarrow> Inl e)"

text \<open>\<open>json.Unmarshal\<close> into a map: null leaves the map nil, an object fills it.\<close>

definition json_kind :: "json \<Rightarrow> string" where
  "json_kind j = (case j of JNull \<Rightarrow> ''null'' | JBool _ \<Rightarrow> ''bool'' | JNum _ \<Rightarrow> ''number''
     | JStr _ \<Rightarrow> ''string'' | JArr _ \<Rightarrow> ''array'' | JObj _ \<Rightarrow> ''object'')"

definition json_Unmarshal_map :: "json \<Rightarrow> gerror + (string \<rightharpoonup> json)" where
  "json_Unmarshal_map j =
     (case j of
        JNull \<Rightarrow> Inr Map.empty
      | JObj m \<Rightarrow> Inr m
      | _ \<Rightarrow> Inl (Opaque (''json: cannot unmarshal '' @ json_kind j @
               '' into Go value of type map[string]interface {}'')))"

definition toProtoStruct :: "goval \<Rightarrow> gerror + pstruct option" where
  "toProtoStruct v =
     (case v of
        GoStruct s \<Rightarrow> Inr s
      | _ \<Rightarrow>
          (case json_Marshal v of
             Inl err \<Rightarrow> Inl (wrapf ''json.Marshal'' err)
           | Inr jb \<Rightarrow>
               (case json_Unmarshal_map jb of
                  Inl err \<Rightarrow> Inl (wrapf ''json.Unmarshal'' err)
                | Inr m \<Rightarrow> Inr (Some (jsonMapToProtoStruct m)))))"

subsection \<open>Lemmas\<close>

text \<open>The JSON tree a protobuf value stands for.\<close>

primrec value_json :: "pvalue \<Rightarrow> json" where
  "value_json NullValue = JNull"
| "value_json (NumberValue x) = JNum x"
| "value_json (StringValue x) = JStr x"
| "value_json (BoolValue x) = JBool x"
| "value_json (StructValue s) =
     JObj (case map_option (\<lambda>m. map_option value_json \<circ> m) s of None \<Rightarrow> Map.empty | Some m \<Rightarrow> m)"
| "value_json (ListValue vs) = JArr (map value_json vs)"

lemma value_json_jsonValue: "value_json (jsonValueToStructValue j) = j"
proof (induction j)
  case (JObj m)
  have "map_option value_json (map_option jsonValueToStructValue (m k)) = m k" for k
  proof (cases "m k")
    case (Some j)
    then have "value_json (jsonValueToStructValue j) = j"
      using JObj by (metis rangeI elem_set option.set_intros)
    with Some show ?thesis by simp
  qed simp
  then show ?case by (simp add: fun_eq_iff)
qed (simp_all add: map_idI)

lemma jsonValueToStructValue_inj: "inj jsonValueToStructValue"
  by (rule inj_on_inverseI [where g = value_json]) (simp add: value_json_jsonValue)

lemma toProtoStruct_json:
  "toProtoStruct (GoJson j) =
     (case j of JNull \<Rightarrow> Inr (Some (Some Map.empty))
      | JObj m \<Rightarrow> Inr (Some (jsonMapToProtoStruct m))
      | _ \<Rightarrow> Inl (wrapf ''json.Unmarshal'' (Opaque (''json: cannot unmarshal '' @ json_kind j @
               '' into Go value of type map[string]interface {}''))))"
  by (simp add: toProtoStruct_def json_Marshal_def json_Unmarshal_map_def jsonMapToProtoStruct_def
      split: json.splits)

lemma toProtoStruct_ok_iff:
  "(\<exists>s. toProtoStruct v = Inr s) \<longleftrightarrow>
     (\<exists>s. v = GoStruct s) \<or> v = GoNil \<or> (\<exists>m. v = GoJson (JObj m)) \<or> (\<exists>fs. v = GoMsg fs)"
proof (cases v)
  case (GoJson j)
  then show ?thesis by (cases j) (simp_all add: toProtoStruct_json GoNil_def)
qed (simp_all add: toProtoStruct_def json_Marshal_def GoNil_def json_Unmarshal_map_def msg_json_def)

lemma toProtoStruct_msg:
  "toProtoStruct (GoMsg fs) = Inr (Some (Some (\<lambda>k. map_option jsonValueToStructValue
     (Option.bind (map_of fs k) field_json))))"
  by (simp add: toProtoStruct_def json_Marshal_def json_Unmarshal_map_def msg_json_def
      jsonMapToProtoStruct_def)

text \<open>Numbers of at most 53 bits are exact: the bits give the number back.\<close>

lemma bit_length_bounds: "n > 0 \<Longrightarrow> 2 ^ (bit_length n - 1) \<le> n \<and> n < 2 ^ bit_length n"
proof (induction n rule: bit_length.induct)
  case (1 n)
  show ?case
  proof (cases "n div 2 = 0")
    case True
    with 1(2) have "n = 1" by auto
    then show ?thesis by (simp add: bit_length.simps [of "Suc 0"] bit_length.simps [of 0])
  next
    case False
    with 1 have ih: "2 ^ (bit_length (n div 2) - 1) \<le> n div 2 \<and> n div 2 < 2 ^ bit_length (n div 2)" by simp
    obtain k where k: "bit_length (n div 2) = Suc k" using False by (simp add: bit_length.simps)
    have "bit_length n = Suc (Suc k)" using 1(2) k by (simp add: bit_length.simps [of n])
    with ih k show ?thesis by (auto simp: less_eq_div_iff_mult_less_eq)
  qed
qed

definition nat_of_float64 :: "float64 \<Rightarrow> nat" where
  "nat_of_float64 x =
     (if x = 0 then 0
      else (2 ^ 52 + unat x mod 2 ^ 52) div 2 ^ (52 - (unat x div 2 ^ 52 - 1023)))"

lemma float64_exact:
  assumes "n < 2 ^ 53"
  shows "nat_of_float64 (float64_of_nat n) = n"
proof (cases "n = 0")
  case False
  let ?e = "bit_length n - 1"
  from False have b: "2 ^ ?e \<le> n" "n < 2 ^ bit_length n" "bit_length n = Suc ?e"
    using bit_length_bounds [of n] by (simp_all add: bit_length.simps [of n])
  have e: "?e \<le> 52"
  proof (rule ccontr)
    assume "\<not> ?e \<le> 52"
    then have "(2::nat) ^ 53 \<le> 2 ^ ?e" by (intro power_increasing) auto
    with b(1) assms show False by linarith
  qed
  define m where "m = n * 2 ^ (52 - ?e)"
  have p: "(2::nat) ^ ?e * 2 ^ (52 - ?e) = 2 ^ 52" using e by (simp flip: power_add)
  have lo: "2 ^ 52 \<le> m" unfolding m_def p [symmetric] using b(1) by (rule mult_le_mono1)
  have "m < 2 ^ Suc ?e * 2 ^ (52 - ?e)" unfolding m_def using b(2,3) by (intro mult_less_mono1) simp_all
  also have "\<dots> = 2 ^ 53" using p by simp
  finally have hi: "m < 2 ^ 53" .
  let ?x = "(1022 + ?e) * 2 ^ 52 + m"
  have "?x < 2 ^ 64" using e hi by simp
  then have u: "unat (of_nat ?x :: float64) = ?x" by (subst unat_of_nat) (rule mod_less, simp)
  have x: "?x = (1023 + ?e) * 2 ^ 52 + (m - 2 ^ 52)" using lo by simp
  have dm: "c < b \<Longrightarrow> (a * b + c) div b = a \<and> (a * b + c) mod b = c" for a b c :: nat
    by simp
  have d: "?x div 2 ^ 52 = 1023 + ?e" "?x mod 2 ^ 52 = m - 2 ^ 52"
    using dm [of "m - 2 ^ 52" "2 ^ 52" "1023 + ?e"] hi unfolding x by simp_all
  have f: "float64_of_nat n = of_nat ?x" using False e by (simp add: float64_of_nat_def m_def Let_def)
  have "(of_nat ?x :: float64) \<noteq> 0" using u lo by (metis add_is_0 unat_0 not_le zero_less_power zero_less_numeral)
  then have "nat_of_float64 (float64_of_nat n) = m div 2 ^ (52 - ?e)"
    unfolding nat_of_float64_def f u d using lo by simp
  also have "\<dots> = n" by (simp add: m_def)
  finally show ?thesis .
qed (simp add: nat_of_float64_def float64_of_nat_def)

end
