(* ===== verification/Security.thy ===== *)
theory Security
  imports Config Struct_Conv
begin

section \<open>Who made the request: clients/go/pkg/security/grpc.go\<close>

text \<open>
  The interface \<open>GRPCContext\<close> and its implementation that reads the principal from a raw JWT in
  the gRPC metadata.  Parsing a JWT without verifying it (\<open>jwt.ParseString\<close>) is a parameter that
  returns the token's claims.  The interceptors rely on one law, stated as a locale: a principal
  that is returned is not blank.
\<close>

type_synonym principal_source = "ctx \<Rightarrow> gerror + string"

locale nonblank_principal =
  fixes RequestPrincipal :: principal_source
  assumes nonblank: "RequestPrincipal c = Inr p \<Longrightarrow> p \<noteq> []"
begin

lemma blank_is_error: "RequestPrincipal c \<noteq> Inr []"
  using nonblank by blast

end

subsection \<open>The code\<close>

definition emailKey :: string where "emailKey = ''email''"

text \<open>\<open>%T\<close> of a claim.\<close>

fun claim_type :: "json \<Rightarrow> string" where
  "claim_type JNull = ''<nil>''"
| "claim_type (JBool _) = ''bool''"
| "claim_type (JNum _) = ''float64''"
| "claim_type (JStr _) = ''string''"
| "claim_type (JArr _) = ''[]interface {}''"
| "claim_type (JObj _) = ''map[string]interface {}''"

text \<open>
  The loop of \<open>findJWT\<close>; the metadata is the function \<open>md.Get\<close>.  The text of the last error
  is given without the rules that \<open>%#v\<close> prints (they are pointers).  The slice
  \<open>jwtRaw[len(fj.Prefix):]\<close> is within bounds, since the lower-cased prefix is a prefix.
\<close>

fun findJWT :: "from_raw_jwt list \<Rightarrow> md \<Rightarrow> gerror + string" where
  "findJWT [] m = Inl (errorf ''no JWT found matching rules'')"
| "findJWT (fj # fjs) m =
     (case m (jwt_key fj) of
        [] \<Rightarrow> findJWT fjs m
      | jwtRaw # _ \<Rightarrow>
          if \<not> HasPrefix (ToLower jwtRaw) (ToLower (jwt_prefix fj)) then findJWT fjs m
          else Inr (drop (length (jwt_prefix fj)) jwtRaw))"

definition FromRawJWT_RequestPrincipal ::
  "(string \<Rightarrow> gerror + (string \<rightharpoonup> json)) \<Rightarrow> from_raw_jwt list \<Rightarrow> principal_source" where
  "FromRawJWT_RequestPrincipal parse js c =
     (case incoming_md c of
        None \<Rightarrow> Inl (errorf ''gRPC metadata in incoming context is missing'')
      | Some m \<Rightarrow>
          (case findJWT js m of
             Inl err \<Rightarrow> Inl err
           | Inr idToken \<Rightarrow>
               (case parse idToken of
                  Inl err \<Rightarrow> Inl (wrapf ''failed to parse jwt'' err)
                | Inr token \<Rightarrow>
                    (case token emailKey of
                       None \<Rightarrow> Inl (errorf (''missing claim '' @ go_quote emailKey))
                     | Some emailRaw \<Rightarrow>
                         (case emailRaw of
                            JStr email \<Rightarrow>
                              if email = []
                              then Inl (errorf (''claim '' @ go_quote emailKey @ '' cannot be blank''))
                              else Inr email
                          | _ \<Rightarrow> Inl (errorf (''claim '' @ go_quote emailKey @
                                   '' is not of type string (got '' @ claim_type emailRaw @ '')'')))))))"

subsection \<open>Lemmas\<close>

lemma RequestPrincipal_Inr:
  "FromRawJWT_RequestPrincipal parse js c = Inr p \<longleftrightarrow>
     p \<noteq> [] \<and> (\<exists>m t token. incoming_md c = Some m \<and> findJWT js m = Inr t \<and>
        parse t = Inr token \<and> token emailKey = Some (JStr p))"
  by (auto simp: FromRawJWT_RequestPrincipal_def split: option.splits sum.splits json.splits if_splits)

interpretation raw_jwt: nonblank_principal "FromRawJWT_RequestPrincipal parse js"
  by unfold_locales (simp add: RequestPrincipal_Inr)

text \<open>The first rule whose key is present with the prefix decides.\<close>

definition jwt_rule_matches :: "md \<Rightarrow> from_raw_jwt \<Rightarrow> bool" where
  "jwt_rule_matches m fj \<longleftrightarrow>
     (\<exists>v vs. m (jwt_key fj) = v # vs \<and> prefix (ToLower (jwt_prefix fj)) (ToLower v))"

lemma findJWT_find:
  "findJWT js m =
     (case List.find (jwt_rule_matches m) js of
        None \<Rightarrow> Inl (errorf ''no JWT found matching rules'')
      | Some fj \<Rightarrow> Inr (drop (length (jwt_prefix fj)) (hd (m (jwt_key fj)))))"
  by (induction js m rule: findJWT.induct)
    (auto simp: jwt_rule_matches_def HasPrefix_def split: list.splits)

lemma findJWT_splits_header:
  assumes "findJWT js m = Inr t"
  shows "\<exists>fj \<in> set js. \<exists>p vs. m (jwt_key fj) = (p @ t) # vs \<and> ToLower p = ToLower (jwt_prefix fj)"
proof -
  from assms obtain fj where fj: "List.find (jwt_rule_matches m) js = Some fj"
    and t: "t = drop (length (jwt_prefix fj)) (hd (m (jwt_key fj)))"
    by (auto simp: findJWT_find split: option.splits)
  from fj have mem: "fj \<in> set js" "jwt_rule_matches m fj"
    by (auto simp: find_Some_iff)
  then obtain v vs where v: "m (jwt_key fj) = v # vs"
    and pre: "prefix (ToLower (jwt_prefix fj)) (ToLower v)"
    by (auto simp: jwt_rule_matches_def)
  let ?p = "take (length (jwt_prefix fj)) v"
  from pre have "ToLower ?p = ToLower (jwt_prefix fj)"
    by (auto simp: ToLower_def take_map [symmetric] prefix_def)
  moreover from t v have "v = ?p @ t" by simp
  ultimately show ?thesis using mem v by metis
qed

end
