(* ===== verification/Justification.thy ===== *)
theory Justification
  imports Processors
begin

section \<open>The justification processor: clients/go/pkg/justification/processor.go\<close>

text \<open>
  A mutator that validates the justification token of a request and writes what it justifies into
  the payload.  The JVS client (the code's interface \<open>Validator\<close>) and the functions that turn a
  parsed token into JSON are parameters, collected in the record \<open>'t jvs\<close>; \<open>'t\<close> is the type
  of the library's parsed token.
\<close>

definition TokenHeaderKey :: string where "TokenHeaderKey = ''justification-token''"
definition LogMetadataKey :: string where "LogMetadataKey = ''justification''"

record 't jvs =
  ValidateJWT :: "ctx \<Rightarrow> string \<Rightarrow> string \<Rightarrow> gerror + 't"
  marshal_token :: "'t \<Rightarrow> gerror + string"
  unmarshal_struct :: "string \<Rightarrow> gerror + (string \<rightharpoonup> pvalue)"
  GetJustifications :: "'t \<Rightarrow> gerror + (string \<times> string) list"
  marshal_justifications :: "(string \<times> string) list \<Rightarrow> gerror + string"

subsection \<open>The code\<close>

definition principalEmail :: "log_request option \<Rightarrow> string" where
  "principalEmail r =
     (case r of
        None \<Rightarrow> []
      | Some q \<Rightarrow>
          if payload q = None then []
          else if GetAuthenticationInfo (payload q) = None then []
          else GetPrincipalEmail (GetAuthenticationInfo (payload q)))"

text \<open>
  The two writes.  \<open>logReq.Payload.Metadata.Fields[LogMetadataKey] = \<dots>\<close> creates the
  \<open>Metadata\<close> message when it is nil, but not the \<open>Fields\<close> of one that is there.
\<close>

definition set_metadata :: "audit_log \<Rightarrow> (string \<rightharpoonup> pvalue) \<Rightarrow> audit_log option" where
  "set_metadata a tok =
     (let a' = (if metadata a = None then a\<lparr>metadata := Some (Some Map.empty)\<rparr> else a)
      in case GetFields (metadata a') of
           None \<Rightarrow> None
         | Some f \<Rightarrow>
             Some (a'\<lparr>metadata := Some (Some (f(LogMetadataKey \<mapsto> StructValue (Some tok))))\<rparr>))"

definition set_reason :: "audit_log \<Rightarrow> string \<Rightarrow> audit_log" where
  "set_reason a s =
     (let rm = (case request_meta a of None \<Rightarrow> \<lparr>attributes = None\<rparr> | Some x \<Rightarrow> x);
          at = (case attributes rm of None \<Rightarrow> \<lparr>reason = []\<rparr> | Some x \<Rightarrow> x)
      in a\<lparr>request_meta := Some (rm\<lparr>attributes := Some (at\<lparr>reason := s\<rparr>)\<rparr>)\<rparr>)"

definition justify ::
  "'t jvs \<Rightarrow> 't \<Rightarrow> (string \<rightharpoonup> pvalue) \<Rightarrow> log_request \<Rightarrow>
     ('w, gerror option \<times> log_request option) go" where
  "justify v token tok q =
     (case payload q of
        None \<Rightarrow> go_return (Some ErrLogRequestMissingPayload, Some q)
      | Some a \<Rightarrow>
          (case set_metadata a tok of
             None \<Rightarrow> go_panic nil_map
           | Some a1 \<Rightarrow>
               let q1 = q\<lparr>payload := Some a1\<rparr> in
               (case GetJustifications v token of
                  Inl err \<Rightarrow> go_return (Some (wrap2 ErrJustificationInvalid err), Some q1)
                | Inr js \<Rightarrow>
                    if js = [] then go_return (None, Some q1)
                    else (case marshal_justifications v js of
                      Inl err \<Rightarrow>
                        go_return (Some (wrapf ''failed to marshal justifications'' err), Some q1)
                    | Inr bytes \<Rightarrow>
                        go_return (None, Some (q1\<lparr>payload := Some (set_reason a1 bytes)\<rparr>))))))"

definition Justification_Process :: "'t jvs \<Rightarrow> 'w process" where
  "Justification_Process v c r =
     (let jvsToken = GetJustificationToken r in
      if jvsToken = [] then go_return (Some ErrJustificationMissing, r)
      else case ValidateJWT v c jvsToken (principalEmail r) of
        Inl err \<Rightarrow> go_return (Some (wrap2 ErrJustificationInvalid err), r)
      | Inr token \<Rightarrow>
          (case marshal_token v token of
             Inl err \<Rightarrow> go_return (Some (wrapf ''failed to encode justification token'' err), r)
           | Inr b \<Rightarrow>
               (case unmarshal_struct v b of
                  Inl err \<Rightarrow> go_return (Some (wrapf ''failed to decode justification token'' err), r)
                | Inr tok \<Rightarrow>
                    (case r of
                       None \<Rightarrow> go_return (Some ErrLogRequestMissingPayload, r)
                     | Some q \<Rightarrow> justify v token tok q))))"

definition justification_log_processor :: "'t jvs \<Rightarrow> 'w processor" where
  "justification_log_processor v =
     \<lparr>p_type = ''*justification.Processor'', p_process = Justification_Process v, p_stop = None\<rparr>"

subsection \<open>Lemmas\<close>

lemma principalEmail_eq:
  "principalEmail r = GetPrincipalEmail (GetAuthenticationInfo (GetPayload r))"
  by (auto simp: principalEmail_def split: option.splits)

lemma set_metadata_identity:
  "set_metadata a tok = Some a1 \<Longrightarrow> audit_identity a1 = audit_identity a"
  by (auto simp: set_metadata_def audit_identity_def Let_def split: option.splits if_splits)

lemma set_metadata_None_iff:
  "set_metadata a tok = None \<longleftrightarrow> metadata a = Some None"
  by (cases "metadata a") (auto simp: set_metadata_def Let_def split: option.splits)

lemma set_metadata_fields:
  "set_metadata a tok = Some a1 \<Longrightarrow>
     metadata a1 = Some (Some ((case metadata a of Some (Some f) \<Rightarrow> f | _ \<Rightarrow> Map.empty)
                               (LogMetadataKey \<mapsto> StructValue (Some tok))))"
  by (cases "metadata a") (auto simp: set_metadata_def Let_def split: option.splits)

lemma set_reason_identity [simp]: "audit_identity (set_reason a s) = audit_identity a"
  by (simp add: set_reason_def audit_identity_def Let_def)

lemma set_reason_metadata [simp]: "metadata (set_reason a s) = metadata a"
  by (simp add: set_reason_def Let_def)

lemma set_reason_reason:
  "\<exists>rm at. request_meta (set_reason a s) = Some rm \<and> attributes rm = Some at \<and> reason at = s"
  by (simp add: set_reason_def Let_def)

lemma justify_keeps:
  assumes "justify v token tok q w = (Ret (e, r'), w')"
  shows "w' = w \<and> (\<exists>q'. r' = Some q' \<and> same_identity q q' \<and> mode q' = mode q)"
  using assms
  by (auto simp: justify_def same_identity_def Let_def set_metadata_identity
      split: option.splits sum.splits if_splits)

lemma Justification_Process_keeps:
  assumes "Justification_Process v c (Some q) w = (Ret (e, r'), w')"
  shows "w' = w \<and> (\<exists>q'. r' = Some q' \<and> same_identity q q' \<and> mode q' = mode q)"
  using assms
  by (auto simp: Justification_Process_def Let_def dest!: justify_keeps
      split: sum.splits if_splits)

interpretation justification_mutator: mutator_process "Justification_Process v"
  by unfold_locales (use Justification_Process_keeps in blast, use Justification_Process_keeps in fastforce)

text \<open>
  The token passed all the steps that come before the writes: its text, the token it parses to and
  that token as a struct.
\<close>

definition token_accepted ::
  "'t jvs \<Rightarrow> ctx \<Rightarrow> log_request \<Rightarrow> 't \<Rightarrow> (string \<rightharpoonup> pvalue) \<Rightarrow> bool" where
  "token_accepted v c q token tok \<longleftrightarrow>
     justification_token q \<noteq> [] \<and>
     ValidateJWT v c (justification_token q) (principalEmail (Some q)) = Inr token \<and>
     (\<exists>b. marshal_token v token = Inr b \<and> unmarshal_struct v b = Inr tok)"

lemma Justification_Process_accepted:
  "token_accepted v c q token tok \<Longrightarrow>
     Justification_Process v c (Some q) w = justify v token tok q w"
  by (auto simp: token_accepted_def Justification_Process_def Let_def)

lemma justify_Ret_None:
  assumes "justify v token tok q w = (Ret (None, r'), w')"
  obtains a q' a' where "payload q = Some a" "r' = Some q'" "payload q' = Some a'"
    "GetFields (metadata a') =
       Some ((case metadata a of Some (Some f) \<Rightarrow> f | _ \<Rightarrow> Map.empty)
             (LogMetadataKey \<mapsto> StructValue (Some tok)))"
    "\<exists>js. GetJustifications v token = Inr js \<and>
       (js \<noteq> [] \<longrightarrow> (\<exists>b rm at. marshal_justifications v js = Inr b \<and>
          request_meta a' = Some rm \<and> attributes rm = Some at \<and> reason at = b))"
  using assms set_reason_reason set_metadata_fields
  by (fastforce simp: justify_def Let_def split: option.splits sum.splits if_splits)

lemma Justification_Process_None_accepted:
  "Justification_Process v c (Some q) w = (Ret (None, r'), w') \<Longrightarrow>
     \<exists>token tok. token_accepted v c q token tok"
  by (auto simp: token_accepted_def Justification_Process_def Let_def ErrJustificationMissing_def
      split: sum.splits if_splits)

lemma Justification_Process_nil_fields_panics:
  assumes "token_accepted v c q token tok" "payload q = Some a" "metadata a = Some None"
  shows "Justification_Process v c (Some q) w = (Panic nil_map, w)"
  using assms set_metadata_None_iff [of a tok]
  by (simp add: Justification_Process_accepted justify_def)

lemma Justification_Process_panics_only_nil_fields:
  "Justification_Process v c r w = (Panic s, w') \<Longrightarrow>
     s = nil_map \<and> (\<exists>q a. r = Some q \<and> payload q = Some a \<and> metadata a = Some None)"
  by (auto simp: Justification_Process_def justify_def set_metadata_None_iff Let_def
      split: sum.splits if_splits option.splits)

end
