(* ===== verification/Interceptor.thy ===== *)
theory Interceptor
  imports Client_Log Rules Security Justification
begin

section \<open>The unary interceptor: clients/go/pkg/audit/interceptor.go\<close>

text \<open>
  The gRPC interceptor for unary calls.  It finds the rule for the method, prepares an audit log
  request, runs the handler with the request in its context, completes the request and logs it
  with the client.  The handler is a parameter: it returns its response, its error, and the final
  contents of the log request it found in its context (a pointer it may write through).  The
  clock, the UUID generator, \<open>proto.Clone\<close> and \<open>status.FromError\<close> are fields of the environment.
\<close>

record 'w grpc_env =
  time_Now :: "('w, timestamp) go"
  uuid_New :: "('w, string) go"
  status_FromError :: "gerror \<Rightarrow> rpc_status option"
  proto_Clone :: "log_request \<Rightarrow> log_request option"

record 'w interceptor =
  it_Client :: "'w client option"
  it_sc :: "principal_source option"
  it_rules :: "audit_rule list"
  it_logMode :: log_mode

type_synonym 'w interceptor_option =
  "ctx \<Rightarrow> 'w interceptor \<Rightarrow> ('w, gerror option \<times> 'w interceptor) go"

type_synonym 'w unary_handler =
  "ctx \<Rightarrow> goval \<Rightarrow> ('w, goval \<times> gerror option \<times> log_request) go"

subsection \<open>Options and construction\<close>

definition WithAuditClient :: "'w client \<Rightarrow> 'w interceptor_option" where
  "WithAuditClient cl c i = go_return (None, i\<lparr>it_Client := Some cl\<rparr>)"

definition WithSecurityContext :: "principal_source \<Rightarrow> 'w interceptor_option" where
  "WithSecurityContext sc c i = go_return (None, i\<lparr>it_sc := Some sc\<rparr>)"

definition WithAuditRules :: "audit_rule list \<Rightarrow> 'w interceptor_option" where
  "WithAuditRules rs c i = go_return (None, i\<lparr>it_rules := rs\<rparr>)"

definition WithInterceptorLogMode :: "log_mode \<Rightarrow> 'w interceptor_option" where
  "WithInterceptorLogMode m c i = go_return (None, i\<lparr>it_logMode := m\<rparr>)"

definition zero_interceptor :: "'w interceptor" where
  "zero_interceptor =
     \<lparr>it_Client = None, it_sc = None, it_rules = [], it_logMode = MODE_UNSPECIFIED\<rparr>"

fun apply_interceptor_options ::
  "ctx \<Rightarrow> 'w interceptor_option list \<Rightarrow> 'w interceptor \<Rightarrow> ('w, gerror + 'w interceptor) go" where
  "apply_interceptor_options c [] i = go_return (Inr i)"
| "apply_interceptor_options c (f # fs) i =
     go_bind (f c i) (\<lambda>(err, i').
       case err of
         Some e \<Rightarrow> go_return (Inl (wrapf ''failed to apply interceptor option'' e))
       | None \<Rightarrow> apply_interceptor_options c fs i')"

definition NewInterceptor ::
  "ctx \<Rightarrow> 'w interceptor_option list \<Rightarrow> ('w, gerror + 'w interceptor) go" where
  "NewInterceptor c opts = apply_interceptor_options c opts zero_interceptor"

subsection \<open>The parts of a log request\<close>

definition fillJVSToken :: "ctx \<Rightarrow> log_request \<Rightarrow> log_request" where
  "fillJVSToken c logReq =
     (case incoming_md c of
        None \<Rightarrow> logReq
      | Some m \<Rightarrow>
          (case m TokenHeaderKey of
             [] \<Rightarrow> logReq
           | v # _ \<Rightarrow> logReq\<lparr>justification_token := TrimSpace v\<rparr>))"

definition rule_log_type :: "audit_rule \<Rightarrow> log_type" where
  "rule_log_type r =
     (case LogType_value (LogType r) of Some t \<Rightarrow> t | None \<Rightarrow> LT_UNSPECIFIED)"

definition set_principal :: "string \<Rightarrow> log_request \<Rightarrow> ('w, log_request) go" where
  "set_principal p logReq =
     (case payload logReq of
        None \<Rightarrow> go_panic nil_deref
      | Some a \<Rightarrow> go_return (logReq\<lparr>payload :=
          Some (a\<lparr>authentication := Some \<lparr>principal_email = p\<rparr>\<rparr>)\<rparr>))"

definition setReq :: "log_request \<Rightarrow> goval \<Rightarrow> ('w, gerror option \<times> log_request) go" where
  "setReq logReq m =
     (case toProtoStruct m of
        Inl err \<Rightarrow> go_return (Some (InterceptorError (StatusError code_Internal
          (''failed to convert req into a proto struct: '' @ error_text err))), logReq)
      | Inr ms \<Rightarrow>
          (case payload logReq of
             None \<Rightarrow> go_panic nil_deref
           | Some a \<Rightarrow> go_return (None, logReq\<lparr>payload := Some (a\<lparr>request := ms\<rparr>)\<rparr>)))"

definition setResp :: "log_request \<Rightarrow> goval \<Rightarrow> ('w, gerror option \<times> log_request) go" where
  "setResp logReq m =
     (case toProtoStruct m of
        Inl err \<Rightarrow> go_return (Some (InterceptorError (StatusError code_Internal
          (''failed to convert resp into a proto struct: '' @ error_text err))), logReq)
      | Inr ms \<Rightarrow>
          (case payload logReq of
             None \<Rightarrow> go_panic nil_deref
           | Some a \<Rightarrow> go_return (None, logReq\<lparr>payload := Some (a\<lparr>response := ms\<rparr>)\<rparr>)))"

definition shouldLogReq :: "audit_rule \<Rightarrow> bool" where
  "shouldLogReq r \<longleftrightarrow>
     Directive r = DirectiveRequestAndResponse \<or> Directive r = DirectiveRequestOnly"

definition shouldLogResp :: "audit_rule \<Rightarrow> bool" where
  "shouldLogResp r \<longleftrightarrow> Directive r = DirectiveRequestAndResponse"

definition rpccode_INTERNAL :: nat where "rpccode_INTERNAL = 13"

definition setErrorStatus ::
  "'w grpc_env \<Rightarrow> gerror \<Rightarrow> log_request \<Rightarrow> ('w, log_request) go" where
  "setErrorStatus env err logReq =
     (let st = (case status_FromError env err of
                  Some s \<Rightarrow> s
                | None \<Rightarrow> \<lparr>st_code = rpccode_INTERNAL, st_message = error_text err\<rparr>)
      in case payload logReq of
           None \<Rightarrow> go_panic nil_deref
         | Some a \<Rightarrow> go_return (logReq\<lparr>payload := Some (a\<lparr>status := Some st\<rparr>)\<rparr>))"

definition LogReqFromCtx :: "ctx \<Rightarrow> log_request \<times> bool" where
  "LogReqFromCtx c =
     (case ctx_log_req c of
        Some r \<Rightarrow> (r, True)
      | None \<Rightarrow> (empty_log_request\<lparr>payload := Some empty_audit_log\<rparr>, False))"

definition with_log_req :: "log_request \<Rightarrow> ctx \<Rightarrow> ctx" where
  "with_log_req r c = c\<lparr>ctx_log_req := Some r\<rparr>"

subsection \<open>Returning\<close>

definition call_handler ::
  "'w unary_handler \<Rightarrow> ctx \<Rightarrow> goval \<Rightarrow> ('w, goval \<times> gerror option) go" where
  "call_handler handler c req =
     go_bind (handler c req) (\<lambda>(resp, err, _). go_return (resp, err))"

definition log_fail_open :: "gerror option \<Rightarrow> ('w, unit) go" where
  "log_fail_open err =
     (case err of
        Some e \<Rightarrow> go_log LevelError ''failed to audit log; continuing without audit logging'' (Some e)
      | None \<Rightarrow> go_return ())"

definition handleReturnUnary ::
  "'w interceptor \<Rightarrow> ctx \<Rightarrow> goval \<Rightarrow> 'w unary_handler \<Rightarrow> gerror option \<Rightarrow>
     ('w, goval \<times> gerror option) go" where
  "handleReturnUnary i c req handler err =
     (if ShouldFailClose (it_logMode i) \<and> err \<noteq> None then go_return (GoNil, err)
      else go_bind (log_fail_open err) (\<lambda>_. call_handler handler c req))"

definition handleReturnWithResponse ::
  "'w interceptor \<Rightarrow> goval \<Rightarrow> gerror option \<Rightarrow> ('w, goval \<times> gerror option) go" where
  "handleReturnWithResponse i handlerResp err =
     (if ShouldFailClose (it_logMode i) \<and> err \<noteq> None then go_return (handlerResp, err)
      else go_bind (log_fail_open err) (\<lambda>_. go_return (handlerResp, None)))"

subsection \<open>UnaryInterceptor\<close>

text \<open>\<open>i.sc.RequestPrincipal\<close>: calling a method of a nil interface panics.\<close>

definition request_principal :: "'w interceptor \<Rightarrow> ctx \<Rightarrow> ('w, gerror + string) go" where
  "request_principal i c =
     (case it_sc i of None \<Rightarrow> go_panic nil_deref | Some sc \<Rightarrow> go_return (sc c))"

definition unary_log_request ::
  "'w interceptor \<Rightarrow> ctx \<Rightarrow> audit_rule \<Rightarrow> string \<Rightarrow> string \<Rightarrow> timestamp \<Rightarrow> log_request" where
  "unary_log_request i c r svc method ts =
     (fillJVSToken c (empty_log_request\<lparr>
        payload := Some (empty_audit_log\<lparr>service_name := svc, method_name := method\<rparr>),
        mode := it_logMode i,
        req_timestamp := Some ts\<rparr>))\<lparr>req_type := rule_log_type r\<rparr>"

text \<open>The second half: the handler runs with the request in its context, then the call is logged.\<close>

definition log_handler_error ::
  "'w grpc_env \<Rightarrow> 'w interceptor \<Rightarrow> ctx \<Rightarrow> gerror \<Rightarrow> log_request \<Rightarrow> ('w, unit) go" where
  "log_handler_error env i c handlerErr logReq =
     go_bind (setErrorStatus env handlerErr logReq) (\<lambda>logReq'.
     go_bind (Log (it_Client i) (with_log_req logReq' c) (Some logReq')) (\<lambda>(err, _).
       case err of
         Some e \<Rightarrow> go_log LevelError ''unable to audit log error'' (Some e)
       | None \<Rightarrow> go_return ()))"

definition log_response ::
  "'w interceptor \<Rightarrow> ctx \<Rightarrow> audit_rule \<Rightarrow> goval \<Rightarrow> log_request \<Rightarrow> ('w, goval \<times> gerror option) go" where
  "log_response i c r resp logReq =
     go_bind (if shouldLogResp r then setResp logReq resp else go_return (None, logReq))
       (\<lambda>(err, logReq').
         case err of
           Some e \<Rightarrow> handleReturnWithResponse i resp (Some (InterceptorError (StatusError code_Internal
             (''failed to convert resp into a Google struct proto: '' @ error_text e))))
         | None \<Rightarrow>
             go_bind (Log (it_Client i) (with_log_req logReq' c) (Some logReq')) (\<lambda>(err, _).
               case err of
                 Some e \<Rightarrow> handleReturnWithResponse i resp (Some (InterceptorError
                   (StatusError code_Internal (''failed to emit log: '' @ error_text e))))
               | None \<Rightarrow> go_return (resp, None)))"

definition run_unary ::
  "'w grpc_env \<Rightarrow> 'w interceptor \<Rightarrow> ctx \<Rightarrow> audit_rule \<Rightarrow> goval \<Rightarrow> 'w unary_handler \<Rightarrow> log_request \<Rightarrow>
     ('w, goval \<times> gerror option) go" where
  "run_unary env i c r req handler logReq =
     go_bind (handler (with_log_req logReq c) req) (\<lambda>(resp, handlerErr, logReq').
       case handlerErr of
         Some e \<Rightarrow> go_bind (log_handler_error env i c e logReq') (\<lambda>_. go_return (resp, Some e))
       | None \<Rightarrow> log_response i c r resp logReq')"

definition UnaryInterceptor ::
  "'w grpc_env \<Rightarrow> 'w interceptor \<Rightarrow> ctx \<Rightarrow> goval \<Rightarrow> string \<Rightarrow> 'w unary_handler \<Rightarrow>
     ('w, goval \<times> gerror option) go" where
  "UnaryInterceptor env i c req FullMethod handler =
     (case mostRelevantRule FullMethod (it_rules i) of
        None \<Rightarrow> go_bind (go_log LevelDebug ''no audit rule matching the method name'' None)
                  (\<lambda>_. call_handler handler c req)
      | Some r \<Rightarrow>
          (case serviceName FullMethod of
             Inl err \<Rightarrow> handleReturnUnary i c req handler
               (Some (InterceptorError (StatusError code_FailedPrecondition (error_text err))))
           | Inr svc \<Rightarrow>
               go_bind (time_Now env) (\<lambda>ts.
               let logReq = unary_log_request i c r svc FullMethod ts in
               go_bind (request_principal i c) (\<lambda>pr.
                 case pr of
                   Inl err \<Rightarrow>
                     go_bind (go_log LevelError ''audit interceptor failed to get request principal''
                       (Some err)) (\<lambda>_. handleReturnUnary i c req handler
                         (Some (InterceptorError (StatusError code_FailedPrecondition
                           ''failed to get request principal''))))
                 | Inr prin \<Rightarrow>
                     go_bind (set_principal prin logReq) (\<lambda>logReq1.
                     go_bind (if shouldLogReq r then setReq logReq1 req else go_return (None, logReq1))
                       (\<lambda>(err, logReq2).
                         case err of
                           Some e \<Rightarrow> handleReturnUnary i c req handler
                             (Some (InterceptorError (StatusError code_Internal
                               (''failed to convert req into a Google struct proto: '' @ error_text e))))
                         | None \<Rightarrow> run_unary env i c r req handler logReq2))))))"

subsection \<open>Lemmas: construction\<close>

lemma apply_interceptor_options_simple:
  "apply_interceptor_options c (WithAuditClient cl # fs) i =
     apply_interceptor_options c fs (i\<lparr>it_Client := Some cl\<rparr>)"
  "apply_interceptor_options c (WithSecurityContext sc # fs) i =
     apply_interceptor_options c fs (i\<lparr>it_sc := Some sc\<rparr>)"
  "apply_interceptor_options c (WithAuditRules rs # fs) i =
     apply_interceptor_options c fs (i\<lparr>it_rules := rs\<rparr>)"
  "apply_interceptor_options c (WithInterceptorLogMode m # fs) i =
     apply_interceptor_options c fs (i\<lparr>it_logMode := m\<rparr>)"
  by (simp_all add: WithAuditClient_def WithSecurityContext_def WithAuditRules_def
      WithInterceptorLogMode_def)

subsection \<open>Lemmas: the handler and the error\<close>

lemma call_handler_Ret:
  "call_handler h c req w = (Ret (resp, err), w') \<longleftrightarrow> (\<exists>q. h c req w = (Ret (resp, err, q), w'))"
  by (auto simp: call_handler_def go_bind_def split: prod.splits ret.splits)

text \<open>What an intercepted call may return, given what the handler returns.\<close>

definition ran_handler ::
  "'w interceptor \<Rightarrow> goval \<Rightarrow> 'w unary_handler \<Rightarrow> goval \<Rightarrow> gerror option \<Rightarrow> bool" where
  "ran_handler i req h resp err \<longleftrightarrow>
     (\<exists>c w1 w2 e q. h c req w1 = (Ret (resp, e, q), w2) \<and>
        (err = e \<or> e = None \<and> ShouldFailClose (it_logMode i) \<and>
           (\<exists>x. err = Some x \<and> errors_is x ErrInterceptor)))"

definition blocked_call :: "'w interceptor \<Rightarrow> goval \<Rightarrow> gerror option \<Rightarrow> bool" where
  "blocked_call i resp err \<longleftrightarrow>
     ShouldFailClose (it_logMode i) \<and> resp = GoNil \<and> (\<exists>x. err = Some x \<and> errors_is x ErrInterceptor)"

lemma ran_handler_same: "h c req w1 = (Ret (resp, e, q), w2) \<Longrightarrow> ran_handler i req h resp e"
  unfolding ran_handler_def by blast

lemma ran_handler_failed_log:
  "h c req w1 = (Ret (resp, None, q), w2) \<Longrightarrow> ShouldFailClose (it_logMode i) \<Longrightarrow>
     errors_is x ErrInterceptor \<Longrightarrow> ran_handler i req h resp (Some x)"
  unfolding ran_handler_def by blast

lemma handleReturnUnary_result:
  assumes "handleReturnUnary i c req h (Some x) w = (Ret (resp, err), w')"
    and "errors_is x ErrInterceptor"
  shows "ran_handler i req h resp err \<or> blocked_call i resp err"
  using assms
  by (auto simp: handleReturnUnary_def log_fail_open_def call_handler_Ret blocked_call_def
      dest: ran_handler_same split: if_splits)

lemma handleReturnWithResponse_result:
  assumes "handleReturnWithResponse i resp0 (Some x) w = (Ret (resp, err), w')"
  shows "resp = resp0 \<and> (err = None \<and> \<not> ShouldFailClose (it_logMode i) \<or>
                          err = Some x \<and> ShouldFailClose (it_logMode i))"
  using assms by (auto simp: handleReturnWithResponse_def log_fail_open_def split: if_splits)

text \<open>
  What logging the response can return: the response, and an error of the interceptor in
  fail-close mode, or no error; no error in that mode means that the client's \<open>Log\<close> returned nil.
\<close>

lemma log_response_result:
  assumes "log_response i c r resp0 q w = (Ret (resp, err), w')"
  shows "resp = resp0" (is ?same)
    and "err \<noteq> None \<Longrightarrow> ShouldFailClose (it_logMode i) \<and> (\<exists>x. err = Some x \<and> errors_is x ErrInterceptor)"
      (is "_ \<Longrightarrow> ?closed")
    and "err = None \<Longrightarrow> ShouldFailClose (it_logMode i) \<Longrightarrow>
      \<exists>q' r' w1. (if shouldLogResp r then setResp q resp0 else go_return (None, q)) w = (Ret (None, q'), w1) \<and>
        Log (it_Client i) (with_log_req q' c) (Some q') w1 = (Ret (None, r'), w')"
      (is "_ \<Longrightarrow> _ \<Longrightarrow> ?logged")
proof -
  from assms obtain e1 q' w1 where
    s: "(if shouldLogResp r then setResp q resp0 else go_return (None, q)) w = (Ret (e1, q'), w1)"
    and rest: "(case e1 of
           Some e \<Rightarrow> handleReturnWithResponse i resp0 (Some (InterceptorError (StatusError code_Internal
             (''failed to convert resp into a Google struct proto: '' @ error_text e))))
         | None \<Rightarrow>
             go_bind (Log (it_Client i) (with_log_req q' c) (Some q')) (\<lambda>(err, _).
               case err of
                 Some e \<Rightarrow> handleReturnWithResponse i resp0 (Some (InterceptorError
                   (StatusError code_Internal (''failed to emit log: '' @ error_text e))))
               | None \<Rightarrow> go_return (resp0, None))) w1 = (Ret (resp, err), w')"
    unfolding log_response_def by (auto elim!: go_bind_RetE simp del: code_defs split: prod.splits)
  show ?same and "err \<noteq> None \<Longrightarrow> ?closed" and "err = None \<Longrightarrow> ShouldFailClose (it_logMode i) \<Longrightarrow> ?logged"
    using rest s
    by (auto elim!: go_bind_RetE split: option.splits dest!: handleReturnWithResponse_result
        simp: errors_is_InterceptorError)
qed

lemma run_unary_result:
  assumes "run_unary env i c r req h q w = (Ret (resp, err), w')"
  shows "ran_handler i req h resp err"
proof -
  from assms obtain resp0 e q' w1 where
    h: "h (with_log_req q c) req w = (Ret (resp0, e, q'), w1)"
    and rest: "(case e of
         Some e \<Rightarrow> go_bind (log_handler_error env i c e q') (\<lambda>_. go_return (resp0, Some e))
       | None \<Rightarrow> log_response i c r resp0 q') w1 = (Ret (resp, err), w')"
    unfolding run_unary_def by (auto elim!: go_bind_RetE)
  show ?thesis
  proof (cases e)
    case None
    with rest have l: "log_response i c r resp0 q' w1 = (Ret (resp, err), w')" by simp
    show ?thesis
    proof (cases err)
      case None
      with log_response_result(1) [OF l] h \<open>e = None\<close> show ?thesis
        by (auto intro: ran_handler_same)
    next
      case (Some x)
      with log_response_result(1,2) [OF l] h \<open>e = None\<close> show ?thesis
        by (auto intro: ran_handler_failed_log)
    qed
  next
    case (Some x)
    with rest h show ?thesis by (auto elim!: go_bind_RetE intro: ran_handler_same)
  qed
qed

subsection \<open>Lemmas: the whole call\<close>

lemma setReq_eq:
  "payload q = Some a \<Longrightarrow> setReq q m =
     (case toProtoStruct m of
        Inl err \<Rightarrow> go_return (Some (InterceptorError (StatusError code_Internal
          (''failed to convert req into a proto struct: '' @ error_text err))), q)
      | Inr ms \<Rightarrow> go_return (None, q\<lparr>payload := Some (a\<lparr>request := ms\<rparr>)\<rparr>))"
  by (cases "toProtoStruct m") (simp_all add: setReq_def)

text \<open>The request the handler finds in its context.\<close>

definition handler_request ::
  "'w interceptor \<Rightarrow> ctx \<Rightarrow> audit_rule \<Rightarrow> string \<Rightarrow> string \<Rightarrow> timestamp \<Rightarrow> string \<Rightarrow> goval \<Rightarrow> log_request" where
  "handler_request i c r svc m ts p req =
     (unary_log_request i c r svc m ts)\<lparr>payload := Some (empty_audit_log\<lparr>
        service_name := svc, method_name := m, authentication := Some \<lparr>principal_email = p\<rparr>,
        request := (if shouldLogReq r then case toProtoStruct req of Inr s \<Rightarrow> s | Inl _ \<Rightarrow> None
                    else None)\<rparr>)\<rparr>"

lemma unary_log_request_payload [simp]:
  "payload (unary_log_request i c r svc m ts) =
     Some (empty_audit_log\<lparr>service_name := svc, method_name := m\<rparr>)"
  by (simp add: unary_log_request_def fillJVSToken_def split: option.splits list.splits)

lemma fillJVSToken_mode [simp]: "mode (fillJVSToken c q) = mode q"
  by (simp add: fillJVSToken_def split: option.splits list.splits)

lemma unary_log_request_mode [simp]: "mode (unary_log_request i c r svc m ts) = it_logMode i"
  by (simp add: unary_log_request_def)

text \<open>The three ways a call is not prepared: the checks the interceptor makes first.\<close>

definition unprepared :: "'w interceptor \<Rightarrow> ctx \<Rightarrow> goval \<Rightarrow> string \<Rightarrow> bool" where
  "unprepared i c req m \<longleftrightarrow>
     (\<exists>r sc. mostRelevantRule m (it_rules i) = Some r \<and> it_sc i = Some sc \<and>
        ((\<exists>e. serviceName m = Inl e) \<or> (\<exists>e. sc c = Inl e) \<or>
         shouldLogReq r \<and> (\<exists>e. toProtoStruct req = Inl e)))"

lemma UnaryInterceptor_prepared:
  assumes "mostRelevantRule m (it_rules i) = Some r" "serviceName m = Inr svc"
    and "it_sc i = Some sc" "sc c = Inr p" "time_Now env w = (Ret ts, w1)"
    and "shouldLogReq r \<Longrightarrow> \<exists>s. toProtoStruct req = Inr s"
  shows "UnaryInterceptor env i c req m h w =
           run_unary env i c r req h (handler_request i c r svc m ts p req) w1"
proof -
  have *: "(if shouldLogReq r then setReq q req else go_return (None, q)) =
      go_return (None, q\<lparr>payload := Some (a\<lparr>request := (if shouldLogReq r
        then case toProtoStruct req of Inr s \<Rightarrow> s | Inl _ \<Rightarrow> None else None)\<rparr>)\<rparr>)"
    if "payload q = Some a" "request a = None" for q a
    using assms(6) that by (auto simp: setReq_eq split: sum.splits)
  show ?thesis
    using assms(1-5)
    by (simp add: UnaryInterceptor_def go_bind_Ret request_principal_def set_principal_def *
        handler_request_def empty_audit_log_def del: code_defs cong del: if_weak_cong)
qed

lemma UnaryInterceptor_result:
  assumes "UnaryInterceptor env i c req m h w = (Ret (resp, err), w')"
  shows "ran_handler i req h resp err \<or> blocked_call i resp err"
proof (cases "mostRelevantRule m (it_rules i)")
  case None
  with assms have "call_handler h c req (w\<lparr>w_diag := w_diag w @
      [\<lparr>d_level = LevelDebug, d_msg = ''no audit rule matching the method name'', d_err = None\<rparr>]\<rparr>) =
      (Ret (resp, err), w')"
    by (simp add: UnaryInterceptor_def)
  then show ?thesis by (auto simp: call_handler_Ret intro: ran_handler_same)
next
  case (Some r)
  have ic: "errors_is (InterceptorError e) ErrInterceptor" for e
    by (rule errors_is_InterceptorError)
  show ?thesis
    using assms Some unfolding UnaryInterceptor_def Let_def
    by (auto elim!: go_bind_RetE split: sum.splits option.splits simp del: code_defs
        dest!: handleReturnUnary_result [OF _ ic] run_unary_result)
qed

lemma UnaryInterceptor_unprepared:
  assumes "unprepared i c req m" "ShouldFailClose (it_logMode i)" "\<And>v. \<exists>ts v'. time_Now env v = (Ret ts, v')"
  shows "\<exists>e w'. errors_is e ErrInterceptor \<and>
     (\<forall>h. UnaryInterceptor env i c req m h w = (Ret (GoNil, Some e), w'))"
proof -
  from assms(1) obtain r sc where r: "mostRelevantRule m (it_rules i) = Some r"
    and sc: "it_sc i = Some sc"
    and bad: "(\<exists>e. serviceName m = Inl e) \<or> (\<exists>e. sc c = Inl e) \<or>
              shouldLogReq r \<and> (\<exists>e. toProtoStruct req = Inl e)"
    by (auto simp: unprepared_def)
  from assms(3) obtain ts v where ts: "time_Now env w = (Ret ts, v)" by blast
  have hr: "handleReturnUnary i c req h (Some e) = go_return (GoNil, Some e)" for h e
    using assms(2) by (simp add: handleReturnUnary_def)
  note ic = errors_is_InterceptorError
  show ?thesis
  proof (cases "serviceName m")
    case (Inl e)
    with r ic show ?thesis by (simp add: UnaryInterceptor_def hr del: code_defs)
  next
    case svc: (Inr svc)
    show ?thesis
    proof (cases "sc c")
      case (Inl e)
      with r sc svc ts ic show ?thesis
        by (simp add: UnaryInterceptor_def hr go_bind_Ret request_principal_def del: code_defs)
    next
      case (Inr p)
      with bad svc obtain e where lr: "shouldLogReq r" and "toProtoStruct req = Inl e" by auto
      with Inr r sc svc ts ic show ?thesis
        by (simp add: UnaryInterceptor_def hr go_bind_Ret request_principal_def set_principal_def
            setReq_def del: code_defs)
    qed
  qed
qed

lemma handleReturnUnary_error:
  "ShouldFailClose (it_logMode i) \<Longrightarrow>
     handleReturnUnary i c req h (Some x) w \<noteq> (Ret (resp, None), w')"
  by (simp add: handleReturnUnary_def)

text \<open>In fail-close mode no call that matches a rule succeeds unless its request was logged.\<close>

lemma UnaryInterceptor_success_logged:
  assumes "UnaryInterceptor env i c req m h w = (Ret (resp, None), w')"
    and "ShouldFailClose (it_logMode i)" "mostRelevantRule m (it_rules i) = Some r"
  shows "\<exists>q0 q1 q r' w1 w2 w3. h (with_log_req q0 c) req w1 = (Ret (resp, None, q1), w2) \<and>
     (if shouldLogResp r then setResp q1 resp else go_return (None, q1)) w2 = (Ret (None, q), w3) \<and>
     Log (it_Client i) (with_log_req q c) (Some q) w3 = (Ret (None, r'), w')"
proof -
  from assms obtain q0 w1 where run: "run_unary env i c r req h q0 w1 = (Ret (resp, None), w')"
    unfolding UnaryInterceptor_def Let_def
    by (auto elim!: go_bind_RetE split: sum.splits option.splits simp del: code_defs
        simp: handleReturnUnary_error)
  then obtain resp0 q1 w2 where h: "h (with_log_req q0 c) req w1 = (Ret (resp0, None, q1), w2)"
    and l: "log_response i c r resp0 q1 w2 = (Ret (resp, None), w')"
    unfolding run_unary_def by (auto elim!: go_bind_RetE split: option.splits)
  from log_response_result(1) [OF l] log_response_result(3) [OF l refl assms(2)] h show ?thesis
    by blast
qed

lemma run_unary_handler_error:
  assumes "h (with_log_req q c) req w = (Ret (resp, Some e, q1), w1)"
    and "run_unary env i c r req h q w = (Ret res, w')"
  shows "res = (resp, Some e) \<and> (\<exists>q2 w2 r' e'. setErrorStatus env e q1 w1 = (Ret q2, w1) \<and>
     Log (it_Client i) (with_log_req q2 c) (Some q2) w1 = (Ret (e', r'), w2))"
  using assms
  by (auto simp: run_unary_def go_bind_Ret log_handler_error_def setErrorStatus_def Let_def
      elim!: go_bind_RetE split: option.splits)

text \<open>The handler's request lacks only a resource name and a well-formed principal.\<close>

definition set_resource :: "string \<Rightarrow> log_request \<Rightarrow> log_request" where
  "set_resource n q = q\<lparr>payload := map_option (\<lambda>a. a\<lparr>resource_name := n\<rparr>) (payload q)\<rparr>"

lemma mostRelevantRule_method:
  "serviceName m = Inr svc \<Longrightarrow> svc \<noteq> [] \<and> m \<noteq> []"
  by (auto simp: serviceName_Inr serviceName_group_def)

lemma handler_request_valid:
  assumes "serviceName m = Inr svc"
  shows "valid_request (set_resource n (handler_request i c r svc m ts p req)) \<longleftrightarrow>
           n \<noteq> [] \<and> valid_email p"
  using mostRelevantRule_method [OF assms]
  by (simp add: valid_request_def valid_audit_log_def valid_identity_def audit_identity_def
      set_resource_def handler_request_def)

end
