(* ===== verification/Stream.thy ===== *)
theory Stream
  imports Interceptor
begin

section \<open>The stream interceptor: clients/go/pkg/audit/interceptor.go\<close>

text \<open>
  The gRPC interceptor for streams and \<open>serverStreamWrapper\<close>, the server stream it hands to the
  handler.  The wrapper keeps the last request received, to log it with the next response.  The
  handler is a tree of interactions with its stream, which may be infinite: a handler that
  receives until the stream ends is one, and a handler that never returns is one.  A message is a
  value: the handler gives \<open>RecvMsg\<close> a fresh message each time, as generated code does, so the
  request kept in the wrapper does not change after it was received.
\<close>

text \<open>
  A \<open>grpc.ServerStream\<close>: its context, and \<open>RecvMsg\<close> (which fills the message it is given, here
  the message it returns) and \<open>SendMsg\<close>.
\<close>

record 'w server_stream =
  ss_Context :: ctx
  ss_RecvMsg :: "('w, gerror + goval) go"
  ss_SendMsg :: "goval \<Rightarrow> ('w, gerror option) go"

record 'w wrapper =
  sw_c :: "'w client option"
  baselineLogReq :: log_request
  sw_rule :: audit_rule
  lastReq :: "goval option"
  ServerStream :: "'w server_stream"

text \<open>
  A stream handler, after it got its service argument: it receives, sends, reads the context of
  its stream (and writes the log request found there), changes the world, panics or returns.
  The argument is the service, or what \<open>handleReturnStream\<close> passes, the context.
\<close>

datatype srv_arg = SrvImpl | SrvContext ctx

codatatype 'w stream_handler =
    HReturn "gerror option"
  | HPanic string
  | HRecv "gerror + goval \<Rightarrow> 'w stream_handler"
  | HSend goval "gerror option \<Rightarrow> 'w stream_handler"
  | HContext "log_request \<Rightarrow> log_request" "ctx \<Rightarrow> 'w stream_handler"
  | HDo "'w world \<Rightarrow> 'w world" "'w world \<Rightarrow> 'w stream_handler"

subsection \<open>serverStreamWrapper\<close>

definition swapLastReq :: "goval option \<Rightarrow> 'w wrapper \<Rightarrow> goval option \<times> 'w wrapper" where
  "swapLastReq m ss = (lastReq ss, ss\<lparr>lastReq := m\<rparr>)"

definition popLastReq :: "'w wrapper \<Rightarrow> goval option \<times> 'w wrapper" where
  "popLastReq ss = (lastReq ss, ss\<lparr>lastReq := None\<rparr>)"

definition wrapper_Context :: "'w wrapper \<Rightarrow> ctx" where
  "wrapper_Context ss = with_log_req (baselineLogReq ss) (ss_Context (ServerStream ss))"

definition emit_log :: "'w wrapper \<Rightarrow> log_request \<Rightarrow> ('w, gerror option) go" where
  "emit_log ss logReq =
     go_bind (Log (sw_c ss) (ss_Context (ServerStream ss)) (Some logReq)) (\<lambda>(err, _).
       case err of
         Some e \<Rightarrow> go_return (Some (InterceptorError (StatusError code_Internal
           (''failed to emit log: '' @ error_text e))))
       | None \<Rightarrow> go_return None)"

definition RecvMsg :: "'w grpc_env \<Rightarrow> 'w wrapper \<Rightarrow> ('w, (gerror + goval) \<times> 'w wrapper) go" where
  "RecvMsg env ss =
     (case proto_Clone env (baselineLogReq ss) of
        None \<Rightarrow> go_return (Inl (errorf ''expected *api.AuditLogRequest''), ss)
      | Some logReq \<Rightarrow>
          go_bind (ss_RecvMsg (ServerStream ss)) (\<lambda>received.
            case received of
              Inl err \<Rightarrow> go_return
                (Inl (wrapf ''failed to receive message from server stream'' err), ss)
            | Inr m \<Rightarrow>
                let (lr, ss') = swapLastReq (Some m) ss in
                (case lr of
                   None \<Rightarrow> go_return (Inr m, ss')
                 | Some l \<Rightarrow>
                     if shouldLogReq (sw_rule ss')
                     then go_bind (setReq logReq l) (\<lambda>(err, logReq').
                       case err of
                         Some e \<Rightarrow> go_return (Inl e, ss')
                       | None \<Rightarrow> go_bind (emit_log ss' logReq') (\<lambda>err.
                           case err of
                             Some e \<Rightarrow> go_return (Inl e, ss')
                           | None \<Rightarrow> go_return (Inr m, ss')))
                     else go_return (Inr m, ss'))))"

definition SendMsg ::
  "'w grpc_env \<Rightarrow> goval \<Rightarrow> 'w wrapper \<Rightarrow> ('w, gerror option \<times> 'w wrapper) go" where
  "SendMsg env m ss =
     (case proto_Clone env (baselineLogReq ss) of
        None \<Rightarrow> go_return (Some (errorf ''expected *api.AuditLogRequest''), ss)
      | Some logReq \<Rightarrow>
          let (lr, ss') = popLastReq ss in
          go_bind (case lr of
                     None \<Rightarrow> go_return (None, logReq)
                   | Some l \<Rightarrow> if shouldLogReq (sw_rule ss') then setReq logReq l
                               else go_return (None, logReq)) (\<lambda>(err, logReq1).
            case err of
              Some e \<Rightarrow> go_return (Some (wrapf ''failed to set request'' e), ss')
            | None \<Rightarrow>
                go_bind (if shouldLogResp (sw_rule ss') then setResp logReq1 m
                         else go_return (None, logReq1)) (\<lambda>(err, logReq2).
                  case err of
                    Some e \<Rightarrow> go_return (Some (wrapf ''failed to set response'' e), ss')
                  | None \<Rightarrow>
                      go_bind (emit_log ss' logReq2) (\<lambda>err.
                        case err of
                          Some e \<Rightarrow> go_return (Some e, ss')
                        | None \<Rightarrow>
                            go_bind (ss_SendMsg (ServerStream ss') m) (\<lambda>err.
                              case err of
                                Some e \<Rightarrow> go_return
                                  (Some (wrapf ''failed to send message to server stream'' e), ss')
                              | None \<Rightarrow> go_return (None, ss'))))))"

subsection \<open>Running a handler\<close>

text \<open>On the stream itself, and on the wrapper; no result when the handler does not return.\<close>

partial_function (option) run_plain ::
  "'w stream_handler \<Rightarrow> 'w server_stream \<Rightarrow> 'w world \<Rightarrow> (gerror option ret \<times> 'w world) option" where
  "run_plain h ss w =
     (case h of
        HReturn e \<Rightarrow> Some (Ret e, w)
      | HPanic s \<Rightarrow> Some (Panic s, w)
      | HRecv k \<Rightarrow>
          (case ss_RecvMsg ss w of
             (Panic s, w1) \<Rightarrow> Some (Panic s, w1)
           | (Ret r, w1) \<Rightarrow> run_plain (k r) ss w1)
      | HSend m k \<Rightarrow>
          (case ss_SendMsg ss m w of
             (Panic s, w1) \<Rightarrow> Some (Panic s, w1)
           | (Ret e, w1) \<Rightarrow> run_plain (k e) ss w1)
      | HContext f k \<Rightarrow> run_plain (k (ss_Context ss)) ss w
      | HDo f k \<Rightarrow> run_plain (k w) ss (f w))"

partial_function (option) run_wrapped ::
  "'w stream_handler \<Rightarrow> 'w grpc_env \<Rightarrow> 'w wrapper \<Rightarrow> 'w world \<Rightarrow>
     ((gerror option \<times> 'w wrapper) ret \<times> 'w world) option" where
  "run_wrapped h env ss w =
     (case h of
        HReturn e \<Rightarrow> Some (Ret (e, ss), w)
      | HPanic s \<Rightarrow> Some (Panic s, w)
      | HRecv k \<Rightarrow>
          (case RecvMsg env ss w of
             (Panic s, w1) \<Rightarrow> Some (Panic s, w1)
           | (Ret r, w1) \<Rightarrow> run_wrapped (k (fst r)) env (snd r) w1)
      | HSend m k \<Rightarrow>
          (case SendMsg env m ss w of
             (Panic s, w1) \<Rightarrow> Some (Panic s, w1)
           | (Ret r, w1) \<Rightarrow> run_wrapped (k (fst r)) env (snd r) w1)
      | HContext f k \<Rightarrow>
          run_wrapped (k (wrapper_Context ss)) env (ss\<lparr>baselineLogReq := f (baselineLogReq ss)\<rparr>) w
      | HDo f k \<Rightarrow> run_wrapped (k w) env ss (f w))"

lemma run_plain_simps:
  "run_plain (HReturn e) ss w = Some (Ret e, w)"
  "run_plain (HPanic s) ss w = Some (Panic s, w)"
  "run_plain (HContext f k) ss w = run_plain (k (ss_Context ss)) ss w"
  "run_plain (HDo g k') ss w = run_plain (k' w) ss (g w)"
  "run_plain (HRecv kr) ss w = dv_bind (dv_of (ss_RecvMsg ss)) (\<lambda>r. run_plain (kr r) ss) w"
  "run_plain (HSend m ks) ss w = dv_bind (dv_of (ss_SendMsg ss m)) (\<lambda>e. run_plain (ks e) ss) w"
  by (subst run_plain.simps, simp add: dv_bind_def)+

lemma run_wrapped_simps:
  "run_wrapped (HReturn e) env ss w = Some (Ret (e, ss), w)"
  "run_wrapped (HPanic s) env ss w = Some (Panic s, w)"
  "run_wrapped (HContext f k) env ss w =
     run_wrapped (k (wrapper_Context ss)) env (ss\<lparr>baselineLogReq := f (baselineLogReq ss)\<rparr>) w"
  "run_wrapped (HDo g k') env ss w = run_wrapped (k' w) env ss (g w)"
  "run_wrapped (HRecv kr) env ss w =
     dv_bind (dv_of (RecvMsg env ss)) (\<lambda>(r, ss'). run_wrapped (kr r) env ss') w"
  "run_wrapped (HSend m ks) env ss w =
     dv_bind (dv_of (SendMsg env m ss)) (\<lambda>(e, ss'). run_wrapped (ks e) env ss') w"
  by (subst run_wrapped.simps, simp add: dv_bind_def split: prod.splits ret.splits)+

subsection \<open>StreamInterceptor\<close>

text \<open>\<open>handleReturnStream\<close> calls the handler with the context in the place of the service.\<close>

definition handleReturnStream ::
  "'w interceptor \<Rightarrow> ctx \<Rightarrow> 'w server_stream \<Rightarrow> (srv_arg \<Rightarrow> 'w stream_handler) \<Rightarrow>
     gerror option \<Rightarrow> ('w, gerror option) may_diverge" where
  "handleReturnStream i c ss handler err =
     (if ShouldFailClose (it_logMode i) \<and> err \<noteq> None then dv_of (go_return err)
      else dv_bind (dv_of (log_fail_open err)) (\<lambda>_. run_plain (handler (SrvContext c)) ss))"

definition stream_log_request ::
  "ctx \<Rightarrow> audit_rule \<Rightarrow> string \<Rightarrow> string \<Rightarrow> string \<Rightarrow> timestamp \<Rightarrow> log_request" where
  "stream_log_request c r svc method uuid ts =
     (fillJVSToken c (empty_log_request\<lparr>
        payload := Some (empty_audit_log\<lparr>service_name := svc, method_name := method\<rparr>),
        operation := Some \<lparr>op_producer = method, op_id = uuid\<rparr>,
        req_timestamp := Some ts\<rparr>))\<lparr>req_type := rule_log_type r\<rparr>"

definition run_stream ::
  "'w grpc_env \<Rightarrow> 'w interceptor \<Rightarrow> ctx \<Rightarrow> 'w stream_handler \<Rightarrow> 'w wrapper \<Rightarrow>
     ('w, gerror option) may_diverge" where
  "run_stream env i c handler ss =
     dv_bind (run_wrapped handler env ss) (\<lambda>(handlerErr, ss').
       case handlerErr of
         None \<Rightarrow> dv_of (go_return None)
       | Some e \<Rightarrow> dv_of (
           go_bind (setErrorStatus env e (baselineLogReq ss')) (\<lambda>logReq.
           go_bind (Log (it_Client i) c (Some logReq)) (\<lambda>(err, _).
           go_bind (case err of
                      Some x \<Rightarrow> go_log LevelError ''unable to audit log error'' (Some x)
                    | None \<Rightarrow> go_return ())
             (\<lambda>_. go_return (Some e))))))"

definition StreamInterceptor ::
  "'w grpc_env \<Rightarrow> 'w interceptor \<Rightarrow> 'w server_stream \<Rightarrow> string \<Rightarrow> (srv_arg \<Rightarrow> 'w stream_handler) \<Rightarrow>
     ('w, gerror option) may_diverge" where
  "StreamInterceptor env i ss FullMethod handler =
     (let c = ss_Context ss in
      case mostRelevantRule FullMethod (it_rules i) of
        None \<Rightarrow> dv_bind (dv_of (go_log LevelDebug ''no audit rule matching the method name'' None))
                  (\<lambda>_. run_plain (handler SrvImpl) ss)
      | Some r \<Rightarrow>
          (case serviceName FullMethod of
             Inl err \<Rightarrow> handleReturnStream i c ss handler
               (Some (InterceptorError (StatusError code_FailedPrecondition (error_text err))))
           | Inr svc \<Rightarrow>
               dv_bind (dv_of (uuid_New env)) (\<lambda>uuid.
               dv_bind (dv_of (time_Now env)) (\<lambda>ts.
               let logReq = stream_log_request c r svc FullMethod uuid ts in
               dv_bind (dv_of (request_principal i c)) (\<lambda>pr.
                 case pr of
                   Inl err \<Rightarrow>
                     dv_bind (dv_of (go_log LevelError ''audit interceptor failed to get request principal''
                       (Some err))) (\<lambda>_. handleReturnStream i c ss handler
                         (Some (StatusError code_FailedPrecondition
                           ''audit interceptor failed to get request principal'')))
                 | Inr prin \<Rightarrow>
                     dv_bind (dv_of (set_principal prin logReq)) (\<lambda>logReq1.
                     run_stream env i c (handler SrvImpl)
                       \<lparr>sw_c = it_Client i, baselineLogReq = logReq1, sw_rule = r,
                        lastReq = None, ServerStream = ss\<rparr>))))))"

end
