(* ===== verification/Stream_Log.thy ===== *)
theory Stream_Log
  imports Stream
begin

section \<open>What a stream logs\<close>

text \<open>
  The abstract specification of the stream wrapper.  A run is a list of events; each submits the
  log requests \<open>stream_entries\<close> lists: a request that the next one supersedes is logged alone, a
  response is logged with the request before it if there is one.  An operation that fails before
  anything is logged only sets the pending request.  The refinement lemmas show that the wrapper's
  operations, and every handler that returns, give the client exactly these.
\<close>

datatype event =
    Received goval
  | Sent goval
  | Wrote "log_request \<Rightarrow> log_request"
  | Failed "goval option"

subsection \<open>The specification\<close>

type_synonym entry = "log_request \<times> goval option \<times> goval option"

fun stream_entries :: "audit_rule \<Rightarrow> log_request \<Rightarrow> goval option \<Rightarrow> event list \<Rightarrow> entry list" where
  "stream_entries r base pending [] = []"
| "stream_entries r base pending (Received m # es) =
     (if pending \<noteq> None \<and> shouldLogReq r then [(base, pending, None)] else []) @
     stream_entries r base (Some m) es"
| "stream_entries r base pending (Sent m # es) =
     (base, if shouldLogReq r then pending else None, if shouldLogResp r then Some m else None) #
     stream_entries r base None es"
| "stream_entries r base pending (Wrote f # es) = stream_entries r (f base) pending es"
| "stream_entries r base pending (Failed p # es) = stream_entries r base p es"

fun stream_pending :: "goval option \<Rightarrow> event list \<Rightarrow> goval option" where
  "stream_pending pending [] = pending"
| "stream_pending pending (Received m # es) = stream_pending (Some m) es"
| "stream_pending pending (Sent m # es) = stream_pending None es"
| "stream_pending pending (Wrote f # es) = stream_pending pending es"
| "stream_pending pending (Failed p # es) = stream_pending p es"

text \<open>The baseline request after the handler's writes.\<close>

fun written :: "log_request \<Rightarrow> event list \<Rightarrow> log_request" where
  "written base [] = base"
| "written base (Wrote f # es) = written (f base) es"
| "written base (_ # es) = written base es"

definition no_failure :: "event list \<Rightarrow> bool" where
  "no_failure es \<longleftrightarrow> (\<forall>p. Failed p \<notin> set es)"

lemma no_failure_Cons [simp]:
  "no_failure []" "no_failure (Received m # es) = no_failure es"
  "no_failure (Sent m # es) = no_failure es" "no_failure (Wrote f # es) = no_failure es"
  "no_failure (Failed p # es) = False"
  by (auto simp: no_failure_def)

lemma stream_append:
  "stream_entries r base p (es @ fs) =
     stream_entries r base p es @ stream_entries r (written base es) (stream_pending p es) fs"
  "stream_pending p (es @ fs) = stream_pending (stream_pending p es) fs"
  "written base (es @ fs) = written (written base es) fs"
  by (induction r base p es rule: stream_entries.induct) auto

fun received :: "event list \<Rightarrow> goval list" where
  "received [] = []"
| "received (Received m # es) = m # received es"
| "received (_ # es) = received es"

fun sent :: "event list \<Rightarrow> goval list" where
  "sent [] = []"
| "sent (Sent m # es) = m # sent es"
| "sent (_ # es) = sent es"

text \<open>The log request of an entry.\<close>

definition converted :: "goval \<Rightarrow> pstruct option" where
  "converted m = (case toProtoStruct m of Inr s \<Rightarrow> s | Inl _ \<Rightarrow> None)"

definition put_request :: "goval option \<Rightarrow> audit_log \<Rightarrow> audit_log" where
  "put_request lr a = (case lr of Some m \<Rightarrow> a\<lparr>request := converted m\<rparr> | None \<Rightarrow> a)"

definition put_response :: "goval option \<Rightarrow> audit_log \<Rightarrow> audit_log" where
  "put_response rs a = (case rs of Some m \<Rightarrow> a\<lparr>response := converted m\<rparr> | None \<Rightarrow> a)"

definition entry_request :: "entry \<Rightarrow> log_request" where
  "entry_request e = (case e of (base, lr, rs) \<Rightarrow>
     base\<lparr>payload := map_option (put_response rs \<circ> put_request lr) (payload base)\<rparr>)"

definition optional :: "'a option \<Rightarrow> 'a list" where
  "optional x = (case x of None \<Rightarrow> [] | Some a \<Rightarrow> [a])"

lemma optional_simps [simp]: "optional None = []" "optional (Some a) = [a]"
  by (simp_all add: optional_def)

text \<open>
  No request is lost or logged twice: the requests logged, and the one still pending, are those
  received, in order.
\<close>

lemma stream_entries_requests:
  "shouldLogReq r \<Longrightarrow> no_failure es \<Longrightarrow>
     concat (map (\<lambda>(_, lr, _). optional lr) (stream_entries r base pending es)) @
       optional (stream_pending pending es) = optional pending @ received es"
  by (induction r base pending es rule: stream_entries.induct)
    (auto simp: optional_def split: option.splits)

lemma stream_entries_responses:
  "shouldLogResp r \<Longrightarrow>
     concat (map (\<lambda>(_, _, rs). optional rs) (stream_entries r base pending es)) = sent es"
  by (induction r base pending es rule: stream_entries.induct) auto

subsection \<open>The step relation of the wrapper\<close>

inductive stream_step ::
  "'w grpc_env \<Rightarrow> 'w wrapper \<times> 'w world \<Rightarrow> event \<Rightarrow> 'w wrapper \<times> 'w world \<Rightarrow> bool"
  for env where
  receives: "RecvMsg env ss w = (Ret (Inr m, ss'), w') \<Longrightarrow>
           stream_step env (ss, w) (Received m) (ss', w')"
| sends: "SendMsg env m ss w = (Ret (None, ss'), w') \<Longrightarrow>
           stream_step env (ss, w) (Sent m) (ss', w')"
| wrote: "stream_step env (ss, w) (Wrote f)
           (ss\<lparr>baselineLogReq := f (baselineLogReq ss)\<rparr>, w)"

inductive_cases stream_stepE: "stream_step env s e s'"

inductive stream_steps ::
  "'w grpc_env \<Rightarrow> 'w wrapper \<times> 'w world \<Rightarrow> event list \<Rightarrow> 'w wrapper \<times> 'w world \<Rightarrow> bool"
  for env where
  none: "stream_steps env s [] s"
| more: "stream_step env s e s1 \<Longrightarrow> stream_steps env s1 es s2 \<Longrightarrow> stream_steps env s (e # es) s2"

inductive_cases stream_steps_ConsE: "stream_steps env s (e # es) s'"

subsection \<open>The client as an observer\<close>

text \<open>
  A client that takes every request and appends it, changed by \<open>g\<close>, to what \<open>obs\<close> sees of the
  world, while the stream's own operations leave that alone.
\<close>

definition delivers ::
  "('w \<Rightarrow> log_request list) \<Rightarrow> (log_request \<Rightarrow> log_request) \<Rightarrow> 'w client \<Rightarrow> bool" where
  "delivers obs g cl \<longleftrightarrow>
     (\<forall>c q w. \<exists>r' w'. Log (Some cl) c (Some q) w = (Ret (None, r'), w') \<and>
        obs (w_ext w') = obs (w_ext w) @ [g q])"

definition stream_unobserved :: "('w \<Rightarrow> log_request list) \<Rightarrow> 'w server_stream \<Rightarrow> bool" where
  "stream_unobserved obs st \<longleftrightarrow>
     (\<forall>w. obs (w_ext (snd (ss_RecvMsg st w))) = obs (w_ext w)) \<and>
     (\<forall>m w. obs (w_ext (snd (ss_SendMsg st m w))) = obs (w_ext w))"

definition clones :: "'w grpc_env \<Rightarrow> bool" where
  "clones env \<longleftrightarrow> (\<forall>q. proto_Clone env q = Some q)"

lemma emit_log_delivers:
  assumes "delivers obs g cl" "sw_c ss = Some cl" "emit_log ss q w = (Ret e, w')"
  shows "e = None \<and> obs (w_ext w') = obs (w_ext w) @ [g q]"
proof -
  from assms(1) obtain r' v where
    "Log (Some cl) (ss_Context (ServerStream ss)) (Some q) w = (Ret (None, r'), v)"
    "obs (w_ext v) = obs (w_ext w) @ [g q]" unfolding delivers_def by blast
  with assms(2,3) show ?thesis by (simp add: emit_log_def go_bind_Ret)
qed

lemma setReq_ok:
  "setReq q m w = (Ret (None, q'), w') \<Longrightarrow> w' = w \<and>
     q' = q\<lparr>payload := map_option (put_request (Some m)) (payload q)\<rparr>"
  by (auto simp: setReq_def put_request_def converted_def split: sum.splits option.splits)

lemma setResp_ok:
  "setResp q m w = (Ret (None, q'), w') \<Longrightarrow> w' = w \<and>
     q' = q\<lparr>payload := map_option (put_response (Some m)) (payload q)\<rparr>"
  by (auto simp: setResp_def put_response_def converted_def split: sum.splits option.splits)

lemma put_None [simp]: "put_request None = id" "put_response None = id"
  by (rule ext, simp add: put_request_def put_response_def)+

lemma payload_same: "q\<lparr>payload := payload q\<rparr> = q"
  by simp

lemma entry_request_simps:
  "entry_request (q, None, None) = q"
  "entry_request (q, lr, None) = q\<lparr>payload := map_option (put_request lr) (payload q)\<rparr>"
  "entry_request (q, None, rs) = q\<lparr>payload := map_option (put_response rs) (payload q)\<rparr>"
  by (simp_all add: entry_request_def option.map_id payload_same)

subsection \<open>Refinement\<close>

text \<open>What an operation leaves as it was.\<close>

definition same_stream :: "'w wrapper \<Rightarrow> 'w wrapper \<Rightarrow> bool" where
  "same_stream a b \<longleftrightarrow> sw_c b = sw_c a \<and> sw_rule b = sw_rule a \<and>
     ServerStream b = ServerStream a \<and> baselineLogReq b = baselineLogReq a"

lemma RecvMsg_refines:
  assumes "delivers obs g cl" "stream_unobserved obs (ServerStream ss)" "clones env"
    and "sw_c ss = Some cl" "RecvMsg env ss w = (Ret (Inr m, ss'), w')"
  shows "same_stream ss ss' \<and> lastReq ss' = Some m \<and>
     obs (w_ext w') = obs (w_ext w) @
       map (g \<circ> entry_request) (stream_entries (sw_rule ss) (baselineLogReq ss) (lastReq ss) [Received m])"
proof -
  from assms(3,5) obtain w1 where rc: "ss_RecvMsg (ServerStream ss) w = (Ret (Inr m), w1)"
    and s': "ss' = ss\<lparr>lastReq := Some m\<rparr>"
    and rest: "lastReq ss = None \<and> w' = w1 \<or> \<not> shouldLogReq (sw_rule ss) \<and> w' = w1 \<or>
      shouldLogReq (sw_rule ss) \<and> (\<exists>l q w2. lastReq ss = Some l \<and>
        setReq (baselineLogReq ss) l w1 = (Ret (None, q), w2) \<and> emit_log ss' q w2 = (Ret None, w'))"
    by (auto simp: RecvMsg_def clones_def swapLastReq_def Let_def elim!: go_bind_RetE
        split: sum.splits option.splits if_splits)
  from assms(2) have "obs (w_ext (snd (ss_RecvMsg (ServerStream ss) w))) = obs (w_ext w)"
    unfolding stream_unobserved_def by blast
  with rc have o1: "obs (w_ext w1) = obs (w_ext w)" by simp
  have c: "sw_c (ss\<lparr>lastReq := Some m\<rparr>) = Some cl" using assms(4) by simp
  from rest o1 s' show ?thesis
    by (auto simp: same_stream_def entry_request_simps dest!: setReq_ok
        emit_log_delivers [OF assms(1) c])
qed

lemma SendMsg_refines:
  assumes "delivers obs g cl" "stream_unobserved obs (ServerStream ss)" "clones env"
    and "sw_c ss = Some cl" "SendMsg env m ss w = (Ret (None, ss'), w')"
  shows "same_stream ss ss' \<and> lastReq ss' = None \<and>
     obs (w_ext w') = obs (w_ext w) @
       map (g \<circ> entry_request) (stream_entries (sw_rule ss) (baselineLogReq ss) (lastReq ss) [Sent m])"
proof -
  let ?lr = "if shouldLogReq (sw_rule ss) then lastReq ss else None"
  let ?rs = "if shouldLogResp (sw_rule ss) then Some m else None"
  from assms(3,5) obtain q1 w1 q2 w2 w3 where s': "ss' = ss\<lparr>lastReq := None\<rparr>"
    and q1: "(case lastReq ss of None \<Rightarrow> go_return (None, baselineLogReq ss)
               | Some l \<Rightarrow> if shouldLogReq (sw_rule ss) then setReq (baselineLogReq ss) l
                           else go_return (None, baselineLogReq ss)) w = (Ret (None, q1), w1)"
    and q2: "(if shouldLogResp (sw_rule ss) then setResp q1 m else go_return (None, q1)) w1 =
               (Ret (None, q2), w2)"
    and em: "emit_log (ss\<lparr>lastReq := None\<rparr>) q2 w2 = (Ret None, w3)"
    and sd: "ss_SendMsg (ServerStream ss) m w3 = (Ret None, w')"
    by (auto simp: SendMsg_def clones_def popLastReq_def Let_def elim!: go_bind_RetE
        split: option.splits)
  have c: "sw_c (ss\<lparr>lastReq := None\<rparr>) = Some cl" using assms(4) by simp
  from assms(2) have "obs (w_ext (snd (ss_SendMsg (ServerStream ss) m w3))) = obs (w_ext w3)"
    unfolding stream_unobserved_def by blast
  with sd have o3: "obs (w_ext w') = obs (w_ext w3)" by simp
  from q1 have e1: "w1 = w" "q1 = (baselineLogReq ss)\<lparr>payload :=
      map_option (put_request ?lr) (payload (baselineLogReq ss))\<rparr>"
    by (auto split: option.splits if_splits dest!: setReq_ok simp: option.map_id)
  from q2 have e2: "w2 = w1" "q2 = q1\<lparr>payload := map_option (put_response ?rs) (payload q1)\<rparr>"
    by (auto split: if_splits dest!: setResp_ok simp: option.map_id)
  from emit_log_delivers [OF assms(1) c em] o3 e1 e2 have
    "obs (w_ext w') = obs (w_ext w) @ [g (entry_request (baselineLogReq ss, ?lr, ?rs))]"
    by (simp add: entry_request_def option.map_comp)
  with s' show ?thesis by (simp add: same_stream_def)
qed

lemma stream_steps_refine:
  assumes "stream_steps env (ss, w) es (ss', w')"
    and "delivers obs g cl" "stream_unobserved obs (ServerStream ss)" "clones env" "sw_c ss = Some cl"
  shows "lastReq ss' = stream_pending (lastReq ss) es \<and>
     obs (w_ext w') = obs (w_ext w) @
       map (g \<circ> entry_request) (stream_entries (sw_rule ss) (baselineLogReq ss) (lastReq ss) es)"
  using assms(1,3,5)
proof (induction es arbitrary: ss w)
  case Nil
  then show ?case by (auto elim: stream_steps.cases)
next
  case (Cons e es)
  from Cons.prems(1) obtain s1 v where st: "stream_step env (ss, w) e (s1, v)"
    and rest: "stream_steps env (s1, v) es (ss', w')"
    by (auto elim: stream_steps_ConsE)
  show ?case
  proof (cases e)
    case (Received m)
    with st have "RecvMsg env ss w = (Ret (Inr m, s1), v)" by (auto elim: stream_stepE)
    from RecvMsg_refines [OF assms(2) Cons.prems(2) assms(4) Cons.prems(3) this]
      Cons.IH [OF rest] Cons.prems(2,3) Received
    show ?thesis by (auto simp: same_stream_def)
  next
    case (Sent m)
    with st have "SendMsg env m ss w = (Ret (None, s1), v)" by (auto elim: stream_stepE)
    from SendMsg_refines [OF assms(2) Cons.prems(2) assms(4) Cons.prems(3) this]
      Cons.IH [OF rest] Cons.prems(2,3) Sent
    show ?thesis by (auto simp: same_stream_def)
  next
    case (Wrote f)
    with st have "s1 = ss\<lparr>baselineLogReq := f (baselineLogReq ss)\<rparr>" "v = w"
      by (auto elim: stream_stepE)
    with Cons.IH [OF rest] Cons.prems(2,3) Wrote show ?thesis by simp
  next
    case (Failed p)
    with st show ?thesis by (auto elim: stream_stepE)
  qed
qed

lemma stream_steps_no_failure: "stream_steps env s es s' \<Longrightarrow> no_failure es"
  by (induction rule: stream_steps.induct) (auto elim: stream_step.cases)

subsection \<open>Every handler that returns\<close>

text \<open>
  The events of a run of a handler on the wrapper.  A message can be put in the log unless its
  conversion fails; then a send logs nothing and the pending request is dropped.
\<close>

definition loggable :: "'w wrapper \<Rightarrow> goval \<Rightarrow> bool" where
  "loggable ss m \<longleftrightarrow>
     (shouldLogReq (sw_rule ss) \<longrightarrow> (\<forall>l. lastReq ss = Some l \<longrightarrow> (\<exists>s. toProtoStruct l = Inr s))) \<and>
     (shouldLogResp (sw_rule ss) \<longrightarrow> (\<exists>s. toProtoStruct m = Inr s))"

definition send_event :: "'w wrapper \<Rightarrow> goval \<Rightarrow> event" where
  "send_event ss m = (if loggable ss m then Sent m else Failed None)"

definition recv_event :: "gerror + goval \<Rightarrow> 'w wrapper \<Rightarrow> event" where
  "recv_event r ss' = (case r of Inr m \<Rightarrow> Received m | Inl _ \<Rightarrow> Failed (lastReq ss'))"

inductive handler_run ::
  "'w grpc_env \<Rightarrow> 'w stream_handler \<Rightarrow> 'w wrapper \<times> 'w world \<Rightarrow> event list \<Rightarrow>
     gerror option \<times> 'w wrapper \<times> 'w world \<Rightarrow> bool"
  for env where
  returns: "handler_run env (HReturn e) (ss, w) [] (e, ss, w)"
| receives: "RecvMsg env ss w = (Ret (r, ss1), w1) \<Longrightarrow> handler_run env (k r) (ss1, w1) es res \<Longrightarrow>
           handler_run env (HRecv k) (ss, w) (recv_event r ss1 # es) res"
| sends: "SendMsg env m ss w = (Ret (e, ss1), w1) \<Longrightarrow> handler_run env (k e) (ss1, w1) es res \<Longrightarrow>
           handler_run env (HSend m k) (ss, w) (send_event ss m # es) res"
| writes: "handler_run env (k (wrapper_Context ss)) (ss\<lparr>baselineLogReq := f (baselineLogReq ss)\<rparr>, w) es res \<Longrightarrow>
           handler_run env (HContext f k) (ss, w) (Wrote f # es) res"
| acts: "handler_run env (k w) (ss, f w) es res \<Longrightarrow> handler_run env (HDo f k) (ss, w) es res"

lemma run_wrapped_handler_run:
  assumes "run_wrapped h env ss w = Some res" "res = (Ret (e, ss'), w')"
  shows "\<exists>es. handler_run env h (ss, w) es (e, ss', w')"
  using assms
proof (induction rule: run_wrapped.raw_induct [rotated, consumes 1])
  case (1 run h env ss w res)
  show ?case
  proof (cases h)
    case (HRecv k)
    with 1(2,3) obtain r s1 w1 where "RecvMsg env ss w = (Ret (r, s1), w1)"
      "run (k r) env s1 w1 = Some res" by (auto split: prod.splits ret.splits)
    with 1(1) [OF this(2) 1(3)] HRecv show ?thesis by (blast intro: handler_run.receives)
  next
    case (HSend m k)
    with 1(2,3) obtain r s1 w1 where "SendMsg env m ss w = (Ret (r, s1), w1)"
      "run (k r) env s1 w1 = Some res" by (auto split: prod.splits ret.splits)
    with 1(1) [OF this(2) 1(3)] HSend show ?thesis by (blast intro: handler_run.sends)
  next
    case (HContext f k)
    with 1(2) have "run (k (wrapper_Context ss)) env (ss\<lparr>baselineLogReq := f (baselineLogReq ss)\<rparr>) w = Some res"
      by simp
    from 1(1) [OF this 1(3)] HContext show ?thesis by (blast intro: handler_run.writes)
  next
    case (HDo f k)
    with 1(2) have "run (k w) env ss (f w) = Some res" by simp
    from 1(1) [OF this 1(3)] HDo show ?thesis by (blast intro: handler_run.acts)
  qed (use 1(2,3) in \<open>auto intro: handler_run.returns\<close>)
qed

text \<open>The log of each operation, whatever it returns.\<close>

lemma RecvMsg_logs:
  assumes "delivers obs g cl" "stream_unobserved obs (ServerStream ss)" "clones env"
    and "sw_c ss = Some cl" "RecvMsg env ss w = (Ret (r, ss'), w')"
  shows "same_stream ss ss' \<and> lastReq ss' = stream_pending (lastReq ss) [recv_event r ss'] \<and>
     obs (w_ext w') = obs (w_ext w) @ map (g \<circ> entry_request)
       (stream_entries (sw_rule ss) (baselineLogReq ss) (lastReq ss) [recv_event r ss'])"
proof (cases r)
  case (Inr m)
  with assms RecvMsg_refines [of obs g cl ss env w m ss' w'] show ?thesis
    by (simp add: recv_event_def)
next
  case (Inl e)
  have c: "emit_log (ss\<lparr>lastReq := x\<rparr>) q v \<noteq> (Ret (Some e), v')" for x q v e v'
    using emit_log_delivers [OF assms(1), of "ss\<lparr>lastReq := x\<rparr>" q v "Some e" v'] assms(4) by auto
  from assms(2) have "obs (w_ext (snd (ss_RecvMsg (ServerStream ss) w))) = obs (w_ext w)"
    unfolding stream_unobserved_def by blast
  with assms(3,5) Inl have "same_stream ss ss' \<and> obs (w_ext w') = obs (w_ext w)"
    by (auto simp: RecvMsg_def clones_def swapLastReq_def Let_def setReq_def same_stream_def c
        elim!: go_bind_RetE split: sum.splits option.splits if_splits)
  with Inl show ?thesis by (simp add: recv_event_def)
qed

lemma setReq_step:
  assumes "(case lr of None \<Rightarrow> go_return (None, b)
     | Some l \<Rightarrow> if c then setReq b l else go_return (None, b)) w = (Ret (err, q), v)"
  shows "v = w \<and> (err = None \<longleftrightarrow> (c \<longrightarrow> (\<forall>l. lr = Some l \<longrightarrow> (\<exists>s. toProtoStruct l = Inr s)))) \<and>
     (err = None \<longrightarrow> q = b\<lparr>payload := map_option (put_request (if c then lr else None)) (payload b)\<rparr>)"
  using assms
  by (auto simp: setReq_def put_request_def converted_def payload_same option.map_id
      split: option.splits sum.splits if_splits)

lemma setResp_step:
  assumes "(if c then setResp b m else go_return (None, b)) w = (Ret (err, q), v)"
  shows "v = w \<and> (err = None \<longleftrightarrow> (c \<longrightarrow> (\<exists>s. toProtoStruct m = Inr s))) \<and>
     (err = None \<longrightarrow> q = b\<lparr>payload := map_option (put_response (if c then Some m else None)) (payload b)\<rparr>)"
  using assms
  by (auto simp: setResp_def put_response_def converted_def payload_same option.map_id
      split: option.splits sum.splits if_splits)

lemma SendMsg_logs:
  assumes "delivers obs g cl" "stream_unobserved obs (ServerStream ss)" "clones env"
    and "sw_c ss = Some cl" "SendMsg env m ss w = (Ret (e, ss'), w')"
  shows "same_stream ss ss' \<and> lastReq ss' = stream_pending (lastReq ss) [send_event ss m] \<and>
     obs (w_ext w') = obs (w_ext w) @ map (g \<circ> entry_request)
       (stream_entries (sw_rule ss) (baselineLogReq ss) (lastReq ss) [send_event ss m])"
proof -
  have same: "same_stream ss ss'" "lastReq ss' = None"
    using assms(3,5)
    by (auto simp: SendMsg_def clones_def popLastReq_def Let_def same_stream_def
        elim!: go_bind_RetE split: option.splits)
  let ?b = "baselineLogReq ss"
  let ?first = "case lastReq ss of None \<Rightarrow> go_return (None, ?b)
     | Some l \<Rightarrow> if shouldLogReq (sw_rule ss) then setReq ?b l else go_return (None, ?b)"
  let ?second = "\<lambda>q. if shouldLogResp (sw_rule ss) then setResp q m else go_return (None, q)"
  from assms(3,5) consider
      (first) x q1 where "?first w = (Ret (Some x, q1), w')"
    | (second) q1 w1 x q2 where "?first w = (Ret (None, q1), w1)" "?second q1 w1 = (Ret (Some x, q2), w')"
    | (emitted) q1 w1 q2 w2 x w3 where "?first w = (Ret (None, q1), w1)"
        "?second q1 w1 = (Ret (None, q2), w2)" "emit_log (ss\<lparr>lastReq := None\<rparr>) q2 w2 = (Ret x, w3)"
        "x = None \<longrightarrow> (\<exists>r. ss_SendMsg (ServerStream ss) m w3 = (Ret r, w'))"
    by (auto simp: SendMsg_def clones_def popLastReq_def Let_def elim!: go_bind_RetE
        split: option.splits)
  then have "obs (w_ext w') = obs (w_ext w) @ map (g \<circ> entry_request)
       (stream_entries (sw_rule ss) ?b (lastReq ss) [send_event ss m])"
  proof cases
    case first
    from setReq_step [OF this] show ?thesis by (auto simp: send_event_def loggable_def)
  next
    case second
    from setReq_step [OF second(1)] setResp_step [OF second(2)] show ?thesis
      by (auto simp: send_event_def loggable_def)
  next
    case emitted
    from setReq_step [OF emitted(1)] setResp_step [OF emitted(2)] have
      l: "loggable ss m" "w2 = w" and q2: "q2 = entry_request (?b,
        if shouldLogReq (sw_rule ss) then lastReq ss else None,
        if shouldLogResp (sw_rule ss) then Some m else None)"
      by (auto simp: loggable_def entry_request_def option.map_comp)
    have c: "sw_c (ss\<lparr>lastReq := None\<rparr>) = Some cl" using assms(4) by simp
    from emit_log_delivers [OF assms(1) c emitted(3)] l have
      o3: "x = None" "obs (w_ext w3) = obs (w_ext w) @ [g q2]" by auto
    from assms(2) have "obs (w_ext (snd (ss_SendMsg (ServerStream ss) m w3))) = obs (w_ext w3)"
      unfolding stream_unobserved_def by blast
    with o3 emitted(4) l q2 show ?thesis by (auto simp: send_event_def)
  qed
  with same show ?thesis by (simp add: send_event_def)
qed

text \<open>A handler whose own actions leave alone what \<open>obs\<close> sees.\<close>

coinductive quiet :: "('w \<Rightarrow> log_request list) \<Rightarrow> 'w stream_handler \<Rightarrow> bool" for obs where
  "quiet obs (HReturn e)"
| "quiet obs (HPanic s)"
| "(\<And>r. quiet obs (k r)) \<Longrightarrow> quiet obs (HRecv k)"
| "(\<And>e. quiet obs (k e)) \<Longrightarrow> quiet obs (HSend m k)"
| "(\<And>c. quiet obs (k c)) \<Longrightarrow> quiet obs (HContext f k)"
| "(\<And>w. obs (w_ext (f w)) = obs (w_ext w)) \<Longrightarrow> (\<And>w. quiet obs (k w)) \<Longrightarrow> quiet obs (HDo f k)"

inductive_simps quiet_simps:
  "quiet obs (HReturn e)" "quiet obs (HPanic s)" "quiet obs (HRecv k)" "quiet obs (HSend m k)"
  "quiet obs (HContext f k)" "quiet obs (HDo f k)"

text \<open>A run of a handler gives the client the log requests of its events.\<close>

lemma handler_run_logs:
  assumes "handler_run env h (ss, w) es (e, ss', w')"
    and "delivers obs g cl" "stream_unobserved obs (ServerStream ss)" "clones env" "sw_c ss = Some cl"
    and "quiet obs h"
  shows "same_stream (ss\<lparr>baselineLogReq := written (baselineLogReq ss) es\<rparr>) ss' \<and>
     lastReq ss' = stream_pending (lastReq ss) es \<and>
     obs (w_ext w') = obs (w_ext w) @
       map (g \<circ> entry_request) (stream_entries (sw_rule ss) (baselineLogReq ss) (lastReq ss) es)"
  using assms(1,3,5,6)
proof (induction h "(ss, w)" es "(e, ss', w')" arbitrary: ss w rule: handler_run.induct)
  case (receives ss w r ss1 w1 k es)
  from RecvMsg_logs [OF assms(2) receives(4) assms(4) receives(5,1)] receives(3)
    receives(4-6) show ?case
    by (cases r) (auto simp: same_stream_def recv_event_def quiet_simps)
next
  case (sends m ss w x ss1 w1 k es)
  from SendMsg_logs [OF assms(2) sends(4) assms(4) sends(5,1)] sends(3) sends(4-6) show ?case
    by (auto simp: same_stream_def send_event_def quiet_simps split: if_splits)
qed (auto simp: same_stream_def quiet_simps)

subsection \<open>The messages in the log\<close>

text \<open>
  What the log requests given to the client hold: their \<open>Request\<close> and \<open>Response\<close> fields, and the
  structs that messages turn into.  A blank request has a payload with neither.
\<close>

definition logged :: "(audit_log \<Rightarrow> pstruct option) \<Rightarrow> log_request list \<Rightarrow> pstruct list" where
  "logged field qs = concat (map (\<lambda>q. case payload q of None \<Rightarrow> [] | Some a \<Rightarrow> optional (field a)) qs)"

definition structs :: "goval list \<Rightarrow> pstruct list" where
  "structs ms = concat (map (optional \<circ> converted) ms)"

definition blank :: "log_request \<Rightarrow> bool" where
  "blank q \<longleftrightarrow> (\<exists>a. payload q = Some a \<and> request a = None \<and> response a = None)"

definition keeps_blank :: "event list \<Rightarrow> bool" where
  "keeps_blank es \<longleftrightarrow> (\<forall>f q. Wrote f \<in> set es \<longrightarrow> blank q \<longrightarrow> blank (f q))"

lemma keeps_blank_Cons:
  "keeps_blank (Received m # es) = keeps_blank es" "keeps_blank (Sent m # es) = keeps_blank es"
  "keeps_blank (Wrote f # es) \<longleftrightarrow> (\<forall>q. blank q \<longrightarrow> blank (f q)) \<and> keeps_blank es"
  "keeps_blank (Failed p # es) = keeps_blank es"
  by (auto simp: keeps_blank_def)

lemma logged_simps [simp]:
  "logged field [] = []" "logged field (xs @ ys) = logged field xs @ logged field ys"
  "structs [] = []" "structs (ms @ ns) = structs ms @ structs ns"
  by (simp_all add: logged_def structs_def)

text \<open>
  A change of a request that keeps what the interceptors put into it: the mutators of an audit
  client add metadata to the payload and leave the rest of it alone.
\<close>

definition audit_core :: "audit_log \<Rightarrow> audit_log" where
  "audit_core a = a\<lparr>metadata := None, request_meta := None\<rparr>"

definition keeps_messages :: "(log_request \<Rightarrow> log_request) \<Rightarrow> bool" where
  "keeps_messages g \<longleftrightarrow> (\<forall>q. map_option audit_core (payload (g q)) = map_option audit_core (payload q))"

lemma keeps_messages_id [simp]: "(\<And>q. payload (g q) = payload q) \<Longrightarrow> keeps_messages g"
  by (simp add: keeps_messages_def)

lemma audit_core_eqD:
  assumes "audit_core a = audit_core b"
  shows "service_name a = service_name b" "method_name a = method_name b" "resource_name a = resource_name b"
    "authentication a = authentication b" "status a = status b" "request a = request b" "response a = response b"
  using assms by (cases a; cases b; simp add: audit_core_def)+

lemma keeps_messagesD:
  assumes "keeps_messages g" "payload q = Some a"
  obtains a' where "payload (g q) = Some a'" "audit_core a' = audit_core a"
proof -
  from assms have "map_option audit_core (payload (g q)) = Some (audit_core a)"
    by (simp add: keeps_messages_def)
  then show ?thesis using that by auto
qed

lemma logged_kept:
  assumes "keeps_messages g"
  shows "logged request (g q # qs) = logged request (q # qs)" "logged response (g q # qs) = logged response (q # qs)"
proof (atomize (full), cases "payload q")
  case None
  with assms have "payload (g q) = None"
    unfolding keeps_messages_def by (metis map_option_is_None)
  with None show "logged request (g q # qs) = logged request (q # qs) \<and>
      logged response (g q # qs) = logged response (q # qs)"
    by (simp add: logged_def)
next
  case (Some a)
  from keeps_messagesD [OF assms Some] obtain a' where "payload (g q) = Some a'" "audit_core a' = audit_core a" .
  with Some audit_core_eqD(6,7) [of a' a] show "logged request (g q # qs) = logged request (q # qs) \<and>
      logged response (g q # qs) = logged response (q # qs)"
    by (simp add: logged_def)
qed

lemma logged_entry:
  assumes "keeps_messages g" "blank base"
  shows "logged request (g (entry_request (base, lr, rs)) # qs) = structs (optional lr) @ logged request qs"
    "logged response (g (entry_request (base, lr, rs)) # qs) = structs (optional rs) @ logged response qs"
  unfolding logged_kept [OF assms(1)]
  using assms(2) by (cases lr; cases rs; auto simp: logged_def structs_def entry_request_def
      blank_def put_request_def put_response_def)+

lemma logged_entries:
  assumes g: "keeps_messages g" and "blank base" "keeps_blank es" "no_failure es"
    and "qs = map (g \<circ> entry_request) (stream_entries r base pending es)"
  shows "(shouldLogReq r \<longrightarrow> logged request qs @ structs (optional (stream_pending pending es)) =
           structs (optional pending @ received es)) \<and>
         (shouldLogResp r \<longrightarrow> logged response qs = structs (sent es))"
  using assms(2-5)
proof (induction r base pending es arbitrary: qs rule: stream_entries.induct)
  case (2 r base pending m es)
  then show ?case by (cases pending) (auto simp: logged_entry [OF g] keeps_blank_Cons structs_def)
next
  case (3 r base pending m es)
  then show ?case by (auto simp: logged_entry [OF g] keeps_blank_Cons structs_def)
qed (auto simp: keeps_blank_Cons)

subsection \<open>The interceptor around the handler\<close>

definition stream_unprepared :: "'w interceptor \<Rightarrow> ctx \<Rightarrow> string \<Rightarrow> bool" where
  "stream_unprepared i c m \<longleftrightarrow>
     (\<exists>r sc. mostRelevantRule m (it_rules i) = Some r \<and> it_sc i = Some sc \<and>
        ((\<exists>e. serviceName m = Inl e) \<or> (\<exists>e. sc c = Inl e)))"

lemma stream_unprepared_handleReturn:
  assumes "stream_unprepared i (ss_Context ss) m"
    and "\<And>v. \<exists>ts v'. time_Now env v = (Ret ts, v')" "\<And>v. \<exists>u v'. uuid_New env v = (Ret u, v')"
  shows "\<exists>e v. \<forall>h. StreamInterceptor env i ss m h w =
           handleReturnStream i (ss_Context ss) ss h (Some e) v"
proof -
  from assms(1) obtain r sc where r: "mostRelevantRule m (it_rules i) = Some r"
    and sc: "it_sc i = Some sc"
    and bad: "(\<exists>e. serviceName m = Inl e) \<or> (\<exists>e. sc (ss_Context ss) = Inl e)"
    by (auto simp: stream_unprepared_def)
  from assms(3) obtain u v1 where u: "uuid_New env w = (Ret u, v1)" by blast
  from assms(2) obtain ts v where ts: "time_Now env v1 = (Ret ts, v)" by blast
  show ?thesis
  proof (cases "serviceName m")
    case (Inl e)
    with r show ?thesis by (auto simp: StreamInterceptor_def Let_def simp del: code_defs)
  next
    case (Inr svc)
    with bad obtain e where "sc (ss_Context ss) = Inl e" by auto
    with Inr r sc u ts show ?thesis
      by (auto simp: StreamInterceptor_def Let_def dv_bind_of request_principal_def
          simp del: code_defs)
  qed
qed

lemma StreamInterceptor_prepared:
  assumes "mostRelevantRule m (it_rules i) = Some r" "serviceName m = Inr svc"
    and "it_sc i = Some sc" "sc (ss_Context ss) = Inr p"
    and "uuid_New env w = (Ret u, w0)" "time_Now env w0 = (Ret ts, w1)"
  shows "\<exists>base. StreamInterceptor env i ss m h w = run_stream env i (ss_Context ss) (h SrvImpl)
      \<lparr>sw_c = it_Client i, baselineLogReq = base, sw_rule = r, lastReq = None, ServerStream = ss\<rparr> w1 \<and>
    operation base = Some \<lparr>op_producer = m, op_id = u\<rparr> \<and>
    payload base = Some (empty_audit_log\<lparr>service_name := svc, method_name := m,
      authentication := Some \<lparr>principal_email = p\<rparr>\<rparr>) \<and> mode base = MODE_UNSPECIFIED"
proof -
  let ?q = "stream_log_request (ss_Context ss) r svc m u ts"
  have f: "payload (fillJVSToken c q) = payload q" "operation (fillJVSToken c q) = operation q" for c q
    by (simp_all add: fillJVSToken_def split: option.splits list.splits)
  have pl: "payload ?q = Some (empty_audit_log\<lparr>service_name := svc, method_name := m\<rparr>)"
    by (simp add: stream_log_request_def f)
  have o: "operation ?q = Some \<lparr>op_producer = m, op_id = u\<rparr>" "mode ?q = MODE_UNSPECIFIED"
    by (simp_all add: stream_log_request_def f empty_log_request_def)
  from assms pl have "StreamInterceptor env i ss m h w = run_stream env i (ss_Context ss) (h SrvImpl)
      \<lparr>sw_c = it_Client i, baselineLogReq = ?q\<lparr>payload := Some (empty_audit_log\<lparr>service_name := svc,
         method_name := m, authentication := Some \<lparr>principal_email = p\<rparr>\<rparr>)\<rparr>, sw_rule = r,
         lastReq = None, ServerStream = ss\<rparr> w1"
    by (simp add: StreamInterceptor_def Let_def dv_bind_of request_principal_def set_principal_def)
  with o show ?thesis by fastforce
qed

definition error_status :: "'w grpc_env \<Rightarrow> gerror \<Rightarrow> log_request \<Rightarrow> log_request" where
  "error_status env e q = q\<lparr>payload := map_option (\<lambda>a. a\<lparr>status := Some
     (case status_FromError env e of Some s \<Rightarrow> s
      | None \<Rightarrow> \<lparr>st_code = rpccode_INTERNAL, st_message = error_text e\<rparr>)\<rparr>) (payload q)\<rparr>"

text \<open>
  The log of a whole stream call: the events of the handler's run, and last, if the handler
  failed, the baseline request with the error's status.
\<close>

lemma run_stream_logs:
  assumes "run_stream env i c h ss w = Some (Ret err, w')"
    and "delivers obs g cl" "stream_unobserved obs (ServerStream ss)" "clones env" "sw_c ss = Some cl"
    and "it_Client i = Some cl" "quiet obs h"
  shows "\<exists>es ss' w1. handler_run env h (ss, w) es (err, ss', w1) \<and>
     obs (w_ext w') = obs (w_ext w) @
       map (g \<circ> entry_request) (stream_entries (sw_rule ss) (baselineLogReq ss) (lastReq ss) es) @
       (case err of None \<Rightarrow> [] | Some e \<Rightarrow> [g (error_status env e (written (baselineLogReq ss) es))])"
proof -
  from assms(1) obtain e ss' w1 where run: "run_wrapped h env ss w = Some (Ret (e, ss'), w1)"
    and rest: "(case e of None \<Rightarrow> dv_of (go_return None) | Some e \<Rightarrow> dv_of (
           go_bind (setErrorStatus env e (baselineLogReq ss')) (\<lambda>logReq.
           go_bind (Log (it_Client i) c (Some logReq)) (\<lambda>(err, _).
           go_bind (case err of
                      Some x \<Rightarrow> go_log LevelError ''unable to audit log error'' (Some x)
                    | None \<Rightarrow> go_return ())
             (\<lambda>_. go_return (Some e)))))) w1 = Some (Ret err, w')"
    unfolding run_stream_def by (auto elim!: dv_bind_RetE)
  from run_wrapped_handler_run [OF run refl] obtain es where
    r: "handler_run env h (ss, w) es (e, ss', w1)" by blast
  from handler_run_logs [OF r assms(2-5,7)] have
    b: "baselineLogReq ss' = written (baselineLogReq ss) es" and
    o1: "obs (w_ext w1) = obs (w_ext w) @ map (g \<circ> entry_request)
       (stream_entries (sw_rule ss) (baselineLogReq ss) (lastReq ss) es)"
    by (simp_all add: same_stream_def)
  show ?thesis
  proof (cases e)
    case None
    with rest r o1 show ?thesis by auto
  next
    case (Some x)
    from rest Some obtain q w2 where s: "setErrorStatus env x (baselineLogReq ss') w1 = (Ret q, w2)"
      by (auto elim!: go_bind_RetE)
    then have q: "w2 = w1" "q = error_status env x (baselineLogReq ss')"
      by (auto simp: setErrorStatus_def error_status_def Let_def split: option.splits)
    from assms(2) obtain r' w3 where l: "Log (Some cl) c (Some q) w1 = (Ret (None, r'), w3)"
      "obs (w_ext w3) = obs (w_ext w1) @ [g q]" unfolding delivers_def by blast
    from rest Some s q(1) l assms(6) have "err = Some x" "w' = w3" by (auto simp: go_bind_Ret)
    with r Some l q b o1 show ?thesis by auto
  qed
qed

lemma run_stream_result:
  assumes "run_stream env i c h ss w = Some (Ret err, w')"
  shows "\<exists>ss' w1. run_wrapped h env ss w = Some (Ret (err, ss'), w1)"
  using assms unfolding run_stream_def
  by (auto elim!: dv_bind_RetE go_bind_RetE split: option.splits)

end
