(* ===== verification/Labels.thy ===== *)
theory Labels
  imports Processors
begin

section \<open>The label processor: clients/go/pkg/audit/labels.go\<close>

text \<open>
  A mutator that adds configured labels to a request without overwriting the ones it has.  The
  configured labels are a Go map; the processor ranges over it twice (in its constructor and in
  \<open>Process\<close>), in an order Go leaves open.  The map is modelled as the list of its entries in
  the order a run visits them, with distinct keys; the lemmas show that the order is irrelevant.
\<close>

record label_processor =
  defaultLabels :: "(string \<times> string) list"

text \<open>The copy loop of \<open>NewLabelProcessor\<close>: storing an entry under a new key appends it.\<close>

fun store_entry :: "(string \<times> string) list \<Rightarrow> string \<Rightarrow> string \<Rightarrow> (string \<times> string) list" where
  "store_entry [] k v = [(k, v)]"
| "store_entry ((k', v') # es) k v =
     (if k = k' then (k, v) # es else (k', v') # store_entry es k v)"

fun copy_entries ::
  "(string \<times> string) list \<Rightarrow> (string \<times> string) list \<Rightarrow> (string \<times> string) list" where
  "copy_entries cp [] = cp"
| "copy_entries cp ((k, v) # es) = copy_entries (store_entry cp k v) es"

definition NewLabelProcessor :: "(string \<times> string) list \<Rightarrow> label_processor" where
  "NewLabelProcessor ls = \<lparr>defaultLabels = copy_entries [] ls\<rparr>"

text \<open>The loop of \<open>Process\<close> over the default labels.\<close>

fun add_labels :: "labels \<Rightarrow> (string \<times> string) list \<Rightarrow> labels" where
  "add_labels ls [] = ls"
| "add_labels ls ((key, val) # es) =
     add_labels (if ls key = None then ls(key \<mapsto> val) else ls) es"

definition LabelProcessor_Process :: "label_processor \<Rightarrow> 'w process" where
  "LabelProcessor_Process p c r =
     (if defaultLabels p = [] then go_return (None, r)
      else case r of
        None \<Rightarrow> go_panic nil_deref
      | Some q \<Rightarrow>
          let ls = (case req_labels q of None \<Rightarrow> Map.empty | Some m \<Rightarrow> m)
          in go_return (None, Some (q\<lparr>req_labels := Some (add_labels ls (defaultLabels p))\<rparr>)))"

definition label_log_processor :: "label_processor \<Rightarrow> 'w processor" where
  "label_log_processor p =
     \<lparr>p_type = ''*audit.LabelProcessor'', p_process = LabelProcessor_Process p, p_stop = None\<rparr>"

subsection \<open>Lemmas\<close>

lemma map_of_store_entry: "map_of (store_entry es k v) = (map_of es)(k \<mapsto> v)"
  by (induction es k v rule: store_entry.induct) auto

lemma fst_store_entry:
  "set (map fst (store_entry es k v)) = insert k (set (map fst es))"
  by (induction es k v rule: store_entry.induct) auto

lemma distinct_store_entry:
  "distinct (map fst es) \<Longrightarrow> distinct (map fst (store_entry es k v))"
  using fst_store_entry by (induction es k v rule: store_entry.induct) fastforce+

lemma distinct_copy_entries:
  "distinct (map fst cp) \<Longrightarrow> distinct (map fst (copy_entries cp es))"
  by (induction cp es rule: copy_entries.induct) (simp_all add: distinct_store_entry)

lemma map_of_copy_entries:
  "distinct (map fst es) \<Longrightarrow> map_of (copy_entries cp es) = map_of cp ++ map_of es"
proof (induction cp es rule: copy_entries.induct)
  case (2 cp k v es)
  then have "map_of es k = None"
    by (simp add: map_of_eq_None_iff)
  with 2 show ?case
    by (auto simp: map_of_store_entry map_add_def fun_eq_iff split: option.splits)
qed simp

lemma copy_entries_Nil_iff: "copy_entries cp es = [] \<longleftrightarrow> cp = [] \<and> es = []"
proof -
  have "store_entry cp k v \<noteq> []" for cp k v
    by (cases "(cp, k, v)" rule: store_entry.cases) auto
  then show ?thesis
    by (induction cp es rule: copy_entries.induct) auto
qed

lemma NewLabelProcessor_labels:
  "distinct (map fst ls) \<Longrightarrow> map_of (defaultLabels (NewLabelProcessor ls)) = map_of ls"
  by (simp add: NewLabelProcessor_def map_of_copy_entries)

lemma NewLabelProcessor_distinct:
  "distinct (map fst (defaultLabels (NewLabelProcessor ls)))"
  by (simp add: NewLabelProcessor_def distinct_copy_entries)

lemma NewLabelProcessor_Nil [simp]: "defaultLabels (NewLabelProcessor ls) = [] \<longleftrightarrow> ls = []"
  by (simp add: NewLabelProcessor_def copy_entries_Nil_iff)

lemma add_labels_eq: "add_labels ls es = map_of es ++ ls"
  by (induction ls es rule: add_labels.induct)
    (auto simp: map_add_def fun_eq_iff split: option.splits)

lemma add_labels_existing: "ls k = Some v \<Longrightarrow> add_labels ls es k = Some v"
  by (simp add: add_labels_eq)

text \<open>What the processor does to the labels of a request, nil or not.\<close>

definition labels_of :: "log_request \<Rightarrow> labels" where
  "labels_of q = (case req_labels q of None \<Rightarrow> Map.empty | Some m \<Rightarrow> m)"

lemma LabelProcessor_Process_eq:
  "LabelProcessor_Process p c (Some q) w =
     (Ret (None, Some (if defaultLabels p = [] then q
                       else q\<lparr>req_labels := Some (map_of (defaultLabels p) ++ labels_of q)\<rparr>)), w)"
  by (simp add: LabelProcessor_Process_def add_labels_eq labels_of_def Let_def)

interpretation label_mutator: mutator_process "LabelProcessor_Process p"
  by unfold_locales
    (auto simp: LabelProcessor_Process_eq same_identity_def split: if_splits)

end
