(* ===== verification/Filtering.thy ===== *)
theory Filtering
  imports Processors
begin

section \<open>The principal filter: clients/go/pkg/filtering/processor.go\<close>

text \<open>
  A validator that drops requests by their principal's email.  A compiled regular expression is
  the predicate \<open>MatchString\<close> it stands for together with its source text; \<open>regexp.Compile\<close> is
  a parameter of the option functions.
\<close>

record regex =
  re_source :: string
  MatchString :: "string \<Rightarrow> bool"

type_synonym re_compile = "string \<Rightarrow> gerror + (string \<Rightarrow> bool)"

record email_matcher =
  m_includes :: "regex list"
  m_excludes :: "regex list"

type_synonym matcher_option = "email_matcher \<Rightarrow> gerror + email_matcher"

subsection \<open>The code\<close>

text \<open>
  The loops of \<open>WithIncludes\<close> and \<open>WithExcludes\<close>: an empty string is skipped, the first
  expression that does not compile ends the loop.
\<close>

fun WithIncludes :: "re_compile \<Rightarrow> string list \<Rightarrow> matcher_option" where
  "WithIncludes rc [] m = Inr m"
| "WithIncludes rc (i # is) m =
     (if i = [] then WithIncludes rc is m
      else case rc i of
        Inl err \<Rightarrow> Inl (wrapf (''failed to compile include string '' @ go_quote i @
                          '' as a regular expression'') err)
      | Inr r \<Rightarrow> WithIncludes rc is
                  (m\<lparr>m_includes := m_includes m @ [\<lparr>re_source = i, MatchString = r\<rparr>]\<rparr>))"

fun WithExcludes :: "re_compile \<Rightarrow> string list \<Rightarrow> matcher_option" where
  "WithExcludes rc [] m = Inr m"
| "WithExcludes rc (e # es) m =
     (if e = [] then WithExcludes rc es m
      else case rc e of
        Inl err \<Rightarrow> Inl (wrapf (''failed to compile exclude string '' @ go_quote e @
                          '' as a regular expression'') err)
      | Inr r \<Rightarrow> WithExcludes rc es
                  (m\<lparr>m_excludes := m_excludes m @ [\<lparr>re_source = e, MatchString = r\<rparr>]\<rparr>))"

fun apply_matcher_options :: "matcher_option list \<Rightarrow> matcher_option" where
  "apply_matcher_options [] m = Inr m"
| "apply_matcher_options (opt # os) m =
     (case opt m of
        Inl err \<Rightarrow> Inl (wrapf ''failed to apply NewPrincipalEmailMatcher options'' err)
      | Inr m' \<Rightarrow> apply_matcher_options os m')"

definition NewPrincipalEmailMatcher :: "matcher_option list \<Rightarrow> gerror + email_matcher" where
  "NewPrincipalEmailMatcher opts = apply_matcher_options opts \<lparr>m_includes = [], m_excludes = []\<rparr>"

text \<open>The loops of \<open>Process\<close>: the first expression of the list that matches.\<close>

fun first_match :: "regex list \<Rightarrow> string \<Rightarrow> regex option" where
  "first_match [] s = None"
| "first_match (r # rs) s = (if MatchString r s then Some r else first_match rs s)"

definition matcher_verdict :: "email_matcher \<Rightarrow> log_request option \<Rightarrow> gerror option" where
  "matcher_verdict p r =
     (if m_includes p = [] \<and> m_excludes p = [] then None
      else if GetPayload r = None \<or> GetAuthenticationInfo (GetPayload r) = None
      then Some (wrapf ''request.Payload.AuthenticationInfo is missing to check principal email''
                   ErrInvalidRequest)
      else
        let email = GetPrincipalEmail (GetAuthenticationInfo (GetPayload r)) in
        if first_match (m_includes p) email \<noteq> None then None
        else if m_excludes p = []
        then Some (wrapf (''request.Payload.AuthenticationInfo.PrincipalEmail not included in '' @
                     quote_all (map re_source (m_includes p))) ErrPreconditionFailed)
        else case first_match (m_excludes p) email of
          Some x \<Rightarrow>
            Some (wrapf (''request.Payload.AuthenticationInfo.PrincipalEmail matches exclude regexp '' @
                    go_quote (re_source x)) ErrPreconditionFailed)
        | None \<Rightarrow> None)"

definition PrincipalEmailMatcher_Process :: "email_matcher \<Rightarrow> 'w process" where
  "PrincipalEmailMatcher_Process p c r = go_return (matcher_verdict p r, r)"

definition matcher_log_processor :: "email_matcher \<Rightarrow> 'w processor" where
  "matcher_log_processor p =
     \<lparr>p_type = ''*filtering.PrincipalEmailMatcher'',
      p_process = PrincipalEmailMatcher_Process p, p_stop = None\<rparr>"

subsection \<open>Lemmas\<close>

definition matches_any :: "regex list \<Rightarrow> string \<Rightarrow> bool" where
  "matches_any rs s \<longleftrightarrow> (\<exists>r \<in> set rs. MatchString r s)"

lemma first_match_None: "first_match rs s = None \<longleftrightarrow> \<not> matches_any rs s"
  by (induction rs s rule: first_match.induct) (auto simp: matches_any_def)

lemma first_match_Some:
  "first_match rs s = Some r \<Longrightarrow> r \<in> set rs \<and> MatchString r s"
  by (induction rs s rule: first_match.induct) (auto split: if_splits)

lemma first_match_matches: "first_match rs s = Some r \<Longrightarrow> matches_any rs s"
  using first_match_None [of rs s] by auto

lemma matches_any_Nil [simp]: "\<not> matches_any [] s"
  by (simp add: matches_any_def)

text \<open>
  The decision: which principals pass.  An include that matches wins over every exclude; with
  includes alone nothing else passes, with excludes only what they match is dropped.
\<close>

definition principal_passes :: "email_matcher \<Rightarrow> string \<Rightarrow> bool" where
  "principal_passes p email \<longleftrightarrow>
     matches_any (m_includes p) email \<or>
     (\<not> matches_any (m_excludes p) email \<and> (m_includes p = [] \<or> m_excludes p \<noteq> []))"

lemma matcher_verdict_unset:
  "m_includes p = [] \<Longrightarrow> m_excludes p = [] \<Longrightarrow> matcher_verdict p r = None"
  by (simp add: matcher_verdict_def)

lemma matcher_verdict_no_principal:
  assumes "m_includes p \<noteq> [] \<or> m_excludes p \<noteq> []"
    and "GetAuthenticationInfo (GetPayload r) = None"
  shows "\<exists>e. matcher_verdict p r = Some e \<and> errors_is e ErrInvalidRequest \<and>
             \<not> errors_is e ErrPreconditionFailed"
  using assms by (auto simp: matcher_verdict_def err_simps)

lemma GetAuthenticationInfo_Some:
  "GetAuthenticationInfo p = Some i \<longleftrightarrow> (\<exists>a. p = Some a \<and> authentication a = Some i)"
  by (cases p) auto

lemma matcher_verdict_principal:
  assumes "GetAuthenticationInfo (GetPayload r) = Some i"
  shows "(matcher_verdict p r = None \<longleftrightarrow> principal_passes p (principal_email i)) \<and>
         (\<forall>e. matcher_verdict p r = Some e \<longrightarrow>
              errors_is e ErrPreconditionFailed \<and> \<not> errors_is e ErrInvalidRequest)"
proof -
  from assms have "GetPayload r \<noteq> None" by (auto simp: GetAuthenticationInfo_Some)
  with assms show ?thesis
    by (auto simp: matcher_verdict_def principal_passes_def Let_def first_match_None err_simps
        dest: first_match_matches split: option.splits)
qed

lemma WithIncludes_ok:
  "WithIncludes rc is m = Inr m' \<Longrightarrow>
     m_excludes m' = m_excludes m \<and>
     map re_source (m_includes m') = map re_source (m_includes m) @ filter (\<lambda>i. i \<noteq> []) is"
  by (induction rc "is" m rule: WithIncludes.induct) (auto split: if_splits sum.splits)

lemma WithExcludes_ok:
  "WithExcludes rc es m = Inr m' \<Longrightarrow>
     m_includes m' = m_includes m \<and>
     map re_source (m_excludes m') = map re_source (m_excludes m) @ filter (\<lambda>i. i \<noteq> []) es"
  by (induction rc es m rule: WithExcludes.induct) (auto split: if_splits sum.splits)

lemma WithIncludes_fails:
  "(\<exists>err. WithIncludes rc is m = Inl err) \<longleftrightarrow> (\<exists>i \<in> set is. i \<noteq> [] \<and> (\<exists>x. rc i = Inl x))"
  by (induction rc "is" m rule: WithIncludes.induct) (auto split: sum.splits)

lemma WithExcludes_fails:
  "(\<exists>err. WithExcludes rc es m = Inl err) \<longleftrightarrow> (\<exists>i \<in> set es. i \<noteq> [] \<and> (\<exists>x. rc i = Inl x))"
  by (induction rc es m rule: WithExcludes.induct) (auto split: sum.splits)

interpretation principal_filter: validator_process "PrincipalEmailMatcher_Process p"
  by unfold_locales (simp add: PrincipalEmailMatcher_Process_def)

end
