(* ===== verification/Runtime_Info.thy ===== *)
theory Runtime_Info
  imports Processors
begin

section \<open>Runtime information: clients/go/pkg/audit/runtime.go\<close>

text \<open>
  A mutator that records where the application runs.  Its constructor looks at the environment
  variables and asks the GCE metadata server; both are the parameter \<open>runtime_env\<close>, with the
  two \<open>protojson\<close> calls of \<open>toStructVal\<close>.
\<close>

record monitored_resource =
  mr_type :: string
  mr_labels :: labels

record runtime_env =
  LookupEnv :: "string \<Rightarrow> string option"
  md_project_id :: "gerror + string"
  md_zone :: "gerror + string"
  md_instance_attribute :: "string \<Rightarrow> gerror + string"
  md_instance_id :: "gerror + string"
  md_instance_name :: "gerror + string"
  OnGCE :: bool
  ReadFile :: "string \<Rightarrow> gerror + string"
  marshal_resource :: "monitored_resource \<Rightarrow> gerror + string"
  unmarshal_resource :: "string \<Rightarrow> gerror + pstruct"

definition Getenv :: "runtime_env \<Rightarrow> string \<Rightarrow> string" where
  "Getenv env k = (case LookupEnv env k of Some v \<Rightarrow> v | None \<Rightarrow> [])"

definition is_set :: "runtime_env \<Rightarrow> string \<Rightarrow> bool" where
  "is_set env k \<longleftrightarrow> LookupEnv env k \<noteq> None"

subsection \<open>The code\<close>

definition isAppEngine :: "runtime_env \<Rightarrow> bool" where
  "isAppEngine env \<longleftrightarrow>
     is_set env ''GAE_SERVICE'' \<and> is_set env ''GAE_VERSION'' \<and> is_set env ''GAE_INSTANCE''"

definition isCloudFunction :: "runtime_env \<Rightarrow> bool" where
  "isCloudFunction env \<longleftrightarrow>
     (is_set env ''FUNCTION_NAME'' \<and> is_set env ''FUNCTION_REGION'' \<and> is_set env ''ENTRY_POINT'') \<or>
     (is_set env ''FUNCTION_TARGET'' \<and> is_set env ''FUNCTION_SIGNATURE_TYPE'' \<and>
      is_set env ''K_SERVICE'')"

definition isCloudRun :: "runtime_env \<Rightarrow> bool" where
  "isCloudRun env \<longleftrightarrow>
     is_set env ''K_CONFIGURATION'' \<and> is_set env ''K_SERVICE'' \<and> is_set env ''K_REVISION''"

definition isKubernetesEngine :: "runtime_env \<Rightarrow> bool" where
  "isKubernetesEngine env =
     (case md_instance_attribute env ''cluster-name'' of Inl _ \<Rightarrow> False | Inr n \<Rightarrow> n \<noteq> [])"

text \<open>\<open>strings.LastIndex(zone, "-")\<close>, and the slice before it when it is positive.\<close>

definition regionFromZone :: "string \<Rightarrow> string" where
  "regionFromZone zone =
     (let cutoff = LastIndex zone (CHR ''-'')
      in if cutoff > 0 then take (nat cutoff) zone else zone)"

definition detectAppEngineResource :: "runtime_env \<Rightarrow> monitored_resource option" where
  "detectAppEngineResource env =
     (case md_project_id env of Inl _ \<Rightarrow> None | Inr p0 \<Rightarrow>
        let projectID = (if p0 = [] then Getenv env ''GOOGLE_CLOUD_PROJECT'' else p0) in
        (case md_zone env of Inl _ \<Rightarrow> None | Inr zone \<Rightarrow>
           Some \<lparr>mr_type = ''gae_app'',
                 mr_labels = [''project_id'' \<mapsto> projectID,
                              ''module_id'' \<mapsto> Getenv env ''GAE_SERVICE'',
                              ''version_id'' \<mapsto> Getenv env ''GAE_VERSION'',
                              ''instance_id'' \<mapsto> Getenv env ''GAE_INSTANCE'',
                              ''runtime'' \<mapsto> Getenv env ''GAE_RUNTIME'',
                              ''zone'' \<mapsto> zone]\<rparr>))"

definition detectCloudFunction :: "runtime_env \<Rightarrow> monitored_resource option" where
  "detectCloudFunction env =
     (case md_project_id env of Inl _ \<Rightarrow> None | Inr projectID \<Rightarrow>
        (case md_zone env of Inl _ \<Rightarrow> None | Inr zone \<Rightarrow>
           let functionName = (case LookupEnv env ''K_SERVICE'' of
                                 Some n \<Rightarrow> n | None \<Rightarrow> Getenv env ''FUNCTION_NAME'')
           in Some \<lparr>mr_type = ''cloud_function'',
                    mr_labels = [''project_id'' \<mapsto> projectID,
                                 ''region'' \<mapsto> regionFromZone zone,
                                 ''function_name'' \<mapsto> functionName]\<rparr>))"

definition detectCloudRunResource :: "runtime_env \<Rightarrow> monitored_resource option" where
  "detectCloudRunResource env =
     (case md_project_id env of Inl _ \<Rightarrow> None | Inr projectID \<Rightarrow>
        (case md_zone env of Inl _ \<Rightarrow> None | Inr zone \<Rightarrow>
           Some \<lparr>mr_type = ''cloud_run_revision'',
                 mr_labels = [''project_id'' \<mapsto> projectID,
                              ''location'' \<mapsto> regionFromZone zone,
                              ''service_name'' \<mapsto> Getenv env ''K_SERVICE'',
                              ''revision_name'' \<mapsto> Getenv env ''K_REVISION'',
                              ''configuration_name'' \<mapsto> Getenv env ''K_CONFIGURATION'']\<rparr>))"

definition detectKubernetesResource :: "runtime_env \<Rightarrow> monitored_resource option" where
  "detectKubernetesResource env =
     (case md_project_id env of Inl _ \<Rightarrow> None | Inr projectID \<Rightarrow>
        (case md_zone env of Inl _ \<Rightarrow> None | Inr zone \<Rightarrow>
           (case md_instance_attribute env ''cluster-name'' of Inl _ \<Rightarrow> None | Inr clusterName \<Rightarrow>
              let namespaceName =
                    (case ReadFile env ''/var/run/secrets/kubernetes.io/serviceaccount/namespace'' of
                       Inl _ \<Rightarrow> [] | Inr b \<Rightarrow> b)
              in Some \<lparr>mr_type = ''k8s_container'',
                       mr_labels = [''cluster_name'' \<mapsto> clusterName,
                                    ''location'' \<mapsto> zone,
                                    ''project_id'' \<mapsto> projectID,
                                    ''pod_name'' \<mapsto> Getenv env ''HOSTNAME'',
                                    ''namespace_name'' \<mapsto> namespaceName,
                                    ''container_name'' \<mapsto> Getenv env ''CONTAINER_NAME'']\<rparr>)))"

definition detectGCEResource :: "runtime_env \<Rightarrow> monitored_resource option" where
  "detectGCEResource env =
     (case md_project_id env of Inl _ \<Rightarrow> None | Inr projectID \<Rightarrow>
        (case md_instance_id env of Inl _ \<Rightarrow> None | Inr iid \<Rightarrow>
           (case md_zone env of Inl _ \<Rightarrow> None | Inr zone \<Rightarrow>
              (case md_instance_name env of Inl _ \<Rightarrow> None | Inr nm \<Rightarrow>
                 Some \<lparr>mr_type = ''gce_instance'',
                       mr_labels = [''project_id'' \<mapsto> projectID,
                                    ''instance_id'' \<mapsto> iid,
                                    ''instance_name'' \<mapsto> nm,
                                    ''zone'' \<mapsto> zone]\<rparr>))))"

definition toStructVal :: "runtime_env \<Rightarrow> monitored_resource \<Rightarrow> gerror + pvalue" where
  "toStructVal env mr =
     (case marshal_resource env mr of
        Inl err \<Rightarrow> Inl (wrapf ''error marshalling to JSON'' err)
      | Inr b \<Rightarrow>
          (case unmarshal_resource env b of
             Inl err \<Rightarrow> Inl (wrapf ''unmarshal error'' err)
           | Inr s \<Rightarrow> Inr (StructValue s)))"

text \<open>The switch of \<open>newRuntimeInfo\<close>.\<close>

definition detect_resource :: "runtime_env \<Rightarrow> monitored_resource option" where
  "detect_resource env =
     (if isAppEngine env then detectAppEngineResource env
      else if isCloudFunction env then detectCloudFunction env
      else if isCloudRun env then detectCloudRunResource env
      else if isKubernetesEngine env then detectKubernetesResource env
      else if OnGCE env then detectGCEResource env
      else None)"

record runtime_info =
  monitoredResource :: "pvalue option"

definition newRuntimeInfo :: "runtime_env \<Rightarrow> gerror + runtime_info" where
  "newRuntimeInfo env =
     (case detect_resource env of
        None \<Rightarrow> Inr \<lparr>monitoredResource = None\<rparr>
      | Some mr \<Rightarrow>
          (case toStructVal env mr of
             Inl err \<Rightarrow>
               Inl (wrapf ''failed to convert *mrpb.MonitoredResource to *structpb.Value'' err)
           | Inr val \<Rightarrow> Inr \<lparr>monitoredResource = Some val\<rparr>))"

text \<open>\<open>Process\<close> has a pointer receiver and accepts a nil one.\<close>

definition runtimeInfo_Process :: "runtime_info option \<Rightarrow> 'w process" where
  "runtimeInfo_Process p c r =
     (case (case p of None \<Rightarrow> None | Some i \<Rightarrow> monitoredResource i) of
        None \<Rightarrow> go_return (None, r)
      | Some mr \<Rightarrow>
          (case r of
             None \<Rightarrow> go_panic nil_deref
           | Some q \<Rightarrow>
               (case payload q of
                  None \<Rightarrow> go_panic nil_deref
                | Some a \<Rightarrow>
                    let md0 = (if metadata a = None then Some None else metadata a);
                        f = (case GetFields md0 of None \<Rightarrow> Map.empty | Some m \<Rightarrow> m)
                    in go_return (None, Some (q\<lparr>payload :=
                         Some (a\<lparr>metadata := Some (Some (f(''originating_resource'' \<mapsto> mr)))\<rparr>)\<rparr>)))))"

definition runtime_log_processor :: "runtime_info \<Rightarrow> 'w processor" where
  "runtime_log_processor i =
     \<lparr>p_type = ''*audit.runtimeInfo'', p_process = runtimeInfo_Process (Some i), p_stop = None\<rparr>"

subsection \<open>Lemmas\<close>

definition metadata_fields :: "audit_log \<Rightarrow> (string \<rightharpoonup> pvalue)" where
  "metadata_fields a = (case GetFields (metadata a) of None \<Rightarrow> Map.empty | Some f \<Rightarrow> f)"

lemma runtimeInfo_Process_eq:
  assumes "payload q = Some a"
  shows "runtimeInfo_Process (Some i) c (Some q) w =
     (Ret (None, Some (case monitoredResource i of
         None \<Rightarrow> q
       | Some mr \<Rightarrow> q\<lparr>payload := Some (a\<lparr>metadata :=
                      Some (Some ((metadata_fields a)(''originating_resource'' \<mapsto> mr)))\<rparr>)\<rparr>)), w)"
  using assms
  by (auto simp: runtimeInfo_Process_def metadata_fields_def Let_def split: option.splits)

lemma runtimeInfo_Process_keeps:
  assumes "runtimeInfo_Process p c (Some q) w = (Ret (e, r'), w')"
  shows "w' = w \<and> e = None \<and> (\<exists>q'. r' = Some q' \<and> same_identity q q' \<and> mode q' = mode q)"
  using assms
  by (auto simp: runtimeInfo_Process_def same_identity_def audit_identity_def Let_def
      split: option.splits)

interpretation runtime_mutator: mutator_process "runtimeInfo_Process p"
  by unfold_locales (use runtimeInfo_Process_keeps in blast, use runtimeInfo_Process_keeps in fastforce)

lemma regionFromZone_suffix:
  assumes "r \<noteq> []" and "CHR ''-'' \<notin> set z"
  shows "regionFromZone (r @ CHR ''-'' # z) = r"
  using assms by (simp add: regionFromZone_def LastIndex_append_absent Let_def)

lemma regionFromZone_plain: "CHR ''-'' \<notin> set z \<Longrightarrow> regionFromZone z = z"
  using LastIndex_absent [of z "CHR ''-''"] by (simp add: regionFromZone_def Let_def)

lemma regionFromZone_prefix: "prefix (regionFromZone z) z"
  by (simp add: regionFromZone_def Let_def take_is_prefix)

text \<open>The runtime environments, and the resource type each one is reported as.\<close>

datatype platform = AppEngine | CloudFunction | CloudRun | Kubernetes | ComputeEngine | Elsewhere

definition platform_of :: "runtime_env \<Rightarrow> platform" where
  "platform_of env =
     (if isAppEngine env then AppEngine else if isCloudFunction env then CloudFunction
      else if isCloudRun env then CloudRun else if isKubernetesEngine env then Kubernetes
      else if OnGCE env then ComputeEngine else Elsewhere)"

fun platform_type :: "platform \<Rightarrow> string" where
  "platform_type AppEngine = ''gae_app''"
| "platform_type CloudFunction = ''cloud_function''"
| "platform_type CloudRun = ''cloud_run_revision''"
| "platform_type Kubernetes = ''k8s_container''"
| "platform_type ComputeEngine = ''gce_instance''"
| "platform_type Elsewhere = []"

lemmas detect_defs =
  detectAppEngineResource_def detectCloudFunction_def detectCloudRunResource_def
  detectKubernetesResource_def detectGCEResource_def

lemma detect_resource_type:
  assumes "detect_resource env = Some mr"
  shows "mr_type mr = platform_type (platform_of env) \<and>
         (\<exists>p. md_project_id env = Inr p) \<and> (\<exists>z. md_zone env = Inr z)"
  using assms
  by (auto simp: detect_resource_def platform_of_def detect_defs Let_def
      split: if_splits sum.splits)

lemma detect_resource_project:
  assumes "detect_resource env = Some mr" "md_project_id env = Inr p" "p \<noteq> []"
  shows "mr_labels mr ''project_id'' = Some p"
  using assms
  by (auto simp: detect_resource_def detect_defs Let_def split: if_splits sum.splits)

lemma newRuntimeInfo_error:
  "newRuntimeInfo env = Inl e \<Longrightarrow>
     \<exists>mr x. detect_resource env = Some mr \<and> toStructVal env mr = Inl x"
  by (auto simp: newRuntimeInfo_def split: option.splits sum.splits)

end
