(* ===== verification/Cloud_Logging.thy ===== *)
theory Cloud_Logging
  imports Processors
begin

section \<open>The Cloud Logging backend: clients/go/pkg/cloudlogging/processor.go\<close>

text \<open>
  The backend that writes a request as a Cloud Logging entry.  The Cloud Logging client library is
  a parameter: a client is the function that gives a logger for a log name, a logger its three
  methods \<open>Log\<close> (buffered), \<open>LogSync\<close> and \<open>Flush\<close>, each a call on the world.  The map
  \<open>loggerByLogType\<close> is the list of its entries, because \<open>Stop\<close> ranges over it.
\<close>

record log_line =
  l_payload :: "audit_log option"
  l_labels :: "labels option"
  l_operation :: "entry_operation option"
  l_timestamp :: "timestamp option"

record 'w logger =
  lg_name :: string
  lg_log :: "log_line \<Rightarrow> ('w, unit) go"
  lg_log_sync :: "ctx \<Rightarrow> log_line \<Rightarrow> ('w, gerror option) go"
  lg_flush :: "('w, gerror option) go"

type_synonym 'w logging_client = "string \<Rightarrow> 'w logger"

record 'w cl_processor =
  cl_client :: "'w logging_client option"
  bestEffort :: bool
  loggerByLogType :: "(log_type \<times> 'w logger) list"

type_synonym 'w cl_option = "'w cl_processor \<Rightarrow> gerror + 'w cl_processor"

subsection \<open>The code\<close>

definition WithLoggingClient :: "'w logging_client \<Rightarrow> 'w cl_option" where
  "WithLoggingClient client p = Inr (p\<lparr>cl_client := Some client\<rparr>)"

definition WithDefaultBestEffort :: "'w cl_option" where
  "WithDefaultBestEffort p = Inr (p\<lparr>bestEffort := True\<rparr>)"

text \<open>
  The \<open>log_name\<close> option of each value of the enum, as \<open>audit_log_request.proto\<close> annotates it;
  empty for a value without annotation.
\<close>

definition log_name_annotations :: "(log_type \<times> string) list" where
  "log_name_annotations =
     [(LT_UNSPECIFIED, ''audit.abcxyz/unspecified''), (LT_ADMIN_ACTIVITY, ''audit.abcxyz/activity''),
      (LT_DATA_ACCESS, ''audit.abcxyz/data_access''), (LT_CONSENT_EVENT, ''audit.abcxyz/consent''),
      (LT_SYSTEM_EVENT, ''audit.abcxyz/system_event'')]"

definition logNameFromLogType :: "log_type \<Rightarrow> string" where
  "logNameFromLogType t =
     (case map_of log_name_annotations t of Some n \<Rightarrow> n | None \<Rightarrow> [])"

definition log_type_text :: "log_type \<Rightarrow> string" where
  "log_type_text t = (case LogType_name t of Some n \<Rightarrow> n | None \<Rightarrow> show_nat (unat t))"

fun apply_cl_options :: "'w cl_option list \<Rightarrow> 'w cl_option" where
  "apply_cl_options [] p = Inr p"
| "apply_cl_options (opt # os) p =
     (case opt p of
        Inl err \<Rightarrow> Inl (wrapf ''failed to apply client options'' err)
      | Inr p' \<Rightarrow> apply_cl_options os p')"

text \<open>The loop over \<open>AuditLogRequest_LogType_name\<close>; \<open>vs\<close> is the order a run visits the keys.\<close>

fun make_loggers ::
  "'w logging_client \<Rightarrow> log_type list \<Rightarrow> (log_type \<times> 'w logger) list \<Rightarrow>
     gerror + (log_type \<times> 'w logger) list" where
  "make_loggers client [] acc = Inr acc"
| "make_loggers client (v # vs) acc =
     (let logName = logNameFromLogType v in
      if logName = []
      then Inl (errorf (''the log type '' @ log_type_text v @ '' is not annotated with a log name''))
      else make_loggers client vs (acc @ [(v, client logName)]))"

text \<open>
  \<open>NewProcessor\<close>.  \<open>default_client\<close> is what \<open>logging.NewClient\<close> returns for the project
  \<open>projectID\<close> that \<open>gcputil.ProjectID\<close> found.
\<close>

definition NewProcessor ::
  "string \<Rightarrow> (gerror + 'w logging_client) \<Rightarrow> log_type list \<Rightarrow> 'w cl_option list \<Rightarrow>
     gerror + 'w cl_processor" where
  "NewProcessor projectID default_client order opts =
     (case apply_cl_options opts \<lparr>cl_client = None, bestEffort = False, loggerByLogType = []\<rparr> of
        Inl err \<Rightarrow> Inl err
      | Inr p \<Rightarrow>
          (case (case cl_client p of Some c \<Rightarrow> Inr c | None \<Rightarrow> default_client) of
             Inl err \<Rightarrow> Inl (wrapf (''error creating the default Cloud Logging client for project '' @
                                projectID) err)
           | Inr client \<Rightarrow>
               (case make_loggers client order [] of
                  Inl err \<Rightarrow> Inl err
                | Inr ls \<Rightarrow> Inr (p\<lparr>cl_client := Some client, loggerByLogType := ls\<rparr>))))"

definition make_entry :: "log_request option \<Rightarrow> log_line" where
  "make_entry r =
     \<lparr>l_payload = GetPayload r, l_labels = GetLabels r, l_operation = GetOperation r,
      l_timestamp = GetTimestamp r\<rparr>"

definition CloudLogging_Process :: "'w cl_processor \<Rightarrow> 'w process" where
  "CloudLogging_Process p c r =
     (let logger = (case map_of (loggerByLogType p) (GetType r) of
                      Some l \<Rightarrow> Some l
                    | None \<Rightarrow> map_of (loggerByLogType p) LT_UNSPECIFIED);
          entry = make_entry r;
          best = (if GetMode r \<noteq> MODE_UNSPECIFIED then GetMode r = MODE_BEST_EFFORT
                  else bestEffort p)
      in case logger of
           None \<Rightarrow> go_panic nil_deref
         | Some l \<Rightarrow>
             if best then go_bind (lg_log l entry) (\<lambda>_. go_return (None, r))
             else go_bind (lg_log_sync l c entry) (\<lambda>err.
               case err of
                 Some e \<Rightarrow> go_return (Some (wrapf ''synchronous write to Cloud logging failed'' e), r)
               | None \<Rightarrow> go_return (None, r)))"

fun flush_all ::
  "(log_type \<times> 'w logger) list \<Rightarrow> gerror option \<Rightarrow> ('w, gerror option) go" where
  "flush_all [] merr = go_return merr"
| "flush_all ((t, l) # ls) merr =
     go_bind (lg_flush l) (\<lambda>err.
       case err of
         Some e \<Rightarrow> flush_all ls (errors_join
                    [merr, Some (wrapf (''failed to flush '' @ log_type_text t @ '' logs'') e)])
       | None \<Rightarrow> flush_all ls merr)"

definition CloudLogging_Stop :: "'w cl_processor \<Rightarrow> ('w, gerror option) go" where
  "CloudLogging_Stop p = flush_all (loggerByLogType p) None"

definition cl_log_processor :: "'w cl_processor \<Rightarrow> 'w processor" where
  "cl_log_processor p =
     \<lparr>p_type = ''*cloudlogging.Processor'', p_process = CloudLogging_Process p,
      p_stop = Some (CloudLogging_Stop p)\<rparr>"

subsection \<open>Lemmas\<close>

text \<open>The keys of \<open>AuditLogRequest_LogType_name\<close>: any list of them without repetition.\<close>

definition visits_all_log_types :: "log_type list \<Rightarrow> bool" where
  "visits_all_log_types vs \<longleftrightarrow> distinct vs \<and> set vs = fst ` set LogType_entries"

lemma declared_log_types:
  "fst ` set LogType_entries = fst ` set log_name_annotations"
  by (simp add: LogType_entries_def log_name_annotations_def)

lemma logNameFromLogType_declared:
  "logNameFromLogType t \<noteq> [] \<longleftrightarrow> t \<in> fst ` set LogType_entries"
  by (auto simp: logNameFromLogType_def log_name_annotations_def LogType_entries_def)

lemma logNameFromLogType_inj:
  "inj_on logNameFromLogType (fst ` set LogType_entries)"
  by (auto simp: inj_on_def logNameFromLogType_def log_name_annotations_def LogType_entries_def
      log_type_defs)

lemma make_loggers_annotated:
  "(\<forall>v \<in> set vs. logNameFromLogType v \<noteq> []) \<Longrightarrow>
     make_loggers client vs acc = Inr (acc @ map (\<lambda>v. (v, client (logNameFromLogType v))) vs)"
  by (induction vs arbitrary: acc) (simp_all add: Let_def)

lemma make_loggers_all:
  "visits_all_log_types vs \<Longrightarrow>
     make_loggers client vs [] = Inr (map (\<lambda>v. (v, client (logNameFromLogType v))) vs)"
  by (simp add: make_loggers_annotated visits_all_log_types_def logNameFromLogType_declared)

lemma map_of_tabulate: "map_of (map (\<lambda>v. (v, f v)) vs) t = (if t \<in> set vs then Some (f t) else None)"
  by (induction vs) auto

text \<open>The logger a processor made by \<open>NewProcessor\<close> uses for a log type.\<close>

definition chosen_log_name :: "log_type \<Rightarrow> string" where
  "chosen_log_name t =
     (if t \<in> fst ` set LogType_entries then logNameFromLogType t
      else logNameFromLogType LT_UNSPECIFIED)"

definition has_all_loggers :: "'w logging_client \<Rightarrow> 'w cl_processor \<Rightarrow> bool" where
  "has_all_loggers client p \<longleftrightarrow>
     (\<forall>t. map_of (loggerByLogType p) t =
        (if t \<in> fst ` set LogType_entries then Some (client (logNameFromLogType t)) else None))"

lemma apply_cl_options_loggers:
  assumes "\<forall>f \<in> set opts. f = WithDefaultBestEffort \<or> (\<exists>c. f = WithLoggingClient c)"
  shows "\<exists>q. apply_cl_options opts p = Inr q \<and>
     (bestEffort q \<longleftrightarrow> bestEffort p \<or> WithDefaultBestEffort \<in> set opts)"
  using assms
proof (induction opts arbitrary: p)
  case (Cons f opts)
  then obtain q where q: "f p = Inr q" "bestEffort q \<longleftrightarrow> bestEffort p \<or> f = WithDefaultBestEffort"
    by (cases "f = WithDefaultBestEffort")
      (auto simp: WithDefaultBestEffort_def WithLoggingClient_def)
  with Cons.IH [of q] Cons.prems show ?case by auto
qed simp

lemma NewProcessor_has_all_loggers:
  assumes "NewProcessor projectID dc order opts = Inr p" "visits_all_log_types order"
  shows "\<exists>client. cl_client p = Some client \<and> has_all_loggers client p"
  using assms
  by (auto simp: NewProcessor_def make_loggers_all has_all_loggers_def map_of_tabulate
      visits_all_log_types_def split: sum.splits)

lemma LT_UNSPECIFIED_declared: "LT_UNSPECIFIED \<in> fst ` set LogType_entries"
  by (simp add: LogType_entries_def)

lemma CloudLogging_Process_eq:
  assumes "has_all_loggers client p"
  shows "CloudLogging_Process p c r =
    (let l = client (chosen_log_name (GetType r)) in
     if (if GetMode r \<noteq> MODE_UNSPECIFIED then GetMode r = MODE_BEST_EFFORT else bestEffort p)
     then go_bind (lg_log l (make_entry r)) (\<lambda>_. go_return (None, r))
     else go_bind (lg_log_sync l c (make_entry r)) (\<lambda>err. go_return
            (map_option (wrapf ''synchronous write to Cloud logging failed'') err, r)))"
proof -
  have go: "(\<lambda>err. case err of
      Some e \<Rightarrow> go_return (Some (wrapf ''synchronous write to Cloud logging failed'' e), r)
    | None \<Rightarrow> go_return (None, r)) =
    (\<lambda>err. go_return (map_option (wrapf ''synchronous write to Cloud logging failed'') err, r))"
    by (rule ext) (simp split: option.splits)
  show ?thesis
    using assms LT_UNSPECIFIED_declared
    by (simp add: CloudLogging_Process_def has_all_loggers_def chosen_log_name_def Let_def go)
qed

lemma CloudLogging_Process_keeps_request:
  "CloudLogging_Process p c r w = (Ret (e, r'), w') \<Longrightarrow> r' = r"
  by (auto simp: CloudLogging_Process_def go_bind_Ret_iff Let_def
      split: option.splits if_splits)

interpretation cloud_logging_backend: mode_process "CloudLogging_Process p"
  by unfold_locales (auto dest: CloudLogging_Process_keeps_request)

text \<open>Every logger is flushed, whatever the others return, and every failure is reported.\<close>

fun flush_results :: "(log_type \<times> 'w logger) list \<Rightarrow> 'w world \<Rightarrow> gerror list" where
  "flush_results [] w = []"
| "flush_results ((t, l) # ls) w =
     (case lg_flush l w of
        (Ret None, w') \<Rightarrow> flush_results ls w'
      | (Ret (Some e), w') \<Rightarrow>
          wrapf (''failed to flush '' @ log_type_text t @ '' logs'') e # flush_results ls w'
      | (Panic s, w') \<Rightarrow> [])"

fun flush_world :: "(log_type \<times> 'w logger) list \<Rightarrow> 'w world \<Rightarrow> 'w world" where
  "flush_world [] w = w"
| "flush_world ((t, l) # ls) w = flush_world ls (snd (lg_flush l w))"

lemma flush_all_collects:
  assumes "\<forall>(t, l) \<in> set ls. \<forall>v. \<exists>e v'. lg_flush l v = (Ret e, v')"
  shows "\<exists>res. flush_all ls merr w = (Ret res, flush_world ls w) \<and>
     leaves_of res = leaves_of merr @ flush_results ls w"
  using assms
proof (induction ls arbitrary: merr w)
  case (Cons tl ls)
  obtain t l where tl: "tl = (t, l)" by (cases tl)
  with Cons.prems obtain e v' where f: "lg_flush l w = (Ret e, v')" by fastforce
  show ?case
  proof (cases e)
    case None
    with Cons.IH [of merr v'] Cons.prems f tl show ?thesis by (simp add: go_bind_def)
  next
    case (Some x)
    let ?m = "errors_join
      [merr, Some (wrapf (''failed to flush '' @ log_type_text t @ '' logs'') x)]"
    from Cons.IH [of ?m v'] Cons.prems f tl Some show ?thesis
      by (simp add: go_bind_def)
  qed
qed simp

end
