(* ===== verification/Grpc.thy ===== *)
theory Grpc
  imports Api
begin

section \<open>Connections and services of gRPC, as the generated code uses them\<close>

text \<open>
  The interfaces of the gRPC library between the generated stubs and the transport: a client's
  connection and its streams (\<open>grpc.ClientConnInterface\<close>, \<open>grpc.ClientStream\<close>), the interceptor of
  a server and the description of a service.  The library's own code is a parameter: the messages
  it delivers are fields of these records.  A message is of the type \<open>'m\<close>, an answer of the
  type \<open>'r\<close>; the code that decodes an answer makes a new message, so an answer is never nil.
\<close>

datatype call_option = PerRPCCredentials string

record stream_desc =
  StreamName :: string
  ServerStreams :: bool
  ClientStreams :: bool

record ('w, 'm, 'r) client_stream =
  cs_SendMsg :: "'m \<Rightarrow> ('w, gerror option) go"
  cs_CloseSend :: "('w, gerror option) go"
  cs_RecvMsg :: "('w, gerror + 'r) go"

record ('w, 'm, 'r) conn =
  Invoke :: "ctx \<Rightarrow> string \<Rightarrow> 'm \<Rightarrow> call_option list \<Rightarrow> ('w, gerror + 'r) go"
  NewStream ::
    "ctx \<Rightarrow> stream_desc \<Rightarrow> string \<Rightarrow> call_option list \<Rightarrow> ('w, gerror + ('w, 'm, 'r) client_stream) go"
  conn_Close :: "('w, gerror option) go"

text \<open>
  Metadata that goes out with a call: \<open>metadata.FromOutgoingContext\<close> with the code's default of an
  empty map, \<open>md.Set\<close> of one value (the key in lower case) and \<open>metadata.NewOutgoingContext\<close>.
\<close>

definition set_outgoing :: "ctx \<Rightarrow> string \<Rightarrow> string \<Rightarrow> ctx" where
  "set_outgoing c k v =
     (let md = (case outgoing_md c of None \<Rightarrow> (\<lambda>_. []) | Some md \<Rightarrow> md)
      in c\<lparr>outgoing_md := Some (md(ToLower k := [v]))\<rparr>)"

text \<open>
  A server's unary interceptor gets the request, the full method name of \<open>grpc.UnaryServerInfo\<close> and
  the handler.  A method of a service decodes its request (\<open>Inl\<close> when that fails) and calls the
  implementation, through the interceptor when the server has one.
\<close>

type_synonym ('w, 'q, 'r) server_handler = "ctx \<Rightarrow> 'q \<Rightarrow> ('w, gerror + 'r) go"

type_synonym ('w, 'q, 'r) server_interceptor =
  "ctx \<Rightarrow> 'q \<Rightarrow> string \<Rightarrow> ('w, 'q, 'r) server_handler \<Rightarrow> ('w, gerror + 'r) go"

type_synonym ('w, 'q, 'r) method_handler =
  "ctx \<Rightarrow> gerror + 'q \<Rightarrow> ('w, 'q, 'r) server_interceptor option \<Rightarrow> ('w, gerror + 'r) go"

record ('w, 'q, 'r) service_desc =
  ServiceName :: string
  Methods :: "(string \<times> ('w, 'q, 'r) method_handler) list"

text \<open>
  What a gRPC server with one service does with a unary call: the method is found by its full
  name, \<open>/service/method\<close>; a call of no method is answered with the code \<open>Unimplemented\<close>.
\<close>

definition code_Unimplemented :: nat where "code_Unimplemented = 12"

definition full_method :: "string \<Rightarrow> string \<Rightarrow> string" where
  "full_method service method = ''/'' @ service @ ''/'' @ method"

record ('w, 'q, 'r) grpc_server =
  gs_UnaryInterceptor :: "('w, 'q, 'r) server_interceptor option"
  gs_service :: "('w, 'q, 'r) service_desc"

definition serve_unary ::
  "('w, 'q, 'r) grpc_server \<Rightarrow> string \<Rightarrow> ctx \<Rightarrow> gerror + 'q \<Rightarrow> ('w, gerror + 'r) go" where
  "serve_unary s method c decoded =
     (case map_of (map (\<lambda>(n, h). (full_method (ServiceName (gs_service s)) n, h)) (Methods (gs_service s))) method of
        Some h \<Rightarrow> h c decoded (gs_UnaryInterceptor s)
      | None \<Rightarrow> go_return (Inl (StatusError code_Unimplemented (''unknown method '' @ method))))"

text \<open>An interceptor that does no more than call the handler, as far as the answer and the world go.\<close>

definition transparent :: "('w, 'q, 'r) server_interceptor option \<Rightarrow> bool" where
  "transparent ic \<longleftrightarrow> (\<forall>f c q m h w. ic = Some f \<longrightarrow> f c q m h w = h c q w)"

lemma transparent_None [simp]: "transparent None"
  by (simp add: transparent_def)

end
