(* ===== verification/Agent_Api.thy ===== *)
theory Agent_Api
  imports Grpc
begin

section \<open>The service of the agent: audit\_log\_agent.pb.go, audit\_log\_agent\_grpc.pb.go\<close>

text \<open>
  The generated code between a remote processor and an agent: the response message, the client
  stub, the server interface and the handler that the service description registers.  A pointer to
  a message is an option; a response the server returns without an error is not nil.
\<close>

record audit_log_response =
  Result :: "log_request option"

definition GetResult :: "audit_log_response option \<Rightarrow> log_request option" where
  "GetResult x = (case x of Some r \<Rightarrow> Result r | None \<Rightarrow> None)"

lemma GetResult_simps [simp]: "GetResult None = None" "GetResult (Some x) = Result x"
  by (simp_all add: GetResult_def)

subsection \<open>The client\<close>

definition ProcessLog_method :: string where
  "ProcessLog_method = ''/abcxyz.lumberjack.AuditLogAgent/ProcessLog''"

type_synonym 'w agent_cc = "('w, log_request option, audit_log_response) conn"

record 'w auditLogAgentClient =
  al_cc :: "'w agent_cc"

definition NewAuditLogAgentClient :: "'w agent_cc \<Rightarrow> 'w auditLogAgentClient" where
  "NewAuditLogAgentClient cc = \<lparr>al_cc = cc\<rparr>"

definition client_ProcessLog ::
  "'w auditLogAgentClient \<Rightarrow> ctx \<Rightarrow> log_request option \<Rightarrow> call_option list \<Rightarrow>
     ('w, gerror + audit_log_response) go" where
  "client_ProcessLog c ctx r opts =
     go_bind (Invoke (al_cc c) ctx ProcessLog_method r opts) (\<lambda>res.
       case res of Inl err \<Rightarrow> go_return (Inl err) | Inr out \<Rightarrow> go_return (Inr out))"

subsection \<open>The server\<close>

text \<open>
  An implementation is its method \<open>ProcessLog\<close>, which gets the pointer to the decoded request.  One
  that embeds \<open>UnimplementedAuditLogAgentServer\<close> without a method of its own has that of the latter.
\<close>

record 'w audit_log_agent_server =
  srv_ProcessLog :: "ctx \<Rightarrow> log_request option \<Rightarrow> ('w, gerror + audit_log_response) go"

definition UnimplementedAuditLogAgentServer :: "'w audit_log_agent_server" where
  "UnimplementedAuditLogAgentServer =
     \<lparr>srv_ProcessLog = (\<lambda>c r.
        go_return (Inl (StatusError code_Unimplemented ''method ProcessLog not implemented'')))\<rparr>"

definition AuditLogAgent_ProcessLog_Handler ::
  "'w audit_log_agent_server \<Rightarrow> ('w, log_request, audit_log_response) method_handler" where
  "AuditLogAgent_ProcessLog_Handler srv c decoded interceptor =
     (case decoded of
        Inl err \<Rightarrow> go_return (Inl err)
      | Inr req \<Rightarrow>
          (case interceptor of
             None \<Rightarrow> srv_ProcessLog srv c (Some req)
           | Some ic \<Rightarrow> ic c req ProcessLog_method (\<lambda>c q. srv_ProcessLog srv c (Some q))))"

definition AuditLogAgent_ServiceDesc ::
  "'w audit_log_agent_server \<Rightarrow> ('w, log_request, audit_log_response) service_desc" where
  "AuditLogAgent_ServiceDesc srv =
     \<lparr>ServiceName = ''abcxyz.lumberjack.AuditLogAgent'',
      Methods = [(''ProcessLog'', AuditLogAgent_ProcessLog_Handler srv)]\<rparr>"

definition RegisterAuditLogAgentServer ::
  "('w, log_request, audit_log_response) server_interceptor option \<Rightarrow> 'w audit_log_agent_server \<Rightarrow>
     ('w, log_request, audit_log_response) grpc_server" where
  "RegisterAuditLogAgentServer ic srv =
     \<lparr>gs_UnaryInterceptor = ic, gs_service = AuditLogAgent_ServiceDesc srv\<rparr>"

subsection \<open>A connection to a server\<close>

text \<open>
  A connection that delivers the request to a server and brings its answer back.  A nil request
  is sent as an empty message; the server's handler runs in a context of the server.
\<close>

definition delivered :: "log_request option \<Rightarrow> log_request" where
  "delivered r = (case r of None \<Rightarrow> empty_log_request | Some q \<Rightarrow> q)"

definition connected ::
  "('w, log_request, audit_log_response) grpc_server \<Rightarrow> ctx \<Rightarrow> ('w, gerror option) go \<Rightarrow> 'w agent_cc" where
  "connected s server_ctx close =
     \<lparr>Invoke = (\<lambda>c method r opts. serve_unary s method server_ctx (Inr (delivered r))),
      NewStream = (\<lambda>c d method opts.
        go_return (Inl (StatusError code_Unimplemented (''unknown method '' @ method)))),
      conn_Close = close\<rparr>"

text \<open>The client's stub calls the method the service description registers.\<close>

lemma serve_ProcessLog:
  "serve_unary (RegisterAuditLogAgentServer ic srv) ProcessLog_method c decoded =
     AuditLogAgent_ProcessLog_Handler srv c decoded ic"
  by (simp add: serve_unary_def RegisterAuditLogAgentServer_def AuditLogAgent_ServiceDesc_def
      ProcessLog_method_def full_method_def)

lemma client_ProcessLog_Invoke:
  "client_ProcessLog c ctx r opts w = Invoke (al_cc c) ctx ProcessLog_method r opts w"
  by (auto simp: client_ProcessLog_def go_bind_def split: prod.splits ret.splits sum.splits)

lemma client_ProcessLog_connected:
  assumes "transparent ic"
  shows "client_ProcessLog (NewAuditLogAgentClient (connected (RegisterAuditLogAgentServer ic srv) sc close)) c r opts w =
     srv_ProcessLog srv sc (Some (delivered r)) w"
  using assms
  by (cases ic) (simp_all add: client_ProcessLog_Invoke NewAuditLogAgentClient_def connected_def
      serve_ProcessLog AuditLogAgent_ProcessLog_Handler_def transparent_def)

lemma delivered_Some [simp]: "delivered (Some q) = q"
  by (simp add: delivered_def)

end
