(* ===== verification/Remote.thy ===== *)
theory Remote
  imports Processors Agent_Api
begin

section \<open>The remote backend: clients/go/pkg/remote\<close>

text \<open>
  The backend that sends a request to an ingestion service over gRPC (\<open>processor.go\<close>), with
  its authentication by ID tokens (\<open>idtoken_auth.go\<close>).  gRPC, the token sources of the
  Google libraries and the system's certificate pool are parameters, in the record \<open>'w remote_deps\<close>.
\<close>

text \<open>The gRPC dial options the code uses.\<close>

datatype dial_option = WithAuthority string | WithTLS | WithInsecure | RawDialOption string

type_synonym 'w token_source = "('w, gerror + string) go"

record 'w id_token_auth =
  dialOptions :: "dial_option list"
  tokenSource :: "'w token_source"

record 'w remote_processor =
  address :: string
  r_conn :: "'w agent_cc option"
  r_client :: "'w auditLogAgentClient option"
  authOpts :: "'w id_token_auth option"
  rawDialOpts :: "dial_option list"

record 'w remote_deps =
  NewTokenSource :: "string \<Rightarrow> gerror + 'w token_source"
  ImpersonatedTokenSource :: "string \<Rightarrow> string \<Rightarrow> gerror + 'w token_source"
  SystemCertPool :: "gerror option"
  NewGRPCClient :: "string \<Rightarrow> dial_option list \<Rightarrow> gerror + 'w agent_cc"

type_synonym 'w remote_option = "'w remote_processor \<Rightarrow> gerror + 'w remote_processor"

subsection \<open>The code of idtoken_auth.go\<close>

definition setIDTokenAuth :: "'w remote_deps \<Rightarrow> 'w token_source \<Rightarrow> 'w remote_option" where
  "setIDTokenAuth d ts p =
     (case SystemCertPool d of
        Some err \<Rightarrow> Inl (wrapf ''failed to load system cert pool'' err)
      | None \<Rightarrow> Inr (p\<lparr>authOpts := Some \<lparr>dialOptions = [WithTLS], tokenSource = ts\<rparr>\<rparr>))"

definition audience :: "string \<Rightarrow> string" where
  "audience addr = ''https://'' @ TrimSuffix addr '':443''"

definition WithIDTokenAuth :: "'w remote_deps \<Rightarrow> 'w remote_option" where
  "WithIDTokenAuth d p =
     (case NewTokenSource d (audience (address p)) of
        Inl err \<Rightarrow> Inl (wrapf ''failed idtoken.NewTokenSource'' err)
      | Inr ts \<Rightarrow> setIDTokenAuth d ts p)"

definition WithImpersonatedIDTokenAuth :: "'w remote_deps \<Rightarrow> string \<Rightarrow> 'w remote_option" where
  "WithImpersonatedIDTokenAuth d targetPrincipal p =
     (case ImpersonatedTokenSource d targetPrincipal (audience (address p)) of
        Inl err \<Rightarrow> Inl (wrapf ''failed impersonate.IDTokenSource'' err)
      | Inr ts \<Rightarrow> setIDTokenAuth d ts p)"

definition dialOpts :: "'w id_token_auth \<Rightarrow> gerror + dial_option list" where
  "dialOpts a = Inr (dialOptions a)"

definition callOpts :: "'w id_token_auth \<Rightarrow> ('w, gerror + call_option list) go" where
  "callOpts a = go_bind (tokenSource a) (\<lambda>t.
     case t of
       Inl err \<Rightarrow> go_return (Inl (wrapf ''failed to generate id token'' err))
     | Inr token \<Rightarrow> go_return (Inr [PerRPCCredentials token]))"

subsection \<open>The code of processor.go\<close>

definition WithGRPCDialOptions :: "dial_option list \<Rightarrow> 'w remote_option" where
  "WithGRPCDialOptions opts p = Inr (p\<lparr>rawDialOpts := opts\<rparr>)"

definition WithDefaultAuth :: "'w remote_deps \<Rightarrow> 'w remote_option" where
  "WithDefaultAuth d = WithIDTokenAuth d"

fun apply_remote_options :: "'w remote_option list \<Rightarrow> 'w remote_option" where
  "apply_remote_options [] p = Inr p"
| "apply_remote_options (opt # os) p =
     (case opt p of
        Inl err \<Rightarrow> Inl (wrapf ''failed to set option'' err)
      | Inr p' \<Rightarrow> apply_remote_options os p')"

definition remote_dial_options :: "'w remote_processor \<Rightarrow> gerror + dial_option list" where
  "remote_dial_options p =
     (let base = rawDialOpts p @ [WithAuthority (address p)] in
      case authOpts p of
        Some a \<Rightarrow>
          (case dialOpts a of
             Inl err \<Rightarrow> Inl (wrapf ''failed to generate gRPC auth dial options'' err)
           | Inr authDialOpts \<Rightarrow> Inr (base @ authDialOpts))
      | None \<Rightarrow> Inr (base @ [WithInsecure]))"

definition NewRemoteProcessor ::
  "'w remote_deps \<Rightarrow> string \<Rightarrow> 'w remote_option list \<Rightarrow> gerror + 'w remote_processor" where
  "NewRemoteProcessor d addr opts =
     (case apply_remote_options opts
             \<lparr>address = addr, r_conn = None, r_client = None, authOpts = None, rawDialOpts = []\<rparr> of
        Inl err \<Rightarrow> Inl err
      | Inr p \<Rightarrow>
          (case remote_dial_options p of
             Inl err \<Rightarrow> Inl err
           | Inr dial \<Rightarrow>
               (case NewGRPCClient d addr dial of
                  Inl err \<Rightarrow> Inl (wrapf ''dial remote log processor failed'' err)
                | Inr conn \<Rightarrow> Inr (p\<lparr>r_conn := Some conn, r_client := Some (NewAuditLogAgentClient conn)\<rparr>))))"

text \<open>
  The response's \<open>Result\<close> is \<open>None\<close> when it is nil.  Only labels, payload and type are taken
  over from it.
\<close>

definition take_result :: "log_request option \<Rightarrow> log_request option \<Rightarrow> log_request option" where
  "take_result r result =
     (case result of
        None \<Rightarrow> r
      | Some x \<Rightarrow> map_option (\<lambda>q. q\<lparr>req_labels := GetLabels (Some x),
                                    payload := GetPayload (Some x),
                                    req_type := GetType (Some x)\<rparr>) r)"

definition auth_call_opts :: "'w remote_processor \<Rightarrow> ('w, gerror + call_option list) go" where
  "auth_call_opts p = (case authOpts p of None \<Rightarrow> go_return (Inr []) | Some a \<Rightarrow> callOpts a)"

definition Remote_Process :: "'w remote_processor \<Rightarrow> 'w process" where
  "Remote_Process p c r =
     go_bind (auth_call_opts p) (\<lambda>opts.
       case opts of
         Inl err \<Rightarrow> go_return (Some (wrapf ''failed to generate gRPC auth call options'' err), r)
       | Inr authCallOpts \<Rightarrow>
           (case r_client p of
              None \<Rightarrow> go_panic nil_deref
            | Some client \<Rightarrow>
                go_bind (client_ProcessLog client c r authCallOpts) (\<lambda>res.
                  case res of
                    Inl err \<Rightarrow> go_return (Some (wrapf ''remote log processing failed'' err), r)
                  | Inr resp \<Rightarrow>
                      if r = None \<and> GetResult (Some resp) \<noteq> None then go_panic nil_deref
                      else go_return (None, take_result r (GetResult (Some resp))))))"

definition Remote_Stop :: "'w remote_processor \<Rightarrow> ('w, gerror option) go" where
  "Remote_Stop p =
     (case r_conn p of
        None \<Rightarrow> go_panic nil_deref
      | Some conn \<Rightarrow> go_bind (conn_Close conn) (\<lambda>err.
          go_return (map_option (wrapf ''failed to close grpc connection'') err)))"

definition remote_log_processor :: "'w remote_processor \<Rightarrow> 'w processor" where
  "remote_log_processor p =
     \<lparr>p_type = ''*remote.Processor'', p_process = Remote_Process p,
      p_stop = Some (Remote_Stop p)\<rparr>"

subsection \<open>Lemmas\<close>

lemma setIDTokenAuth_ok:
  "setIDTokenAuth d ts p = Inr p' \<Longrightarrow>
     p' = p\<lparr>authOpts := Some \<lparr>dialOptions = [WithTLS], tokenSource = ts\<rparr>\<rparr>"
  by (auto simp: setIDTokenAuth_def split: option.splits)

text \<open>A processor whose authentication was set by one of the two token options.\<close>

definition token_option :: "'w remote_deps \<Rightarrow> 'w remote_option \<Rightarrow> bool" where
  "token_option d f \<longleftrightarrow>
     f = WithDefaultAuth d \<or> (\<exists>acct. f = WithImpersonatedIDTokenAuth d acct)"

lemma token_option_sets_tls:
  assumes "token_option d f" "f p = Inr p'"
  shows "address p' = address p \<and> rawDialOpts p' = rawDialOpts p \<and>
         (\<exists>ts. authOpts p' = Some \<lparr>dialOptions = [WithTLS], tokenSource = ts\<rparr>)"
  using assms
  by (auto simp: token_option_def WithDefaultAuth_def WithIDTokenAuth_def
      WithImpersonatedIDTokenAuth_def dest!: setIDTokenAuth_ok split: sum.splits)

lemma NewRemoteProcessor_token_dials_tls:
  assumes "token_option d f" "NewRemoteProcessor d addr [f] = Inr p"
  shows "(\<exists>conn. r_conn p = Some conn \<and> r_client p = Some (NewAuditLogAgentClient conn) \<and>
            NewGRPCClient d addr [WithAuthority addr, WithTLS] = Inr conn) \<and>
         authOpts p \<noteq> None"
  using assms
  by (auto simp: NewRemoteProcessor_def remote_dial_options_def dialOpts_def
      dest!: token_option_sets_tls split: sum.splits)

lemma NewRemoteProcessor_no_auth:
  assumes "NewRemoteProcessor d addr [] = Inr p"
  shows "(\<exists>conn. r_conn p = Some conn \<and> r_client p = Some (NewAuditLogAgentClient conn) \<and>
            NewGRPCClient d addr [WithAuthority addr, WithInsecure] = Inr conn) \<and>
         authOpts p = None"
  using assms
  by (auto simp: NewRemoteProcessor_def remote_dial_options_def Let_def split: sum.splits)

lemma suffix_length: "suffix p s \<Longrightarrow> s = take (length s - length p) s @ p"
  by (auto simp: suffix_def)

lemma audience_port: "audience (host @ '':443'') = ''https://'' @ host"
  by (simp add: audience_def TrimSuffix_def HasSuffix_def suffixI)

lemma audience_other: "\<not> suffix '':443'' addr \<Longrightarrow> audience addr = ''https://'' @ addr"
  by (simp add: audience_def TrimSuffix_def HasSuffix_def)

lemma take_result_frame:
  "take_result (Some q) result = Some q' \<Longrightarrow>
     mode q' = mode q \<and> operation q' = operation q \<and> req_timestamp q' = req_timestamp q \<and>
     justification_token q' = justification_token q"
  by (auto simp: take_result_def split: option.splits)

lemma Remote_Process_result:
  assumes "Remote_Process p c (Some q) w = (Ret (e, r'), w')"
  shows "\<exists>q'. r' = Some q' \<and> mode q' = mode q \<and> (e \<noteq> None \<longrightarrow> q' = q)"
  using assms
  by (auto simp: Remote_Process_def take_result_def elim!: go_bind_RetE
      split: sum.splits option.splits if_splits)

interpretation remote_backend: mode_process "Remote_Process p"
  by unfold_locales (use Remote_Process_result in blast)

end
