(* ===== verification/Audit_Opt.thy ===== *)
theory Audit_Opt
  imports Interceptor Config Labels Filtering Justification Runtime_Info Cloud_Logging Remote
begin

section \<open>Building clients from a configuration: clients/go/pkg/auditopt\<close>

text \<open>
  The options that configure an audit client and an interceptor from a \<open>Config\<close> or from a
  configuration file.  What they call outside the repository is the record \<open>opt_deps\<close>:
  the file system, the loader that merges YAML and environment variables (\<open>cfgloader.Load\<close>), the
  regular expressions, the Cloud Logging library, the JVS client, and the dependencies of the
  processors.  The lemmas give the processors of the client in their order and show that it meets
  the contracts \<open>Log\<close> relies on.
\<close>

record ('w, 't) opt_deps =
  os_ReadFile :: "string \<Rightarrow> gerror + string"
  load_config :: "string \<Rightarrow> gerror + config"
  od_runtime :: runtime_env
  od_compile :: re_compile
  od_remote :: "'w remote_deps"
  od_ProjectID :: string
  od_NewLogging :: "string \<Rightarrow> gerror + 'w logging_client"
  od_type_order :: "log_type list"
  load_jvs_config :: "string \<Rightarrow> bool \<Rightarrow> gerror + (string \<times> bool)"
  jvs_NewClient :: "string \<times> bool \<Rightarrow> gerror + 't jvs"
  jwt_Parse :: "string \<Rightarrow> gerror + (string \<rightharpoonup> json)"

definition ErrNotExist :: gerror where
  "ErrNotExist = External ''file does not exist''"

definition DefaultConfigFilePath :: string where
  "DefaultConfigFilePath = ''/etc/lumberjack/config.yaml''"

subsection \<open>The options of the parts\<close>

definition principalFilterFromConfig ::
  "('w, 't) opt_deps \<Rightarrow> config \<Rightarrow> gerror + 'w client_option option" where
  "principalFilterFromConfig d cfg =
     (case cfg_condition cfg of
        None \<Rightarrow> Inr None
      | Some co \<Rightarrow>
          (case co_regex co of
             None \<Rightarrow> Inr None
           | Some re \<Rightarrow>
               (case NewPrincipalEmailMatcher
                       [WithIncludes (od_compile d) [PrincipalInclude re],
                        WithExcludes (od_compile d) [PrincipalExclude re]] of
                  Inl err \<Rightarrow> Inl (wrapf ''failed to create email matcher'' err)
                | Inr m \<Rightarrow> Inr (Some (WithValidator (matcher_log_processor m))))))"

definition remote_auth_options ::
  "('w, 't) opt_deps \<Rightarrow> remote_config \<Rightarrow> 'w remote_option list" where
  "remote_auth_options d rc =
     (if InsecureEnabled rc then []
      else if ImpersonateAccount rc = [] then [WithDefaultAuth (od_remote d)]
      else [WithImpersonatedIDTokenAuth (od_remote d) (ImpersonateAccount rc)])"

definition remoteBackend ::
  "('w, 't) opt_deps \<Rightarrow> remote_config option \<Rightarrow> gerror + 'w processor list" where
  "remoteBackend d rc0 =
     (case rc0 of
        None \<Rightarrow> Inr []
      | Some rc \<Rightarrow>
          (case NewRemoteProcessor (od_remote d) (rm_address rc) (remote_auth_options d rc) of
             Inl err \<Rightarrow> Inl (wrapf ''failed to create remote processor'' err)
           | Inr b \<Rightarrow> Inr [remote_log_processor b]))"

definition cloudLoggingBackend ::
  "('w, 't) opt_deps \<Rightarrow> log_mode \<Rightarrow> cloudlogging_config option \<Rightarrow> gerror + 'w processor list" where
  "cloudLoggingBackend d logmode cc0 =
     (case cc0 of
        None \<Rightarrow> Inr []
      | Some cc \<Rightarrow>
          let opts = (if logmode = MODE_BEST_EFFORT then [WithDefaultBestEffort] else []);
              new = NewProcessor (od_ProjectID d) (od_NewLogging d (od_ProjectID d)) (od_type_order d)
          in (case (if DefaultProject cc then Inr (new opts)
                    else (case od_NewLogging d (Project cc) of
                            Inl err \<Rightarrow> Inl (wrapf ''failed to create cloud logging client'' err)
                          | Inr clc \<Rightarrow> Inr (new (opts @ [WithLoggingClient clc])))) of
                Inl err \<Rightarrow> Inl err
              | Inr (Inl perr) \<Rightarrow> Inl (wrapf ''failed to create processor'' perr)
              | Inr (Inr p) \<Rightarrow> Inr [cl_log_processor p]))"

definition backendsFromConfig ::
  "('w, 't) opt_deps \<Rightarrow> config \<Rightarrow> backend_config \<Rightarrow> gerror + 'w client_option list" where
  "backendsFromConfig d cfg b =
     (case remoteBackend d (be_remote b) of
        Inl err \<Rightarrow> Inl err
      | Inr rs \<Rightarrow>
          (case cloudLoggingBackend d (GetLogMode cfg) (be_cloudlogging b) of
             Inl err \<Rightarrow> Inl err
           | Inr cs \<Rightarrow> Inr (map WithBackend (rs @ cs))))"

definition labelsFromConfig :: "config \<Rightarrow> 'w client_option" where
  "labelsFromConfig cfg = WithMutator (label_log_processor (NewLabelProcessor (cfg_labels cfg)))"

definition justificationFromConfig ::
  "('w, 't) opt_deps \<Rightarrow> justification_config \<Rightarrow> gerror + 'w client_option" where
  "justificationFromConfig d j =
     (case load_jvs_config d (PublicKeysEndpoint j) (AllowBreakglass j) of
        Inl err \<Rightarrow> Inl (wrapf ''failed to load JVS config'' err)
      | Inr jc \<Rightarrow>
          (case jvs_NewClient d jc of
             Inl err \<Rightarrow> Inl (wrapf ''failed to create jvs client'' err)
           | Inr v \<Rightarrow> Inr (WithMutator (justification_log_processor v))))"

text \<open>\<open>audit.WithRuntimeInfo()\<close> with the environment it looks at.\<close>

definition WithRuntimeInfo_env :: "('w, 't) opt_deps \<Rightarrow> 'w client_option" where
  "WithRuntimeInfo_env d =
     WithRuntimeInfo (case newRuntimeInfo (od_runtime d) of
                        Inl e \<Rightarrow> Inl e | Inr i \<Rightarrow> Inr (runtime_log_processor i))"

subsection \<open>The client\<close>

fun run_options ::
  "ctx \<Rightarrow> 'w client_option list \<Rightarrow> 'w client \<Rightarrow> ('w, gerror option \<times> 'w client) go" where
  "run_options c [] cl = go_return (None, cl)"
| "run_options c (f # fs) cl =
     go_bind (f c cl) (\<lambda>(err, cl').
       case err of Some e \<Rightarrow> go_return (Some e, cl') | None \<Rightarrow> run_options c fs cl')"

definition justification_options ::
  "('w, 't) opt_deps \<Rightarrow> config \<Rightarrow> gerror + 'w client_option list" where
  "justification_options d cfg =
     (case cfg_justification cfg of
        None \<Rightarrow> Inr []
      | Some j \<Rightarrow>
          if j_enabled j
          then (case justificationFromConfig d j of Inl err \<Rightarrow> Inl err | Inr f \<Rightarrow> Inr [f])
          else Inr [])"

text \<open>The options in the order they are applied, for a configuration that is valid.\<close>

definition client_options ::
  "('w, 't) opt_deps \<Rightarrow> config \<Rightarrow> backend_config \<Rightarrow> gerror + 'w client_option list" where
  "client_options d cfg b =
     (case principalFilterFromConfig d cfg of
        Inl err \<Rightarrow> Inl err
      | Inr withPrincipalFilter \<Rightarrow>
          (case backendsFromConfig d cfg b of
             Inl err \<Rightarrow> Inl err
           | Inr withBackends \<Rightarrow>
               (case justification_options d cfg of
                  Inl err \<Rightarrow> Inl err
                | Inr withJustification \<Rightarrow>
                    Inr ([WithRuntimeInfo_env d] @
                         (case withPrincipalFilter of None \<Rightarrow> [] | Some f \<Rightarrow> [f]) @
                         withBackends @ [labelsFromConfig cfg] @ [WithLogMode (GetLogMode cfg)] @
                         withJustification))))"

definition clientFromConfig ::
  "('w, 't) opt_deps \<Rightarrow> config option \<Rightarrow> 'w client_option" where
  "clientFromConfig d cfg0 c cl =
     (case cfg0 of
        None \<Rightarrow> go_return (Some (errorf ''nil config''), cl)
      | Some cfg \<Rightarrow>
          (case Config_Validate cfg of
             (Some err, _) \<Rightarrow> go_return (Some (wrapf ''invalid configuration'' err), cl)
           | (None, cfg1) \<Rightarrow>
               (case cfg_backend cfg1 of
                  None \<Rightarrow> go_panic nil_deref
                | Some b \<Rightarrow>
                    (case client_options d cfg1 b of
                       Inl err \<Rightarrow> go_return (Some err, cl)
                     | Inr opts \<Rightarrow> run_options c opts cl))))"

definition FromConfig :: "('w, 't) opt_deps \<Rightarrow> config option \<Rightarrow> 'w client_option" where
  "FromConfig d cfg = clientFromConfig d cfg"

definition loadConfig :: "('w, 't) opt_deps \<Rightarrow> string \<Rightarrow> gerror + config" where
  "loadConfig d b =
     (case load_config d b of
        Inl err \<Rightarrow> Inl (wrapf ''failed to load config'' err)
      | Inr cfg \<Rightarrow> Inr cfg)"

text \<open>A file that is missing is read as no bytes.\<close>

definition read_config :: "('w, 't) opt_deps \<Rightarrow> string \<Rightarrow> gerror + config" where
  "read_config d path =
     (case os_ReadFile d path of
        Inr fc \<Rightarrow> loadConfig d fc
      | Inl err \<Rightarrow>
          if \<not> errors_is err ErrNotExist then Inl (wrapf ''failed to read config file'' err)
          else loadConfig d [])"

definition fromConfigFile :: "('w, 't) opt_deps \<Rightarrow> string \<Rightarrow> 'w client_option" where
  "fromConfigFile d path c cl =
     (let path' = (if path = [] then DefaultConfigFilePath else path) in
      case read_config d path' of
        Inl err \<Rightarrow> go_return (Some err, cl)
      | Inr cfg \<Rightarrow> clientFromConfig d (Some cfg) c cl)"

text \<open>The exported option looks variables up in the environment, as \<open>load_config\<close> of \<open>d\<close> does.\<close>

definition FromConfigFile :: "('w, 't) opt_deps \<Rightarrow> string \<Rightarrow> 'w client_option" where
  "FromConfigFile d path = fromConfigFile d path"

subsection \<open>The interceptor\<close>

fun run_interceptor_options :: "'w interceptor_option list \<Rightarrow> 'w interceptor_option" where
  "run_interceptor_options [] c i = go_return (None, i)"
| "run_interceptor_options (f # fs) c i =
     go_bind (f c i) (\<lambda>(err, i').
       case err of Some e \<Rightarrow> go_return (Some e, i') | None \<Rightarrow> run_interceptor_options fs c i')"

text \<open>
  The text of the two errors that print the configuration with \<open>%+v\<close> is given without it.
\<close>

definition interceptorFromConfigFile ::
  "('w, 't) opt_deps \<Rightarrow> string \<Rightarrow> 'w interceptor_option" where
  "interceptorFromConfigFile d path c i =
     (case read_config d path of
        Inl err \<Rightarrow> go_return (Some err, i)
      | Inr cfg \<Rightarrow>
          (case cfg_security cfg of
             None \<Rightarrow> go_return
               (Some (errorf ''SecurityContext must be provided to use interceptor''), i)
           | Some sc \<Rightarrow>
               if from_raw_jwts sc = []
               then go_return (Some (errorf ''no supported security context configured in config''), i)
               else
                 let opts = [WithInterceptorLogMode (GetLogMode cfg), WithAuditRules (cfg_rules cfg),
                       WithSecurityContext (FromRawJWT_RequestPrincipal (jwt_Parse d) (from_raw_jwts sc))]
                 in go_bind (NewClient c [clientFromConfig d (Some cfg)]) (\<lambda>res.
                      case res of
                        Inl err \<Rightarrow> go_return
                          (Some (wrapf ''failed to create audit client from config'' err), i)
                      | Inr cl \<Rightarrow> run_interceptor_options (opts @ [WithAuditClient cl]) c i)))"

definition InterceptorFromConfigFile :: "('w, 't) opt_deps \<Rightarrow> string \<Rightarrow> 'w interceptor_option" where
  "InterceptorFromConfigFile d path = interceptorFromConfigFile d path"

subsection \<open>Lemmas: what a configured client consists of\<close>

lemma run_options_simple [simp]:
  "run_options c (WithValidator p # fs) cl = run_options c fs (cl\<lparr>validators := validators cl @ [p]\<rparr>)"
  "run_options c (WithMutator p # fs) cl = run_options c fs (cl\<lparr>mutators := mutators cl @ [p]\<rparr>)"
  "run_options c (WithBackend p # fs) cl = run_options c fs (cl\<lparr>backends := backends cl @ [p]\<rparr>)"
  "run_options c (WithLogMode m # fs) cl = run_options c fs (cl\<lparr>logMode := m\<rparr>)"
  "run_options c (WithRuntimeInfo (Inr p) # fs) cl = run_options c fs (cl\<lparr>mutators := mutators cl @ [p]\<rparr>)"
  by (simp_all add: WithValidator_def WithMutator_def WithBackend_def WithLogMode_def
      WithRuntimeInfo_def)

declare run_options.simps(2) [simp del]

lemma run_options_backends:
  "run_options c (map WithBackend bs @ fs) cl = run_options c fs (cl\<lparr>backends := backends cl @ bs\<rparr>)"
  by (induction bs arbitrary: cl) simp_all

lemma run_options_runtime:
  "run_options c (WithRuntimeInfo_env d # fs) cl w = (Ret (None, cl'), w') \<longleftrightarrow>
     (\<exists>info. newRuntimeInfo (od_runtime d) = Inr info \<and>
        run_options c fs (cl\<lparr>mutators := mutators cl @ [runtime_log_processor info]\<rparr>) w =
          (Ret (None, cl'), w'))"
  by (auto simp: WithRuntimeInfo_env_def WithRuntimeInfo_def run_options.simps(2) split: sum.splits)

text \<open>The processors each part of the configuration stands for.\<close>

definition filter_processors :: "('w, 't) opt_deps \<Rightarrow> config \<Rightarrow> 'w processor list \<Rightarrow> bool" where
  "filter_processors d cfg fs \<longleftrightarrow>
     (\<exists>f :: 'w client_option option. principalFilterFromConfig d cfg = Inr f \<and>
        (case f of None \<Rightarrow> fs = []
         | Some g \<Rightarrow> \<exists>m. g = WithValidator (matcher_log_processor m) \<and> fs = [matcher_log_processor m]))"

definition justification_processors ::
  "('w, 't) opt_deps \<Rightarrow> config \<Rightarrow> 'w processor list \<Rightarrow> bool" where
  "justification_processors d cfg js \<longleftrightarrow>
     (case cfg_justification cfg of
        None \<Rightarrow> js = []
      | Some j \<Rightarrow>
          if j_enabled j
          then \<exists>jc v. load_jvs_config d (PublicKeysEndpoint j) (AllowBreakglass j) = Inr jc \<and>
                 jvs_NewClient d jc = Inr v \<and> js = [justification_log_processor v]
          else js = [])"

lemma principalFilter_cases:
  assumes "principalFilterFromConfig d cfg = Inr f"
  shows "f = None \<or> (\<exists>m. f = Some (WithValidator (matcher_log_processor m)))"
  using assms by (auto simp: principalFilterFromConfig_def split: option.splits sum.splits)

lemma filter_options_cases:
  assumes "principalFilterFromConfig d cfg = Inr f"
  shows "\<exists>fs. filter_processors d cfg fs \<and>
     (case f of None \<Rightarrow> [] | Some g \<Rightarrow> [g]) = map WithValidator fs"
  using principalFilter_cases [OF assms]
proof (elim disjE exE)
  fix m
  assume f: "f = Some (WithValidator (matcher_log_processor m))"
  show ?thesis
    by (rule exI [of _ "[matcher_log_processor m]"])
      (use assms f in \<open>auto simp: filter_processors_def\<close>)
qed (use assms in \<open>auto simp: filter_processors_def\<close>)

lemma justification_options_cases:
  assumes "justification_options d cfg = Inr opts"
  shows "\<exists>js. opts = map WithMutator js \<and> justification_processors d cfg js"
  using assms
  by (auto simp: justification_options_def justification_processors_def justificationFromConfig_def
      split: option.splits sum.splits if_splits)

lemma run_options_mutators:
  "run_options c (map WithMutator ms) cl = go_return (None, cl\<lparr>mutators := mutators cl @ ms\<rparr>)"
  by (induction ms arbitrary: cl) simp_all

lemma clientFromConfig_shape:
  assumes "clientFromConfig d (Some cfg) c cl w = (Ret (None, cl'), w')"
  defines "cfg1 \<equiv> snd (Config_Validate cfg)"
  shows "w' = w \<and> wf_config cfg1 \<and> (\<exists>info b fs rs cs js.
     newRuntimeInfo (od_runtime d) = Inr info \<and> cfg_backend cfg1 = Some b \<and>
     filter_processors d cfg1 fs \<and> remoteBackend d (be_remote b) = Inr rs \<and>
     cloudLoggingBackend d (GetLogMode cfg1) (be_cloudlogging b) = Inr cs \<and>
     justification_processors d cfg1 js \<and>
     cl' = \<lparr>validators = validators cl @ fs,
            mutators = mutators cl @ [runtime_log_processor info,
                         label_log_processor (NewLabelProcessor (cfg_labels cfg1))] @ js,
            backends = backends cl @ rs @ cs, logMode = GetLogMode cfg1\<rparr>)"
proof -
  from assms(1) have v: "fst (Config_Validate cfg) = None"
    by (auto simp: clientFromConfig_def split: prod.splits option.splits)
  then have wf: "wf_config cfg1" by (simp add: cfg1_def Config_Validate_None)
  from v have cv: "Config_Validate cfg = (None, cfg1)" by (simp add: cfg1_def prod_eq_iff)
  from wf obtain b where b: "cfg_backend cfg1 = Some b" by (auto simp: wf_config_def)
  from assms(1) cv b obtain opts where co: "client_options d cfg1 b = Inr opts"
    and run: "run_options c opts cl w = (Ret (None, cl'), w')"
    by (auto simp: clientFromConfig_def split: sum.splits)
  from co obtain f rs cs jo where f: "principalFilterFromConfig d cfg1 = Inr f"
    and rs: "remoteBackend d (be_remote b) = Inr rs"
    and cs: "cloudLoggingBackend d (GetLogMode cfg1) (be_cloudlogging b) = Inr cs"
    and jo: "justification_options d cfg1 = Inr jo"
    and opts: "opts = [WithRuntimeInfo_env d] @ (case f of None \<Rightarrow> [] | Some f \<Rightarrow> [f]) @
       map WithBackend (rs @ cs) @ [labelsFromConfig cfg1] @ [WithLogMode (GetLogMode cfg1)] @ jo"
    by (auto simp: client_options_def backendsFromConfig_def split: sum.splits)
  from justification_options_cases [OF jo] obtain js where
    js: "jo = map WithMutator js" "justification_processors d cfg1 js" by blast
  from filter_options_cases [OF f] obtain fs where
    fs: "filter_processors d cfg1 fs" "(case f of None \<Rightarrow> [] | Some f \<Rightarrow> [f]) = map WithValidator fs"
    by blast
  have vs: "run_options c (map WithValidator fs @ gs) cl =
      run_options c gs (cl\<lparr>validators := validators cl @ fs\<rparr>)" for gs cl
    by (induction fs arbitrary: cl) simp_all
  from run opts js(1) fs(2) obtain info where info: "newRuntimeInfo (od_runtime d) = Inr info"
    and cl': "w' = w \<and> cl' = \<lparr>validators = validators cl @ fs,
            mutators = mutators cl @ [runtime_log_processor info,
                         label_log_processor (NewLabelProcessor (cfg_labels cfg1))] @ js,
            backends = backends cl @ rs @ cs, logMode = GetLogMode cfg1\<rparr>"
    by (auto simp: run_options_runtime vs run_options_backends labelsFromConfig_def
        run_options_mutators simp flip: map_append)
  from info cl' wf b f rs cs js fs show ?thesis by blast
qed

subsection \<open>Lemmas: the contracts of a configured client\<close>

lemma configured_validators:
  assumes "filter_processors d cfg fs"
  shows "\<forall>p \<in> set fs. validator_process (p_process p)"
  using assms principal_filter.validator_process_axioms
  by (auto simp: filter_processors_def matcher_log_processor_def split: option.splits)

lemma configured_justification:
  assumes "justification_processors d cfg js"
  shows "\<forall>p \<in> set js. mutator_process (p_process p)"
  using assms justification_mutator.mutator_process_axioms
  by (auto simp: justification_processors_def justification_log_processor_def
      split: option.splits if_splits)

lemma configured_remote:
  assumes "remoteBackend d rc = Inr rs"
  shows "(\<forall>p \<in> set rs. mode_process (p_process p)) \<and> (rc \<noteq> None \<longrightarrow> rs \<noteq> [])"
  using assms remote_backend.mode_process_axioms
  by (auto simp: remoteBackend_def remote_log_processor_def split: option.splits sum.splits)

lemma configured_cloud_logging:
  assumes "cloudLoggingBackend d m cc = Inr cs"
  shows "(\<forall>p \<in> set cs. mode_process (p_process p)) \<and> (cc \<noteq> None \<longrightarrow> cs \<noteq> [])"
  using assms cloud_logging_backend.mode_process_axioms
  by (auto simp: cloudLoggingBackend_def cl_log_processor_def Let_def split: option.splits sum.splits)

definition sound_client :: "'w client \<Rightarrow> bool" where
  "sound_client cl \<longleftrightarrow> checks_requests cl \<and> keeps_modes cl \<and>
     logMode cl \<in> {MODE_FAIL_CLOSE, MODE_BEST_EFFORT} \<and> backends cl \<noteq> []"

lemma mutator_process_mode: "mutator_process p \<Longrightarrow> mode_process p"
  by (rule mutator_process.axioms(1))

lemma validator_process_mode: "validator_process p \<Longrightarrow> mode_process p"
  by unfold_locales (simp add: validator_process.proc_eq)

lemma clientFromConfig_sound:
  assumes "clientFromConfig d (Some cfg) c default_client w = (Ret (None, cl'), w')"
  shows "sound_client cl'"
proof -
  let ?cfg = "snd (Config_Validate cfg)"
  from clientFromConfig_shape [OF assms] obtain info b fs rs cs js where
    wf: "wf_config ?cfg" and b: "cfg_backend ?cfg = Some b"
    and fs: "filter_processors d ?cfg fs" and rs: "remoteBackend d (be_remote b) = Inr rs"
    and cs: "cloudLoggingBackend d (GetLogMode ?cfg) (be_cloudlogging b) = Inr cs"
    and js: "justification_processors d ?cfg js"
    and cl': "cl' = \<lparr>validators = validators default_client @ fs,
            mutators = mutators default_client @ [runtime_log_processor info,
                         label_log_processor (NewLabelProcessor (cfg_labels ?cfg))] @ js,
            backends = backends default_client @ rs @ cs, logMode = GetLogMode ?cfg\<rparr>"
    by blast
  have v: "\<forall>p \<in> set (validators cl'). validator_process (p_process p)"
    using configured_validators [OF fs] request_validator.validator_process_axioms
    by (auto simp: cl' default_client_def NewRequestValidator_def)
  have m: "\<forall>p \<in> set (mutators cl'). mutator_process (p_process p)"
    using configured_justification [OF js] label_mutator.mutator_process_axioms
      runtime_mutator.mutator_process_axioms
    by (auto simp: cl' default_client_def runtime_log_processor_def label_log_processor_def)
  have k: "\<forall>p \<in> set (backends cl'). mode_process (p_process p)"
    using configured_remote [OF rs] configured_cloud_logging [OF cs]
    by (auto simp: cl' default_client_def)
  from v m have ch: "checks_requests cl'"
    by (simp add: checks_requests_def cl' default_client_def)
  from v m k have km: "keeps_modes cl'"
    by (auto simp: keeps_modes_def validator_process_mode mutator_process_mode)
  from wf b have "wf_backend b" by (simp add: wf_config_def)
  with configured_remote [OF rs] configured_cloud_logging [OF cs] have "backends cl' \<noteq> []"
    by (auto simp: cl' default_client_def wf_backend_def)
  with ch km GetLogMode_wf [OF wf] show ?thesis by (simp add: sound_client_def cl')
qed

lemma NewClient_single:
  assumes "NewClient c [f] w = (Ret (Inr cl), w')"
  shows "f c default_client w = (Ret (None, cl), w')"
  using assms by (auto simp: NewClient_def elim!: go_bind_RetE split: option.splits)

lemma interceptorFromConfigFile_shape:
  assumes "interceptorFromConfigFile d path c i w = (Ret (None, i'), w')"
  shows "\<exists>cfg sc cl. read_config d path = Inr cfg \<and> cfg_security cfg = Some sc \<and>
     NewClient c [clientFromConfig d (Some cfg)] w = (Ret (Inr cl), w') \<and>
     i' = \<lparr>it_Client = Some cl,
           it_sc = Some (FromRawJWT_RequestPrincipal (jwt_Parse d) (from_raw_jwts sc)),
           it_rules = cfg_rules cfg, it_logMode = GetLogMode cfg\<rparr>"
proof -
  have o: "run_interceptor_options [WithInterceptorLogMode m, WithAuditRules rs,
      WithSecurityContext p, WithAuditClient cl] c i v = (Ret (None, i'), w') \<Longrightarrow>
    i' = \<lparr>it_Client = Some cl, it_sc = Some p, it_rules = rs, it_logMode = m\<rparr> \<and> w' = v" for m rs p cl v
    by (cases i) (auto simp: WithInterceptorLogMode_def WithAuditRules_def
        WithSecurityContext_def WithAuditClient_def)
  from assms show ?thesis
    by (auto simp: interceptorFromConfigFile_def Let_def simp del: run_interceptor_options.simps
        elim!: go_bind_RetE split: sum.splits option.splits if_splits dest!: o)
qed

end
