(* ===== verification/Server.thy ===== *)
theory Server
  imports Client_Log Cloud_Logging Remote
begin

section \<open>The audit log agent: pkg/server, cmd/server, clients/go/pkg/trace\<close>

text \<open>
  The gRPC server that takes log requests from remote clients and hands them to an audit client of
  its own, with the program that builds it: its configuration, tracing, the Cloud Logging
  backend, and the deferred shutdown.  The libraries (envconfig, OpenTelemetry, the Cloud Logging
  client, the serving infrastructure) are the record \<open>main_deps\<close>.
\<close>

subsection \<open>pkg/server/server.go\<close>

record 'w audit_log_agent =
  agent_client :: "'w client option"

definition NewAuditLogAgent :: "'w client \<Rightarrow> gerror + 'w audit_log_agent" where
  "NewAuditLogAgent client = Inr \<lparr>agent_client = Some client\<rparr>"

definition codifyErr :: "gerror \<Rightarrow> gerror" where
  "codifyErr err =
     (if errors_is err ErrInvalidRequest then StatusError code_InvalidArgument (error_text err)
      else StatusError code_Internal (error_text err))"

text \<open>The response carries the request the client was given, as it is when \<open>Log\<close> returns.\<close>

definition ProcessLog ::
  "'w audit_log_agent \<Rightarrow> ctx \<Rightarrow> log_request option \<Rightarrow> ('w, gerror + audit_log_response) go" where
  "ProcessLog a c logReq =
     go_bind (Log (agent_client a) c logReq) (\<lambda>(err, logReq').
       case err of
         Some e \<Rightarrow> go_return (Inl (codifyErr e))
       | None \<Rightarrow> go_return (Inr \<lparr>Result = logReq'\<rparr>))"

text \<open>The agent as an implementation of the service: its \<open>ProcessLog\<close> hides the embedded one.\<close>

definition agent_server :: "'w audit_log_agent \<Rightarrow> 'w audit_log_agent_server" where
  "agent_server a = UnimplementedAuditLogAgentServer\<lparr>srv_ProcessLog := ProcessLog a\<rparr>"

subsection \<open>clients/go/pkg/trace/provider.go\<close>

record 'w otel =
  texporter_New :: "('w, gerror option) go"
  SetTracerProvider :: "float64 \<Rightarrow> ('w, unit) go"
  is_sdk_provider :: "'w \<Rightarrow> bool"
  tp_Shutdown :: "('w, gerror option) go"

definition trace_Init :: "'w otel \<Rightarrow> float64 \<Rightarrow> ('w, gerror option) go" where
  "trace_Init o1 traceRatio =
     go_bind (texporter_New o1) (\<lambda>err.
       case err of
         Some e \<Rightarrow> go_return (Some (wrapf ''failed to create trace exporter'' e))
       | None \<Rightarrow> go_bind (SetTracerProvider o1 traceRatio) (\<lambda>_. go_return None))"

definition trace_Shutdown :: "'w otel \<Rightarrow> ('w, gerror option) go" where
  "trace_Shutdown o1 w =
     (if \<not> is_sdk_provider o1 (w_ext w) then (Ret None, w)
      else go_bind (tp_Shutdown o1) (\<lambda>err. go_return
             (map_option (wrapf ''failed to shutdown trace provider'') err)) w)"

subsection \<open>pkg/server/config.go and cmd/server/main.go\<close>

record server_config =
  Port :: string
  TraceRatio :: float64

record 'w main_deps =
  gcputil_ProjectID :: string
  envconfig_Process :: "gerror + server_config"
  md_otel :: "'w otel"
  logging_NewClient :: "string \<Rightarrow> gerror + 'w logging_client"
  log_type_order :: "log_type list"
  serving_New :: "string \<Rightarrow> gerror option"
  GRPCUnaryInterceptor :: "string \<Rightarrow> ('w, log_request, audit_log_response) server_interceptor"
  StartGRPC :: "('w, log_request, audit_log_response) grpc_server \<Rightarrow> ('w, gerror option) go"

definition NewConfig :: "'w main_deps \<Rightarrow> gerror + server_config" where
  "NewConfig d =
     (case envconfig_Process d of
        Inl err \<Rightarrow> Inl (wrapf ''failed to process environment'' err)
      | Inr c \<Rightarrow> Inr c)"

definition newCloudLoggingProcessor :: "'w main_deps \<Rightarrow> string \<Rightarrow> gerror + 'w cl_processor" where
  "newCloudLoggingProcessor d projectID =
     (case logging_NewClient d projectID of
        Inl err \<Rightarrow> Inl (wrapf ''failed to create cloud logging client'' err)
      | Inr client \<Rightarrow>
          (case NewProcessor projectID (logging_NewClient d projectID) (log_type_order d)
                  [WithLoggingClient client] of
             Inl err \<Rightarrow> Inl (wrapf ''failed to create cloud logging audit log processor'' err)
           | Inr p \<Rightarrow> Inr p))"

text \<open>
  A body whose deferred cleanup joins its error to the result; on a panic the cleanup runs and
  the panic goes on.
\<close>

definition with_defer ::
  "('w, gerror option) go \<Rightarrow> string \<Rightarrow> ('w, gerror option) go \<Rightarrow> ('w, gerror option) go" where
  "with_defer body msg cleanup w =
     (case body w of
        (Ret retErr, w1) \<Rightarrow> go_bind cleanup (\<lambda>err. go_return
          (case err of Some e \<Rightarrow> errors_join [retErr, Some (wrapf msg e)] | None \<Rightarrow> retErr)) w1
      | (Panic s, w1) \<Rightarrow>
          (case cleanup w1 of (Ret _, w2) \<Rightarrow> (Panic s, w2) | (Panic t, w2) \<Rightarrow> (Panic t, w2)))"

definition serve :: "'w main_deps \<Rightarrow> server_config \<Rightarrow> 'w client \<Rightarrow> ('w, gerror option) go" where
  "serve d cfg client =
     (case NewAuditLogAgent client of
        Inl err \<Rightarrow> go_return (Some (wrapf ''failed to create audit log agent'' err))
      | Inr logAgent \<Rightarrow>
          (let grpcServer = RegisterAuditLogAgentServer
                 (Some (GRPCUnaryInterceptor d (gcputil_ProjectID d))) (agent_server logAgent) in
           case serving_New d (Port cfg) of
             Some err \<Rightarrow> go_return (Some (wrapf ''failed to create serving infrastructure'' err))
           | None \<Rightarrow> StartGRPC d grpcServer))"

definition realMain :: "'w main_deps \<Rightarrow> ctx \<Rightarrow> ('w, gerror option) go" where
  "realMain d c =
     go_bind (go_log LevelDebug ''server starting'' None) (\<lambda>_.
       let projectID = gcputil_ProjectID d in
       case NewConfig d of
         Inl err \<Rightarrow> go_return (Some (wrapf ''failed to process config'' err))
       | Inr cfg \<Rightarrow>
           go_bind (go_log LevelDebug ''loaded configuration'' None) (\<lambda>_.
             go_bind (trace_Init (md_otel d) (TraceRatio cfg)) (\<lambda>err.
               case err of
                 Some e \<Rightarrow> go_return (Some (wrapf ''failed to init tracing'' e))
               | None \<Rightarrow>
                   with_defer
                     (case newCloudLoggingProcessor d projectID of
                        Inl err \<Rightarrow> go_return (Some err)
                      | Inr cl \<Rightarrow>
                          go_bind (NewClient c [WithBackend (cl_log_processor cl)]) (\<lambda>res.
                            case res of
                              Inl err \<Rightarrow> go_return (Some (wrapf ''failed to create audit client'' err))
                            | Inr client \<Rightarrow>
                                with_defer (serve d cfg client) ''failed to stop audit client''
                                  (Stop client)))
                     ''failed to shutdown tracing'' (trace_Shutdown (md_otel d)))))"

text \<open>
  \<open>main\<close>: it logs how \<open>realMain\<close> ended, and exits with the status 1 if that was an error.  A panic
  ends the program with the status 2.
\<close>

definition agent_main :: "'w main_deps \<Rightarrow> ctx \<Rightarrow> ('w, nat) go" where
  "agent_main d c w =
     (case realMain d c w of
        (Ret (Some err), w1) \<Rightarrow> go_bind (go_log LevelError (error_text err) None) (\<lambda>_. go_return 1) w1
      | (Ret None, w1) \<Rightarrow> go_bind (go_log LevelInfo ''successful shutdown'' None) (\<lambda>_. go_return 0) w1
      | (Panic s, w1) \<Rightarrow> (Ret 2, w1))"

subsection \<open>Lemmas\<close>

lemma codifyErr_code:
  "codifyErr e = StatusError (if errors_is e ErrInvalidRequest then code_InvalidArgument
                              else code_Internal) (error_text e)"
  by (simp add: codifyErr_def)

text \<open>The audit client of the agent: the default validator, one Cloud Logging backend.\<close>

definition agent_audit_client :: "'w cl_processor \<Rightarrow> 'w client" where
  "agent_audit_client p =
     \<lparr>validators = [NewRequestValidator], mutators = [], backends = [cl_log_processor p],
      logMode = MODE_UNSPECIFIED\<rparr>"

lemma agent_client_built:
  "NewClient c [WithBackend (cl_log_processor p)] w = (Ret (Inr (agent_audit_client p)), w)"
  by (simp add: NewClient_def apply_client_options_simple default_client_def agent_audit_client_def
      del: apply_client_options.simps(2))

lemma effective_mode_agent [simp]: "effective_mode (agent_audit_client p) q = mode q"
  by (simp add: effective_mode_def agent_audit_client_def)

lemma request_mode_same: "q\<lparr>mode := mode q\<rparr> = q"
  by simp

text \<open>What the agent's client does with a valid request, and with an invalid one.\<close>

lemma agent_Log_valid:
  assumes "valid_request q"
  shows "Log (Some (agent_audit_client p)) c (Some q) =
     go_bind (CloudLogging_Process p c (Some q)) (\<lambda>(err, r').
       case err of
         None \<Rightarrow> go_return (None, r')
       | Some e \<Rightarrow> if errors_is e ErrPreconditionFailed
           then go_bind (go_log LevelWarn ''stopped log request processing as backend precondition failed''
                  (Some e)) (\<lambda>_. go_return (None, r'))
           else go_bind (handleReturn (Some (wrapf ''failed to execute backend *cloudlogging.Processor'' e))
                  (GetMode r')) (\<lambda>ret. go_return (ret, r')))"
proof -
  have v: "p_process NewRequestValidator c (Some q) = go_return (None, Some q)"
    using assms validate_request_None [of "Some q"]
    by (simp add: NewRequestValidator_def RequestValidator_Process_eq fun_eq_iff)
  show ?thesis
    unfolding Log_Some effective_mode_agent request_mode_same
    by (simp add: agent_audit_client_def Log_stages_def v cl_log_processor_def then_stage_def,
        rule ext, auto simp: go_bind_def go_log_def handleReturn_def split: prod.splits ret.splits option.splits)
qed

lemma agent_Log_invalid:
  assumes "\<not> valid_request q"
  shows "\<exists>e. errors_is e ErrInvalidRequest \<and> \<not> errors_is e ErrPreconditionFailed \<and>
     Log (Some (agent_audit_client p)) c (Some q) w =
       (if ShouldFailClose (mode q) then (Ret (Some e, Some q), w)
        else (Ret (None, Some q), w\<lparr>w_diag := w_diag w @ [\<lparr>d_level = LevelError,
          d_msg = ''failed to audit log; continuing without audit logging'', d_err = Some e\<rparr>]\<rparr>))"
proof -
  from assms obtain x where "validate_request (Some q) = Some x"
    using validate_request_None [of "Some q"] by auto
  let ?v = "wrap2 ErrInvalidRequest x"
  let ?e = "wrapf ''failed to execute validator *audit.RequestValidator'' ?v"
  have v: "p_process NewRequestValidator c (Some q) = go_return (Some ?v, Some q)"
    using \<open>validate_request (Some q) = Some x\<close>
    by (simp add: NewRequestValidator_def RequestValidator_Process_eq fun_eq_iff)
  have np: "\<not> errors_is ?v ErrPreconditionFailed"
    using validate_request_plain [of "Some q"] \<open>validate_request (Some q) = Some x\<close>
    by (simp add: plain_error_def err_simps)
  have ty: "p_type NewRequestValidator = ''*audit.RequestValidator''"
    by (simp add: NewRequestValidator_def)
  show ?thesis
  proof (rule exI [of _ ?e], intro conjI)
    show "errors_is ?e ErrInvalidRequest" by (simp add: err_simps)
    show "\<not> errors_is ?e ErrPreconditionFailed" using np by (simp add: ErrPreconditionFailed_def)
    show "Log (Some (agent_audit_client p)) c (Some q) w =
       (if ShouldFailClose (mode q) then (Ret (Some ?e, Some q), w)
        else (Ret (None, Some q), w\<lparr>w_diag := w_diag w @ [\<lparr>d_level = LevelError,
          d_msg = ''failed to audit log; continuing without audit logging'', d_err = Some ?e\<rparr>]\<rparr>))"
      unfolding Log_Some effective_mode_agent request_mode_same
      using np by (simp add: agent_audit_client_def Log_stages_def v ty then_stage_def handleReturn_def
          go_bind_def go_log_def)
  qed
qed

subsection \<open>The service\<close>

text \<open>
  The errors of the Cloud Logging library are not sentinels of \<open>auditerrors\<close>.
\<close>

definition plain_logging :: "'w logging_client \<Rightarrow> bool" where
  "plain_logging lc \<longleftrightarrow>
     (\<forall>n c l w e w'. lg_log_sync (lc n) c l w = (Ret e, w') \<longrightarrow> plain_error e)"

definition agent_of :: "'w cl_processor \<Rightarrow> 'w audit_log_agent" where
  "agent_of p = \<lparr>agent_client = Some (agent_audit_client p)\<rparr>"

lemma plain_wrapf: "plain_error (Some e) \<Longrightarrow> \<not> errors_is (wrapf m e) (AuditError t)"
  by (simp add: plain_error_def)

lemma ProcessLog_valid_sync:
  assumes "valid_request q" "has_all_loggers lc p" "plain_logging lc" "ShouldFailClose (mode q)"
    and "lg_log_sync (lc (chosen_log_name (req_type q))) c (make_entry (Some q)) w = (Ret res, w1)"
  shows "\<exists>m. ProcessLog (agent_of p) c (Some q) w =
     (Ret (case res of None \<Rightarrow> Inr \<lparr>Result = Some q\<rparr> | Some _ \<Rightarrow> Inl (StatusError code_Internal m)), w1)"
proof -
  from assms(4) have m: "mode q = MODE_FAIL_CLOSE" by (simp add: ShouldFailClose_def)
  from assms(2,5) m have p: "CloudLogging_Process p c (Some q) w =
      (Ret (map_option (wrapf ''synchronous write to Cloud logging failed'') res, Some q), w1)"
    by (simp add: CloudLogging_Process_eq go_bind_Ret)
  show ?thesis
  proof (cases res)
    case None
    with p show ?thesis
      by (simp add: ProcessLog_def agent_of_def agent_Log_valid [OF assms(1)] go_bind_Ret)
  next
    case (Some e)
    with assms(3,5) have "plain_error (Some e)" unfolding plain_logging_def by blast
    with Some p m show ?thesis
      by (simp add: ProcessLog_def agent_of_def agent_Log_valid [OF assms(1)] go_bind_Ret
          handleReturn_def sentinel_defs plain_error_def codifyErr_code)
  qed
qed

lemma ProcessLog_invalid:
  assumes "\<not> valid_request q"
  shows "\<exists>m w'. w_ext w' = w_ext w \<and> ProcessLog (agent_of p) c (Some q) w =
     (Ret (if ShouldFailClose (mode q) then Inl (StatusError code_InvalidArgument m)
           else Inr \<lparr>Result = Some q\<rparr>), w')"
proof -
  from agent_Log_invalid [OF assms, of p c w] obtain e where e: "errors_is e ErrInvalidRequest"
    and l: "Log (Some (agent_audit_client p)) c (Some q) w =
       (if ShouldFailClose (mode q) then (Ret (Some e, Some q), w)
        else (Ret (None, Some q), w\<lparr>w_diag := w_diag w @ [\<lparr>d_level = LevelError,
          d_msg = ''failed to audit log; continuing without audit logging'', d_err = Some e\<rparr>]\<rparr>))"
    by blast
  show ?thesis
  proof (cases "ShouldFailClose (mode q)")
    case True
    with l e show ?thesis
      by (auto simp: ProcessLog_def agent_of_def go_bind_Ret codifyErr_def simp del: code_defs)
  next
    case False
    with l show ?thesis by (simp add: ProcessLog_def agent_of_def go_bind_Ret)
  qed
qed

text \<open>
  From a client to the log: a remote processor whose connection leads to a server, with an
  interceptor or none, that the agent is registered at.
\<close>

definition agent_conn ::
  "('w, log_request, audit_log_response) server_interceptor option \<Rightarrow> 'w audit_log_agent \<Rightarrow> ctx \<Rightarrow>
     ('w, gerror option) go \<Rightarrow> 'w agent_cc" where
  "agent_conn ic a server_ctx close =
     connected (RegisterAuditLogAgentServer ic (agent_server a)) server_ctx close"

lemma client_of_agent:
  "transparent ic \<Longrightarrow> client_ProcessLog (NewAuditLogAgentClient (agent_conn ic a sc close)) c (Some q) opts w =
     ProcessLog a sc (Some q) w"
  by (simp add: agent_conn_def client_ProcessLog_connected agent_server_def)

definition remote_client :: "'w remote_processor \<Rightarrow> log_mode \<Rightarrow> 'w client" where
  "remote_client rp m =
     \<lparr>validators = [NewRequestValidator], mutators = [], backends = [remote_log_processor rp],
      logMode = m\<rparr>"

lemma take_result_self: "take_result (Some q) (Some q) = Some q"
  by (simp add: take_result_def)

lemma remote_client_Log:
  assumes "valid_request q" "r_client rp = Some (NewAuditLogAgentClient (agent_conn ic a sc close))" "authOpts rp = None" "transparent ic"
    and m: "effective_mode (remote_client rp m) q = MODE_FAIL_CLOSE"
    and p: "ProcessLog a sc (Some (q\<lparr>mode := MODE_FAIL_CLOSE\<rparr>)) w =
           (Ret (case res of None \<Rightarrow> Inr \<lparr>Result = Some (q\<lparr>mode := MODE_FAIL_CLOSE\<rparr>)\<rparr>
                 | Some _ \<Rightarrow> Inl (StatusError code_Internal t)), w1)"
  shows "\<exists>err. Log (Some (remote_client rp m)) c (Some q) w =
     (Ret (err, Some (q\<lparr>mode := MODE_FAIL_CLOSE\<rparr>)), w1) \<and> (err = None \<longleftrightarrow> res = None)"
proof -
  let ?q = "q\<lparr>mode := MODE_FAIL_CLOSE\<rparr>"
  from assms(1) have "valid_request ?q"
    by (simp add: valid_request_def)
  then have v: "p_process NewRequestValidator c (Some ?q) = go_return (None, Some ?q)"
    using validate_request_None [of "Some ?q"]
    by (simp add: NewRequestValidator_def RequestValidator_Process_eq fun_eq_iff)
  have b: "p_process (remote_log_processor rp) c (Some ?q) w =
     (Ret (case res of None \<Rightarrow> None | Some _ \<Rightarrow>
        Some (wrapf ''remote log processing failed'' (StatusError code_Internal t)), Some ?q), w1)"
    using assms(2,3) p
    by (cases res) (simp_all add: remote_log_processor_def Remote_Process_def auth_call_opts_def
        client_of_agent [OF assms(4)] go_bind_Ret go_bind_def take_result_self)
  show ?thesis
    unfolding Log_Some m
    by (cases res) (simp_all add: remote_client_def Log_stages_def v b then_stage_def go_bind_def
        handleReturn_def sentinel_defs)
qed

subsection \<open>The program\<close>

lemma newCloudLoggingProcessor_ok:
  assumes "logging_NewClient d proj = Inr lc" "visits_all_log_types (log_type_order d)"
  shows "\<exists>p. newCloudLoggingProcessor d proj = Inr p \<and> has_all_loggers lc p \<and> \<not> bestEffort p"
proof -
  have "\<exists>p. newCloudLoggingProcessor d proj = Inr p \<and> cl_client p = Some lc \<and> \<not> bestEffort p \<and>
      loggerByLogType p = map (\<lambda>v. (v, lc (logNameFromLogType v))) (log_type_order d)"
    using assms by (simp add: newCloudLoggingProcessor_def NewProcessor_def WithLoggingClient_def
        make_loggers_all)
  then show ?thesis
    using assms(2) by (auto simp: has_all_loggers_def map_of_tabulate visits_all_log_types_def)
qed

lemma Stop_agent_client:
  "Stop (agent_audit_client p) w = (Ret e, w') \<Longrightarrow>
     \<exists>e'. CloudLogging_Stop p w = (Ret e', w') \<and> (e = None \<longleftrightarrow> e' = None)"
  by (auto simp: Stop_def agent_audit_client_def cl_log_processor_def NewRequestValidator_def
      elim!: go_bind_RetE split: option.splits)

lemma with_defer_None_iff:
  "with_defer body msg cleanup w = (Ret r, w2) \<Longrightarrow>
     \<exists>r1 w1 e. body w = (Ret r1, w1) \<and> cleanup w1 = (Ret e, w2) \<and> (r = None \<longleftrightarrow> r1 = None \<and> e = None)"
  by (fastforce simp: with_defer_def elim!: go_bind_RetE split: prod.splits ret.splits option.splits)

text \<open>
  The world in which the program, its configuration loaded, starts the tracing.
\<close>

definition configured :: "'w world \<Rightarrow> 'w world" where
  "configured w = w\<lparr>w_diag := w_diag w @
     [\<lparr>d_level = LevelDebug, d_msg = ''server starting'', d_err = None\<rparr>,
      \<lparr>d_level = LevelDebug, d_msg = ''loaded configuration'', d_err = None\<rparr>]\<rparr>"

text \<open>
  A run of the program that gets as far as its client stops the client and the tracing after
  serving, and returns no error only if none of the three failed.
\<close>

lemma realMain_shuts_down:
  assumes "envconfig_Process d = Inr cfg" "trace_Init (md_otel d) (TraceRatio cfg) (configured w) = (Ret None, w1)"
    and "logging_NewClient d (gcputil_ProjectID d) = Inr lc" "visits_all_log_types (log_type_order d)"
    and "realMain d c w = (Ret r, w')"
  shows "\<exists>p r1 w2 e1 w3 e2. has_all_loggers lc p \<and>
     serve d cfg (agent_audit_client p) w1 = (Ret r1, w2) \<and>
     CloudLogging_Stop p w2 = (Ret e1, w3) \<and> trace_Shutdown (md_otel d) w3 = (Ret e2, w') \<and>
     (r = None \<longleftrightarrow> r1 = None \<and> e1 = None \<and> e2 = None)"
proof -
  from newCloudLoggingProcessor_ok [OF assms(3,4)] obtain p where
    p: "newCloudLoggingProcessor d (gcputil_ProjectID d) = Inr p" "has_all_loggers lc p" by blast
  let ?body = "go_bind (NewClient c [WithBackend (cl_log_processor p)]) (\<lambda>res.
      case res of
        Inl err \<Rightarrow> go_return (Some (wrapf ''failed to create audit client'' err))
      | Inr client \<Rightarrow> with_defer (serve d cfg client) ''failed to stop audit client'' (Stop client))"
  have b: "?body v = with_defer (serve d cfg (agent_audit_client p)) ''failed to stop audit client''
      (Stop (agent_audit_client p)) v" for v
    by (simp add: go_bind_def agent_client_built)
  from assms p(1) have "with_defer ?body ''failed to shutdown tracing'' (trace_Shutdown (md_otel d)) w1 =
      (Ret r, w')"
    by (simp add: realMain_def NewConfig_def go_bind_Ret configured_def)
  from with_defer_None_iff [OF this] obtain r1 w2 e2 where
    r1: "with_defer (serve d cfg (agent_audit_client p)) ''failed to stop audit client''
      (Stop (agent_audit_client p)) w1 = (Ret r1, w2)"
    and e2: "trace_Shutdown (md_otel d) w2 = (Ret e2, w')" "r = None \<longleftrightarrow> r1 = None \<and> e2 = None"
    unfolding b by blast
  from with_defer_None_iff [OF r1] obtain r0 v e where
    "serve d cfg (agent_audit_client p) w1 = (Ret r0, v)"
    "Stop (agent_audit_client p) v = (Ret e, w2)" "r1 = None \<longleftrightarrow> r0 = None \<and> e = None" by blast
  with Stop_agent_client [of p v e w2] p(2) e2 show ?thesis by blast
qed

end
