(* ===== verification/Puller.thy ===== *)
theory Puller
  imports Go_Prelude
begin

section \<open>Reading logs back: pkg/cloudlogging/puller.go\<close>

text \<open>
  \<open>Pull\<close> lists up to a number of log entries, \<open>StreamPull\<close> sends live ones to a channel.  The
  logging client and \<open>retry.Do\<close> of go-retry are parameters; of \<open>retry.Do\<close> the law \<open>obeys_retry\<close>
  is used: it calls the function again after a retryable error, and returns no error only when
  its last call returned none.  The slice \<open>ls\<close> that \<open>Pull\<close>'s closure captures is the state its
  calls share.  The receive loop of \<open>StreamPull\<close> need not end: it is a partial function, whose
  value is \<open>None\<close> when it does not return.
\<close>

record list_request =
  ResourceNames :: "string list"
  Filter :: string
  OrderBy :: string
  PageSize :: int

text \<open>\<open>it.Next\<close>: an entry, the end of the iteration (\<open>iterator.Done\<close>), or an error.\<close>

datatype 'e next_result = NextEntry 'e | NextDone | NextError gerror

text \<open>What \<open>tailClient.Recv\<close> returns: the entries of a response, or an error.\<close>

datatype 'e recv_result = RecvOk "'e list" | RecvError gerror

text \<open>The result of an attempt: no error, or one marked by \<open>retry.RetryableError\<close>.\<close>

datatype attempt = AttemptOk | Retryable gerror

type_synonym ('w, 's) attempt_fun = "'s \<Rightarrow> ('w, attempt \<times> 's) go"

type_synonym ('w, 's, 'b) retry_do =
  "'b \<Rightarrow> ('w, 's) attempt_fun \<Rightarrow> 's \<Rightarrow> ('w, gerror option \<times> 's) go"

record ('w, 'e) tail_client =
  tc_Send :: "list_request \<Rightarrow> ('w, gerror option) go"
  tc_Recv :: "('w, 'e recv_result) go"
  tc_CloseSend :: "('w, gerror option) go"

record ('w, 'e) logging_api =
  ListLogEntries :: "list_request \<Rightarrow> ('w, ('w, 'e next_result) go) go"
  TailLogEntries :: "('w, gerror + ('w, 'e) tail_client) go"

record ('w, 'e, 'b) puller =
  pu_client :: "('w, 'e) logging_api"
  resource :: string
  pu_retry :: "'b option"

subsection \<open>Construction\<close>

definition WithRetry :: "'b \<Rightarrow> ('w, 'e, 'b) puller \<Rightarrow> ('w, 'e, 'b) puller" where
  "WithRetry b p = p\<lparr>pu_retry := Some b\<rparr>"

text \<open>\<open>default_backoff\<close> is \<open>retry.WithMaxRetries(5, retry.NewFibonacci(500ms))\<close>.\<close>

definition NewPuller ::
  "'b \<Rightarrow> ('w, 'e) logging_api \<Rightarrow> string \<Rightarrow>
     (('w, 'e, 'b) puller \<Rightarrow> ('w, 'e, 'b) puller) list \<Rightarrow> ('w, 'e, 'b) puller" where
  "NewPuller default_backoff c res opts =
     (let p = foldl (\<lambda>p opt. opt p) \<lparr>pu_client = c, resource = res, pu_retry = None\<rparr> opts
      in if pu_retry p = None then p\<lparr>pu_retry := Some default_backoff\<rparr> else p)"

subsection \<open>Pull\<close>

text \<open>The loop of one attempt.\<close>

function pull_loop ::
  "('w, 'e next_result) go \<Rightarrow> int \<Rightarrow> 'e list \<Rightarrow> 'w world \<Rightarrow> (attempt \<times> 'e list) ret \<times> 'w world" where
  "pull_loop nxt maxCount ls w =
     (if int (length ls) < maxCount
      then (case nxt w of
              (Panic s, w1) \<Rightarrow> (Panic s, w1)
            | (Ret r, w1) \<Rightarrow>
                (case r of
                   NextDone \<Rightarrow> (Ret (AttemptOk, ls), w1)
                 | NextError err \<Rightarrow>
                     (Ret (Retryable (Errorf (''failed to get next log entry: '' @ error_text err @
                        '', retrying'') [err]), ls), w1)
                 | NextEntry l \<Rightarrow> pull_loop nxt maxCount (ls @ [l]) w1))
      else (Ret (AttemptOk, ls), w))"
  by pat_completeness auto

termination
  by (relation "measure (\<lambda>(nxt, maxCount, ls, w). nat (maxCount - int (length ls)))") auto

declare pull_loop.simps [simp del]

definition pull_request :: "string \<Rightarrow> string \<Rightarrow> list_request" where
  "pull_request res fltr =
     \<lparr>ResourceNames = [res], Filter = fltr, OrderBy = ''timestamp desc'', PageSize = 1000\<rparr>"

text \<open>An attempt lists from the start again, and adds to the entries of the attempts before.\<close>

definition pull_attempt ::
  "('w, 'e) logging_api \<Rightarrow> list_request \<Rightarrow> int \<Rightarrow> ('w, 'e list) attempt_fun" where
  "pull_attempt c req maxCount ls =
     go_bind (ListLogEntries c req) (\<lambda>it. pull_loop it maxCount ls)"

definition Pull ::
  "('w, 'e list, 'b) retry_do \<Rightarrow> ('w, 'e, 'b) puller \<Rightarrow> string \<Rightarrow> int \<Rightarrow> ('w, gerror + 'e list) go" where
  "Pull retry_Do p fltr maxCount =
     (case pu_retry p of
        None \<Rightarrow> go_panic nil_deref
      | Some b \<Rightarrow>
          go_bind (retry_Do b (pull_attempt (pu_client p) (pull_request (resource p) fltr) maxCount) [])
            (\<lambda>(err, ls).
               case err of
                 Some e \<Rightarrow> go_return (Inl (wrapf ''failed to list log entries'' e))
               | None \<Rightarrow> go_return (Inr ls)))"

subsection \<open>StreamPull\<close>

text \<open>The receive loop; \<open>emit\<close> sends an entry to the channel.\<close>

fun emit_all :: "('e \<Rightarrow> ('w, unit) go) \<Rightarrow> 'e list \<Rightarrow> ('w, unit) go" where
  "emit_all emit [] = go_return ()"
| "emit_all emit (v # vs) = go_bind (emit v) (\<lambda>_. emit_all emit vs)"

partial_function (option) stream_loop ::
  "('w, 'e recv_result) go \<Rightarrow> ('e \<Rightarrow> ('w, unit) go) \<Rightarrow> 'w world \<Rightarrow> (gerror ret \<times> 'w world) option" where
  "stream_loop recv emit w =
     (case recv w of
        (Panic s, w1) \<Rightarrow> Some (Panic s, w1)
      | (Ret r, w1) \<Rightarrow>
          (case r of
             RecvError err \<Rightarrow>
               if errors_is err io_EOF then stream_loop recv emit w1
               else Some (Ret (wrapf ''failed to receive response'' err), w1)
           | RecvOk es \<Rightarrow>
               (case emit_all emit es w1 of
                  (Panic s, w2) \<Rightarrow> Some (Panic s, w2)
                | (Ret _, w2) \<Rightarrow> stream_loop recv emit w2)))"

text \<open>One attempt: it never ends without an error.\<close>

definition stream_attempt ::
  "('w, 'e) tail_client \<Rightarrow> list_request \<Rightarrow> ('e \<Rightarrow> ('w, unit) go) \<Rightarrow> 'w world \<Rightarrow>
     (gerror ret \<times> 'w world) option" where
  "stream_attempt tc req emit w =
     (case tc_Send tc req w of
        (Panic s, w1) \<Rightarrow> Some (Panic s, w1)
      | (Ret (Some err), w1) \<Rightarrow> Some (Ret (wrapf ''failed to send request'' err), w1)
      | (Ret None, w1) \<Rightarrow> stream_loop (tc_Recv tc) emit w1)"

text \<open>
  \<open>StreamPull\<close>: \<open>retry_Do\<close> runs the attempt, as a function that may not return, until it gives up
  with an error; the tail client is closed in any case.
\<close>

definition tail_request :: "string \<Rightarrow> string \<Rightarrow> list_request" where
  "tail_request res fltr = \<lparr>ResourceNames = [res], Filter = fltr, OrderBy = [], PageSize = 0\<rparr>"

definition StreamPull ::
  "('b \<Rightarrow> ('w world \<Rightarrow> (gerror ret \<times> 'w world) option) \<Rightarrow> 'w world \<Rightarrow> (gerror ret \<times> 'w world) option) \<Rightarrow>
     ('w, 'e, 'b) puller \<Rightarrow> string \<Rightarrow> ('e \<Rightarrow> ('w, unit) go) \<Rightarrow> 'w world \<Rightarrow>
     (gerror option ret \<times> 'w world) option" where
  "StreamPull retry_Do p fltr logCh w =
     (case TailLogEntries (pu_client p) w of
        (Panic s, w1) \<Rightarrow> Some (Panic s, w1)
      | (Ret (Inl err), w1) \<Rightarrow> Some (Ret (Some (wrapf ''failed to create tailLogEntriesClient'' err)), w1)
      | (Ret (Inr tc), w1) \<Rightarrow>
          (case pu_retry p of
             None \<Rightarrow> Some (Panic nil_deref, w1)
           | Some b \<Rightarrow>
               (case retry_Do b (stream_attempt tc (tail_request (resource p) fltr) logCh) w1 of
                  None \<Rightarrow> None
                | Some (Panic s, w2) \<Rightarrow> Some (Panic s, snd (tc_CloseSend tc w2))
                | Some (Ret err, w2) \<Rightarrow>
                    let rErr = errors_join [None, Some (wrapf ''failed to pull log entries'' err)] in
                    Some (go_bind (tc_CloseSend tc) (\<lambda>cerr. go_return
                      (case cerr of
                         None \<Rightarrow> rErr
                       | Some e \<Rightarrow> errors_join [rErr, Some (Errorf
                           (''failed to close tailClient '' @ error_text e) [e])])) w2))))"

subsection \<open>Lemmas: Pull\<close>

text \<open>What \<open>retry.Do\<close> may do: one attempt, or another one after a retryable error.\<close>

inductive attempts ::
  "('w, 's) attempt_fun \<Rightarrow> 's \<Rightarrow> 'w world \<Rightarrow> attempt \<Rightarrow> 's \<Rightarrow> 'w world \<Rightarrow> bool"
  for f where
  last: "f s w = (Ret (a, s'), w') \<Longrightarrow> attempts f s w a s' w'"
| again: "f s w = (Ret (Retryable e, s1), w1) \<Longrightarrow> attempts f s1 w1 a s' w' \<Longrightarrow>
            attempts f s w a s' w'"

definition obeys_retry :: "('w, 's, 'b) retry_do \<Rightarrow> bool" where
  "obeys_retry retry_Do \<longleftrightarrow>
     (\<forall>b f s w s' w'. retry_Do b f s w = (Ret (None, s'), w') \<longrightarrow> attempts f s w AttemptOk s' w')"

text \<open>The entries an iterator gives from a world on, until the world of the next call.\<close>

inductive gives :: "('w, 'e next_result) go \<Rightarrow> 'w world \<Rightarrow> 'e list \<Rightarrow> 'w world \<Rightarrow> bool"
  for nxt where
  nothing: "gives nxt w [] w"
| entry: "nxt w = (Ret (NextEntry l), w1) \<Longrightarrow> gives nxt w1 ls w2 \<Longrightarrow> gives nxt w (l # ls) w2"

lemma pull_loop_result:
  assumes "pull_loop nxt n ls w = (Ret (a, ls'), w')"
  shows "\<exists>es v. ls' = ls @ es \<and> gives nxt w es v \<and> int (length ls') \<le> max n (int (length ls)) \<and>
     (a = AttemptOk \<longrightarrow> int (length ls') \<ge> n \<and> w' = v \<or> nxt v = (Ret NextDone, w')) \<and>
     (\<forall>e. a = Retryable e \<longrightarrow> (\<exists>x. nxt v = (Ret (NextError x), w') \<and> errors_is e x))"
  using assms
proof (induction nxt n ls w rule: pull_loop.induct)
  case (1 nxt n ls w)
  show ?case
  proof (cases "int (length ls) < n")
    case False
    with "1.prems" have "a = AttemptOk" "ls' = ls" "w' = w" by (simp_all add: pull_loop.simps)
    with False show ?thesis by (intro exI [of _ "[]"] exI [of _ w]) (simp add: gives.nothing)
  next
    case lt: True
    from "1.prems" lt obtain r w1 where r: "nxt w = (Ret r, w1)"
      by (auto simp: pull_loop.simps [of nxt n ls w] split: prod.splits ret.splits)
    show ?thesis
    proof (cases r)
      case (NextEntry l)
      with r lt "1.prems" have rest: "pull_loop nxt n (ls @ [l]) w1 = (Ret (a, ls'), w')"
        by (simp add: pull_loop.simps [of nxt n ls w])
      from "1.IH" [OF lt r [symmetric] refl NextEntry rest] obtain es v where
        "ls' = (ls @ [l]) @ es" "gives nxt w1 es v" "int (length ls') \<le> max n (int (length (ls @ [l])))"
        "(a = AttemptOk \<longrightarrow> int (length ls') \<ge> n \<and> w' = v \<or> nxt v = (Ret NextDone, w')) \<and>
         (\<forall>e. a = Retryable e \<longrightarrow> (\<exists>x. nxt v = (Ret (NextError x), w') \<and> errors_is e x))" by blast
      moreover from r NextEntry have "gives nxt w (l # es) v" using calculation(2)
        by (auto intro: gives.entry)
      ultimately show ?thesis using lt by (intro exI [of _ "l # es"] exI [of _ v]) auto
    next
      case NextDone
      with r lt "1.prems" have "a = AttemptOk" "ls' = ls" "w' = w1"
        by (simp_all add: pull_loop.simps [of nxt n ls w])
      with r NextDone lt show ?thesis
        by (intro exI [of _ "[]"] exI [of _ w]) (simp add: gives.nothing)
    next
      case (NextError x)
      with r lt "1.prems" have "a = Retryable (Errorf (''failed to get next log entry: '' @ error_text x @
          '', retrying'') [x])" "ls' = ls" "w' = w1"
        by (simp_all add: pull_loop.simps [of nxt n ls w])
      moreover have "errors_is (Errorf m [x]) x" for m
        by (cases x) (auto simp: errors_is_def)
      ultimately show ?thesis using r NextError lt
        by (intro exI [of _ "[]"] exI [of _ w]) (simp add: gives.nothing)
    qed
  qed
qed

lemma pull_attempt_prefix:
  assumes "pull_attempt c req n ls w = (Ret (a, ls'), w')"
  shows "prefix ls ls' \<and> int (length ls') \<le> max n (int (length ls))"
  using assms pull_loop_result [of _ n ls _ a ls' w']
  by (fastforce simp: pull_attempt_def elim!: go_bind_RetE)

lemma attempts_prefix:
  assumes "attempts f ls w a ls' w'" "f = pull_attempt c req n"
  shows "prefix ls ls' \<and> int (length ls') \<le> max n (int (length ls))"
  using assms
proof (induction rule: attempts.induct)
  case (last s w a s' w')
  then show ?case by (simp add: pull_attempt_prefix)
next
  case (again s w e s1 w1 a s' w')
  then have "prefix s s1" "int (length s1) \<le> max n (int (length s))"
    using pull_attempt_prefix by blast+
  with again show ?case by (auto intro: prefix_order.trans)
qed

lemma Pull_attempts:
  assumes "obeys_retry R" "Pull R p fltr n w = (Ret (Inr ls), w')"
  shows "attempts (pull_attempt (pu_client p) (pull_request (resource p) fltr) n) [] w AttemptOk ls w'"
  using assms
  by (auto simp: Pull_def obeys_retry_def elim!: go_bind_RetE split: option.splits)

text \<open>An iterator without errors is read once.\<close>

lemma attempts_no_error:
  assumes "attempts f s w a s' w'" "\<And>e s1 w1. f s w \<noteq> (Ret (Retryable e, s1), w1)"
  shows "f s w = (Ret (a, s'), w')"
  using assms(1) by cases (use assms(2) in auto)

lemma pull_attempt_reads:
  assumes "ListLogEntries c req w = (Ret it, w0)" "\<And>v x v'. it v \<noteq> (Ret (NextError x), v')"
    and "attempts (pull_attempt c req n) [] w AttemptOk ls w'"
  shows "\<exists>v. gives it w0 ls v \<and> (int (length ls) \<ge> n \<and> w' = v \<or> it v = (Ret NextDone, w'))"
proof -
  have ne: "pull_attempt c req n [] w \<noteq> (Ret (Retryable e, s1), w1)" for e s1 w1
  proof
    assume "pull_attempt c req n [] w = (Ret (Retryable e, s1), w1)"
    with assms(1) have "pull_loop it n [] w0 = (Ret (Retryable e, s1), w1)"
      by (simp add: pull_attempt_def go_bind_Ret)
    from pull_loop_result [OF this] assms(2) show False by blast
  qed
  from attempts_no_error [OF assms(3) ne] assms(1) have
    "pull_loop it n [] w0 = (Ret (AttemptOk, ls), w')"
    by (simp add: pull_attempt_def go_bind_Ret)
  from pull_loop_result [OF this] show ?thesis by auto
qed

subsection \<open>Lemmas: StreamPull\<close>

lemma stream_loop_returns:
  assumes "stream_loop recv emit w = Some r"
  shows "(\<exists>x w'. r = (Ret (wrapf ''failed to receive response'' x), w') \<and> \<not> errors_is x io_EOF) \<or>
         (\<exists>s w'. r = (Panic s, w'))"
proof (rule stream_loop.raw_induct [OF _ assms])
  fix f :: "('a, 'b recv_result) go \<Rightarrow> ('b \<Rightarrow> ('a, unit) go) \<Rightarrow> 'a world \<Rightarrow> (gerror ret \<times> 'a world) option"
    and recv emit w r
  assume ih: "\<And>recv emit w r. f recv emit w = Some r \<Longrightarrow>
      (\<exists>x w'. r = (Ret (wrapf ''failed to receive response'' x), w') \<and> \<not> errors_is x io_EOF) \<or>
      (\<exists>s w'. r = (Panic s, w'))"
    and body: "(case recv w of
        (Panic s, w1) \<Rightarrow> Some (Panic s, w1)
      | (Ret r, w1) \<Rightarrow>
          (case r of
             RecvError err \<Rightarrow>
               if errors_is err io_EOF then f recv emit w1
               else Some (Ret (wrapf ''failed to receive response'' err), w1)
           | RecvOk es \<Rightarrow>
               (case emit_all emit es w1 of
                  (Panic s, w2) \<Rightarrow> Some (Panic s, w2)
                | (Ret _, w2) \<Rightarrow> f recv emit w2))) = Some r"
  from body consider (panic) s w' where "r = (Panic s, w')"
    | (err) x w' where "r = (Ret (wrapf ''failed to receive response'' x), w')" "\<not> errors_is x io_EOF"
    | (again) v where "f recv emit v = Some r"
    by (auto split: prod.splits ret.splits recv_result.splits if_splits)
  then show "(\<exists>x w'. r = (Ret (wrapf ''failed to receive response'' x), w') \<and> \<not> errors_is x io_EOF) \<or>
      (\<exists>s w'. r = (Panic s, w'))"
    by cases (blast, blast, rule ih)
qed

text \<open>A stream the server has closed: \<open>Recv\<close> returns \<open>io.EOF\<close> from now on.\<close>

definition closed_stream :: "('w, 'e recv_result) go \<Rightarrow> bool" where
  "closed_stream recv \<longleftrightarrow> (\<forall>w. \<exists>e w'. recv w = (Ret (RecvError e), w') \<and> errors_is e io_EOF)"

lemma stream_loop_closed:
  assumes "closed_stream recv"
  shows "stream_loop recv emit w = None"
proof (rule ccontr)
  assume "stream_loop recv emit w \<noteq> None"
  then obtain r where "stream_loop recv emit w = Some r" by auto
  then have "closed_stream recv \<longrightarrow> False"
  proof (rule stream_loop.raw_induct [rotated])
    fix f :: "('a, 'b recv_result) go \<Rightarrow> ('b \<Rightarrow> ('a, unit) go) \<Rightarrow> 'a world \<Rightarrow> (gerror ret \<times> 'a world) option"
      and recv emit w r
    assume ih: "\<And>recv emit w r. f recv emit w = Some r \<Longrightarrow> closed_stream recv \<longrightarrow> False"
      and body: "(case recv w of
        (Panic s, w1) \<Rightarrow> Some (Panic s, w1)
      | (Ret r, w1) \<Rightarrow>
          (case r of
             RecvError err \<Rightarrow>
               if errors_is err io_EOF then f recv emit w1
               else Some (Ret (wrapf ''failed to receive response'' err), w1)
           | RecvOk es \<Rightarrow>
               (case emit_all emit es w1 of
                  (Panic s, w2) \<Rightarrow> Some (Panic s, w2)
                | (Ret _, w2) \<Rightarrow> f recv emit w2))) = Some r"
    show "closed_stream recv \<longrightarrow> False"
    proof
      assume c: "closed_stream recv"
      then obtain e w' where "recv w = (Ret (RecvError e), w')" "errors_is e io_EOF"
        unfolding closed_stream_def by blast
      with body have "f recv emit w' = Some r" by simp
      from ih [OF this] c show False by blast
    qed
  qed
  with assms show False by blast
qed

lemma StreamPull_never_nil:
  assumes "StreamPull R p fltr emit w = Some (Ret r, w')"
  shows "r \<noteq> None"
  using assms
  by (auto simp: StreamPull_def Let_def go_bind_def simp del: not_None_eq
      split: prod.splits ret.splits sum.splits option.splits)

end
