(* ===== verification/Cli.thy ===== *)
theory Cli
  imports Validation
begin

section \<open>The command line: pkg/cli\<close>

text \<open>
  The commands \<open>tail\<close> and \<open>validate\<close> with the flags they declare.  Flag parsing, prompts and the formatting of output belong
  to the library \<open>abcxyz/pkg/cli\<close>: parsing is a parameter, and what a command prints is kept as the
  calls of \<open>Outf\<close> and \<open>Errf\<close>, with their format and arguments.  A log entry is the protobuf
  message, with its \<open>InsertId\<close>.  The interface \<open>logPuller\<close> is a record of its two methods:
  \<open>StreamPull\<close> by the entries it sends before it returns.
\<close>

datatype print_arg = ArgS string | ArgN nat | ArgE gerror

datatype print_call = Outf string "print_arg list" | Errf string "print_arg list"

record 'w log_puller =
  lp_Pull :: "string \<Rightarrow> int \<Rightarrow> ('w, gerror + log_entry list) go"
  lp_StreamPull :: "string \<Rightarrow> ('w, log_entry list \<times> gerror option) go"

record tail_command =
  flagScope :: string
  flagValidate :: bool
  flagMaxNum :: int
  flagDuration :: int
  flagAdditionalFilter :: string
  flagOverrideFilter :: string
  flagAdditionalCheck :: bool
  flagFollow :: bool

record validate_command =
  v_flagLogEntry :: string
  v_flagAdditionalCheck :: bool

text \<open>
  What the commands use of the environment: \<open>protojson\<close>, the order a run visits the required labels
  in, the clock with \<open>Format(time.RFC3339)\<close>, and the logging client (\<open>logging.NewClient\<close>, the
  puller on it, \<open>Close\<close>).
\<close>

record 'w cli_env =
  ce_protojson :: protojson
  ce_label_order :: "string list"
  ce_now :: int
  format_RFC3339 :: "int \<Rightarrow> string"
  ce_NewClient :: "gerror + (string \<Rightarrow> 'w log_puller) \<times> gerror option"
  PromptAll :: "string \<Rightarrow> gerror + string"

definition context_Canceled :: gerror where "context_Canceled = External ''context canceled''"

subsection \<open>The query filter\<close>

definition logType_filter :: string where
  "logType_filter =
     ''LOG_ID(\"audit.abcxyz/unspecified\") OR '' @
     ''LOG_ID(\"audit.abcxyz/activity\") OR '' @
     ''LOG_ID(\"audit.abcxyz/data_access\") OR '' @
     ''LOG_ID(\"audit.abcxyz/consent\") OR '' @
     ''LOG_ID(\"audit.abcxyz/system_event\")''"

definition queryFilter :: "'w cli_env \<Rightarrow> tail_command \<Rightarrow> string" where
  "queryFilter env c =
     (if flagOverrideFilter c \<noteq> [] then flagOverrideFilter c
      else
        let cutoff = ''timestamp >= '' @ go_quote (format_RFC3339 env (ce_now env - flagDuration c));
            f = logType_filter @ '' AND '' @ cutoff
        in if flagAdditionalFilter c = [] then f
           else f @ '' AND '' @ flagAdditionalFilter c)"

definition stripSpaces :: "string \<Rightarrow> string" where
  "stripSpaces s = filter (\<lambda>c. c \<noteq> CHR '' '') s"

subsection \<open>tail\<close>

definition newline :: string where "newline = [CHR 0x0A]"

definition print_marshal_error :: "log_entry \<Rightarrow> gerror \<Rightarrow> print_call" where
  "print_marshal_error l err =
     Errf ''failed to marshal log to json (InsertId: %q): %w'' [ArgS (insert_id l), ArgE err]"

definition print_invalid :: "log_entry \<Rightarrow> gerror \<Rightarrow> print_call" where
  "print_invalid l err =
     Errf (''failed to validate log (InsertId: %q): %w'' @ newline) [ArgS (insert_id l), ArgE err]"

definition print_valid :: "log_entry \<Rightarrow> print_call" where
  "print_valid l =
     Outf (''Successfully validated log (InsertId: %q)'' @ newline) [ArgS (insert_id l)]"

definition print_summary :: "nat \<Rightarrow> nat \<Rightarrow> print_call" where
  "print_summary failCount totalCount =
     Outf ''Validation failed for %d logs (out of %d)'' [ArgN failCount, ArgN totalCount]"

text \<open>The loop of \<open>list\<close>: the failure count, and what is printed.\<close>

fun list_loop ::
  "protojson \<Rightarrow> bool \<Rightarrow> validator list \<Rightarrow> log_entry list \<Rightarrow> nat \<Rightarrow> nat \<times> print_call list" where
  "list_loop pj validate extra [] failCount = (failCount, [])"
| "list_loop pj validate extra (l # ls) failCount =
     (case marshal_entry pj l of
        Inl err \<Rightarrow>
          (let (n, out) = list_loop pj validate extra ls (failCount + 1)
           in (n, print_marshal_error l err # out))
      | Inr js \<Rightarrow>
          (case (if validate then Some (Validate pj js extra) else None) of
             None \<Rightarrow>
               (let (n, out) = list_loop pj validate extra ls failCount
                in (n, Outf (stripSpaces js) [] # out))
           | Some (Some err) \<Rightarrow>
               (let (n, out) = list_loop pj validate extra ls (failCount + 1)
                in (n, Outf (stripSpaces js) [] # print_invalid l err # out))
           | Some None \<Rightarrow>
               (let (n, out) = list_loop pj validate extra ls failCount
                in (n, Outf (stripSpaces js) [] # print_valid l # out))))"

definition tail_list ::
  "'w cli_env \<Rightarrow> tail_command \<Rightarrow> validator list \<Rightarrow> 'w log_puller \<Rightarrow>
     ('w, gerror option \<times> print_call list) go" where
  "tail_list env c extra puller =
     go_bind (lp_Pull puller (queryFilter env c) (flagMaxNum c)) (\<lambda>res.
       case res of
         Inl err \<Rightarrow> go_return (Some (wrapf ''failed to pull logs'' err), [])
       | Inr ls \<Rightarrow>
           if ls = [] then go_return (None, [Outf ''No logs found.'' []])
           else
             let (failCount, out) = list_loop (ce_protojson env) (flagValidate c) extra ls 0
             in go_return (None, out @
                  (if flagValidate c then [print_summary failCount (length ls)] else [])))"

text \<open>
  The loop of \<open>stream\<close> over the channel: it counts the entries itself, and not those that fail to
  marshal as failures.
\<close>

fun tail_loop ::
  "protojson \<Rightarrow> bool \<Rightarrow> validator list \<Rightarrow> log_entry list \<Rightarrow> nat \<Rightarrow> nat \<Rightarrow>
     nat \<times> nat \<times> print_call list" where
  "tail_loop pj validate extra [] failCount totalCount = (failCount, totalCount, [])"
| "tail_loop pj validate extra (l # ls) failCount totalCount =
     (case marshal_entry pj l of
        Inl err \<Rightarrow>
          (let (n, t, out) = tail_loop pj validate extra ls failCount (totalCount + 1)
           in (n, t, print_marshal_error l err # out))
      | Inr js \<Rightarrow>
          (case (if validate then Some (Validate pj js extra) else None) of
             None \<Rightarrow>
               (let (n, t, out) = tail_loop pj validate extra ls failCount (totalCount + 1)
                in (n, t, Outf (stripSpaces js) [] # out))
           | Some (Some err) \<Rightarrow>
               (let (n, t, out) = tail_loop pj validate extra ls (failCount + 1) (totalCount + 1)
                in (n, t, Outf (stripSpaces js) [] # print_invalid l err # out))
           | Some None \<Rightarrow>
               (let (n, t, out) = tail_loop pj validate extra ls failCount (totalCount + 1)
                in (n, t, Outf (stripSpaces js) [] # print_valid l # out))))"

definition tail_stream ::
  "'w cli_env \<Rightarrow> tail_command \<Rightarrow> validator list \<Rightarrow> 'w log_puller \<Rightarrow>
     ('w, gerror option \<times> print_call list) go" where
  "tail_stream env c extra puller =
     go_bind (lp_StreamPull puller (queryFilter env c)) (\<lambda>(ls, err).
       let perr = map_option (wrapf ''StreamPull failed'') err;
           (failCount, totalCount, out) = tail_loop (ce_protojson env) (flagValidate c) extra ls 0 0;
           out' = out @ (if flagValidate c then [print_summary failCount totalCount] else [])
       in case perr of
            Some e \<Rightarrow>
              if errors_is e context_Canceled
              then go_bind (go_log LevelDebug ''stream cancelled'' None) (\<lambda>_. go_return (None, out'))
              else go_return (Some e, out')
          | None \<Rightarrow> go_return (None, out'))"

definition tail_extra :: "'w cli_env \<Rightarrow> tail_command \<Rightarrow> validator list" where
  "tail_extra env c = (if flagAdditionalCheck c then [ValidateLabels (ce_label_order env)] else [])"

definition tail_with_puller ::
  "'w cli_env \<Rightarrow> tail_command \<Rightarrow> 'w log_puller \<Rightarrow> ('w, gerror option \<times> print_call list) go" where
  "tail_with_puller env c puller =
     go_bind (if flagFollow c then tail_stream env c (tail_extra env c) puller
              else tail_list env c (tail_extra env c) puller)
       (\<lambda>(err, out). go_return
          (case err of Some e \<Rightarrow> errors_join [None, Some e] | None \<Rightarrow> None, out))"

text \<open>\<open>f.Parse\<close> gives the flags and the arguments left over.\<close>

definition tail_Run ::
  "(string list \<Rightarrow> gerror + tail_command \<times> string list) \<Rightarrow> 'w cli_env \<Rightarrow> 'w log_puller option \<Rightarrow>
     string list \<Rightarrow> ('w, gerror option \<times> print_call list) go" where
  "tail_Run parse env testPuller args =
     (case parse args of
        Inl err \<Rightarrow> go_return (Some (wrapf ''failed to parse flags'' err), [])
      | Inr (c, rest) \<Rightarrow>
          if length rest > 0
          then go_return (Some (errorf (''unexpected arguments: '' @ quote_all rest)), [])
          else if flagScope c = [] then go_return (Some (errorf ''scope is required''), [])
          else if flagMaxNum c \<le> 0 \<or> flagMaxNum c > 1000
          then go_return
            (Some (errorf ''-max-num must be greater than 0 and less than 1000''), [])
          else
            (case testPuller of
               Some p \<Rightarrow> tail_with_puller env c p
             | None \<Rightarrow>
                 (case ce_NewClient env of
                    Inl err \<Rightarrow> go_return
                      (errors_join [None, Some (wrapf ''failed to create logging client'' err)], [])
                  | Inr (newPuller, close) \<Rightarrow>
                      go_bind (tail_with_puller env c (newPuller (flagScope c))) (\<lambda>(rErr, out).
                        go_return (case close of
                          Some err \<Rightarrow> errors_join [rErr, Some (wrapf ''failed to close log client'' err)]
                        | None \<Rightarrow> rErr, out)))))"

subsection \<open>validate\<close>

definition validate_Run ::
  "(string list \<Rightarrow> gerror + validate_command \<times> string list) \<Rightarrow> 'w cli_env \<Rightarrow> string list \<Rightarrow>
     gerror option \<times> print_call list" where
  "validate_Run parse env args =
     (case parse args of
        Inl err \<Rightarrow> (Some (wrapf ''failed to parse flags'' err), [])
      | Inr (c, rest) \<Rightarrow>
          if length rest > 0
          then (Some (errorf (''unexpected arguments: '' @ quote_all rest)), [])
          else if v_flagLogEntry c = [] then (Some (errorf ''log is required''), [])
          else
            (case (if v_flagLogEntry c = ''-'' then PromptAll env ''Enter log: ''
                   else Inr (v_flagLogEntry c)) of
               Inl err \<Rightarrow> (Some (wrapf ''failed to get log from prompt'' err), [])
             | Inr log \<Rightarrow>
                 (case Validate (ce_protojson env) log
                         (if v_flagAdditionalCheck c then [ValidateLabels (ce_label_order env)] else []) of
                    Some err \<Rightarrow> (Some (wrapf ''failed to validate log'' err), [])
                  | None \<Rightarrow> (None, [Outf ''Successfully validated log'' []]))))"

subsection \<open>Flags\<close>

text \<open>
  The flags the commands declare, with their aliases, the variable they set and its default; the
  usage and example texts are left out.
\<close>

datatype flag_target = StringVar string | BoolVar bool | IntVar int | DurationVar int

record flag =
  fl_Name :: string
  fl_Aliases :: "string list"
  fl_Default :: flag_target
  fl_Hidden :: bool

definition flag_var :: "string \<Rightarrow> string list \<Rightarrow> flag_target \<Rightarrow> flag" where
  "flag_var name aliases def = \<lparr>fl_Name = name, fl_Aliases = aliases, fl_Default = def, fl_Hidden = False\<rparr>"

text \<open>Two hours, in nanoseconds.\<close>

definition two_hours :: int where "two_hours = 2 * 3600 * 10 ^ 9"

definition tail_Flags :: "flag list" where
  "tail_Flags =
     [flag_var ''scope'' [''s''] (StringVar []),
      flag_var ''validate'' [''v''] (BoolVar False),
      flag_var ''max-num'' [''n''] (IntVar 10),
      flag_var ''duration'' [''d''] (DurationVar two_hours),
      flag_var ''additional-filter'' [] (StringVar []),
      (flag_var ''override-filter'' [] (StringVar []))\<lparr>fl_Hidden := True\<rparr>,
      flag_var ''additional-check'' [] (BoolVar False),
      flag_var ''follow'' [''f''] (BoolVar False)]"

definition validate_Flags :: "flag list" where
  "validate_Flags =
     [flag_var ''log-entry'' [''l''] (StringVar []),
      flag_var ''additional-check'' [] (BoolVar False)]"

definition flag_names :: "flag list \<Rightarrow> string list" where
  "flag_names fs = concat (map (\<lambda>f. fl_Name f # fl_Aliases f) fs)"

text \<open>The command before any flag is read: only the scope is missing.\<close>

definition tail_defaults :: tail_command where
  "tail_defaults =
     \<lparr>flagScope = [], flagValidate = False, flagMaxNum = 10, flagDuration = two_hours,
      flagAdditionalFilter = [], flagOverrideFilter = [], flagAdditionalCheck = False, flagFollow = False\<rparr>"

lemma flags_distinct: "distinct (flag_names tail_Flags)" "distinct (flag_names validate_Flags)"
  by (simp_all add: flag_names_def tail_Flags_def validate_Flags_def flag_var_def)

lemma tail_defaults_of_flags:
  "map fl_Default tail_Flags =
     [StringVar (flagScope tail_defaults), BoolVar (flagValidate tail_defaults), IntVar (flagMaxNum tail_defaults),
      DurationVar (flagDuration tail_defaults), StringVar (flagAdditionalFilter tail_defaults),
      StringVar (flagOverrideFilter tail_defaults), BoolVar (flagAdditionalCheck tail_defaults),
      BoolVar (flagFollow tail_defaults)]"
  by (simp add: tail_Flags_def tail_defaults_def flag_var_def)

lemma tail_defaults_in_range: "0 < flagMaxNum tail_defaults \<and> flagMaxNum tail_defaults \<le> 1000"
  by (simp add: tail_defaults_def)

text \<open>The commands \<open>rootCmd\<close> registers, by name.\<close>

datatype command = TailCmd | ValidateCmd

definition root_commands :: "string \<rightharpoonup> command" where
  "root_commands = [''validate'' \<mapsto> ValidateCmd, ''tail'' \<mapsto> TailCmd]"

subsection \<open>Lemmas\<close>

text \<open>The entries \<open>list\<close> counts as failed, and the ones \<open>stream\<close> does.\<close>

definition marshal_fails :: "protojson \<Rightarrow> log_entry \<Rightarrow> bool" where
  "marshal_fails pj l \<longleftrightarrow> (\<exists>e. marshal_entry pj l = Inl e)"

definition entry_invalid :: "protojson \<Rightarrow> validator list \<Rightarrow> log_entry \<Rightarrow> bool" where
  "entry_invalid pj extra l \<longleftrightarrow>
     (\<exists>js e. marshal_entry pj l = Inr js \<and> Validate pj js extra = Some e)"

text \<open>One step of the two loops: how many failures it counts, and what it prints.\<close>

definition step_prints :: "protojson \<Rightarrow> bool \<Rightarrow> validator list \<Rightarrow> log_entry \<Rightarrow> print_call list" where
  "step_prints pj v extra l =
     (case marshal_entry pj l of
        Inl err \<Rightarrow> [print_marshal_error l err]
      | Inr js \<Rightarrow> Outf (stripSpaces js) [] #
          (if v then (case Validate pj js extra of
                        Some err \<Rightarrow> [print_invalid l err] | None \<Rightarrow> [print_valid l])
           else []))"

lemma list_loop_step:
  "list_loop pj v extra (l # ls) n =
     (fst (list_loop pj v extra ls (n + (if marshal_fails pj l \<or> v \<and> entry_invalid pj extra l then 1 else 0))),
      step_prints pj v extra l @
      snd (list_loop pj v extra ls (n + (if marshal_fails pj l \<or> v \<and> entry_invalid pj extra l then 1 else 0))))"
proof (cases "marshal_entry pj l")
  case (Inr js)
  then show ?thesis
    by (cases "Validate pj js extra")
      (simp_all add: step_prints_def marshal_fails_def entry_invalid_def case_prod_beta)
qed (simp add: step_prints_def marshal_fails_def case_prod_beta)

lemma tail_loop_step:
  "tail_loop pj v extra (l # ls) n t =
     (let rest = tail_loop pj v extra ls (n + (if v \<and> entry_invalid pj extra l then 1 else 0)) (t + 1)
      in (fst rest, fst (snd rest), step_prints pj v extra l @ snd (snd rest)))"
proof (cases "marshal_entry pj l")
  case (Inr js)
  then show ?thesis
    by (cases "Validate pj js extra")
      (simp_all add: step_prints_def entry_invalid_def case_prod_beta Let_def)
qed (simp add: step_prints_def entry_invalid_def case_prod_beta Let_def)

lemma list_loop_eq:
  "list_loop pj v extra ls n =
     (n + length (filter (\<lambda>l. marshal_fails pj l \<or> v \<and> entry_invalid pj extra l) ls),
      concat (map (step_prints pj v extra) ls))"
  by (induction ls arbitrary: n) (simp_all add: list_loop_step del: list_loop.simps(2))

lemma tail_loop_eq:
  "tail_loop pj v extra ls n t =
     (n + length (filter (\<lambda>l. v \<and> entry_invalid pj extra l) ls), t + length ls,
      concat (map (step_prints pj v extra) ls))"
  by (induction ls arbitrary: n t) (simp_all add: tail_loop_step Let_def del: tail_loop.simps(2))

end
