(* ===== verification/Examples.thy ===== *)
theory Examples
  imports Stream_Log Audit_Opt Server Puller Cli
begin

section \<open>Concrete data for the instances of the properties\<close>

text \<open>
  Small concrete instances: a request, a world that is the list of requests a backend stored, a
  backend that stores and one that fails, a logging library on the same world, and environments
  in which every external call succeeds.  The witnesses of the properties are evaluated on them.
\<close>

definition ex_payload :: audit_log where
  "ex_payload = empty_audit_log\<lparr>service_name := ''svc'', method_name := ''/svc/M'',
     resource_name := ''res'', authentication := Some \<lparr>principal_email = ''a@b''\<rparr>\<rparr>"

definition ex_request :: log_request where
  "ex_request = empty_log_request\<lparr>payload := Some ex_payload, mode := MODE_FAIL_CLOSE\<rparr>"

definition ex_ctx :: ctx where
  "ex_ctx = \<lparr>incoming_md = Some (\<lambda>k. if k = ''authorization'' then [''Bearer tok''] else []),
             ctx_log_req = None, outgoing_md = None\<rparr>"

definition ex_world :: "log_request list world" where
  "ex_world = \<lparr>w_ext = [], w_diag = []\<rparr>"

definition store_request :: "log_request list process" where
  "store_request c r w =
     (Ret (None, r), w\<lparr>w_ext := w_ext w @ (case r of Some q \<Rightarrow> [q] | None \<Rightarrow> [])\<rparr>)"

definition store_backend :: "log_request list processor" where
  "store_backend = \<lparr>p_type = ''store'', p_process = store_request, p_stop = Some (go_return None)\<rparr>"

definition broken_backend :: "log_request list processor" where
  "broken_backend = \<lparr>p_type = ''broken'', p_process = (\<lambda>c r. go_return (Some (Opaque ''down''), r)),
     p_stop = Some (go_return (Some (Opaque ''stuck'')))\<rparr>"

definition ex_client :: "log_request list processor list \<Rightarrow> log_mode \<Rightarrow> log_request list client" where
  "ex_client bs m = \<lparr>validators = [NewRequestValidator], mutators = [], backends = bs, logMode = m\<rparr>"

lemma ex_request_valid: "valid_request ex_request"
  by (simp add: valid_request_def valid_audit_log_def valid_identity_def audit_identity_def
      ex_request_def ex_payload_def valid_email_def)

lemma ex_backends_mode:
  "mode_process (p_process store_backend)" "mode_process (p_process broken_backend)"
  by (unfold_locales, auto simp: store_backend_def store_request_def broken_backend_def)+

lemma NewRequestValidator_process [simp]: "p_process NewRequestValidator = RequestValidator_Process"
  "p_type NewRequestValidator = ''*audit.RequestValidator''" "p_stop NewRequestValidator = None"
  by (simp_all add: NewRequestValidator_def)

lemma ex_client_modes: "set bs \<subseteq> {store_backend, broken_backend} \<Longrightarrow> keeps_modes (ex_client bs m)"
  using ex_backends_mode request_validator.mode_process_axioms
  by (auto simp: keeps_modes_def ex_client_def)

lemma ex_client_checks: "checks_requests (ex_client bs m)"
  using request_validator.validator_process_axioms
  by (simp add: checks_requests_def ex_client_def)

lemma ex_validator_accepts:
  "RequestValidator_Process c (Some ex_request) w = (Ret (None, Some ex_request), w)"
  using ex_request_valid validate_request_None [of "Some ex_request"]
  by (simp add: RequestValidator_Process_eq)

lemma ex_mode: "effective_mode (ex_client bs m) ex_request = MODE_FAIL_CLOSE"
  "ex_request\<lparr>mode := MODE_FAIL_CLOSE\<rparr> = ex_request" "mode ex_request = MODE_FAIL_CLOSE"
  by (simp_all add: effective_mode_def ex_request_def)

lemma ex_Log:
  "Log (Some (ex_client [broken_backend] m)) c (Some ex_request) w =
     (Ret (Some (wrapf ''failed to execute backend broken'' (Opaque ''down'')), Some ex_request), w)"
  "Log (Some (ex_client [store_backend] m)) c (Some ex_request) w =
     (Ret (None, Some ex_request), w\<lparr>w_ext := w_ext w @ [ex_request]\<rparr>)"
  by (simp_all add: Log_Some ex_mode Log_stages_def, simp_all add: ex_client_def then_stage_def
      go_bind_def ex_validator_accepts broken_backend_def store_backend_def store_request_def
      handleReturn_def ex_mode err_simps)

definition ex_jvs :: "unit jvs" where
  "ex_jvs = \<lparr>ValidateJWT = (\<lambda>c t p. if p = ''a@b'' then Inr () else Inl (Opaque ''bad subject'')),
     marshal_token = (\<lambda>_. Inr []), unmarshal_struct = (\<lambda>_. Inr [''sub'' \<mapsto> StringValue ''a@b'']),
     GetJustifications = (\<lambda>_. Inr [(''explanation'', ''why'')]),
     marshal_justifications = (\<lambda>_. Inr ''js'')\<rparr>"

definition ex_runtime :: runtime_env where
  "ex_runtime = \<lparr>LookupEnv = [''K_CONFIGURATION'' \<mapsto> ''c'', ''K_SERVICE'' \<mapsto> ''s'', ''K_REVISION'' \<mapsto> ''r''],
     md_project_id = Inr ''p'', md_zone = Inr ''us-east1-b'', md_instance_attribute = (\<lambda>_. Inl (Opaque [])),
     md_instance_id = Inr [], md_instance_name = Inr [], OnGCE = True, ReadFile = (\<lambda>_. Inl (Opaque [])),
     marshal_resource = (\<lambda>_. Inr []), unmarshal_resource = (\<lambda>_. Inr None)\<rparr>"

definition ex_logging :: "log_request list logging_client" where
  "ex_logging n = \<lparr>lg_name = n, lg_log = (\<lambda>l. go_return ()),
     lg_log_sync = (\<lambda>c l. go_return (Some (Opaque n))), lg_flush = go_return (Some (Opaque n))\<rparr>"

definition ex_log_types :: "log_type list" where "ex_log_types = map fst LogType_entries"

lemma ex_log_types_all: "visits_all_log_types ex_log_types"
  by (simp add: visits_all_log_types_def ex_log_types_def LogType_entries_def log_type_defs)

definition ex_cl :: "log_request list cl_processor" where
  "ex_cl = \<lparr>cl_client = Some ex_logging, bestEffort = False,
     loggerByLogType = map (\<lambda>v. (v, ex_logging (logNameFromLogType v))) ex_log_types\<rparr>"

lemma ex_cl_new: "NewProcessor [] (Inr ex_logging) ex_log_types [] = Inr ex_cl"
  by (simp add: NewProcessor_def make_loggers_all [OF ex_log_types_all] ex_cl_def)

definition ex_conn :: "log_request list agent_cc" where
  "ex_conn = connected (RegisterAuditLogAgentServer None
     \<lparr>srv_ProcessLog = (\<lambda>c r. go_return (Inr \<lparr>Result = None\<rparr>))\<rparr>) ex_ctx (go_return None)"

definition ex_remote_to :: "'w agent_cc \<Rightarrow> 'w remote_processor" where
  "ex_remote_to cc = \<lparr>address = [], r_conn = Some cc, r_client = Some (NewAuditLogAgentClient cc),
     authOpts = None, rawDialOpts = []\<rparr>"

lemma ex_remote_to:
  "r_client (ex_remote_to cc) = Some (NewAuditLogAgentClient cc)" "authOpts (ex_remote_to cc) = None"
  by (simp_all add: ex_remote_to_def)

definition ex_remote :: "log_request list remote_deps" where
  "ex_remote = \<lparr>NewTokenSource = (\<lambda>a. Inr (go_return (Inr a))),
     ImpersonatedTokenSource = (\<lambda>t a. Inr (go_return (Inr t))), SystemCertPool = None,
     NewGRPCClient = (\<lambda>a os. if WithTLS \<in> set os then Inr ex_conn else Inl (Opaque ''insecure''))\<rparr>"

definition ex_rule :: "string \<Rightarrow> audit_rule" where
  "ex_rule sel = \<lparr>Selector = sel, Directive = DirectiveRequestAndResponse, LogType = ''DATA_ACCESS''\<rparr>"

definition ex_config :: config where
  "ex_config = \<lparr>cfg_version = [], cfg_backend = Some \<lparr>be_remote = None,
       be_cloudlogging = Some \<lparr>DefaultProject = False, Project = ''p''\<rparr>\<rparr>,
     cfg_condition = Some \<lparr>co_regex = Some \<lparr>PrincipalInclude = [], PrincipalExclude = ''x''\<rparr>\<rparr>,
     cfg_security = Some \<lparr>from_raw_jwts = [\<lparr>jwt_key = ''authorization'', jwt_prefix = ''bearer '', jwt_jwks = None\<rparr>]\<rparr>,
     cfg_rules = [\<lparr>Selector = ''*'', Directive = [], LogType = []\<rparr>], cfg_labels = [(''env'', ''t'')],
     cfg_log_mode = [], cfg_justification = None\<rparr>"

lemma ex_config_wf: "wf_config (Config_SetDefault ex_config)"
  by (simp add: wf_config_def ex_config_def wf_backend_def Backend_SetDefault_def
      CloudLogging_SetDefault_def AuditRule_SetDefault_def wf_rule_def ToUpper_FAIL_CLOSE)

lemma ex_config_valid: "Config_Validate ex_config = (None, Config_SetDefault ex_config)"
  using Config_Validate_None [of ex_config] ex_config_wf by (simp add: Config_Validate_def Let_def)

subsection \<open>Interceptors\<close>

definition ex_env :: "log_request list grpc_env" where
  "ex_env = \<lparr>time_Now = go_return 0, uuid_New = go_return ''u'', status_FromError = (\<lambda>_. None),
     proto_Clone = Some\<rparr>"

definition ex_it :: "log_request list processor list \<Rightarrow> principal_source \<Rightarrow> log_request list interceptor" where
  "ex_it bs sc = \<lparr>it_Client = Some (ex_client bs MODE_FAIL_CLOSE), it_sc = Some sc,
     it_rules = [ex_rule ''*''], it_logMode = MODE_FAIL_CLOSE\<rparr>"

definition known :: principal_source where "known c = Inr ''a@b''"
definition unknown :: principal_source where "unknown c = Inl (Opaque ''no token'')"

text \<open>A handler that names the resource and answers, and one that fails.\<close>

definition ex_handler :: "log_request list unary_handler" where
  "ex_handler c req = go_return (GoNil, None, set_resource ''res'' (fst (LogReqFromCtx c)))"

definition failing_handler :: "log_request list unary_handler" where
  "failing_handler c req =
     go_return (GoNil, Some (Opaque ''boom''), set_resource ''res'' (fst (LogReqFromCtx c)))"

lemma ex_rule_found: "mostRelevantRule ''/svc/M'' (it_rules (ex_it bs sc)) = Some (ex_rule ''*'')"
  by (simp add: mostRelevantRule_def ex_it_def ex_rule_def isRuleApplicable_def wildcard_def)

lemma ex_service: "serviceName ''/svc/M'' = Inr ''svc''"
  by (simp add: serviceName_def serviceName_group_def)

lemma ex_it_fields: "it_sc (ex_it bs sc) = Some sc" "it_logMode (ex_it bs sc) = MODE_FAIL_CLOSE"
  "it_Client (ex_it bs sc) = Some (ex_client bs MODE_FAIL_CLOSE)"
  by (simp_all add: ex_it_def)

lemma ex_now: "time_Now ex_env w = (Ret 0, w)"
  by (simp add: ex_env_def)

definition ex_handler_request :: log_request where
  "ex_handler_request = handler_request (ex_it [] known) ex_ctx (ex_rule ''*'') ''svc'' ''/svc/M'' 0 ''a@b'' GoNil"

lemma ex_handler_request_any:
  "handler_request (ex_it bs sc) ex_ctx (ex_rule ''*'') ''svc'' ''/svc/M'' 0 ''a@b'' GoNil = ex_handler_request"
  by (simp add: ex_handler_request_def handler_request_def unary_log_request_def ex_it_fields)

lemma ex_unary:
  "UnaryInterceptor ex_env (ex_it bs known) ex_ctx GoNil ''/svc/M'' h w =
     run_unary ex_env (ex_it bs known) ex_ctx (ex_rule ''*'') GoNil h ex_handler_request w"
proof -
  have "\<exists>s. toProtoStruct GoNil = Inr s"
    by (simp add: toProtoStruct_def GoNil_def json_Marshal_def json_Unmarshal_map_def)
  from UnaryInterceptor_prepared [OF ex_rule_found ex_service ex_it_fields(1) _ ex_now this] show ?thesis
    by (simp add: known_def ex_handler_request_any)
qed

text \<open>What the client of the example is given, and that it is valid.\<close>

definition ex_logged :: log_request where
  "ex_logged = (set_resource ''res'' ex_handler_request)\<lparr>payload := map_option
     (\<lambda>a. a\<lparr>response := Some (Some Map.empty)\<rparr>) (payload (set_resource ''res'' ex_handler_request))\<rparr>"

lemma ex_logged_mode: "mode ex_logged = MODE_FAIL_CLOSE" "mode ex_handler_request = MODE_FAIL_CLOSE"
  by (simp_all add: ex_logged_def ex_handler_request_def set_resource_def handler_request_def ex_it_fields)

lemma ex_resource_valid: "valid_request (set_resource ''res'' ex_handler_request)"
  unfolding ex_handler_request_def handler_request_valid [OF ex_service]
  by (simp add: valid_email_def)

lemma ex_logged_valid: "valid_request ex_logged"
  using ex_resource_valid
  by (rule valid_request_same_identity [THEN iffD1, rotated])
    (simp add: same_identity_def ex_logged_def option.map_comp comp_def audit_identity_def [abs_def])

lemma ex_client_Log:
  assumes "valid_request q" "mode q = MODE_FAIL_CLOSE"
  shows "Log (Some (ex_client [broken_backend] m)) c (Some q) w =
       (Ret (Some (wrapf ''failed to execute backend broken'' (Opaque ''down'')), Some q), w)"
    "Log (Some (ex_client [store_backend] m)) c (Some q) w =
       (Ret (None, Some q), w\<lparr>w_ext := w_ext w @ [q]\<rparr>)"
proof -
  have v: "RequestValidator_Process c (Some q) = go_return (None, Some q)"
    using assms(1) validate_request_None [of "Some q"]
    by (simp add: RequestValidator_Process_eq fun_eq_iff)
  have m: "effective_mode (ex_client bs m) q = MODE_FAIL_CLOSE" "q\<lparr>mode := MODE_FAIL_CLOSE\<rparr> = q" for bs
    by (simp add: effective_mode_def assms(2)) (simp flip: assms(2))
  show "Log (Some (ex_client [broken_backend] m)) c (Some q) w =
       (Ret (Some (wrapf ''failed to execute backend broken'' (Opaque ''down'')), Some q), w)"
    "Log (Some (ex_client [store_backend] m)) c (Some q) w =
       (Ret (None, Some q), w\<lparr>w_ext := w_ext w @ [q]\<rparr>)"
    unfolding Log_Some m Log_stages_def
    by (simp_all add: ex_client_def then_stage_def go_bind_def v broken_backend_def store_backend_def
        store_request_def handleReturn_def err_simps assms(2))
qed

lemma ex_handler_result:
  "ex_handler (with_log_req q c) req w = (Ret (GoNil, None, set_resource ''res'' q), w)"
  "failing_handler (with_log_req q c) req w = (Ret (GoNil, Some (Opaque ''boom''), set_resource ''res'' q), w)"
  by (simp_all add: ex_handler_def failing_handler_def LogReqFromCtx_def with_log_req_def)

lemma ex_setResp:
  "setResp (set_resource ''res'' ex_handler_request) GoNil w = (Ret (None, ex_logged), w)"
  by (simp add: setResp_def toProtoStruct_def GoNil_def json_Marshal_def json_Unmarshal_map_def
      jsonMapToProtoStruct_def ex_logged_def set_resource_def ex_handler_request_def
      handler_request_def)

lemma ex_unary_ok:
  "UnaryInterceptor ex_env (ex_it [store_backend] known) ex_ctx GoNil ''/svc/M'' ex_handler w =
     (Ret (GoNil, None), w\<lparr>w_ext := w_ext w @ [ex_logged]\<rparr>)"
  by (simp add: ex_unary run_unary_def go_bind_Ret ex_handler_result log_response_def shouldLogResp_def
      ex_rule_def ex_setResp ex_it_fields ex_client_Log(2) ex_logged_valid ex_logged_mode)

lemma ex_unary_log_fails:
  "UnaryInterceptor ex_env (ex_it [broken_backend] known) ex_ctx GoNil ''/svc/M'' ex_handler w =
     (Ret (GoNil, Some (InterceptorError (StatusError code_Internal (''failed to emit log: '' @
        error_text (wrapf ''failed to execute backend broken'' (Opaque ''down'')))))), w)"
  by (simp add: ex_unary run_unary_def go_bind_Ret ex_handler_result log_response_def shouldLogResp_def
      ex_rule_def ex_setResp ex_it_fields ex_client_Log(1) ex_logged_valid ex_logged_mode
      handleReturnWithResponse_def)

lemma ex_unary_handler_fails:
  "\<exists>w'. UnaryInterceptor ex_env (ex_it [broken_backend] known) ex_ctx GoNil ''/svc/M'' failing_handler w =
     (Ret (GoNil, Some (Opaque ''boom'')), w')"
proof -
  let ?q = "set_resource ''res'' ex_handler_request"
  obtain a where a: "payload ?q = Some a" using ex_resource_valid by (auto simp: valid_request_def valid_audit_log_def split: option.splits)
  obtain st where s: "setErrorStatus ex_env (Opaque ''boom'') ?q v = (Ret (?q\<lparr>payload := Some (a\<lparr>status := Some st\<rparr>)\<rparr>), v)" for v
    by (simp add: setErrorStatus_def a ex_env_def Let_def)
  let ?q' = "?q\<lparr>payload := Some (a\<lparr>status := Some st\<rparr>)\<rparr>"
  have "valid_request ?q'" using ex_resource_valid
    by (rule valid_request_same_identity [THEN iffD1, rotated])
      (simp add: same_identity_def a audit_identity_def)
  moreover have "mode ?q' = MODE_FAIL_CLOSE" using ex_logged_mode(1) by (simp add: ex_logged_def)
  ultimately show ?thesis
    by (simp add: ex_unary run_unary_def go_bind_def ex_handler_result log_handler_error_def s
        ex_it_fields ex_client_Log(1) go_log_def)
qed

subsection \<open>Streams\<close>

text \<open>A client without validators that stores what it is given, and a stream of empty messages.\<close>

definition ex_storing :: "log_request list client" where
  "ex_storing = \<lparr>validators = [], mutators = [], backends = [store_backend], logMode = MODE_FAIL_CLOSE\<rparr>"

definition ex_stream :: "log_request list server_stream" where
  "ex_stream = \<lparr>ss_Context = ex_ctx, ss_RecvMsg = go_return (Inr GoNil), ss_SendMsg = (\<lambda>m. go_return None)\<rparr>"

definition ex_wrapper :: "log_request list wrapper" where
  "ex_wrapper = \<lparr>sw_c = Some ex_storing, baselineLogReq = ex_request, sw_rule = ex_rule ''*'',
     lastReq = None, ServerStream = ex_stream\<rparr>"

lemma ex_storing_Log:
  "Log (Some ex_storing) c (Some q) w = (Ret (None, Some (q\<lparr>mode := effective_mode ex_storing q\<rparr>)),
     w\<lparr>w_ext := w_ext w @ [q\<lparr>mode := effective_mode ex_storing q\<rparr>]\<rparr>)"
  unfolding Log_Some
  by (simp add: ex_storing_def Log_stages_def then_stage_def go_bind_def store_backend_def
      store_request_def)

lemma ex_delivers: "delivers id (\<lambda>q. q\<lparr>mode := effective_mode ex_storing q\<rparr>) ex_storing"
  by (simp add: delivers_def ex_storing_Log)

lemma ex_stream_unobserved: "stream_unobserved id (ServerStream ex_wrapper)"
  by (simp add: stream_unobserved_def ex_wrapper_def ex_stream_def)

lemma ex_clones: "clones ex_env"
  by (simp add: clones_def ex_env_def)

text \<open>An interceptor over the storing client, and a stream whose handler fails at once.\<close>

definition ex_storing_it :: "log_request list interceptor" where
  "ex_storing_it = \<lparr>it_Client = Some ex_storing, it_sc = Some known, it_rules = [ex_rule ''*''],
     it_logMode = MODE_FAIL_CLOSE\<rparr>"

lemma ex_storing_it:
  "mostRelevantRule ''/svc/M'' (it_rules ex_storing_it) = Some (ex_rule ''*'')"
  "it_sc ex_storing_it = Some known" "known c = Inr ''a@b''"
  "uuid_New ex_env w = (Ret ''u'', w)" "time_Now ex_env w = (Ret 0, w)"
  "it_Client ex_storing_it = Some ex_storing"
  by (simp_all add: ex_storing_it_def mostRelevantRule_def ex_rule_def isRuleApplicable_def wildcard_def
      known_def ex_env_def)

lemma ex_failing_stream:
  "\<exists>w'. StreamInterceptor ex_env ex_storing_it ex_stream ''/svc/M'' (\<lambda>_. HReturn (Some (Opaque ''boom''))) ex_world =
     Some (Ret (Some (Opaque ''boom'')), w')"
proof -
  from StreamInterceptor_prepared [OF ex_storing_it(1) ex_service ex_storing_it(2,3,4,5),
      of ex_stream "\<lambda>_. HReturn (Some (Opaque ''boom''))" ex_world] obtain base a where
    "StreamInterceptor ex_env ex_storing_it ex_stream ''/svc/M'' (\<lambda>_. HReturn (Some (Opaque ''boom''))) ex_world =
       run_stream ex_env ex_storing_it (ss_Context ex_stream) (HReturn (Some (Opaque ''boom'')))
         \<lparr>sw_c = it_Client ex_storing_it, baselineLogReq = base, sw_rule = ex_rule ''*'', lastReq = None,
          ServerStream = ex_stream\<rparr> ex_world" "payload base = Some a" by blast
  then show ?thesis
    by (simp add: run_stream_def run_wrapped_simps dv_bind_def setErrorStatus_def Let_def ex_storing_it(6)
        go_bind_Ret [OF ex_storing_Log] split: option.splits)
qed

lemma handler_run_HReturn: "handler_run env (HReturn e) s es res \<longleftrightarrow> es = [] \<and> res = (e, s)"
  by (cases s; cases res) (auto elim: handler_run.cases intro: handler_run.returns)

lemma ex_to_struct: "toProtoStruct GoNil = Inr (Some (Some Map.empty))"
  by (simp add: toProtoStruct_def GoNil_def json_Marshal_def json_Unmarshal_map_def
      jsonMapToProtoStruct_def)

lemma ex_emit: "\<exists>w'. emit_log (ex_wrapper\<lparr>lastReq := x\<rparr>) q w = (Ret None, w')"
  by (simp add: emit_log_def ex_wrapper_def go_bind_Ret [OF ex_storing_Log])

lemma ex_recv_first:
  "RecvMsg ex_env ex_wrapper w = (Ret (Inr GoNil, ex_wrapper\<lparr>lastReq := Some GoNil\<rparr>), w)"
  by (simp add: RecvMsg_def ex_env_def ex_wrapper_def ex_stream_def swapLastReq_def)

lemma ex_recv_next:
  "\<exists>w'. RecvMsg ex_env (ex_wrapper\<lparr>lastReq := Some GoNil\<rparr>) w =
     (Ret (Inr GoNil, ex_wrapper\<lparr>lastReq := Some GoNil\<rparr>), w')"
proof -
  obtain w' where e: "emit_log (ex_wrapper\<lparr>lastReq := Some GoNil\<rparr>) (ex_request\<lparr>payload :=
      Some (ex_payload\<lparr>request := Some (Some Map.empty)\<rparr>)\<rparr>) w = (Ret None, w')"
    using ex_emit by blast
  have f: "baselineLogReq ex_wrapper = ex_request" "payload ex_request = Some ex_payload"
    "shouldLogReq (sw_rule ex_wrapper)" "ServerStream ex_wrapper = ex_stream"
    by (simp_all add: ex_wrapper_def ex_request_def shouldLogReq_def ex_rule_def)
  from e f show ?thesis
    by (simp add: RecvMsg_def ex_env_def ex_stream_def swapLastReq_def setReq_def ex_to_struct go_bind_Ret)
qed

lemma ex_send:
  "\<exists>w'. SendMsg ex_env GoNil (ex_wrapper\<lparr>lastReq := Some GoNil\<rparr>) w = (Ret (None, ex_wrapper), w')"
proof -
  obtain w' where e: "emit_log (ex_wrapper\<lparr>lastReq := None\<rparr>) (ex_request\<lparr>payload :=
      Some (ex_payload\<lparr>request := Some (Some Map.empty), response := Some (Some Map.empty)\<rparr>)\<rparr>) w =
      (Ret None, w')"
    using ex_emit by blast
  have f: "baselineLogReq ex_wrapper = ex_request" "payload ex_request = Some ex_payload"
    "shouldLogReq (sw_rule ex_wrapper)" "shouldLogResp (sw_rule ex_wrapper)"
    "ServerStream ex_wrapper = ex_stream" "ex_wrapper\<lparr>lastReq := None\<rparr> = ex_wrapper"
    by (simp_all add: ex_wrapper_def ex_request_def shouldLogReq_def shouldLogResp_def ex_rule_def)
  from e f show ?thesis
    by (simp add: SendMsg_def ex_env_def ex_stream_def popLastReq_def setReq_def setResp_def
        ex_to_struct go_bind_Ret)
qed

lemma ex_stream_run:
  "\<exists>w'. stream_steps ex_env (ex_wrapper, ex_world) [Received GoNil, Received GoNil, Sent GoNil]
     (ex_wrapper, w')"
proof -
  obtain w2 where 2: "RecvMsg ex_env (ex_wrapper\<lparr>lastReq := Some GoNil\<rparr>) ex_world =
     (Ret (Inr GoNil, ex_wrapper\<lparr>lastReq := Some GoNil\<rparr>), w2)" using ex_recv_next by blast
  obtain w3 where 3: "SendMsg ex_env GoNil (ex_wrapper\<lparr>lastReq := Some GoNil\<rparr>) w2 = (Ret (None, ex_wrapper), w3)"
    using ex_send by blast
  show ?thesis
    by (rule exI [of _ w3])
      (rule stream_steps.more stream_steps.none stream_step.intros ex_recv_first 2 3)+
qed

subsection \<open>Configured clients, the agent, pulling\<close>

definition ex_deps :: "(log_request list, unit) opt_deps" where
  "ex_deps = \<lparr>os_ReadFile = (\<lambda>_. Inl ErrNotExist), load_config = (\<lambda>_. Inr (Config_SetDefault ex_config)),
     od_runtime = ex_runtime, od_compile = (\<lambda>s. Inr (\<lambda>x. x = s)), od_remote = ex_remote,
     od_ProjectID = [], od_NewLogging = (\<lambda>_. Inr ex_logging), od_type_order = ex_log_types,
     load_jvs_config = (\<lambda>u b. Inr (u, b)), jvs_NewClient = (\<lambda>_. Inr ex_jvs),
     jwt_Parse = (\<lambda>_. Inr [''email'' \<mapsto> JStr ''a@b''])\<rparr>"

lemma ex_cl_project:
  "NewProcessor [] (Inr ex_logging) ex_log_types [WithLoggingClient ex_logging] = Inr ex_cl"
  by (simp add: NewProcessor_def WithLoggingClient_def make_loggers_all [OF ex_log_types_all] ex_cl_def)

lemma ex_runtime_info: "\<exists>i. newRuntimeInfo ex_runtime = Inr i"
  by (simp add: newRuntimeInfo_def toStructVal_def ex_runtime_def split: option.splits)

lemma ex_config_backend: "cfg_backend (Config_SetDefault ex_config) =
    Some \<lparr>be_remote = None, be_cloudlogging = Some \<lparr>DefaultProject = False, Project = ''p''\<rparr>\<rparr>"
  "cfg_justification (Config_SetDefault ex_config) = None"
  "cfg_condition (Config_SetDefault ex_config) = cfg_condition ex_config"
  by (simp_all add: ex_config_def Backend_SetDefault_def CloudLogging_SetDefault_def)

lemma ex_config_mode: "GetLogMode (Config_SetDefault ex_config) = MODE_FAIL_CLOSE"
  by (simp add: ex_config_def GetLogMode_def ToUpper_FAIL_CLOSE LogMode_value_def LogMode_entries_def)

lemma ex_client_from_config:
  "\<exists>cl. clientFromConfig ex_deps (Some (Config_SetDefault ex_config)) c default_client w = (Ret (None, cl), w)"
proof -
  obtain i where i: "newRuntimeInfo ex_runtime = Inr i" using ex_runtime_info by blast
  have b: "backendsFromConfig ex_deps (Config_SetDefault ex_config)
      \<lparr>be_remote = None, be_cloudlogging = Some \<lparr>DefaultProject = False, Project = ''p''\<rparr>\<rparr> =
      Inr [WithBackend (cl_log_processor ex_cl)]"
    by (simp add: backendsFromConfig_def remoteBackend_def cloudLoggingBackend_def ex_config_mode
        ex_deps_def ex_cl_project)
  let ?m = "\<lparr>m_includes = [], m_excludes = [\<lparr>re_source = ''x'', MatchString = \<lambda>x. x = ''x''\<rparr>]\<rparr>"
  have p: "principalFilterFromConfig ex_deps (Config_SetDefault ex_config) =
      Inr (Some (WithValidator (matcher_log_processor ?m)))"
    by (simp add: principalFilterFromConfig_def ex_config_backend ex_config_def ex_deps_def
        NewPrincipalEmailMatcher_def)
  have v: "Config_Validate (Config_SetDefault ex_config) = (None, Config_SetDefault ex_config)"
    using ex_config_wf by (rule wf_config_Validate)
  have r: "od_runtime ex_deps = ex_runtime" by (simp add: ex_deps_def)
  have lm: "labelsFromConfig cfg = WithMutator (label_log_processor (NewLabelProcessor (cfg_labels cfg)))" for cfg
    by (simp add: labelsFromConfig_def)
  show ?thesis
    by (simp add: clientFromConfig_def v ex_config_backend client_options_def b p
        justification_options_def WithRuntimeInfo_env_def r i lm del: Config_SetDefault_fields)
qed

lemma ex_interceptor_from_config:
  "\<exists>i. interceptorFromConfigFile ex_deps ''f'' ex_ctx zero_interceptor w = (Ret (None, i), w)"
proof -
  obtain cl where c: "clientFromConfig ex_deps (Some (Config_SetDefault ex_config)) ex_ctx default_client w =
      (Ret (None, cl), w)" using ex_client_from_config by blast
  have n: "NewClient ex_ctx [clientFromConfig ex_deps (Some (Config_SetDefault ex_config))] w =
      (Ret (Inr cl), w)"
    by (simp add: NewClient_def go_bind_def c)
  have r: "read_config ex_deps ''f'' = Inr (Config_SetDefault ex_config)"
    by (simp add: read_config_def loadConfig_def ex_deps_def ErrNotExist_def)
  have s: "cfg_security (Config_SetDefault ex_config) =
      Some \<lparr>from_raw_jwts = [\<lparr>jwt_key = ''authorization'', jwt_prefix = ''bearer '', jwt_jwks = None\<rparr>]\<rparr>"
    by (simp add: ex_config_def)
  show ?thesis
    by (simp add: interceptorFromConfigFile_def r s go_bind_def n WithInterceptorLogMode_def
        WithAuditRules_def WithSecurityContext_def WithAuditClient_def del: Config_SetDefault_fields)
qed

text \<open>A logging library whose synchronous writes succeed.\<close>

definition ok_logging :: "log_request list logging_client" where
  "ok_logging n = \<lparr>lg_name = n, lg_log = (\<lambda>l. go_return ()), lg_log_sync = (\<lambda>c l. go_return None),
     lg_flush = go_return None\<rparr>"

definition ok_cl :: "log_request list cl_processor" where
  "ok_cl = \<lparr>cl_client = Some ok_logging, bestEffort = False,
     loggerByLogType = map (\<lambda>v. (v, ok_logging (logNameFromLogType v))) ex_log_types\<rparr>"

lemma ok_cl_loggers: "has_all_loggers ok_logging ok_cl" "plain_logging ok_logging"
  using ex_log_types_all
  by (auto simp: has_all_loggers_def ok_cl_def map_of_tabulate visits_all_log_types_def
      plain_logging_def ok_logging_def plain_error_def)

definition ok_main :: "log_request list main_deps" where
  "ok_main = \<lparr>gcputil_ProjectID = [], envconfig_Process = Inr \<lparr>Port = ''8080'', TraceRatio = 0\<rparr>,
     md_otel = \<lparr>texporter_New = go_return None, SetTracerProvider = (\<lambda>_. go_return ()),
       is_sdk_provider = (\<lambda>_. True), tp_Shutdown = go_return (Some (Opaque ''late''))\<rparr>,
     logging_NewClient = (\<lambda>_. Inr ok_logging), log_type_order = ex_log_types,
     serving_New = (\<lambda>_. None), GRPCUnaryInterceptor = (\<lambda>_ c q m h. h c q), StartGRPC = (\<lambda>a. go_return None)\<rparr>"

lemma ok_main_runs: "\<exists>r w'. realMain ok_main ex_ctx ex_world = (Ret r, w')"
proof -
  have n: "newCloudLoggingProcessor ok_main [] = Inr ok_cl"
    by (simp add: newCloudLoggingProcessor_def ok_main_def NewProcessor_def WithLoggingClient_def
        make_loggers_all [OF ex_log_types_all] ok_cl_def)
  have c: "NewConfig ok_main = Inr \<lparr>Port = ''8080'', TraceRatio = 0\<rparr>" "gcputil_ProjectID ok_main = []"
    by (simp_all add: ok_main_def NewConfig_def)
  have t: "trace_Init (md_otel ok_main) 0 v = (Ret None, v)"
    "\<exists>e. trace_Shutdown (md_otel ok_main) v = (Ret e, v)" for v
    by (simp_all add: ok_main_def trace_Init_def trace_Shutdown_def)
  have s: "serve ok_main cfg cl v = (Ret None, v)" for cfg cl v
    by (simp add: ok_main_def serve_def NewAuditLogAgent_def Let_def)
  have "\<forall>(t, l) \<in> set (loggerByLogType ok_cl). \<forall>v. \<exists>e v'. lg_flush l v = (Ret e, v')"
    by (auto simp: ok_cl_def ok_logging_def)
  from flush_all_collects [OF this, of None "configured ex_world"] obtain e v where
    "CloudLogging_Stop ok_cl (configured ex_world) = (Ret e, v)" by (auto simp: CloudLogging_Stop_def)
  then have "\<exists>e v. Stop (agent_audit_client ok_cl) (configured ex_world) = (Ret e, v)"
    by (simp add: agent_audit_client_def Stop_def go_bind_def cl_log_processor_def
        NewRequestValidator_def split: option.splits)
  then obtain e v where st: "Stop (agent_audit_client ok_cl) (configured ex_world) = (Ret e, v)" by blast
  obtain e2 where sd: "trace_Shutdown (md_otel ok_main) v = (Ret e2, v)" using t(2) by blast
  show ?thesis
    using st by (simp add: realMain_def n c t(1) s sd with_defer_def NewClient_def WithBackend_def
        default_client_def agent_audit_client_def go_bind_def go_log_def configured_def)
qed

text \<open>A puller on a log that fails once after its first entry, with a retry that tries twice.\<close>

definition try_twice :: "(nat \<times> nat, nat list, unit) retry_do" where
  "try_twice b f s = go_bind (f s) (\<lambda>(a, s1). case a of
     AttemptOk \<Rightarrow> go_return (None, s1)
   | Retryable e \<Rightarrow> go_bind (f s1) (\<lambda>(a, s2). case a of
       AttemptOk \<Rightarrow> go_return (None, s2) | Retryable e \<Rightarrow> go_return (Some e, s2)))"

lemma try_twice_retries: "obeys_retry try_twice"
proof -
  have "attempts f s w AttemptOk s' w'" if t: "try_twice b f s w = (Ret (None, s'), w')" for b f s w s' w'
  proof -
    from t obtain a s1 w1 where 1: "f s w = (Ret (a, s1), w1)"
      and r: "(case a of AttemptOk \<Rightarrow> go_return (None, s1)
        | Retryable e \<Rightarrow> go_bind (f s1) (\<lambda>(a, s2). case a of
            AttemptOk \<Rightarrow> go_return (None, s2) | Retryable e \<Rightarrow> go_return (Some e, s2))) w1 =
        (Ret (None, s'), w')"
      unfolding try_twice_def by (auto elim!: go_bind_RetE)
    from 1 r show ?thesis
      by (auto elim!: go_bind_RetE split: attempt.splits
          intro: attempts.last attempts.again [OF _ attempts.last])
  qed
  then show ?thesis by (simp add: obeys_retry_def)
qed

definition flaky_next :: "(nat \<times> nat, nat next_result) go" where
  "flaky_next w = (case w_ext w of (tries, pos) \<Rightarrow>
     if pos = 0 then (Ret (NextEntry 7), w\<lparr>w_ext := (tries, 1)\<rparr>)
     else if tries = 1 then (Ret (NextError (Opaque ''unavailable'')), w)
     else (Ret NextDone, w))"

definition flaky_api :: "(nat \<times> nat, nat) logging_api" where
  "flaky_api = \<lparr>ListLogEntries = (\<lambda>req w. (Ret flaky_next, w\<lparr>w_ext := (fst (w_ext w) + 1, 0)\<rparr>)),
     TailLogEntries = go_return (Inl (Opaque ''closed''))\<rparr>"

definition flaky_puller :: "(nat \<times> nat, nat, unit) puller" where
  "flaky_puller = NewPuller () flaky_api ''projects/p'' []"

definition fresh :: "(nat \<times> nat) world" where
  "fresh = \<lparr>w_ext = (0, 0), w_diag = []\<rparr>"

lemma flaky_pull: "\<exists>w'. Pull try_twice flaky_puller ''f'' 10 fresh = (Ret (Inr [7, 7]), w')"
  by (simp add: Pull_def flaky_puller_def NewPuller_def try_twice_def pull_attempt_def flaky_api_def
      go_bind_def fresh_def flaky_next_def pull_loop.simps)

end
