(* ===== verification/Talker.thy ===== *)
theory Talker
  imports Stream
begin

section \<open>The talker service: clients/go/test/grpc-app, internal/talkerpb\<close>

text \<open>
  The gRPC service the integration tests call behind the interceptors: its messages, the code
  generated for its methods, and its handlers.  A handler of a stream that loops is a corecursive
  tree over the points of its loop, with the equation of the loop as a lemma.  The log request of
  a call always has a payload, so naming its resource cannot fail in a stream.
\<close>

subsection \<open>Messages\<close>

definition HelloRequest :: "string \<Rightarrow> string \<Rightarrow> goval" where
  "HelloRequest target message = GoMsg [(''target'', FString target), (''message'', FString message)]"

definition HelloResponse :: "string \<Rightarrow> goval" where
  "HelloResponse message = GoMsg [(''message'', FString message)]"

definition WhisperRequest :: "string \<Rightarrow> string \<Rightarrow> goval" where
  "WhisperRequest target message = GoMsg [(''target'', FString target), (''message'', FString message)]"

definition WhisperResponse :: "string \<Rightarrow> goval" where
  "WhisperResponse message = GoMsg [(''message'', FString message)]"

definition ByeRequest :: "string \<Rightarrow> string \<Rightarrow> goval" where
  "ByeRequest target message = GoMsg [(''target'', FString target), (''message'', FString message)]"

definition ByeResponse :: "string \<Rightarrow> goval" where
  "ByeResponse message = GoMsg [(''message'', FString message)]"

definition FibonacciRequest :: "32 word \<Rightarrow> string \<Rightarrow> goval" where
  "FibonacciRequest places target =
     GoMsg [(''places'', FUint (unat places)), (''target'', FString target)]"

definition FibonacciResponse :: "32 word \<Rightarrow> 32 word \<Rightarrow> goval" where
  "FibonacciResponse position value =
     GoMsg [(''position'', FUint (unat position)), (''value'', FUint (unat value))]"

definition AdditionRequest :: "32 word \<Rightarrow> string \<Rightarrow> goval" where
  "AdditionRequest addend target =
     GoMsg [(''addend'', FUint (unat addend)), (''target'', FString target)]"

definition AdditionResponse :: "64 word \<Rightarrow> goval" where
  "AdditionResponse acc = GoMsg [(''sum'', FUint (unat acc))]"

definition FailRequest :: "string \<Rightarrow> string \<Rightarrow> goval" where
  "FailRequest target message = GoMsg [(''target'', FString target), (''message'', FString message)]"

definition FailResponse :: "string \<Rightarrow> goval" where
  "FailResponse message = GoMsg [(''message'', FString message)]"

definition FailOnFourRequest :: "string \<Rightarrow> 32 word \<Rightarrow> goval" where
  "FailOnFourRequest target value =
     GoMsg [(''target'', FString target), (''value'', FUint (unat value))]"

definition FailOnFourResponse :: "string \<Rightarrow> goval" where
  "FailOnFourResponse message = GoMsg [(''message'', FString message)]"

text \<open>The getters: the zero value for a field that is not there.\<close>

definition get_string :: "string \<Rightarrow> goval \<Rightarrow> string" where
  "get_string k m =
     (case m of GoMsg fs \<Rightarrow> (case map_of fs k of Some (FString s) \<Rightarrow> s | _ \<Rightarrow> []) | _ \<Rightarrow> [])"

definition get_uint32 :: "string \<Rightarrow> goval \<Rightarrow> 32 word" where
  "get_uint32 k m =
     (case m of GoMsg fs \<Rightarrow> (case map_of fs k of Some (FUint n) \<Rightarrow> of_nat n | _ \<Rightarrow> 0) | _ \<Rightarrow> 0)"

definition GetTarget :: "goval \<Rightarrow> string" where "GetTarget = get_string ''target''"
definition GetPlaces :: "goval \<Rightarrow> 32 word" where "GetPlaces = get_uint32 ''places''"
definition GetAddend :: "goval \<Rightarrow> 32 word" where "GetAddend = get_uint32 ''addend''"
definition GetValue :: "goval \<Rightarrow> 32 word" where "GetValue = get_uint32 ''value''"
definition GetPosition :: "goval \<Rightarrow> 32 word" where "GetPosition = get_uint32 ''position''"
definition GetMessage :: "goval \<Rightarrow> string" where "GetMessage = get_string ''message''"

definition GetSum :: "goval \<Rightarrow> 64 word" where
  "GetSum m =
     (case m of GoMsg fs \<Rightarrow> (case map_of fs ''sum'' of Some (FUint n) \<Rightarrow> of_nat n | _ \<Rightarrow> 0) | _ \<Rightarrow> 0)"

subsection \<open>Unary handlers\<close>

text \<open>
  \<open>if logReq, ok := audit.LogReqFromCtx(ctx); ok\<close>: the resource of the log request is the target.
\<close>

definition name_resource :: "ctx \<Rightarrow> string \<Rightarrow> ('w, log_request) go" where
  "name_resource c target =
     (let (logReq, ok) = LogReqFromCtx c
      in if ok then (case payload logReq of
             None \<Rightarrow> go_panic nil_deref
           | Some a \<Rightarrow> go_return (logReq\<lparr>payload := Some (a\<lparr>resource_name := target\<rparr>)\<rparr>))
         else go_return logReq)"

definition Hello :: "'w unary_handler" where
  "Hello c req = go_bind (name_resource c (GetTarget req)) (\<lambda>logReq.
     go_return (HelloResponse (''Hi, I'' @ [CHR 0x27] @ ''m '' @ GetTarget req @ ''!''), None, logReq))"

definition Whisper :: "'w unary_handler" where
  "Whisper c req = go_bind (name_resource c (GetTarget req)) (\<lambda>logReq.
     go_return (WhisperResponse (''Shush, I'' @ [CHR 0x27] @ ''m '' @ GetTarget req @ ''.''), None, logReq))"

definition Bye :: "'w unary_handler" where
  "Bye c req = go_bind (name_resource c (GetTarget req)) (\<lambda>logReq.
     go_return (ByeResponse ''Bye!'', None, logReq))"

definition Fail :: "'w unary_handler" where
  "Fail c req = go_bind (name_resource c (GetTarget req)) (\<lambda>logReq.
     go_return (GoNil, Some (StatusError code_ResourceExhausted ''this call will always fail''), logReq))"

text \<open>
  The generated code of a unary method: it decodes the request, and calls the handler through the
  interceptor if there is one.
\<close>

definition unary_method ::
  "string \<Rightarrow> 'w unary_handler \<Rightarrow> 'w grpc_env \<Rightarrow> 'w interceptor option \<Rightarrow> ctx \<Rightarrow> gerror + goval \<Rightarrow>
     ('w, goval \<times> gerror option) go" where
  "unary_method FullMethod handler env interceptor c decoded =
     (case decoded of
        Inl err \<Rightarrow> go_return (GoNil, Some err)
      | Inr m \<Rightarrow>
          (case interceptor of
             None \<Rightarrow> call_handler handler c m
           | Some i \<Rightarrow> UnaryInterceptor env i c m FullMethod handler))"

definition Talker_Hello_Handler ::
  "'w grpc_env \<Rightarrow> 'w interceptor option \<Rightarrow> ctx \<Rightarrow> gerror + goval \<Rightarrow> ('w, goval \<times> gerror option) go" where
  "Talker_Hello_Handler = unary_method ''/abcxyz.test.Talker/Hello'' Hello"

definition Talker_Whisper_Handler ::
  "'w grpc_env \<Rightarrow> 'w interceptor option \<Rightarrow> ctx \<Rightarrow> gerror + goval \<Rightarrow> ('w, goval \<times> gerror option) go" where
  "Talker_Whisper_Handler = unary_method ''/abcxyz.test.Talker/Whisper'' Whisper"

definition Talker_Bye_Handler ::
  "'w grpc_env \<Rightarrow> 'w interceptor option \<Rightarrow> ctx \<Rightarrow> gerror + goval \<Rightarrow> ('w, goval \<times> gerror option) go" where
  "Talker_Bye_Handler = unary_method ''/abcxyz.test.Talker/Bye'' Bye"

definition Talker_Fail_Handler ::
  "'w grpc_env \<Rightarrow> 'w interceptor option \<Rightarrow> ctx \<Rightarrow> gerror + goval \<Rightarrow> ('w, goval \<times> gerror option) go" where
  "Talker_Fail_Handler = unary_method ''/abcxyz.test.Talker/Fail'' Fail"

subsection \<open>Fibonacci\<close>

text \<open>
  The loop variables are \<open>uint32\<close>, and so is the bound: the increment of \<open>i\<close> wraps around.  At the
  end of an iteration the values of \<open>z\<close>, \<open>x\<close> and \<open>y\<close> are known before the send.
\<close>

definition fib_step :: "32 word \<Rightarrow> 32 word \<Rightarrow> 32 word \<Rightarrow> 32 word \<times> 32 word \<times> 32 word" where
  "fib_step i x y =
     (if i = 2 then (1, x, y)
      else if i > 2 then (x + y, y, x + y)
      else (0, x, y))"

datatype (discs_sels) fib_point = FibTest "32 word" "32 word" "32 word" "32 word" | FibReturn "gerror option"

definition fib_sent :: "32 word \<Rightarrow> 32 word \<Rightarrow> 32 word \<Rightarrow> 32 word \<Rightarrow> gerror option \<Rightarrow> fib_point" where
  "fib_sent places i x y err =
     (case err of
        Some e \<Rightarrow> FibReturn (Some (wrapf ''failed to send fibonacci response'' e))
      | None \<Rightarrow> (let (z, x', y') = fib_step i x y in FibTest places (i + 1) x' y'))"

primcorec fib_loop :: "fib_point \<Rightarrow> 'w stream_handler" where
  "fib_loop pc =
     (case pc of
        FibTest places i x y \<Rightarrow>
          (if i \<le> places
           then HSend (FibonacciResponse i (fst (fib_step i x y))) (\<lambda>err. fib_loop (fib_sent places i x y err))
           else HReturn None)
      | FibReturn err \<Rightarrow> HReturn err)"

definition Fibonacci :: "goval \<Rightarrow> 'w stream_handler" where
  "Fibonacci req = HContext (set_resource (GetTarget req))
     (\<lambda>_. fib_loop (FibTest (GetPlaces req) 1 0 1))"

subsection \<open>Addition\<close>

text \<open>The sum is an \<open>int\<close> of 64 bits and is sent as a \<open>uint64\<close>.\<close>

datatype (discs_sels) add_point =
    AddRecv "64 word" | AddGot "64 word" goval | AddClose "64 word" | AddReturn "gerror option"

definition add_received :: "64 word \<Rightarrow> gerror + goval \<Rightarrow> add_point" where
  "add_received acc r =
     (case r of
        Inl err \<Rightarrow>
          if errors_is err io_EOF then AddClose acc
          else AddReturn (Some (wrapf ''recv error that was not EOF in Addition'' err))
      | Inr req \<Rightarrow> AddGot acc req)"

primcorec add_loop :: "add_point \<Rightarrow> 'w stream_handler" where
  "add_loop pc =
     (case pc of
        AddRecv acc \<Rightarrow> HRecv (\<lambda>r. add_loop (add_received acc r))
      | AddGot acc req \<Rightarrow> HContext (set_resource (GetTarget req))
          (\<lambda>_. add_loop (AddRecv (acc + ucast (GetAddend req))))
      | AddClose acc \<Rightarrow> HSend (AdditionResponse acc) (\<lambda>err. add_loop (AddReturn
          (map_option (wrapf ''failed to send and close addition response'') err)))
      | AddReturn err \<Rightarrow> HReturn err)"

definition Addition :: "'w stream_handler" where
  "Addition = add_loop (AddRecv 0)"

subsection \<open>FailOnFour\<close>

text \<open>The error of \<open>SendAndClose\<close> is ignored.\<close>

datatype (discs_sels) four_point = FourRecv | FourGot goval | FourClose | FourReturn "gerror option"

definition four_received :: "gerror + goval \<Rightarrow> four_point" where
  "four_received r =
     (case r of
        Inl err \<Rightarrow>
          if errors_is err io_EOF then FourClose
          else FourReturn (Some (wrapf ''recv error that was not EOF in FailOnFour'' err))
      | Inr req \<Rightarrow> FourGot req)"

definition four_next :: "goval \<Rightarrow> four_point" where
  "four_next req =
     (if GetValue req = 4
      then FourReturn (Some (StatusError code_InvalidArgument ''this call will always fail on four''))
      else FourRecv)"

primcorec four_loop :: "four_point \<Rightarrow> 'w stream_handler" where
  "four_loop pc =
     (case pc of
        FourRecv \<Rightarrow> HRecv (\<lambda>r. four_loop (four_received r))
      | FourGot req \<Rightarrow> HContext (set_resource (GetTarget req)) (\<lambda>_. four_loop (four_next req))
      | FourClose \<Rightarrow> HSend (FailOnFourResponse ''closing...'') (\<lambda>err. four_loop (FourReturn None))
      | FourReturn err \<Rightarrow> HReturn err)"

definition FailOnFour :: "'w stream_handler" where
  "FailOnFour = four_loop FourRecv"

subsection \<open>The generated code of the streams\<close>

text \<open>\<open>srv.(TalkerServer)\<close> panics on a value that is not the service.\<close>

definition as_TalkerServer :: "srv_arg \<Rightarrow> 'w stream_handler \<Rightarrow> 'w stream_handler" where
  "as_TalkerServer srv h =
     (case srv of
        SrvImpl \<Rightarrow> h
      | SrvContext _ \<Rightarrow> HPanic ''interface conversion: not a talkerpb.TalkerServer'')"

definition Talker_Fibonacci_Handler :: "srv_arg \<Rightarrow> 'w stream_handler" where
  "Talker_Fibonacci_Handler srv = HRecv (\<lambda>r.
     case r of Inl err \<Rightarrow> HReturn (Some err) | Inr m \<Rightarrow> as_TalkerServer srv (Fibonacci m))"

definition Talker_Addition_Handler :: "srv_arg \<Rightarrow> 'w stream_handler" where
  "Talker_Addition_Handler srv = as_TalkerServer srv Addition"

definition Talker_FailOnFour_Handler :: "srv_arg \<Rightarrow> 'w stream_handler" where
  "Talker_FailOnFour_Handler srv = as_TalkerServer srv FailOnFour"

subsection \<open>The service\<close>

text \<open>
  The service description, and what a server with the two interceptors does with a call of it: a
  unary call comes with its message, the messages of a stream are read from the transport.
\<close>

definition Talker_Methods ::
  "'w grpc_env \<Rightarrow> 'w interceptor option \<Rightarrow>
     (string \<times> (ctx \<Rightarrow> gerror + goval \<Rightarrow> ('w, goval \<times> gerror option) go)) list" where
  "Talker_Methods env i =
     [(''Hello'', Talker_Hello_Handler env i), (''Whisper'', Talker_Whisper_Handler env i),
      (''Bye'', Talker_Bye_Handler env i), (''Fail'', Talker_Fail_Handler env i)]"

definition Talker_Stream_Handlers :: "(string \<times> (srv_arg \<Rightarrow> 'w stream_handler)) list" where
  "Talker_Stream_Handlers =
     [(''Fibonacci'', Talker_Fibonacci_Handler), (''Addition'', Talker_Addition_Handler),
      (''FailOnFour'', Talker_FailOnFour_Handler)]"

definition find_talker :: "(string \<times> 'a) list \<Rightarrow> string \<Rightarrow> 'a option" where
  "find_talker table method = map_of (map (\<lambda>(n, h). (''/abcxyz.test.Talker/'' @ n, h)) table) method"

definition unknown_method :: "string \<Rightarrow> gerror" where
  "unknown_method method = StatusError 12 (''unknown method '' @ method)"

definition serve_talker_call ::
  "'w grpc_env \<Rightarrow> 'w interceptor \<Rightarrow> ctx \<Rightarrow> string \<Rightarrow> goval \<Rightarrow> ('w, goval \<times> gerror option) go" where
  "serve_talker_call env i c method m =
     (case find_talker (Talker_Methods env (Some i)) method of
        Some h \<Rightarrow> h c (Inr m)
      | None \<Rightarrow> go_return (GoNil, Some (unknown_method method)))"

definition serve_talker_stream ::
  "'w grpc_env \<Rightarrow> 'w interceptor \<Rightarrow> 'w server_stream \<Rightarrow> string \<Rightarrow> ('w, gerror option) may_diverge" where
  "serve_talker_stream env i st method =
     (case find_talker Talker_Stream_Handlers method of
        Some h \<Rightarrow> StreamInterceptor env i st method h
      | None \<Rightarrow> dv_of (go_return (Some (unknown_method method))))"

lemma serve_talker_simps [simp]:
  "serve_talker_call env i c ''/abcxyz.test.Talker/Hello'' m = Talker_Hello_Handler env (Some i) c (Inr m)"
  "serve_talker_call env i c ''/abcxyz.test.Talker/Whisper'' m = Talker_Whisper_Handler env (Some i) c (Inr m)"
  "serve_talker_call env i c ''/abcxyz.test.Talker/Bye'' m = Talker_Bye_Handler env (Some i) c (Inr m)"
  "serve_talker_call env i c ''/abcxyz.test.Talker/Fail'' m = Talker_Fail_Handler env (Some i) c (Inr m)"
  "serve_talker_stream env i st ''/abcxyz.test.Talker/Fibonacci'' =
     StreamInterceptor env i st ''/abcxyz.test.Talker/Fibonacci'' Talker_Fibonacci_Handler"
  "serve_talker_stream env i st ''/abcxyz.test.Talker/Addition'' =
     StreamInterceptor env i st ''/abcxyz.test.Talker/Addition'' Talker_Addition_Handler"
  "serve_talker_stream env i st ''/abcxyz.test.Talker/FailOnFour'' =
     StreamInterceptor env i st ''/abcxyz.test.Talker/FailOnFour'' Talker_FailOnFour_Handler"
  by (simp_all add: serve_talker_call_def serve_talker_stream_def find_talker_def Talker_Methods_def
      Talker_Stream_Handlers_def)

text \<open>
  The methods of \<open>UnimplementedTalkerServer\<close>, which stand in for those an implementation lacks.
\<close>

definition not_implemented :: "string \<Rightarrow> gerror" where
  "not_implemented name = StatusError 12 (''method '' @ name @ '' not implemented'')"

definition UnimplementedTalkerServer :: "(string \<times> 'w unary_handler) list" where
  "UnimplementedTalkerServer =
     map (\<lambda>n. (n, \<lambda>c req. go_return (GoNil, Some (not_implemented n), fst (LogReqFromCtx c))))
       [''Hello'', ''Whisper'', ''Bye'', ''Fail'']"

definition UnimplementedTalkerServer_streams :: "(string \<times> 'w stream_handler) list" where
  "UnimplementedTalkerServer_streams =
     map (\<lambda>n. (n, HReturn (Some (not_implemented n)))) [''Fibonacci'', ''Addition'', ''FailOnFour'']"

subsection \<open>Lemmas: messages\<close>

lemma getters [simp]:
  "GetTarget (HelloRequest t s) = t" "GetTarget (WhisperRequest t s) = t" "GetTarget (ByeRequest t s) = t"
  "GetTarget (FailRequest t s) = t" "GetTarget (FibonacciRequest n t) = t" "GetPlaces (FibonacciRequest n t) = n"
  "GetTarget (AdditionRequest n t) = t" "GetAddend (AdditionRequest n t) = n"
  "GetTarget (FailOnFourRequest t n) = t" "GetValue (FailOnFourRequest t n) = n"
  "GetPosition (FibonacciResponse n v) = n" "GetValue (FibonacciResponse n v) = v"
  "GetSum (AdditionResponse x) = x" "GetMessage (HelloResponse s) = s" "GetMessage (HelloRequest t s) = s"
  "GetMessage (WhisperRequest t s) = s" "GetMessage (WhisperResponse s) = s" "GetMessage (ByeRequest t s) = s"
  "GetMessage (ByeResponse s) = s" "GetMessage (FailRequest t s) = s" "GetMessage (FailResponse s) = s"
  "GetMessage (FailOnFourResponse s) = s"
  by (simp_all add: GetPosition_def GetSum_def GetMessage_def HelloResponse_def WhisperResponse_def
      ByeResponse_def FailResponse_def FibonacciResponse_def AdditionResponse_def FailOnFourResponse_def GetTarget_def GetPlaces_def GetAddend_def GetValue_def get_string_def get_uint32_def
      HelloRequest_def WhisperRequest_def ByeRequest_def FailRequest_def FibonacciRequest_def
      AdditionRequest_def FailOnFourRequest_def)

lemmas message_defs =
  HelloRequest_def HelloResponse_def WhisperRequest_def WhisperResponse_def ByeRequest_def ByeResponse_def
  FailRequest_def FailResponse_def FibonacciRequest_def FibonacciResponse_def AdditionRequest_def AdditionResponse_def
  FailOnFourRequest_def FailOnFourResponse_def

definition is_msg :: "goval \<Rightarrow> bool" where
  "is_msg m \<longleftrightarrow> (\<exists>fs. m = GoMsg fs)"

lemma is_msg_messages [simp]:
  "is_msg (HelloRequest t s)" "is_msg (HelloResponse s)" "is_msg (WhisperRequest t s)"
  "is_msg (WhisperResponse s)" "is_msg (ByeRequest t s)" "is_msg (ByeResponse s)" "is_msg (FailRequest t s)"
  "is_msg (FibonacciRequest n t)" "is_msg (FibonacciResponse n v)" "is_msg (AdditionRequest n t)"
  "is_msg (AdditionResponse v')" "is_msg (FailOnFourRequest t n)" "is_msg (FailOnFourResponse s)"
  by (simp_all add: is_msg_def message_defs)

lemma is_msg_converts: "is_msg m \<Longrightarrow> \<exists>s. toProtoStruct m = Inr s"
  by (auto simp: is_msg_def toProtoStruct_msg)

subsection \<open>Lemmas: the loops\<close>

lemma fib_loop_test:
  "fib_loop (FibTest places i x y) =
     (if i \<le> places
      then HSend (FibonacciResponse i (fst (fib_step i x y))) (\<lambda>err.
        case err of
          Some e \<Rightarrow> HReturn (Some (wrapf ''failed to send fibonacci response'' e))
        | None \<Rightarrow> fib_loop (FibTest places (i + 1) (fst (snd (fib_step i x y))) (snd (snd (fib_step i x y)))))
      else HReturn None)"
  by (subst fib_loop.code) (auto simp: fib_sent_def fun_eq_iff case_prod_beta fib_loop.code [of "FibReturn _"]
      split: option.splits)

lemma add_loop_recv:
  "add_loop (AddRecv acc) = HRecv (\<lambda>r.
     case r of
       Inl err \<Rightarrow>
         if errors_is err io_EOF
         then HSend (AdditionResponse acc) (\<lambda>err. HReturn
           (map_option (wrapf ''failed to send and close addition response'') err))
         else HReturn (Some (wrapf ''recv error that was not EOF in Addition'' err))
     | Inr req \<Rightarrow> HContext (set_resource (GetTarget req))
         (\<lambda>_. add_loop (AddRecv (acc + ucast (GetAddend req)))))"
  by (subst add_loop.code) (auto simp: add_received_def fun_eq_iff add_loop.code [of "AddGot _ _"]
      add_loop.code [of "AddClose _"] add_loop.code [of "AddReturn _"] split: sum.splits)

lemma four_loop_recv:
  "four_loop FourRecv = HRecv (\<lambda>r.
     case r of
       Inl err \<Rightarrow>
         if errors_is err io_EOF
         then HSend (FailOnFourResponse ''closing...'') (\<lambda>err. HReturn None)
         else HReturn (Some (wrapf ''recv error that was not EOF in FailOnFour'' err))
     | Inr req \<Rightarrow> HContext (set_resource (GetTarget req)) (\<lambda>_.
         if GetValue req = 4
         then HReturn (Some (StatusError code_InvalidArgument ''this call will always fail on four''))
         else four_loop FourRecv))"
  by (subst four_loop.code) (auto simp: four_received_def four_next_def fun_eq_iff
      four_loop.code [of "FourGot _"] four_loop.code [of FourClose] four_loop.code [of "FourReturn _"]
      split: sum.splits)

end
