(* ===== verification/Talker_Log.thy ===== *)
theory Talker_Log
  imports Talker Stream_Log
begin

section \<open>The talker service behind the stream interceptor\<close>

text \<open>
  What a call of each streaming method does, from the first message to the log: on a transport that
  delivers the messages of the client, then the end of the stream, and takes all responses, and
  with an audit client that stores every valid request.
\<close>

subsection \<open>The setting of a call\<close>

text \<open>
  Three views of the world: the messages still to come, the responses sent, the log requests
  stored; and the principals and justification tokens the audit client lets pass.  A valid request
  with those, and with no metadata yet, is stored, as \<open>g\<close> of what \<open>Log\<close> was given: \<open>g\<close> stands for the client's mutators.
\<close>

record 'w views =
  incoming :: "'w \<Rightarrow> goval list"
  outgoing :: "'w \<Rightarrow> goval list"
  stored :: "'w \<Rightarrow> log_request list"
  accepts :: "string \<Rightarrow> string \<Rightarrow> bool"

definition storable :: "'w views \<Rightarrow> log_request \<Rightarrow> bool" where
  "storable v q \<longleftrightarrow> valid_request q \<and> GetMetadata (payload q) = None \<and>
     accepts v (GetPrincipalEmail (GetAuthenticationInfo (payload q))) (justification_token q)"

definition reads :: "'w views \<Rightarrow> 'w world \<Rightarrow> goval list \<Rightarrow> goval list \<Rightarrow> log_request list \<Rightarrow> bool" where
  "reads v w ms os qs \<longleftrightarrow>
     incoming v (w_ext w) = ms \<and> outgoing v (w_ext w) = os \<and> stored v (w_ext w) = qs"

definition transports :: "'w views \<Rightarrow> 'w server_stream \<Rightarrow> bool" where
  "transports v st \<longleftrightarrow>
     (\<forall>w m ms os qs. reads v w (m # ms) os qs \<longrightarrow>
        (\<exists>w'. ss_RecvMsg st w = (Ret (Inr m), w') \<and> reads v w' ms os qs)) \<and>
     (\<forall>w os qs. reads v w [] os qs \<longrightarrow>
        (\<exists>w'. ss_RecvMsg st w = (Ret (Inl io_EOF), w') \<and> reads v w' [] os qs)) \<and>
     (\<forall>w m ms os qs. reads v w ms os qs \<longrightarrow>
        (\<exists>w'. ss_SendMsg st m w = (Ret None, w') \<and> reads v w' ms (os @ [m]) qs))"

definition stores :: "'w views \<Rightarrow> (log_request \<Rightarrow> log_request) \<Rightarrow> 'w client \<Rightarrow> bool" where
  "stores v g cl \<longleftrightarrow>
     keeps_messages g \<and>
     (\<forall>c q w ms os qs. storable v q \<longrightarrow> reads v w ms os qs \<longrightarrow>
        (\<exists>r' w'. Log (Some cl) c (Some q) w = (Ret (None, r'), w') \<and> reads v w' ms os (qs @ [g q])))"

definition inert :: "'w views \<Rightarrow> 'w grpc_env \<Rightarrow> bool" where
  "inert v env \<longleftrightarrow> clones env \<and>
     (\<forall>w ms os qs. reads v w ms os qs \<longrightarrow> (\<exists>u w'. uuid_New env w = (Ret u, w') \<and> reads v w' ms os qs)) \<and>
     (\<forall>w ms os qs. reads v w ms os qs \<longrightarrow> (\<exists>t w'. time_Now env w = (Ret t, w') \<and> reads v w' ms os qs))"

text \<open>The justification token of a call's context.\<close>

definition context_token :: "ctx \<Rightarrow> string" where
  "context_token c = justification_token (fillJVSToken c empty_log_request)"

definition talker_call ::
  "'w views \<Rightarrow> (log_request \<Rightarrow> log_request) \<Rightarrow> 'w grpc_env \<Rightarrow> 'w interceptor \<Rightarrow> 'w server_stream \<Rightarrow>
     string \<Rightarrow> audit_rule \<Rightarrow> bool" where
  "talker_call v g env i st m r \<longleftrightarrow>
     inert v env \<and> transports v st \<and> mostRelevantRule m (it_rules i) = Some r \<and>
     (\<exists>cl. it_Client i = Some cl \<and> stores v g cl) \<and>
     (\<exists>sc p. it_sc i = Some sc \<and> sc (ss_Context st) = Inr p \<and> valid_email p \<and>
        accepts v p (context_token (ss_Context st)))"

text \<open>A request to the service: a generated message that names its target.\<close>

definition names_target :: "goval \<Rightarrow> bool" where
  "names_target m \<longleftrightarrow> is_msg m \<and> GetTarget m \<noteq> []"

lemma names_target_messages [simp]:
  "names_target (FibonacciRequest n t) \<longleftrightarrow> t \<noteq> []" "names_target (AdditionRequest n t) \<longleftrightarrow> t \<noteq> []"
  "names_target (FailOnFourRequest t n) \<longleftrightarrow> t \<noteq> []"
  by (simp_all add: names_target_def)

text \<open>A baseline request that lacks only a resource name, or not even that.\<close>

definition completable :: "'w views \<Rightarrow> log_request \<Rightarrow> bool" where
  "completable v b \<longleftrightarrow> blank b \<and> (\<forall>t. t \<noteq> [] \<longrightarrow> storable v (set_resource t b))"

lemma set_resource_twice [simp]: "set_resource t (set_resource s b) = set_resource t b"
  by (simp add: set_resource_def option.map_comp comp_def)

lemma completable_set_resource [simp]: "completable v (set_resource t b) \<longleftrightarrow> completable v b"
  by (auto simp: completable_def blank_def set_resource_def)

lemma completable_valid: "completable v b \<Longrightarrow> t \<noteq> [] \<Longrightarrow> storable v (set_resource t b)"
  by (simp add: completable_def)

lemma valid_entry_request: "valid_request (entry_request (b, lr, rs)) = valid_request b"
proof -
  have "audit_identity (put_response rs (put_request lr a)) = audit_identity a" for a
    by (cases lr; cases rs) (simp_all add: put_request_def put_response_def audit_identity_def)
  then have "same_identity (entry_request (b, lr, rs)) b"
    by (cases "payload b") (simp_all add: same_identity_def entry_request_def)
  then show ?thesis by (rule valid_request_same_identity)
qed

lemma storable_entry_request: "storable v (entry_request (b, lr, rs)) = storable v b"
proof -
  have "GetAuthenticationInfo (payload (entry_request (b, lr, rs))) = GetAuthenticationInfo (payload b)"
    "justification_token (entry_request (b, lr, rs)) = justification_token b"
    "GetMetadata (payload (entry_request (b, lr, rs))) = GetMetadata (payload b)"
    by (cases "payload b"; cases lr; cases rs; simp add: entry_request_def put_request_def put_response_def)+
  then show ?thesis by (simp add: storable_def valid_entry_request)
qed

subsection \<open>The operations of the wrapper in this setting\<close>

definition wrapper_ready :: "'w views \<Rightarrow> (log_request \<Rightarrow> log_request) \<Rightarrow> 'w grpc_env \<Rightarrow> 'w wrapper \<Rightarrow> bool" where
  "wrapper_ready v g env ss \<longleftrightarrow>
     inert v env \<and> transports v (ServerStream ss) \<and>
     (\<exists>cl. sw_c ss = Some cl \<and> stores v g cl) \<and> completable v (baselineLogReq ss) \<and>
     (\<forall>l. lastReq ss = Some l \<longrightarrow> is_msg l \<and> storable v (baselineLogReq ss))"

lemma stores_Log:
  assumes "stores v g cl" "storable v q" "reads v w ms os qs"
  shows "\<exists>r' w'. Log (Some cl) c (Some q) w = (Ret (None, r'), w') \<and> reads v w' ms os (qs @ [g q])"
  using assms unfolding stores_def by simp

lemma emit_log_stores:
  assumes "sw_c ss = Some cl" "stores v g cl" "storable v q" "reads v w ms os qs"
  shows "\<exists>w'. emit_log ss q w = (Ret None, w') \<and> reads v w' ms os (qs @ [g q])"
proof -
  from stores_Log [OF assms(2-4)] obtain r' w' where
    "Log (Some cl) (ss_Context (ServerStream ss)) (Some q) w = (Ret (None, r'), w')"
    "reads v w' ms os (qs @ [g q])" by blast
  with assms(1) show ?thesis by (simp add: emit_log_def go_bind_Ret)
qed

lemma recv_next:
  assumes "wrapper_ready v g env ss" "reads v w (m # ms) os qs"
  shows "\<exists>w'. RecvMsg env ss w = (Ret (Inr m, ss\<lparr>lastReq := Some m\<rparr>), w') \<and>
     reads v w' ms os (qs @ map (g \<circ> entry_request)
       (stream_entries (sw_rule ss) (baselineLogReq ss) (lastReq ss) [Received m]))"
proof -
  from assms obtain w1 where rc: "ss_RecvMsg (ServerStream ss) w = (Ret (Inr m), w1)"
    and o1: "reads v w1 ms os qs" unfolding wrapper_ready_def transports_def by blast
  have cl: "proto_Clone env q = Some q" for q
    using assms(1) by (simp add: wrapper_ready_def inert_def clones_def)
  show ?thesis
  proof (cases "lastReq ss \<noteq> None \<and> shouldLogReq (sw_rule ss)")
    case False
    with rc o1 show ?thesis
      by (auto simp: RecvMsg_def cl go_bind_Ret swapLastReq_def split: option.splits)
  next
    case True
    then obtain l where l: "lastReq ss = Some l" and rl: "shouldLogReq (sw_rule ss)" by blast
    from assms(1) l obtain c s a where v: "sw_c ss = Some c" "stores v g c" "is_msg l"
      "storable v (baselineLogReq ss)" "payload (baselineLogReq ss) = Some a"
      by (auto simp: wrapper_ready_def completable_def blank_def)
    let ?q = "entry_request (baselineLogReq ss, Some l, None)"
    from v obtain s where s: "toProtoStruct l = Inr s" using is_msg_converts by blast
    with v have sr: "setReq (baselineLogReq ss) l w1 = (Ret (None, ?q), w1)"
      by (simp add: setReq_def entry_request_def put_request_def converted_def)
    have c: "sw_c (ss\<lparr>lastReq := Some m\<rparr>) = Some c" using v(1) by simp
    from emit_log_stores [OF c v(2) _ o1, of ?q] v(4) obtain w2 where
      e: "emit_log (ss\<lparr>lastReq := Some m\<rparr>) ?q w1 = (Ret None, w2)" "reads v w2 ms os (qs @ [g ?q])"
      by (auto simp: storable_entry_request)
    from rc sr e l rl show ?thesis
      by (auto simp: RecvMsg_def cl go_bind_Ret swapLastReq_def)
  qed
qed

lemma recv_end:
  assumes "wrapper_ready v g env ss" "reads v w [] os qs"
  shows "\<exists>w' e. RecvMsg env ss w = (Ret (Inl e, ss), w') \<and> errors_is e io_EOF \<and> reads v w' [] os qs"
proof -
  from assms obtain w1 where rc: "ss_RecvMsg (ServerStream ss) w = (Ret (Inl io_EOF), w1)"
    and o1: "reads v w1 [] os qs" unfolding wrapper_ready_def transports_def by blast
  have "proto_Clone env q = Some q" for q
    using assms(1) by (simp add: wrapper_ready_def inert_def clones_def)
  with rc o1 show ?thesis by (auto simp: RecvMsg_def go_bind_Ret io_EOF_def wrapf_def)
qed

lemma send_next:
  assumes "wrapper_ready v g env ss" "reads v w ms os qs" "is_msg m" "storable v (baselineLogReq ss)"
  shows "\<exists>w'. SendMsg env m ss w = (Ret (None, ss\<lparr>lastReq := None\<rparr>), w') \<and>
     reads v w' ms (os @ [m]) (qs @ map (g \<circ> entry_request)
       (stream_entries (sw_rule ss) (baselineLogReq ss) (lastReq ss) [Sent m]))"
proof -
  let ?b = "baselineLogReq ss"
  let ?lr = "if shouldLogReq (sw_rule ss) then lastReq ss else None"
  let ?rs = "if shouldLogResp (sw_rule ss) then Some m else None"
  have cl: "proto_Clone env q = Some q" for q
    using assms(1) by (simp add: wrapper_ready_def inert_def clones_def)
  from assms(1) obtain c a where v: "sw_c ss = Some c" "stores v g c" "payload ?b = Some a"
    and l: "\<And>l. lastReq ss = Some l \<Longrightarrow> is_msg l"
    by (auto simp: wrapper_ready_def completable_def blank_def)
  let ?q1 = "entry_request (?b, ?lr, None)"
  have 1: "(case lastReq ss of None \<Rightarrow> go_return (None, ?b)
     | Some l \<Rightarrow> if shouldLogReq (sw_rule ss) then setReq ?b l else go_return (None, ?b)) w =
     (Ret (None, ?q1), w)"
    using v(3) is_msg_converts [OF l]
    by (auto simp: setReq_def entry_request_simps put_request_def converted_def split: option.splits)
  let ?q2 = "entry_request (?b, ?lr, ?rs)"
  have 2: "(if shouldLogResp (sw_rule ss) then setResp ?q1 m else go_return (None, ?q1)) w =
     (Ret (None, ?q2), w)"
    using v(3) is_msg_converts [OF assms(3)]
    by (auto simp: setResp_def entry_request_def put_response_def converted_def)
  have c: "sw_c (ss\<lparr>lastReq := None\<rparr>) = Some c" using v(1) by simp
  from emit_log_stores [OF c v(2) _ assms(2), of ?q2] assms(4) obtain w2 where
    e: "emit_log (ss\<lparr>lastReq := None\<rparr>) ?q2 w = (Ret None, w2)" "reads v w2 ms os (qs @ [g ?q2])"
    by (auto simp: storable_entry_request)
  from assms(1) e(2) obtain w3 where
    "ss_SendMsg (ServerStream ss) m w2 = (Ret None, w3)" "reads v w3 ms (os @ [m]) (qs @ [g ?q2])"
    unfolding wrapper_ready_def transports_def by blast
  with 1 2 e show ?thesis
    by (auto simp: SendMsg_def cl popLastReq_def go_bind_Ret cong: option.case_cong if_cong)
qed

text \<open>After a message with a target was received and its target was made the resource.\<close>

lemma wrapper_ready_next:
  assumes "wrapper_ready v g env ss" "names_target m"
  shows "wrapper_ready v g env (ss\<lparr>lastReq := Some m, baselineLogReq := set_resource (GetTarget m) (baselineLogReq ss)\<rparr>)"
  using assms by (auto simp: wrapper_ready_def names_target_def completable_valid)

lemma wrapper_ready_sent:
  "wrapper_ready v g env ss \<Longrightarrow> wrapper_ready v g env (ss\<lparr>lastReq := None\<rparr>)"
  by (simp add: wrapper_ready_def)

subsection \<open>Receiving and naming the resource\<close>

definition recv_events :: "goval list \<Rightarrow> event list" where
  "recv_events ms = concat (map (\<lambda>m. [Received m, Wrote (set_resource (GetTarget m))]) ms)"

definition took :: "goval \<Rightarrow> 'w wrapper \<Rightarrow> 'w wrapper" where
  "took m ss = ss\<lparr>lastReq := Some m, baselineLogReq := set_resource (GetTarget m) (baselineLogReq ss)\<rparr>"

lemma recv_events_simps [simp]:
  "recv_events [] = []"
  "recv_events (m # ms) = Received m # Wrote (set_resource (GetTarget m)) # recv_events ms"
  by (simp_all add: recv_events_def)

lemma took_simps [simp]:
  "lastReq (took m ss) = Some m" "sw_rule (took m ss) = sw_rule ss"
  "baselineLogReq (took m ss) = set_resource (GetTarget m) (baselineLogReq ss)"
  "sw_c (took m ss) = sw_c ss" "ServerStream (took m ss) = ServerStream ss"
  by (simp_all add: took_def)

lemma keeps_blank_recv_events: "keeps_blank (recv_events ms) \<and> no_failure (recv_events ms)"
  by (induction ms) (auto simp: keeps_blank_def blank_def set_resource_def no_failure_def)

lemma received_recv_events [simp]:
  "received (recv_events ms @ es) = ms @ received es" "sent (recv_events ms @ es) = sent es"
  by (induction ms) auto

lemma length_entries_recv:
  assumes "shouldLogReq r"
  shows "length (stream_entries r b p (recv_events ms)) = length ms - (if p = None then 1 else 0)"
proof -
  have s: "length (stream_entries r b (Some x) (recv_events ms)) = length ms" for b x ms
    using assms by (induction ms arbitrary: b x) auto
  show ?thesis by (cases p; cases ms) (auto simp: s assms)
qed

lemma stream_pending_recv_events [simp]:
  "stream_pending p (recv_events ms) = (if ms = [] then p else Some (last ms))"
  by (induction ms arbitrary: p) auto

lemma recv_step:
  assumes "wrapper_ready v g env ss" "reads v w (m # ms) os qs" "names_target m"
    and "k (Inr m) = HContext (set_resource (GetTarget m)) (\<lambda>_. nxt)"
  shows "\<exists>w'. run_wrapped (HRecv k) env ss w = run_wrapped nxt env (took m ss) w' \<and>
     wrapper_ready v g env (took m ss) \<and> reads v w' ms os (qs @ map (g \<circ> entry_request)
       (stream_entries (sw_rule ss) (baselineLogReq ss) (lastReq ss) [Received m]))"
proof -
  from recv_next [OF assms(1,2)] obtain w' where
    "RecvMsg env ss w = (Ret (Inr m, ss\<lparr>lastReq := Some m\<rparr>), w')"
    "reads v w' ms os (qs @ map (g \<circ> entry_request)
       (stream_entries (sw_rule ss) (baselineLogReq ss) (lastReq ss) [Received m]))" by blast
  with assms(4) wrapper_ready_next [OF assms(1,3)] show ?thesis
    by (auto simp: run_wrapped_simps dv_bind_of took_def)
qed

lemma stream_entries_Received:
  "map f (stream_entries r b p (Received m # Wrote h # es)) =
     map f (stream_entries r b p [Received m]) @ map f (stream_entries r (h b) (Some m) es)"
  by simp

subsection \<open>FailOnFour\<close>

definition four_error :: gerror where
  "four_error = StatusError code_InvalidArgument ''this call will always fail on four''"

lemma four_loop_step:
  "\<exists>k. four_loop FourRecv = HRecv k \<and>
     (\<forall>m. k (Inr m) = HContext (set_resource (GetTarget m))
        (\<lambda>_. if GetValue m = 4 then HReturn (Some four_error) else four_loop FourRecv))"
  by (rule exI, rule conjI, rule four_loop_recv) (simp add: four_error_def)

lemma four_loop_run:
  fixes v :: "'w views"
  assumes "wrapper_ready v g env ss" "reads v w (pre @ m # post) os qs"
    and "\<forall>x \<in> set pre. names_target x \<and> GetValue x \<noteq> 4" "names_target m" "GetValue m = 4"
  shows "\<exists>ss' w'. run_wrapped (four_loop FourRecv) env ss w = Some (Ret (Some four_error, ss'), w') \<and>
     wrapper_ready v g env ss' \<and> sw_c ss' = sw_c ss \<and>
     baselineLogReq ss' = written (baselineLogReq ss) (recv_events (pre @ [m])) \<and>
     reads v w' post os (qs @ map (g \<circ> entry_request)
       (stream_entries (sw_rule ss) (baselineLogReq ss) (lastReq ss) (recv_events (pre @ [m]))))"
  using assms(1-3)
proof (induction pre arbitrary: ss w qs)
  case Nil
  from Nil(2) have rd: "reads v w (m # post) os qs" by simp
  let ?n = "HReturn (Some four_error)"
  from four_loop_step obtain k :: "gerror + goval \<Rightarrow> 'w stream_handler" where k: "four_loop FourRecv = HRecv k"
    and a: "\<forall>m. k (Inr m) = HContext (set_resource (GetTarget m))
        (\<lambda>_. if GetValue m = 4 then HReturn (Some four_error) else four_loop FourRecv)" by blast
  from a assms(5) have kx: "k (Inr m) = HContext (set_resource (GetTarget m)) (\<lambda>_. ?n)" by simp
  from recv_step [OF Nil(1) rd assms(4), where k = k, OF kx] obtain w' where
    "run_wrapped (four_loop FourRecv) env ss w = run_wrapped ?n env (took m ss) w'"
    "wrapper_ready v g env (took m ss)" "reads v w' post os (qs @ map (g \<circ> entry_request)
       (stream_entries (sw_rule ss) (baselineLogReq ss) (lastReq ss) [Received m]))"
    unfolding k by blast
  then show ?case by (auto simp: run_wrapped_simps split: if_splits)
next
  case (Cons x pre)
  from Cons.prems(3) have x: "names_target x" "GetValue x \<noteq> 4" by simp_all
  from Cons.prems(2) have rd: "reads v w (x # pre @ m # post) os qs" by simp
  from four_loop_step obtain k :: "gerror + goval \<Rightarrow> 'w stream_handler" where k: "four_loop FourRecv = HRecv k"
    and a: "\<forall>m. k (Inr m) = HContext (set_resource (GetTarget m))
        (\<lambda>_. if GetValue m = 4 then HReturn (Some four_error) else four_loop FourRecv)" by blast
  from a x(2) have kx: "k (Inr x) = HContext (set_resource (GetTarget x)) (\<lambda>_. four_loop FourRecv)" by simp
  from recv_step [OF Cons.prems(1) rd x(1), where k = k, OF kx] obtain w1 where
    1: "run_wrapped (four_loop FourRecv) env ss w = run_wrapped (four_loop FourRecv) env (took x ss) w1"
    and rdy: "wrapper_ready v g env (took x ss)"
    and rd1: "reads v w1 (pre @ m # post) os (qs @ map (g \<circ> entry_request)
       (stream_entries (sw_rule ss) (baselineLogReq ss) (lastReq ss) [Received x]))"
    unfolding k by blast
  from Cons.prems(3) have pre: "\<forall>x \<in> set pre. names_target x \<and> GetValue x \<noteq> 4" by simp
  from Cons.IH [OF rdy rd1 pre, unfolded took_simps] obtain ss' w' where
    2: "run_wrapped (four_loop FourRecv) env (took x ss) w1 = Some (Ret (Some four_error, ss'), w')"
    and 3: "wrapper_ready v g env ss'" "sw_c ss' = sw_c ss"
    "baselineLogReq ss' = written (set_resource (GetTarget x) (baselineLogReq ss)) (recv_events (pre @ [m]))"
    "reads v w' post os ((qs @ map (g \<circ> entry_request)
       (stream_entries (sw_rule ss) (baselineLogReq ss) (lastReq ss) [Received x])) @ map (g \<circ> entry_request)
       (stream_entries (sw_rule ss) (set_resource (GetTarget x) (baselineLogReq ss)) (Some x) (recv_events (pre @ [m]))))"
    by blast
  from trans [OF 1 2] 3 show ?case
    unfolding append_Cons recv_events_simps stream_entries_Received written.simps append_assoc by blast
qed

subsection \<open>Addition\<close>

lemma add_loop_step:
  "\<exists>k. add_loop (AddRecv acc) = HRecv k \<and>
     (\<forall>m. k (Inr m) = HContext (set_resource (GetTarget m)) (\<lambda>_. add_loop (AddRecv (acc + ucast (GetAddend m))))) \<and>
     (\<forall>e. errors_is e io_EOF \<longrightarrow> k (Inl e) = HSend (AdditionResponse acc)
        (\<lambda>err. HReturn (map_option (wrapf ''failed to send and close addition response'') err)))"
  by (rule exI, rule conjI, rule add_loop_recv) simp

lemma add_loop_run:
  fixes v :: "'w views"
  assumes "wrapper_ready v g env ss" "reads v w ms os qs" "\<forall>x \<in> set ms. names_target x"
    and "ms = [] \<longrightarrow> storable v (baselineLogReq ss)"
  shows "\<exists>ss' w'. run_wrapped (add_loop (AddRecv acc)) env ss w = Some (Ret (None, ss'), w') \<and>
     reads v w' [] (os @ [AdditionResponse (acc + sum_list (map (ucast \<circ> GetAddend) ms))])
       (qs @ map (g \<circ> entry_request) (stream_entries (sw_rule ss) (baselineLogReq ss) (lastReq ss)
          (recv_events ms @ [Sent (AdditionResponse (acc + sum_list (map (ucast \<circ> GetAddend) ms)))])))"
  using assms
proof (induction ms arbitrary: ss w qs acc)
  case Nil
  let ?m = "AdditionResponse acc"
  from add_loop_step obtain k :: "gerror + goval \<Rightarrow> 'w stream_handler" where
    k: "add_loop (AddRecv acc) = HRecv k"
    and a: "\<forall>e. errors_is e io_EOF \<longrightarrow> k (Inl e) = HSend ?m
        (\<lambda>err. HReturn (map_option (wrapf ''failed to send and close addition response'') err))" by blast
  from recv_end [OF Nil(1,2)] obtain w1 e where
    r: "RecvMsg env ss w = (Ret (Inl e, ss), w1)" "errors_is e io_EOF" and rd: "reads v w1 [] os qs" by blast
  from send_next [OF Nil(1) rd, of ?m] Nil(4) obtain w2 where
    sd: "SendMsg env ?m ss w1 = (Ret (None, ss\<lparr>lastReq := None\<rparr>), w2)"
    "reads v w2 [] (os @ [?m]) (qs @ map (g \<circ> entry_request)
       (stream_entries (sw_rule ss) (baselineLogReq ss) (lastReq ss) [Sent ?m]))" by auto
  from r a sd show ?case by (simp add: k run_wrapped_simps dv_bind_of)
next
  case (Cons x ms)
  from Cons.prems(3) have x: "names_target x" by simp
  from add_loop_step obtain k :: "gerror + goval \<Rightarrow> 'w stream_handler" where
    k: "add_loop (AddRecv acc) = HRecv k"
    and a: "\<forall>m. k (Inr m) = HContext (set_resource (GetTarget m))
        (\<lambda>_. add_loop (AddRecv (acc + ucast (GetAddend m))))" by blast
  let ?acc = "acc + ucast (GetAddend x)"
  from a have kx: "k (Inr x) = HContext (set_resource (GetTarget x)) (\<lambda>_. add_loop (AddRecv ?acc))" by simp
  from recv_step [OF Cons.prems(1,2) x, where k = k, OF kx] obtain w1 where
    1: "run_wrapped (add_loop (AddRecv acc)) env ss w = run_wrapped (add_loop (AddRecv ?acc)) env (took x ss) w1"
    and rdy: "wrapper_ready v g env (took x ss)"
    and rd1: "reads v w1 ms os (qs @ map (g \<circ> entry_request)
       (stream_entries (sw_rule ss) (baselineLogReq ss) (lastReq ss) [Received x]))"
    unfolding k by blast
  from rdy have vb: "storable v (baselineLogReq (took x ss))"
    by (simp add: wrapper_ready_def)
  let ?m = "AdditionResponse (?acc + sum_list (map (ucast \<circ> GetAddend) ms))"
  from Cons.prems(3) have pre: "\<forall>x \<in> set ms. names_target x" by simp
  from vb have vb: "ms = [] \<longrightarrow> storable v (baselineLogReq (took x ss))" by simp
  from Cons.IH [OF rdy rd1 pre vb, of ?acc, unfolded took_simps] obtain ss' w' where
    "run_wrapped (add_loop (AddRecv ?acc)) env (took x ss) w1 = Some (Ret (None, ss'), w')"
    "reads v w' [] (os @ [?m]) ((qs @ map (g \<circ> entry_request)
       (stream_entries (sw_rule ss) (baselineLogReq ss) (lastReq ss) [Received x])) @ map (g \<circ> entry_request)
       (stream_entries (sw_rule ss) (set_resource (GetTarget x) (baselineLogReq ss)) (Some x) (recv_events ms @ [Sent ?m])))"
    by blast
  moreover have "acc + sum_list (map (ucast \<circ> GetAddend) (x # ms)) = ?acc + sum_list (map (ucast \<circ> GetAddend) ms)"
    by (simp add: add.assoc)
  ultimately show ?case using 1
    unfolding append_Cons recv_events_simps stream_entries_Received append_assoc by metis
qed

subsection \<open>Fibonacci\<close>

text \<open>The Fibonacci numbers, and what the loop variables hold before position \<open>k + 1\<close>.\<close>

fun fib :: "nat \<Rightarrow> nat" where
  "fib 0 = 0"
| "fib (Suc 0) = 1"
| "fib (Suc (Suc n)) = fib n + fib (Suc n)"

definition fib_vars :: "nat \<Rightarrow> 32 word \<times> 32 word" where
  "fib_vars k = (if k \<le> 1 then (0, 1) else (of_nat (fib (k - 2)), of_nat (fib (k - 1))))"

definition fib_response :: "nat \<Rightarrow> goval" where
  "fib_response k = FibonacciResponse (of_nat (Suc k)) (of_nat (fib k))"

lemma fib_step_vars:
  assumes "Suc k < 2 ^ 32"
  shows "fib_step (of_nat (Suc k)) (fst (fib_vars k)) (snd (fib_vars k)) =
     (of_nat (fib k), fib_vars (Suc k))"
proof -
  have u: "unat (of_nat (Suc k) :: 32 word) = Suc k"
    using assms by (subst unat_of_nat) (rule mod_less, simp)
  have e: "(of_nat (Suc k) :: 32 word) = 2 \<longleftrightarrow> k = 1"
    using u by (auto simp: word_unat_eq_iff)
  have g: "(of_nat (Suc k) :: 32 word) > 2 \<longleftrightarrow> k > 1"
    using u by (simp add: word_less_nat_alt)
  consider "k = 0" | "k = 1" | j where "k = Suc (Suc j)"
    by (metis One_nat_def not0_implies_Suc)
  then show ?thesis
    unfolding fib_step_def e g
    by cases (auto simp: fib_vars_def)
qed

lemma fib_loop_run:
  assumes "wrapper_ready v g env ss" "storable v (baselineLogReq ss)" "reads v w ms os qs"
    and "k \<le> unat places" "unat places < 2 ^ 32 - 1"
  shows "\<exists>ss' w'. run_wrapped (fib_loop (FibTest places (of_nat (Suc k)) (fst (fib_vars k)) (snd (fib_vars k))))
       env ss w = Some (Ret (None, ss'), w') \<and>
     reads v w' ms (os @ map fib_response [k..<unat places]) (qs @ map (g \<circ> entry_request)
       (stream_entries (sw_rule ss) (baselineLogReq ss) (lastReq ss) (map (Sent \<circ> fib_response) [k..<unat places])))"
  using assms
proof (induction "unat places - k" arbitrary: k ss w os qs)
  case 0
  have u: "unat (of_nat (Suc k) :: 32 word) = Suc k"
    using 0(5,6) by (subst unat_of_nat) (rule mod_less, simp)
  with 0(1,5) have "\<not> (of_nat (Suc k) :: 32 word) \<le> places"
    by (simp add: word_le_nat_alt)
  with 0 show ?case by (simp add: fib_loop_test run_wrapped_simps)
next
  case (Suc d)
  have u: "unat (of_nat (Suc k) :: 32 word) = Suc k"
    using Suc.prems(4,5) by (subst unat_of_nat) (rule mod_less, simp)
  from Suc.hyps(2) u have le: "(of_nat (Suc k) :: 32 word) \<le> places"
    by (simp add: word_le_nat_alt)
  from Suc.hyps(2) Suc.prems(5) have k: "Suc k < 2 ^ 32" "k < unat places" "d = unat places - Suc k" by simp_all
  from send_next [OF Suc.prems(1,3), of "fib_response k"] Suc.prems(2) obtain w1 where
    sd: "SendMsg env (fib_response k) ss w = (Ret (None, ss\<lparr>lastReq := None\<rparr>), w1)"
    and rd: "reads v w1 ms (os @ [fib_response k]) (qs @ map (g \<circ> entry_request)
       (stream_entries (sw_rule ss) (baselineLogReq ss) (lastReq ss) [Sent (fib_response k)]))"
    by (auto simp: fib_response_def)
  have i: "(of_nat (Suc k) :: 32 word) + 1 = of_nat (Suc (Suc k))" by simp
  have 1: "run_wrapped (fib_loop (FibTest places (of_nat (Suc k)) (fst (fib_vars k)) (snd (fib_vars k)))) env ss w =
      run_wrapped (fib_loop (FibTest places (of_nat (Suc (Suc k))) (fst (fib_vars (Suc k))) (snd (fib_vars (Suc k)))))
        env (ss\<lparr>lastReq := None\<rparr>) w1"
    using sd unfolding fib_loop_test [of places "of_nat (Suc k)"] fib_step_vars [OF k(1)] if_P [OF le] i [symmetric]
    by (simp add: run_wrapped_simps dv_bind_of fib_response_def)
  from Suc.hyps(1) [OF k(3) wrapper_ready_sent [OF Suc.prems(1)] _ rd _ Suc.prems(5)] Suc.prems(2) k(2)
  obtain ss' w' where
    "run_wrapped (fib_loop (FibTest places (of_nat (Suc (Suc k))) (fst (fib_vars (Suc k))) (snd (fib_vars (Suc k)))))
        env (ss\<lparr>lastReq := None\<rparr>) w1 = Some (Ret (None, ss'), w')"
    "reads v w' ms ((os @ [fib_response k]) @ map fib_response [Suc k..<unat places])
      ((qs @ map (g \<circ> entry_request)
       (stream_entries (sw_rule ss) (baselineLogReq ss) (lastReq ss) [Sent (fib_response k)])) @ map (g \<circ> entry_request)
       (stream_entries (sw_rule ss) (baselineLogReq ss) None (map (Sent \<circ> fib_response) [Suc k..<unat places])))"
    by auto
  with 1 show ?case by (simp add: upt_conv_Cons [OF k(2)])
qed

text \<open>With the largest bound the test never fails, and the loop does not end.\<close>

lemma fib_loop_diverges:
  assumes "wrapper_ready v g env ss" "storable v (baselineLogReq ss)" "reads v w ms os qs"
  shows "run_wrapped (fib_loop (FibTest (- 1) i x y)) env ss w = None"
proof (rule ccontr)
  assume "run_wrapped (fib_loop (FibTest (- 1) i x y)) env ss w \<noteq> None"
  then obtain r where r: "run_wrapped (fib_loop (FibTest (- 1) i x y)) env ss w = Some r" by auto
  have "(\<exists>i x y ms os qs. h = fib_loop (FibTest (- 1) i x y) \<and>
      wrapper_ready v g env ss \<and> storable v (baselineLogReq ss) \<and> reads v w ms os qs) \<longrightarrow> False"
    if "run_wrapped h env ss w = Some r" for h env ss w r
    using that
  proof (rule run_wrapped.raw_induct [rotated], goal_cases)
    case (1 f h env ss w r)
    show ?case
    proof (clarify)
      fix i x y ms os qs
      assume h: "h = fib_loop (FibTest (- 1) i x y)" and rdy: "wrapper_ready v g env ss"
        and b: "storable v (baselineLogReq ss)" and rd: "reads v w ms os qs"
      let ?m = "FibonacciResponse i (fst (fib_step i x y))"
      from send_next [OF rdy rd _ b, of ?m] obtain w1 os' qs' where
        sd: "SendMsg env ?m ss w = (Ret (None, ss\<lparr>lastReq := None\<rparr>), w1)" and rd1: "reads v w1 ms os' qs'" by auto
      from 1(2) h sd have "f (fib_loop (FibTest (- 1) (i + 1) (fst (snd (fib_step i x y))) (snd (snd (fib_step i x y)))))
          env (ss\<lparr>lastReq := None\<rparr>) w1 = Some r"
        by (simp add: fib_loop_test [of _ i])
      from 1(1) [OF this] wrapper_ready_sent [OF rdy] b rd1 show False by auto
    qed
  qed
  from this [OF r] assms show False by blast
qed

subsection \<open>Whole calls\<close>

lemma written_recv_events:
  "written b (recv_events ms) = (if ms = [] then b else set_resource (GetTarget (last ms)) b)"
  by (induction ms arbitrary: b) auto

lemma completable_base:
  assumes "payload b = Some (empty_audit_log\<lparr>service_name := svc, method_name := m,
      authentication := Some \<lparr>principal_email = p\<rparr>\<rparr>)" "svc \<noteq> []" "m \<noteq> []" "valid_email p"
    and "accepts v p (justification_token b)"
  shows "completable v b"
  using assms by (simp add: completable_def blank_def empty_audit_log_def set_resource_def storable_def valid_request_def
      valid_audit_log_def valid_identity_def audit_identity_def)

lemma fillJVSToken_token:
  "justification_token q = [] \<Longrightarrow> justification_token (fillJVSToken c q) = context_token c"
  by (simp add: context_token_def fillJVSToken_def empty_log_request_def split: option.splits list.splits)

lemma stream_token: "justification_token (stream_log_request c r svc m u ts) = context_token c"
  by (simp add: stream_log_request_def fillJVSToken_token empty_log_request_def)

lemma talker_prepared:
  fixes v :: "'w views"
  assumes "talker_call v g env i st m r" "serviceName m = Inr svc" "svc \<noteq> []" "m \<noteq> []" "reads v w ms os qs"
  shows "\<exists>ss w1. (\<forall>h. StreamInterceptor env i st m h w = run_stream env i (ss_Context st) (h SrvImpl) ss w1) \<and>
     reads v w1 ms os qs \<and> wrapper_ready v g env ss \<and> sw_rule ss = r \<and> sw_c ss = it_Client i \<and> lastReq ss = None"
proof -
  from assms(1) obtain cl sc p where e: "inert v env" "transports v st" "mostRelevantRule m (it_rules i) = Some r"
    "it_Client i = Some cl" "stores v g cl" "it_sc i = Some sc" "sc (ss_Context st) = Inr p" "valid_email p"
    "accepts v p (context_token (ss_Context st))"
    unfolding talker_call_def by blast
  from e(1) assms(5) obtain u w0 where u: "uuid_New env w = (Ret u, w0)" "reads v w0 ms os qs"
    unfolding inert_def by blast
  from e(1) u(2) obtain ts w1 where ts: "time_Now env w0 = (Ret ts, w1)" "reads v w1 ms os qs"
    unfolding inert_def by blast
  let ?q = "stream_log_request (ss_Context st) r svc m u ts"
  have pl: "payload ?q = Some (empty_audit_log\<lparr>service_name := svc, method_name := m\<rparr>)"
    by (simp add: stream_log_request_def fillJVSToken_def split: option.splits list.splits)
  define b where "b = ?q\<lparr>payload := Some (empty_audit_log\<lparr>service_name := svc,
         method_name := m, authentication := Some \<lparr>principal_email = p\<rparr>\<rparr>)\<rparr>"
  have c: "completable v b"
    by (rule completable_base [OF _ assms(3,4) e(8)]) (use e(9) in \<open>simp_all add: b_def stream_token\<close>)
  let ?ss = "\<lparr>sw_c = it_Client i, baselineLogReq = b, sw_rule = r, lastReq = None, ServerStream = st\<rparr>"
  have "StreamInterceptor env i st m h w = run_stream env i (ss_Context st) (h SrvImpl) ?ss w1" for h
    using e u(1) ts(1) assms(2) pl
    by (simp add: StreamInterceptor_def Let_def dv_bind_of request_principal_def set_principal_def b_def)
  moreover have "wrapper_ready v g env ?ss"
    using e c by (auto simp: wrapper_ready_def)
  ultimately show ?thesis using ts(2) by fastforce
qed

lemma talker_service:
  "serviceName ''/abcxyz.test.Talker/Fibonacci'' = Inr ''abcxyz.test.Talker''"
  "serviceName ''/abcxyz.test.Talker/Addition'' = Inr ''abcxyz.test.Talker''"
  "serviceName ''/abcxyz.test.Talker/FailOnFour'' = Inr ''abcxyz.test.Talker''"
  by (simp_all add: serviceName_def serviceName_group_def)

lemma run_stream_returned:
  "run_wrapped h env ss w = Some (Ret (None, ss'), w') \<Longrightarrow> run_stream env i c h ss w = Some (Ret None, w')"
  by (simp add: run_stream_def dv_bind_def dv_of_def)

lemma valid_error_status: "valid_request (error_status env e q) = valid_request q"
  by (rule valid_request_same_identity)
    (cases "payload q", simp_all add: same_identity_def error_status_def audit_identity_def)

lemma storable_error_status: "storable v (error_status env e q) = storable v q"
proof -
  have "GetAuthenticationInfo (payload (error_status env e q)) = GetAuthenticationInfo (payload q)"
    "justification_token (error_status env e q) = justification_token q"
    "GetMetadata (payload (error_status env e q)) = GetMetadata (payload q)"
    by (cases "payload q"; simp add: error_status_def)+
  then show ?thesis by (simp add: storable_def valid_error_status)
qed

lemma run_stream_failed:
  assumes "run_wrapped h env ss w = Some (Ret (Some e, ss'), w1)" "it_Client i = Some cl" "stores v g cl"
    and "storable v (baselineLogReq ss')" "reads v w1 ms os qs"
  shows "\<exists>w'. run_stream env i c h ss w = Some (Ret (Some e), w') \<and>
     reads v w' ms os (qs @ [g (error_status env e (baselineLogReq ss'))])"
proof -
  let ?q = "error_status env e (baselineLogReq ss')"
  from assms(4) obtain a where "payload (baselineLogReq ss') = Some a"
    by (auto simp: storable_def valid_request_def valid_audit_log_def split: option.splits)
  then have s: "setErrorStatus env e (baselineLogReq ss') w1 = (Ret ?q, w1)"
    by (auto simp: setErrorStatus_def error_status_def Let_def split: option.splits)
  from assms(4) have "storable v ?q" by (simp add: storable_error_status)
  with stores_Log [OF assms(3) _ assms(5), of ?q c] obtain r' w' where
    "Log (Some cl) c (Some ?q) w1 = (Ret (None, r'), w')" "reads v w' ms os (qs @ [g ?q])" by blast
  with assms(1,2) s show ?thesis
    by (simp add: run_stream_def dv_bind_def dv_of_def go_bind_Ret)
qed

text \<open>
  The log requests of a call, for a base request \<open>b\<close>: the entries of the events, and the error.
\<close>

definition call_log :: "(log_request \<Rightarrow> log_request) \<Rightarrow> audit_rule \<Rightarrow> log_request \<Rightarrow> event list \<Rightarrow> log_request list" where
  "call_log g r b es = map (g \<circ> entry_request) (stream_entries r b None es)"

lemma call_log_requests:
  assumes "keeps_messages g" "completable v b" "keeps_blank es" "no_failure es"
  shows "(shouldLogReq r \<longrightarrow> logged request (call_log g r b es) @ structs (optional (stream_pending None es)) = structs (received es)) \<and>
    (shouldLogResp r \<longrightarrow> logged response (call_log g r b es) = structs (sent es))"
  using logged_entries [OF assms(1) _ assms(3,4), of b "call_log g r b es" r None] assms(2)
  by (simp add: call_log_def completable_def)

lemma four_call:
  fixes v :: "'w views"
  assumes "talker_call v g env i st ''/abcxyz.test.Talker/FailOnFour'' r" "reads v w (pre @ m # post) os qs"
    and "\<forall>x \<in> set pre. names_target x \<and> GetValue x \<noteq> 4" "names_target m" "GetValue m = 4"
  shows "\<exists>b w'. completable v b \<and>
     StreamInterceptor env i st ''/abcxyz.test.Talker/FailOnFour'' Talker_FailOnFour_Handler w =
       Some (Ret (Some four_error), w') \<and>
     reads v w' post os (qs @ call_log g r b (recv_events (pre @ [m])) @
       [g (error_status env four_error (set_resource (GetTarget m) b))])"
proof -
  from talker_prepared [OF assms(1) talker_service(3) _ _ assms(2)] obtain ss w1 where
    c: "\<forall>h. StreamInterceptor env i st ''/abcxyz.test.Talker/FailOnFour'' h w =
          run_stream env i (ss_Context st) (h SrvImpl) ss w1"
    and ss: "reads v w1 (pre @ m # post) os qs" "wrapper_ready v g env ss" "sw_rule ss = r" "sw_c ss = it_Client i"
      "lastReq ss = None" by auto
  let ?b = "baselineLogReq ss"
  from ss(2) have cb: "completable v ?b" by (simp add: wrapper_ready_def)
  from four_loop_run [OF ss(2,1) assms(3-5)] obtain ss' w2 where
    run: "run_wrapped (four_loop FourRecv) env ss w1 = Some (Ret (Some four_error, ss'), w2)"
    and b: "baselineLogReq ss' = set_resource (GetTarget m) ?b"
    and rd: "reads v w2 post os (qs @ call_log g r ?b (recv_events (pre @ [m])))"
    unfolding call_log_def written_recv_events ss(3,5) by auto
  from assms(1) obtain cl where cl: "it_Client i = Some cl" "stores v g cl" unfolding talker_call_def by blast
  have vb: "storable v (baselineLogReq ss')"
    unfolding b by (rule completable_valid [OF cb]) (use assms(4) in \<open>simp add: names_target_def\<close>)
  from run_stream_failed [OF run cl vb rd] obtain w' where
    "run_stream env i (ss_Context st) (four_loop FourRecv) ss w1 = Some (Ret (Some four_error), w')"
    "reads v w' post os ((qs @ call_log g r ?b (recv_events (pre @ [m]))) @
       [g (error_status env four_error (set_resource (GetTarget m) ?b))])" unfolding b by blast
  with c cb show ?thesis
    by (auto simp: Talker_FailOnFour_Handler_def FailOnFour_def as_TalkerServer_def)
qed

lemma add_call:
  fixes v :: "'w views"
  assumes "talker_call v g env i st ''/abcxyz.test.Talker/Addition'' r" "reads v w ms os qs"
    and "\<forall>x \<in> set ms. names_target x" "ms \<noteq> []"
    and "m = AdditionResponse (sum_list (map (ucast \<circ> GetAddend) ms))"
  shows "\<exists>b w'. completable v b \<and>
     StreamInterceptor env i st ''/abcxyz.test.Talker/Addition'' Talker_Addition_Handler w = Some (Ret None, w') \<and>
     reads v w' [] (os @ [m]) (qs @ call_log g r b (recv_events ms @ [Sent m]))"
proof -
  from talker_prepared [OF assms(1) talker_service(2) _ _ assms(2)] obtain ss w1 where
    c: "\<forall>h. StreamInterceptor env i st ''/abcxyz.test.Talker/Addition'' h w =
          run_stream env i (ss_Context st) (h SrvImpl) ss w1"
    and ss: "reads v w1 ms os qs" "wrapper_ready v g env ss" "sw_rule ss = r" "sw_c ss = it_Client i"
      "lastReq ss = None" by auto
  let ?b = "baselineLogReq ss"
  from ss(2) have cb: "completable v ?b" by (simp add: wrapper_ready_def)
  from assms(4) have ne: "ms = [] \<longrightarrow> storable v ?b" by simp
  from add_loop_run [OF ss(2,1) assms(3) ne, of 0] obtain ss' w' where
    run: "run_wrapped (add_loop (AddRecv 0)) env ss w1 = Some (Ret (None, ss'), w')"
    and rd: "reads v w' [] (os @ [m]) (qs @ call_log g r ?b (recv_events ms @ [Sent m]))"
    unfolding call_log_def ss(3,5) assms(5) by auto
  with c cb run_stream_returned [OF run] show ?thesis
    by (auto simp: Talker_Addition_Handler_def Addition_def as_TalkerServer_def)
qed

lemma fib_start:
  fixes v :: "'w views"
  assumes "talker_call v g env i st ''/abcxyz.test.Talker/Fibonacci'' r" "reads v w (m # ms) os qs" "names_target m"
  shows "\<exists>ss w1 w2. StreamInterceptor env i st ''/abcxyz.test.Talker/Fibonacci'' Talker_Fibonacci_Handler w =
       run_stream env i (ss_Context st) (Talker_Fibonacci_Handler SrvImpl) ss w1 \<and>
     run_wrapped (Talker_Fibonacci_Handler SrvImpl) env ss w1 =
       run_wrapped (fib_loop (FibTest (GetPlaces m) 1 0 1)) env (took m ss) w2 \<and>
     wrapper_ready v g env (took m ss) \<and> reads v w2 ms os qs \<and> sw_rule ss = r"
proof -
  from talker_prepared [OF assms(1) talker_service(1) _ _ assms(2)] obtain ss w1 where
    c: "\<forall>h. StreamInterceptor env i st ''/abcxyz.test.Talker/Fibonacci'' h w =
          run_stream env i (ss_Context st) (h SrvImpl) ss w1"
    and ss: "reads v w1 (m # ms) os qs" "wrapper_ready v g env ss" "sw_rule ss = r" "lastReq ss = None" by auto
  define k :: "gerror + goval \<Rightarrow> 'w stream_handler" where
    "k r = (case r of Inl err \<Rightarrow> HReturn (Some err) | Inr m \<Rightarrow> as_TalkerServer SrvImpl (Fibonacci m))" for r
  have h: "Talker_Fibonacci_Handler SrvImpl = HRecv k"
    by (simp add: Talker_Fibonacci_Handler_def k_def [abs_def])
  have kx: "k (Inr m) = HContext (set_resource (GetTarget m)) (\<lambda>_. fib_loop (FibTest (GetPlaces m) 1 0 1))"
    by (simp add: k_def as_TalkerServer_def Fibonacci_def)
  from recv_step [OF ss(2,1) assms(3), where k = k, OF kx] c ss(3,4) show ?thesis
    unfolding h [symmetric] by auto
qed

lemma fib_call:
  fixes v :: "'w views"
  assumes "talker_call v g env i st ''/abcxyz.test.Talker/Fibonacci'' r" "reads v w (m # ms) os qs" "names_target m"
    and "unat (GetPlaces m) < 2 ^ 32 - 1"
  shows "\<exists>b w'. completable v b \<and>
     StreamInterceptor env i st ''/abcxyz.test.Talker/Fibonacci'' Talker_Fibonacci_Handler w = Some (Ret None, w') \<and>
     reads v w' ms (os @ map fib_response [0..<unat (GetPlaces m)])
       (qs @ call_log g r b (recv_events [m] @ map (Sent \<circ> fib_response) [0..<unat (GetPlaces m)]))"
proof -
  from fib_start [OF assms(1-3)] obtain ss w1 w2 where
    c: "StreamInterceptor env i st ''/abcxyz.test.Talker/Fibonacci'' Talker_Fibonacci_Handler w =
         run_stream env i (ss_Context st) (Talker_Fibonacci_Handler SrvImpl) ss w1"
    and run: "run_wrapped (Talker_Fibonacci_Handler SrvImpl) env ss w1 =
         run_wrapped (fib_loop (FibTest (GetPlaces m) 1 0 1)) env (took m ss) w2"
    and ss: "wrapper_ready v g env (took m ss)" "reads v w2 ms os qs" "sw_rule ss = r" by blast
  from ss(1) have vb: "storable v (baselineLogReq (took m ss))" and cb: "completable v (baselineLogReq ss)"
    by (simp_all add: wrapper_ready_def)
  from fib_loop_run [OF ss(1) vb ss(2) _ assms(4), of 0] obtain ss' w' where
    "run_wrapped (fib_loop (FibTest (GetPlaces m) 1 0 1)) env (took m ss) w2 = Some (Ret (None, ss'), w')"
    "reads v w' ms (os @ map fib_response [0..<unat (GetPlaces m)])
       (qs @ call_log g r (baselineLogReq ss) (recv_events [m] @ map (Sent \<circ> fib_response) [0..<unat (GetPlaces m)]))"
    by (auto simp: fib_vars_def ss(3) call_log_def)
  with c run cb run_stream_returned show ?thesis by (metis (no_types, lifting))
qed

lemma fib_call_diverges:
  fixes v :: "'w views"
  assumes "talker_call v g env i st ''/abcxyz.test.Talker/Fibonacci'' r" "reads v w (m # ms) os qs" "names_target m"
    and "GetPlaces m = - 1"
  shows "StreamInterceptor env i st ''/abcxyz.test.Talker/Fibonacci'' Talker_Fibonacci_Handler w = None"
proof -
  from fib_start [OF assms(1-3)] obtain ss w1 w2 where
    c: "StreamInterceptor env i st ''/abcxyz.test.Talker/Fibonacci'' Talker_Fibonacci_Handler w =
         run_stream env i (ss_Context st) (Talker_Fibonacci_Handler SrvImpl) ss w1"
    and run: "run_wrapped (Talker_Fibonacci_Handler SrvImpl) env ss w1 =
         run_wrapped (fib_loop (FibTest (GetPlaces m) 1 0 1)) env (took m ss) w2"
    and ss: "wrapper_ready v g env (took m ss)" "reads v w2 ms os qs" by blast
  from ss(1) have "storable v (baselineLogReq (took m ss))" by (simp add: wrapper_ready_def)
  from fib_loop_diverges [OF ss(1) this ss(2)] assms(4) run
  have "run_wrapped (Talker_Fibonacci_Handler SrvImpl) env ss w1 = None" by simp
  with c show ?thesis by (simp add: run_stream_def dv_bind_def)
qed

text \<open>How much a call logs.\<close>

lemma length_call_log_recv:
  "shouldLogReq r \<Longrightarrow> length (call_log g r b (recv_events ms)) = length ms - 1"
  by (simp add: call_log_def length_entries_recv)

lemma length_call_log_recv_send:
  "shouldLogReq r \<Longrightarrow> ms \<noteq> [] \<Longrightarrow> length (call_log g r b (recv_events ms @ [Sent m])) = length ms"
  by (simp add: call_log_def stream_append length_entries_recv)

lemma length_entries_sent [simp]:
  "length (stream_entries r b p (map (Sent \<circ> f) ks)) = length ks"
  by (induction ks arbitrary: p) simp_all

lemma length_call_log_sends:
  "length (call_log g r b (recv_events [m] @ map (Sent \<circ> f) ks)) = length ks"
  by (simp add: call_log_def)

lemma talker_call_keeps: "talker_call v g env i st m r \<Longrightarrow> keeps_messages g"
  by (auto simp: talker_call_def stores_def)

text \<open>The request that reports an error holds no message.\<close>

lemma error_request:
  assumes "keeps_messages g" "completable v b"
  shows "logged request [g (error_status env e (set_resource t b))] = [] \<and>
    (\<exists>a. payload (g (error_status env e (set_resource t b))) = Some a \<and> status a \<noteq> None)"
proof -
  let ?q = "error_status env e (set_resource t b)"
  from assms(2) obtain a where a: "payload ?q = Some a" "request a = None" "status a \<noteq> None"
    by (auto simp: completable_def blank_def error_status_def set_resource_def)
  from keeps_messagesD [OF assms(1) a(1)] obtain a' where a': "payload (g ?q) = Some a'" "audit_core a' = audit_core a" .
  have "logged request [g ?q] = []" unfolding logged_kept [OF assms(1)] using a by (simp add: logged_def)
  moreover from a' a(3) have "\<exists>a. payload (g ?q) = Some a \<and> status a \<noteq> None"
    using audit_core_eqD(5) by metis
  ultimately show ?thesis by blast
qed

lemma stream_pending_sends:
  "stream_pending p (map (Sent \<circ> f) ks) = (if ks = [] then p else None)"
  by (induction ks arbitrary: p) auto

lemma received_sends [simp]:
  "received (map (Sent \<circ> f) ks) = []" "sent (map (Sent \<circ> f) ks) = map f ks"
  by (induction ks) auto

lemma uint32_below_max: "n \<noteq> - 1 \<Longrightarrow> unat (n :: 32 word) < 2 ^ 32 - 1"
proof -
  assume n: "n \<noteq> - 1"
  have "unat (- 1 :: 32 word) = 2 ^ 32 - 1"
    by (simp add: unsigned_minus_1_eq_mask mask_eq_exp_minus_1)
  with n have "unat n \<noteq> 2 ^ 32 - 1" unfolding word_unat_eq_iff by simp
  with unsigned_less [of n, where ?'a = nat] show ?thesis by simp
qed

end
