(* ===== verification/Stream_Conc.thy ===== *)
theory Stream_Conc
  imports Stream_Log "HOL-Library.Multiset"
begin

section \<open>A receiver and a sender at the same time\<close>

text \<open>
  gRPC lets one goroutine receive on a stream while another one sends; the wrapper's lock is there
  for this.  \<open>RecvMsg\<close> and \<open>SendMsg\<close> are cut into the steps between which the other goroutine can
  run: the swap and the pop, which hold the lock, the log, and the call of the stream.  The
  baseline request does not change while both run (the handler names its resource before), so it
  does not matter that \<open>RecvMsg\<close> clones it before it waits for a message.
\<close>

datatype recv_pc =
    RecvIdle
  | RecvStart
  | RecvGot log_request goval
  | RecvSwapped log_request goval "goval option"
  | RecvDone "gerror + goval"

datatype send_pc =
    SendIdle
  | SendStart goval
  | SendPopped log_request goval "goval option"
  | SendLogged goval
  | SendDone goval "gerror option"

definition recv_step :: "'w grpc_env \<Rightarrow> recv_pc \<Rightarrow> 'w wrapper \<Rightarrow> ('w, recv_pc \<times> 'w wrapper) go" where
  "recv_step env pc ss =
     (case pc of
        RecvStart \<Rightarrow>
          (case proto_Clone env (baselineLogReq ss) of
             None \<Rightarrow> go_return (RecvDone (Inl (errorf ''expected *api.AuditLogRequest'')), ss)
           | Some logReq \<Rightarrow>
               go_bind (ss_RecvMsg (ServerStream ss)) (\<lambda>received.
                 case received of
                   Inl err \<Rightarrow> go_return
                     (RecvDone (Inl (wrapf ''failed to receive message from server stream'' err)), ss)
                 | Inr m \<Rightarrow> go_return (RecvGot logReq m, ss)))
      | RecvGot logReq m \<Rightarrow>
          let (lr, ss') = swapLastReq (Some m) ss in go_return (RecvSwapped logReq m lr, ss')
      | RecvSwapped logReq m lr \<Rightarrow>
          (case lr of
             None \<Rightarrow> go_return (RecvDone (Inr m), ss)
           | Some l \<Rightarrow>
               if shouldLogReq (sw_rule ss)
               then go_bind (setReq logReq l) (\<lambda>(err, logReq').
                 case err of
                   Some e \<Rightarrow> go_return (RecvDone (Inl e), ss)
                 | None \<Rightarrow> go_bind (emit_log ss logReq') (\<lambda>err.
                     case err of
                       Some e \<Rightarrow> go_return (RecvDone (Inl e), ss)
                     | None \<Rightarrow> go_return (RecvDone (Inr m), ss)))
               else go_return (RecvDone (Inr m), ss))
      | _ \<Rightarrow> go_return (pc, ss))"

definition send_step :: "'w grpc_env \<Rightarrow> send_pc \<Rightarrow> 'w wrapper \<Rightarrow> ('w, send_pc \<times> 'w wrapper) go" where
  "send_step env pc ss =
     (case pc of
        SendStart m \<Rightarrow>
          (case proto_Clone env (baselineLogReq ss) of
             None \<Rightarrow> go_return (SendDone m (Some (errorf ''expected *api.AuditLogRequest'')), ss)
           | Some logReq \<Rightarrow>
               let (lr, ss') = popLastReq ss in go_return (SendPopped logReq m lr, ss'))
      | SendPopped logReq m lr \<Rightarrow>
          go_bind (case lr of
                     None \<Rightarrow> go_return (None, logReq)
                   | Some l \<Rightarrow> if shouldLogReq (sw_rule ss) then setReq logReq l
                               else go_return (None, logReq)) (\<lambda>(err, logReq1).
            case err of
              Some e \<Rightarrow> go_return (SendDone m (Some (wrapf ''failed to set request'' e)), ss)
            | None \<Rightarrow>
                go_bind (if shouldLogResp (sw_rule ss) then setResp logReq1 m
                         else go_return (None, logReq1)) (\<lambda>(err, logReq2).
                  case err of
                    Some e \<Rightarrow> go_return (SendDone m (Some (wrapf ''failed to set response'' e)), ss)
                  | None \<Rightarrow> go_bind (emit_log ss logReq2) (\<lambda>err.
                      case err of
                        Some e \<Rightarrow> go_return (SendDone m (Some e), ss)
                      | None \<Rightarrow> go_return (SendLogged m, ss))))
      | SendLogged m \<Rightarrow>
          go_bind (ss_SendMsg (ServerStream ss) m) (\<lambda>err. go_return
            (SendDone m (map_option (wrapf ''failed to send message to server stream'') err), ss))
      | _ \<Rightarrow> go_return (pc, ss))"

text \<open>
  Without the other goroutine the steps are the functions: three of them end either call.
\<close>

definition recv_result :: "recv_pc \<Rightarrow> gerror + goval" where
  "recv_result pc = (case pc of RecvDone r \<Rightarrow> r | _ \<Rightarrow> Inl (Opaque ''not done''))"

definition send_result :: "send_pc \<Rightarrow> gerror option" where
  "send_result pc = (case pc of SendDone m e \<Rightarrow> e | _ \<Rightarrow> Some (Opaque ''not done''))"

lemma emit_log_lastReq [simp]: "emit_log (ss\<lparr>lastReq := x\<rparr>) = emit_log ss"
  by (simp add: emit_log_def fun_eq_iff)

lemma recv_steps_simps [simp]:
  "recv_step env (RecvDone r) ss = go_return (RecvDone r, ss)"
  "recv_step env RecvIdle ss = go_return (RecvIdle, ss)"
  "recv_step env (RecvGot q m) ss = go_return (RecvSwapped q m (lastReq ss), ss\<lparr>lastReq := Some m\<rparr>)"
  "recv_result (RecvDone r) = r"
  by (simp_all add: recv_step_def recv_result_def swapLastReq_def)

lemma send_steps_simps [simp]:
  "send_step env (SendDone m e) ss = go_return (SendDone m e, ss)"
  "send_step env SendIdle ss = go_return (SendIdle, ss)"
  "send_result (SendDone m e) = e"
  by (simp_all add: send_step_def send_result_def)

lemma RecvMsg_is_steps:
  "RecvMsg env ss w =
     go_bind (recv_step env RecvStart ss) (\<lambda>(p1, s1).
     go_bind (recv_step env p1 s1) (\<lambda>(p2, s2).
     go_bind (recv_step env p2 s2) (\<lambda>(p3, s3). go_return (recv_result p3, s3)))) w"
proof (cases "proto_Clone env (baselineLogReq ss)")
  case None
  then show ?thesis by (simp add: RecvMsg_def recv_step_def [of env RecvStart])
next
  case (Some q)
  have l: "go_bind (recv_step env (RecvSwapped q m lr) s1) (\<lambda>(p3, s3). go_return (recv_result p3, s3)) v =
      (case lr of
         None \<Rightarrow> go_return (Inr m, s1)
       | Some l \<Rightarrow> if shouldLogReq (sw_rule s1)
           then go_bind (setReq q l) (\<lambda>(err, logReq').
             case err of
               Some e \<Rightarrow> go_return (Inl e, s1)
             | None \<Rightarrow> go_bind (emit_log s1 logReq') (\<lambda>err.
                 case err of Some e \<Rightarrow> go_return (Inl e, s1) | None \<Rightarrow> go_return (Inr m, s1)))
           else go_return (Inr m, s1)) v" for m lr s1 v
    by (auto simp: recv_step_def go_bind_def go_return_def recv_result_def
        split: option.splits prod.splits ret.splits)
  show ?thesis
    by (cases "ss_RecvMsg (ServerStream ss) w" rule: prod.exhaust)
      (auto simp: RecvMsg_def recv_step_def [of env RecvStart] Some go_bind_def [of "ss_RecvMsg _"]
        go_bind_assoc l swapLastReq_def Let_def split: ret.splits sum.splits)
qed

lemma SendMsg_is_steps:
  "SendMsg env m ss w =
     go_bind (send_step env (SendStart m) ss) (\<lambda>(p1, s1).
     go_bind (send_step env p1 s1) (\<lambda>(p2, s2).
     go_bind (send_step env p2 s2) (\<lambda>(p3, s3). go_return (send_result p3, s3)))) w"
proof (cases "proto_Clone env (baselineLogReq ss)")
  case None
  then show ?thesis by (simp add: SendMsg_def send_step_def [of env "SendStart m"])
next
  case (Some q)
  have l: "go_bind (send_step env (SendLogged m) s1) (\<lambda>(p3, s3). go_return (send_result p3, s3)) v =
      go_bind (ss_SendMsg (ServerStream s1) m) (\<lambda>err. case err of
         Some e \<Rightarrow> go_return (Some (wrapf ''failed to send message to server stream'' e), s1)
       | None \<Rightarrow> go_return (None, s1)) v" for s1 v
    by (auto simp: send_step_def go_bind_def go_return_def split: option.splits prod.splits ret.splits)
  show ?thesis
    by (simp add: SendMsg_def send_step_def [of env "SendStart m"] send_step_def [of env "SendPopped _ _ _"]
        Some popLastReq_def go_bind_assoc)
      (auto simp: l go_bind_assoc intro!: go_bind_cong split: option.splits prod.splits)
qed

subsection \<open>Interleavings\<close>

text \<open>
  A configuration has the wrapper, where the receiver and the sender are, and the world.  A run
  lists the calls that have returned.
\<close>

datatype call = DidRecv "gerror + goval" | DidSend goval "gerror option"

type_synonym 'w conf = "'w wrapper \<times> recv_pc \<times> send_pc \<times> 'w world"

inductive conc_step :: "'w grpc_env \<Rightarrow> 'w conf \<Rightarrow> call list \<Rightarrow> 'w conf \<Rightarrow> bool" for env where
  recv_call: "conc_step env (ss, RecvIdle, sp, w) [] (ss, RecvStart, sp, w)"
| recv_move: "recv_step env rp ss w = (Ret (rp', ss'), w') \<Longrightarrow>
    conc_step env (ss, rp, sp, w) [] (ss', rp', sp, w')"
| recv_return: "conc_step env (ss, RecvDone r, sp, w) [DidRecv r] (ss, RecvIdle, sp, w)"
| send_call: "conc_step env (ss, rp, SendIdle, w) [] (ss, rp, SendStart m, w)"
| send_move: "send_step env sp ss w = (Ret (sp', ss'), w') \<Longrightarrow>
    conc_step env (ss, rp, sp, w) [] (ss', rp, sp', w')"
| send_return: "conc_step env (ss, rp, SendDone m e, w) [DidSend m e] (ss, rp, SendIdle, w)"

inductive conc_run :: "'w grpc_env \<Rightarrow> 'w conf \<Rightarrow> call list \<Rightarrow> 'w conf \<Rightarrow> bool" for env s where
  start: "conc_run env s [] s"
| step: "conc_run env s cs s1 \<Longrightarrow> conc_step env s1 c s2 \<Longrightarrow> conc_run env s (cs @ c) s2"

fun call_ok :: "call \<Rightarrow> bool" where
  "call_ok (DidRecv r) \<longleftrightarrow> (\<exists>m. r = Inr m)"
| "call_ok (DidSend m e) \<longleftrightarrow> e = None"

fun got :: "call list \<Rightarrow> goval list" where
  "got [] = []"
| "got (DidRecv (Inr m) # cs) = m # got cs"
| "got (_ # cs) = got cs"

fun gave :: "call list \<Rightarrow> goval list" where
  "gave [] = []"
| "gave (DidSend m None # cs) = m # gave cs"
| "gave (_ # cs) = gave cs"

lemma got_append [simp]: "got (cs @ ds) = got cs @ got ds"
  by (induction cs rule: got.induct) simp_all

lemma gave_append [simp]: "gave (cs @ ds) = gave cs @ gave ds"
  by (induction cs rule: gave.induct) simp_all

text \<open>
  What a call that is under way holds: the request it took from the wrapper and has not logged,
  and the message whose swap or log is done though the call has not returned.
\<close>

definition recv_held :: "recv_pc \<Rightarrow> goval list" where
  "recv_held rp = (case rp of RecvSwapped q m lr \<Rightarrow> optional lr | _ \<Rightarrow> [])"

definition recv_entered :: "recv_pc \<Rightarrow> goval list" where
  "recv_entered rp = (case rp of RecvSwapped q m lr \<Rightarrow> [m] | RecvDone (Inr m) \<Rightarrow> [m] | _ \<Rightarrow> [])"

definition send_held :: "send_pc \<Rightarrow> goval list" where
  "send_held sp = (case sp of SendPopped q m lr \<Rightarrow> optional lr | _ \<Rightarrow> [])"

definition send_logged :: "send_pc \<Rightarrow> goval list" where
  "send_logged sp = (case sp of SendLogged m \<Rightarrow> [m] | SendDone m None \<Rightarrow> [m] | _ \<Rightarrow> [])"

text \<open>The clones the calls hold are of the baseline; and neither call is about to fail.\<close>

definition clones_base :: "log_request \<Rightarrow> recv_pc \<Rightarrow> send_pc \<Rightarrow> bool" where
  "clones_base b rp sp \<longleftrightarrow>
     (case rp of RecvGot q m \<Rightarrow> q = b | RecvSwapped q m lr \<Rightarrow> q = b | _ \<Rightarrow> True) \<and>
     (case sp of SendPopped q m lr \<Rightarrow> q = b | _ \<Rightarrow> True)"

definition no_error :: "recv_pc \<Rightarrow> send_pc \<Rightarrow> bool" where
  "no_error rp sp \<longleftrightarrow>
     (case rp of RecvDone (Inl e) \<Rightarrow> False | _ \<Rightarrow> True) \<and> (case sp of SendDone m (Some e) \<Rightarrow> False | _ \<Rightarrow> True)"

lemmas pc_simps = recv_held_def recv_entered_def send_held_def send_logged_def clones_base_def no_error_def

text \<open>What one step adds to the log: pairs of a request and a response, on the baseline.\<close>

definition adds ::
  "('w \<Rightarrow> log_request list) \<Rightarrow> (log_request \<Rightarrow> log_request) \<Rightarrow> log_request \<Rightarrow> 'w world \<Rightarrow>
     (goval option \<times> goval option) list \<Rightarrow> 'w world \<Rightarrow> bool" where
  "adds obs g b w es w' \<longleftrightarrow>
     obs (w_ext w') = obs (w_ext w) @ map (\<lambda>(lr, rs). g (entry_request (b, lr, rs))) es"

definition reqs :: "(goval option \<times> goval option) list \<Rightarrow> goval list" where
  "reqs es = concat (map (optional \<circ> fst) es)"

definition resps :: "(goval option \<times> goval option) list \<Rightarrow> goval list" where
  "resps es = concat (map (optional \<circ> snd) es)"

lemma adds_simps [simp]:
  "reqs [] = []" "resps [] = []" "reqs (e # es) = optional (fst e) @ reqs es"
  "resps (e # es) = optional (snd e) @ resps es" "reqs (es @ fs) = reqs es @ reqs fs"
  "resps (es @ fs) = resps es @ resps fs"
  by (simp_all add: reqs_def resps_def)

lemma recv_step_logs:
  assumes "delivers obs g cl" "stream_unobserved obs (ServerStream ss)" "clones env" "sw_c ss = Some cl"
    and "recv_step env rp ss w = (Ret (rp', ss'), w')" "clones_base (baselineLogReq ss) rp sp"
  shows "same_stream ss ss' \<and> clones_base (baselineLogReq ss) rp' sp \<and>
     (no_error rp' sp \<longrightarrow> no_error rp sp \<and> (\<exists>es.
        adds obs g (baselineLogReq ss) w es w' \<and> resps es = [] \<and>
        (shouldLogReq (sw_rule ss) \<longrightarrow>
           mset (reqs es @ recv_held rp' @ optional (lastReq ss')) + mset (recv_entered rp) =
           mset (recv_held rp @ optional (lastReq ss)) + mset (recv_entered rp'))))"
proof -
  from assms(2) have o: "obs (w_ext (snd (ss_RecvMsg (ServerStream ss) w))) = obs (w_ext w)"
    unfolding stream_unobserved_def by blast
  show ?thesis
  proof (cases rp)
    case RecvStart
    with assms(3,5) o show ?thesis
      by (auto simp: recv_step_def clones_def pc_simps same_stream_def adds_def elim!: go_bind_RetE
          split: sum.splits intro!: exI [of _ "[]"])
         (use assms(6) in \<open>auto simp: pc_simps\<close>)
  next
    case (RecvSwapped q m lr)
    show ?thesis
    proof (cases "\<exists>l. lr = Some l \<and> shouldLogReq (sw_rule ss)")
      case True
      then obtain l where l: "lr = Some l" "shouldLogReq (sw_rule ss)" by blast
      with assms(5) RecvSwapped obtain err q' w1 where s: "setReq q l w = (Ret (err, q'), w1)"
        and r: "(case err of Some e \<Rightarrow> go_return (RecvDone (Inl e), ss)
           | None \<Rightarrow> go_bind (emit_log ss q') (\<lambda>err. case err of
               Some e \<Rightarrow> go_return (RecvDone (Inl e), ss) | None \<Rightarrow> go_return (RecvDone (Inr m), ss))) w1 =
           (Ret (rp', ss'), w')"
        by (auto simp: recv_step_def elim!: go_bind_RetE)
      show ?thesis
      proof (cases err)
        case (Some e)
        with r assms(6) RecvSwapped show ?thesis by (auto simp: pc_simps same_stream_def)
      next
        case None
        from s None have "w1 = w" "q' = entry_request (q, Some l, None)"
          by (auto dest!: setReq_ok simp: entry_request_simps)
        moreover from r None obtain e where em: "emit_log ss q' w1 = (Ret e, w')"
          and r2: "(rp', ss') = (case e of Some e \<Rightarrow> (RecvDone (Inl e), ss) | None \<Rightarrow> (RecvDone (Inr m), ss))"
          by (auto elim!: go_bind_RetE split: option.splits)
        moreover have "q = baselineLogReq ss" using assms(6) RecvSwapped by (simp add: clones_base_def)
        ultimately show ?thesis using emit_log_delivers [OF assms(1,4) em] RecvSwapped l assms(6)
          by (auto simp: pc_simps same_stream_def adds_def intro!: exI [of _ "[(Some l, None)]"])
      qed
    next
      case False
      with assms(5) RecvSwapped have "rp' = RecvDone (Inr m)" "ss' = ss" "w' = w"
        by (auto simp: recv_step_def split: option.splits)
      with False RecvSwapped assms(6) show ?thesis
        by (auto simp: pc_simps same_stream_def adds_def split: option.splits intro!: exI [of _ "[]"])
    qed
  qed (use assms(5,6) in \<open>auto simp: pc_simps same_stream_def adds_def intro!: exI [of _ "[]"]\<close>)
qed

lemma send_step_logs:
  assumes "delivers obs g cl" "stream_unobserved obs (ServerStream ss)" "clones env" "sw_c ss = Some cl"
    and "send_step env sp ss w = (Ret (sp', ss'), w')" "clones_base (baselineLogReq ss) rp sp"
  shows "same_stream ss ss' \<and> clones_base (baselineLogReq ss) rp sp' \<and>
     (no_error rp sp' \<longrightarrow> no_error rp sp \<and> (\<exists>es. adds obs g (baselineLogReq ss) w es w' \<and>
        (shouldLogReq (sw_rule ss) \<longrightarrow>
           mset (reqs es @ send_held sp' @ optional (lastReq ss')) = mset (send_held sp @ optional (lastReq ss))) \<and>
        (shouldLogResp (sw_rule ss) \<longrightarrow> send_logged sp @ resps es = send_logged sp')))"
proof -
  from assms(2) have o: "obs (w_ext (snd (ss_SendMsg (ServerStream ss) m w))) = obs (w_ext w)" for m
    unfolding stream_unobserved_def by blast
  show ?thesis
  proof (cases sp)
    case (SendStart m)
    with assms(3,5) have "sp' = SendPopped (baselineLogReq ss) m (lastReq ss)" "ss' = ss\<lparr>lastReq := None\<rparr>" "w' = w"
      by (auto simp: send_step_def clones_def popLastReq_def)
    with SendStart assms(6) show ?thesis
      by (auto simp: pc_simps same_stream_def adds_def intro!: exI [of _ "[]"])
  next
    case (SendPopped q m lr)
    let ?lr = "if shouldLogReq (sw_rule ss) then lr else None"
    let ?rs = "if shouldLogResp (sw_rule ss) then Some m else None"
    have q: "q = baselineLogReq ss" using assms(6) SendPopped by (simp add: clones_base_def)
    from assms(5) SendPopped obtain err q1 w1 where
      s1: "(case lr of None \<Rightarrow> go_return (None, q)
        | Some l \<Rightarrow> if shouldLogReq (sw_rule ss) then setReq q l else go_return (None, q)) w = (Ret (err, q1), w1)"
      and r1: "(case err of
              Some e \<Rightarrow> go_return (SendDone m (Some (wrapf ''failed to set request'' e)), ss)
            | None \<Rightarrow>
                go_bind (if shouldLogResp (sw_rule ss) then setResp q1 m
                         else go_return (None, q1)) (\<lambda>(err, logReq2).
                  case err of
                    Some e \<Rightarrow> go_return (SendDone m (Some (wrapf ''failed to set response'' e)), ss)
                  | None \<Rightarrow> go_bind (emit_log ss logReq2) (\<lambda>err.
                      case err of
                        Some e \<Rightarrow> go_return (SendDone m (Some e), ss)
                      | None \<Rightarrow> go_return (SendLogged m, ss)))) w1 = (Ret (sp', ss'), w')"
      by (auto simp: send_step_def elim!: go_bind_RetE split: option.splits)
    note s1 = setReq_step [OF s1]
    have "ss' = ss \<and> ((\<exists>e. sp' = SendDone m (Some e)) \<or>
        sp' = SendLogged m \<and> adds obs g (baselineLogReq ss) w [(?lr, ?rs)] w')"
    proof (cases err)
      case (Some e)
      with r1 show ?thesis by auto
    next
      case None
      with r1 obtain err2 q2 w2 where
        s2: "(if shouldLogResp (sw_rule ss) then setResp q1 m else go_return (None, q1)) w1 = (Ret (err2, q2), w2)"
        and r2: "(case err2 of
                    Some e \<Rightarrow> go_return (SendDone m (Some (wrapf ''failed to set response'' e)), ss)
                  | None \<Rightarrow> go_bind (emit_log ss q2) (\<lambda>err.
                      case err of
                        Some e \<Rightarrow> go_return (SendDone m (Some e), ss)
                      | None \<Rightarrow> go_return (SendLogged m, ss))) w2 = (Ret (sp', ss'), w')"
        by (auto elim!: go_bind_RetE split: option.splits)
      note s2 = setResp_step [OF s2]
      show ?thesis
      proof (cases err2)
        case (Some e)
        with r2 show ?thesis by auto
      next
        case n2: None
        with r2 obtain e where em: "emit_log ss q2 w2 = (Ret e, w')"
          and r3: "(sp', ss') = (case e of Some e \<Rightarrow> (SendDone m (Some e), ss) | None \<Rightarrow> (SendLogged m, ss))"
          by (auto elim!: go_bind_RetE split: option.splits)
        from s1 s2 None n2 q have "w2 = w" "q2 = entry_request (baselineLogReq ss, ?lr, ?rs)"
          by (auto simp: entry_request_def option.map_comp)
        with emit_log_delivers [OF assms(1,4) em] r3 show ?thesis by (simp add: adds_def)
      qed
    qed
    with SendPopped assms(6) show ?thesis
      by (auto simp: pc_simps same_stream_def intro!: exI [of _ "[(?lr, ?rs)]"])
  next
    case (SendLogged m)
    with assms(5) obtain e where
      e: "ss_SendMsg (ServerStream ss) m w = (Ret e, w')" "ss' = ss"
        "sp' = SendDone m (map_option (wrapf ''failed to send message to server stream'') e)"
      by (auto simp: send_step_def elim!: go_bind_RetE)
    with o [of m] SendLogged assms(6) show ?thesis
      by (cases e) (auto simp: pc_simps same_stream_def adds_def intro!: exI [of _ "[]"])
  qed (use assms(5,6) in \<open>auto simp: pc_simps same_stream_def adds_def intro!: exI [of _ "[]"]\<close>)
qed

lemma adds_trans: "adds obs g b w es v \<Longrightarrow> adds obs g b v fs w' \<Longrightarrow> adds obs g b w (es @ fs) w'"
  by (simp add: adds_def)

lemma same_stream_trans: "same_stream a b \<Longrightarrow> same_stream b c \<Longrightarrow> same_stream a c"
  by (simp add: same_stream_def)

text \<open>
  The account of a run: every request that entered the wrapper is in the log, or held by a call
  that is under way, or still pending; the responses in the log are those given, in order.
\<close>

definition accounted ::
  "('w \<Rightarrow> log_request list) \<Rightarrow> (log_request \<Rightarrow> log_request) \<Rightarrow> 'w wrapper \<Rightarrow> 'w world \<Rightarrow> call list \<Rightarrow>
     'w wrapper \<Rightarrow> recv_pc \<Rightarrow> send_pc \<Rightarrow> 'w world \<Rightarrow> bool" where
  "accounted obs g ss w cs ss' rp sp w' \<longleftrightarrow> (\<exists>es. adds obs g (baselineLogReq ss) w es w' \<and>
     (shouldLogReq (sw_rule ss) \<longrightarrow>
        mset (reqs es @ recv_held rp @ send_held sp @ optional (lastReq ss')) =
        mset (optional (lastReq ss) @ got cs @ recv_entered rp)) \<and>
     (shouldLogResp (sw_rule ss) \<longrightarrow> resps es = gave cs @ send_logged sp))"

lemma accounted_step:
  assumes "accounted obs g ss w cs ss1 rp1 sp1 w1" "adds obs g (baselineLogReq ss) w1 fs w'"
    and "shouldLogReq (sw_rule ss) \<longrightarrow>
      mset (reqs fs @ recv_held rp @ send_held sp @ optional (lastReq ss')) + mset (recv_entered rp1) =
      mset (recv_held rp1 @ send_held sp1 @ optional (lastReq ss1)) + mset (recv_entered rp)"
    and "shouldLogResp (sw_rule ss) \<longrightarrow> send_logged sp1 @ resps fs = send_logged sp"
  shows "accounted obs g ss w cs ss' rp sp w'"
proof -
  from assms(1) obtain es where e: "adds obs g (baselineLogReq ss) w es w1"
    and q: "shouldLogReq (sw_rule ss) \<longrightarrow>
        mset (reqs es @ recv_held rp1 @ send_held sp1 @ optional (lastReq ss1)) =
        mset (optional (lastReq ss) @ got cs @ recv_entered rp1)"
    and p: "shouldLogResp (sw_rule ss) \<longrightarrow> resps es = gave cs @ send_logged sp1"
    unfolding accounted_def by blast
  have sum: "E + F + X = G + D" if "E + H1 = G + R1" "F + X + R1 = H1 + D" for E F X G D H1 R1 :: "goval multiset"
  proof -
    have "E + F + X + R1 = E + (F + X + R1)" by (simp only: add.assoc)
    also have "\<dots> = E + H1 + D" using that(2) by (simp only: add.assoc)
    also have "\<dots> = G + D + R1" using that(1) by (simp add: ac_simps)
    finally show ?thesis by simp
  qed
  have "mset (reqs (es @ fs) @ recv_held rp @ send_held sp @ optional (lastReq ss')) =
      mset (optional (lastReq ss) @ got cs @ recv_entered rp)" if "shouldLogReq (sw_rule ss)"
    using sum [of "mset (reqs es)" "mset (recv_held rp1 @ send_held sp1 @ optional (lastReq ss1))"
        "mset (optional (lastReq ss) @ got cs)" "mset (recv_entered rp1)" "mset (reqs fs)"
        "mset (recv_held rp @ send_held sp @ optional (lastReq ss'))" "mset (recv_entered rp)"]
      q assms(3) that by (simp add: add.assoc)
  moreover have "resps (es @ fs) = gave cs @ send_logged sp" if "shouldLogResp (sw_rule ss)"
    using p assms(4) that by simp
  ultimately show ?thesis
    unfolding accounted_def using adds_trans [OF e assms(2)] by blast
qed

lemma conc_run_accounted:
  assumes "conc_run env (ss, RecvIdle, SendIdle, w) cs (ss', rp, sp, w')"
    and "delivers obs g cl" "stream_unobserved obs (ServerStream ss)" "clones env" "sw_c ss = Some cl"
  shows "same_stream ss ss' \<and> clones_base (baselineLogReq ss) rp sp \<and>
     ((\<forall>c \<in> set cs. call_ok c) \<and> no_error rp sp \<longrightarrow> accounted obs g ss w cs ss' rp sp w')"
  using assms(1)
proof (induction cs "(ss', rp, sp, w')" arbitrary: ss' rp sp w' rule: conc_run.induct)
  case start
  show ?case by (auto simp: same_stream_def pc_simps accounted_def adds_def intro!: exI [of _ "[]"])
next
  case (step cs s1 c)
  obtain ss1 rp1 sp1 w1 where s1: "s1 = (ss1, rp1, sp1, w1)" by (cases s1) auto
  note IH = step(2) [OF s1]
  from IH have same: "same_stream ss ss1" by blast
  then have eqs: "sw_rule ss1 = sw_rule ss" "baselineLogReq ss1 = baselineLogReq ss"
    "stream_unobserved obs (ServerStream ss1)" "sw_c ss1 = Some cl"
    using assms(3,5) by (simp_all add: same_stream_def)
  from step(3) [unfolded s1] show ?case
  proof cases
    case recv_move
    from recv_step_logs [OF assms(2) eqs(3) assms(4) eqs(4) recv_move(3), of sp1] IH recv_move(1,2) show ?thesis
      unfolding eqs by (auto simp: ac_simps intro: same_stream_trans elim!: accounted_step)
  next
    case send_move
    from send_step_logs [OF assms(2) eqs(3) assms(4) eqs(4) send_move(3), of rp1] IH send_move(1,2) show ?thesis
      unfolding eqs by (auto simp: ac_simps intro: same_stream_trans elim!: accounted_step)
  next
    case (recv_return r)
    with IH show ?thesis by (cases r) (auto simp: pc_simps accounted_def)
  next
    case (send_return m e)
    with IH show ?thesis by (cases e) (auto simp: pc_simps accounted_def)
  qed (use IH in \<open>auto simp: pc_simps accounted_def\<close>)
qed

text \<open>When both goroutines are between calls, the account is between the log and the wrapper.\<close>

lemma logged_adds:
  assumes "keeps_messages g" "blank b"
    and "qs = map (\<lambda>(lr, rs). g (entry_request (b, lr, rs))) es"
  shows "logged request qs = structs (reqs es)" "logged response qs = structs (resps es)"
  using assms(3)
proof (induction es arbitrary: qs)
  case Nil
  { case 1 with Nil show ?case by simp }
  { case 2 with Nil show ?case by simp }
next
  case (Cons e es)
  { case 1 with Cons show ?case by (cases e) (simp add: logged_entry [OF assms(1,2)]) }
  { case 2 with Cons show ?case by (cases e) (simp add: logged_entry [OF assms(1,2)]) }
qed

lemma mset_structs_cong: "mset xs = mset ys \<Longrightarrow> mset (structs xs) = mset (structs ys)"
  unfolding structs_def mset_concat by (metis mset_map sum_mset_sum_list)

lemma conc_run_rests:
  assumes "conc_run env (ss, RecvIdle, SendIdle, w) cs (ss', RecvIdle, SendIdle, w')"
    and "delivers obs g cl" "stream_unobserved obs (ServerStream ss)" "clones env" "sw_c ss = Some cl"
    and "keeps_messages g" "blank (baselineLogReq ss)" "list_all call_ok cs"
  shows "\<exists>qs. obs (w_ext w') = obs (w_ext w) @ qs \<and>
     (shouldLogReq (sw_rule ss) \<longrightarrow> mset (logged request qs @ structs (optional (lastReq ss'))) =
        mset (structs (optional (lastReq ss) @ got cs))) \<and>
     (shouldLogResp (sw_rule ss) \<longrightarrow> logged response qs = structs (gave cs))"
proof -
  from conc_run_accounted [OF assms(1-5)] assms(8) have "accounted obs g ss w cs ss' RecvIdle SendIdle w'"
    by (simp add: list_all_iff no_error_def)
  then obtain es where e: "adds obs g (baselineLogReq ss) w es w'"
    "shouldLogReq (sw_rule ss) \<longrightarrow> mset (reqs es @ optional (lastReq ss')) = mset (optional (lastReq ss) @ got cs)"
    "shouldLogResp (sw_rule ss) \<longrightarrow> resps es = gave cs"
    by (auto simp: accounted_def pc_simps)
  note l = logged_adds [OF assms(6,7) refl, of es]
  from e(2) have "shouldLogReq (sw_rule ss) \<longrightarrow>
      mset (structs (reqs es @ optional (lastReq ss'))) = mset (structs (optional (lastReq ss) @ got cs))"
    using mset_structs_cong by blast
  with e(1,3) l show ?thesis unfolding adds_def by (auto simp del: mset_append)
qed

subsection \<open>Schedules\<close>

text \<open>
  A schedule says who moves next: the receiver, or the sender with the message it sends when it
  starts a call.  Carrying one out gives a run.
\<close>

datatype turn = Receiver | Sender goval

definition conc_turn :: "'w grpc_env \<Rightarrow> turn \<Rightarrow> 'w conf \<Rightarrow> (call list \<times> 'w conf) option" where
  "conc_turn env t s = (case s of (ss, rp, sp, w) \<Rightarrow>
     (case t of
        Receiver \<Rightarrow>
          (case rp of
             RecvIdle \<Rightarrow> Some ([], ss, RecvStart, sp, w)
           | RecvDone r \<Rightarrow> Some ([DidRecv r], ss, RecvIdle, sp, w)
           | _ \<Rightarrow> (case recv_step env rp ss w of
                 (Ret (rp', ss'), w') \<Rightarrow> Some ([], ss', rp', sp, w') | (Panic _, _) \<Rightarrow> None))
      | Sender m \<Rightarrow>
          (case sp of
             SendIdle \<Rightarrow> Some ([], ss, rp, SendStart m, w)
           | SendDone m' e \<Rightarrow> Some ([DidSend m' e], ss, rp, SendIdle, w)
           | _ \<Rightarrow> (case send_step env sp ss w of
                 (Ret (sp', ss'), w') \<Rightarrow> Some ([], ss', rp, sp', w') | (Panic _, _) \<Rightarrow> None))))"

fun conc_turns :: "'w grpc_env \<Rightarrow> turn list \<Rightarrow> call list \<Rightarrow> 'w conf \<Rightarrow> (call list \<times> 'w conf) option" where
  "conc_turns env [] cs s = Some (cs, s)"
| "conc_turns env (t # ts) cs s =
     (case conc_turn env t s of None \<Rightarrow> None | Some (c, s') \<Rightarrow> conc_turns env ts (cs @ c) s')"

lemma conc_turn_step: "conc_turn env t s = Some (c, s') \<Longrightarrow> conc_step env s c s'"
  by (auto simp: conc_turn_def intro: conc_step.intros
      split: prod.splits turn.splits recv_pc.splits send_pc.splits ret.splits)

lemma conc_turns_run:
  "conc_run env s0 cs s \<Longrightarrow> conc_turns env ts cs s = Some (cs', s') \<Longrightarrow> conc_run env s0 cs' s'"
proof (induction ts arbitrary: cs s)
  case (Cons t ts)
  from Cons.prems(2) obtain c s1 where "conc_turn env t s = Some (c, s1)" "conc_turns env ts (cs @ c) s1 = Some (cs', s')"
    by (auto split: option.splits prod.splits)
  with Cons.IH conc_run.step [OF Cons.prems(1) conc_turn_step] show ?case by blast
qed simp

end
