(* ===== verification/Talker_Examples.thy ===== *)
theory Talker_Examples
  imports Talker_Log Stream_Conc Examples
begin

section \<open>A concrete server for the talker service\<close>

text \<open>
  The world is the client's messages, the responses it got and the log requests stored; the audit
  client validates and stores.  It meets the setting of \<open>talker_call\<close>.
\<close>

type_synonym tk_ext = "goval list \<times> goval list \<times> log_request list"

definition tk_views :: "tk_ext views" where
  "tk_views = \<lparr>incoming = fst, outgoing = fst \<circ> snd, stored = snd \<circ> snd, accepts = (\<lambda>_ _. True)\<rparr>"

definition tk_stream :: "tk_ext server_stream" where
  "tk_stream = \<lparr>ss_Context = ex_ctx,
     ss_RecvMsg = (\<lambda>w. case w_ext w of
        ([], os, qs) \<Rightarrow> (Ret (Inl io_EOF), w)
      | (m # ms, os, qs) \<Rightarrow> (Ret (Inr m), w\<lparr>w_ext := (ms, os, qs)\<rparr>)),
     ss_SendMsg = (\<lambda>m w. case w_ext w of (ms, os, qs) \<Rightarrow> (Ret None, w\<lparr>w_ext := (ms, os @ [m], qs)\<rparr>))\<rparr>"

definition tk_store :: "tk_ext process" where
  "tk_store c r w = (case w_ext w of (ms, os, qs) \<Rightarrow>
     (Ret (None, r), w\<lparr>w_ext := (ms, os, qs @ (case r of Some q \<Rightarrow> [q] | None \<Rightarrow> []))\<rparr>))"

definition tk_client :: "tk_ext client" where
  "tk_client = \<lparr>validators = [NewRequestValidator], mutators = [],
     backends = [\<lparr>p_type = ''store'', p_process = tk_store, p_stop = None\<rparr>], logMode = MODE_FAIL_CLOSE\<rparr>"

definition tk_env :: "tk_ext grpc_env" where
  "tk_env = \<lparr>time_Now = go_return 0, uuid_New = go_return ''u'', status_FromError = (\<lambda>_. None),
     proto_Clone = Some\<rparr>"

definition tk_interceptor :: "tk_ext interceptor" where
  "tk_interceptor = \<lparr>it_Client = Some tk_client, it_sc = Some known, it_rules = [ex_rule ''*''],
     it_logMode = MODE_FAIL_CLOSE\<rparr>"

definition tk_world :: "goval list \<Rightarrow> tk_ext world" where
  "tk_world ms = \<lparr>w_ext = (ms, [], []), w_diag = []\<rparr>"

definition tk_stamp :: "log_request \<Rightarrow> log_request" where
  "tk_stamp q = q\<lparr>mode := effective_mode tk_client q\<rparr>"

lemma tk_stamp_payload [simp]: "payload (tk_stamp q) = payload q"
  by (simp add: tk_stamp_def)

lemma tk_reads: "reads tk_views (tk_world ms) ms [] []"
  by (simp add: reads_def tk_views_def tk_world_def)

lemma reads_tk: "reads tk_views w ms os qs \<longleftrightarrow> w_ext w = (ms, os, qs)"
  by (cases "w_ext w") (simp add: reads_def tk_views_def)

lemma tk_transports: "transports tk_views tk_stream"
  by (simp add: transports_def reads_tk tk_stream_def)

lemma tk_Log:
  assumes "valid_request q" "w_ext w = (ms, os, qs)"
  shows "Log (Some tk_client) c (Some q) w =
     (Ret (None, Some (tk_stamp q)), w\<lparr>w_ext := (ms, os, qs @ [tk_stamp q])\<rparr>)"
proof -
  have "valid_request (tk_stamp q)" using assms(1) by (simp add: valid_request_def)
  then have "RequestValidator_Process c (Some (tk_stamp q)) v = (Ret (None, Some (tk_stamp q)), v)" for v :: "tk_ext world"
    using validate_request_None [of "Some (tk_stamp q)"] by (simp add: RequestValidator_Process_eq)
  then show ?thesis
    unfolding Log_Some tk_stamp_def [symmetric]
    by (simp add: Log_stages_def tk_client_def then_stage_def go_bind_def tk_store_def assms(2))
qed

lemma tk_stores: "stores tk_views tk_stamp tk_client"
  by (auto simp: stores_def reads_tk tk_Log storable_def)

lemma tk_inert: "inert tk_views tk_env"
  by (simp add: inert_def clones_def tk_env_def)

lemma tk_rule: "mostRelevantRule m (it_rules tk_interceptor) = Some (ex_rule ''*'')"
  by (simp add: mostRelevantRule_def tk_interceptor_def ex_rule_def isRuleApplicable_def wildcard_def)

lemma tk_call: "talker_call tk_views tk_stamp tk_env tk_interceptor tk_stream m (ex_rule ''*'')"
  using tk_inert tk_transports tk_rule tk_stores
  by (simp add: talker_call_def tk_interceptor_def known_def valid_email_def tk_views_def)

lemma tk_rule_logs: "shouldLogReq (ex_rule ''*'')" "shouldLogResp (ex_rule ''*'')"
  by (simp_all add: ex_rule_def shouldLogReq_def shouldLogResp_def)

subsection \<open>Two goroutines on one stream\<close>

text \<open>
  The receiver takes the first message out of the wrapper and is overtaken by the sender, which
  logs the second message with its response; the first is logged after it.
\<close>

definition tk_plain :: "tk_ext client" where
  "tk_plain = tk_client\<lparr>validators := []\<rparr>"

definition tk_wrapper :: "tk_ext wrapper" where
  "tk_wrapper = \<lparr>sw_c = Some tk_plain, baselineLogReq = ex_request, sw_rule = ex_rule ''*'',
     lastReq = None, ServerStream = tk_stream\<rparr>"

definition tk_first :: goval where "tk_first = GoStruct (Some (Some [''first'' \<mapsto> BoolValue True]))"
definition tk_second :: goval where "tk_second = GoStruct (Some (Some [''second'' \<mapsto> BoolValue True]))"

definition tk_schedule :: "turn list" where
  "tk_schedule = replicate 5 Receiver @ replicate 3 Receiver @ replicate 5 (Sender GoNil) @ replicate 2 Receiver"

lemma tk_plain_Log:
  "w_ext w = (ms, os, qs) \<Longrightarrow> Log (Some tk_plain) c (Some q) w =
     (Ret (None, Some (q\<lparr>mode := effective_mode tk_plain q\<rparr>)),
      w\<lparr>w_ext := (ms, os, qs @ [q\<lparr>mode := effective_mode tk_plain q\<rparr>])\<rparr>)"
  unfolding Log_Some
  by (simp add: tk_plain_def tk_client_def Log_stages_def then_stage_def go_bind_def tk_store_def)

lemma tk_delivers: "delivers (snd \<circ> snd) (\<lambda>q. q\<lparr>mode := effective_mode tk_plain q\<rparr>) tk_plain"
  unfolding delivers_def
proof (intro allI)
  fix c q and w :: "tk_ext world"
  show "\<exists>r' w'. Log (Some tk_plain) c (Some q) w = (Ret (None, r'), w') \<and>
      (snd \<circ> snd) (w_ext w') = (snd \<circ> snd) (w_ext w) @ [q\<lparr>mode := effective_mode tk_plain q\<rparr>]"
    by (cases "w_ext w") (simp add: tk_plain_Log)
qed

lemma tk_unobserved: "stream_unobserved (snd \<circ> snd) tk_stream"
  by (auto simp: stream_unobserved_def tk_stream_def split: prod.splits list.splits)

lemma tk_emit:
  "sw_c ss = Some tk_plain \<Longrightarrow> w_ext w = (ms, os, qs) \<Longrightarrow>
     emit_log ss q w = (Ret None, w\<lparr>w_ext := (ms, os, qs @ [q\<lparr>mode := effective_mode tk_plain q\<rparr>])\<rparr>)"
  by (simp add: emit_log_def go_bind_def tk_plain_Log)

lemma tk_structs:
  "toProtoStruct tk_first = Inr (Some (Some [''first'' \<mapsto> BoolValue True]))"
  "toProtoStruct tk_second = Inr (Some (Some [''second'' \<mapsto> BoolValue True]))"
  "toProtoStruct GoNil = Inr (Some (jsonMapToProtoStruct Map.empty))"
  by (simp_all add: toProtoStruct_def tk_first_def tk_second_def GoNil_def json_Marshal_def json_Unmarshal_map_def)

lemma tk_overtaken:
  "\<exists>w'. conc_turns tk_env tk_schedule [] (tk_wrapper, RecvIdle, SendIdle, tk_world [tk_first, tk_second]) =
     Some ([DidRecv (Inr tk_first), DidSend GoNil None, DidRecv (Inr tk_second)],
       tk_wrapper\<lparr>lastReq := None\<rparr>, RecvIdle, SendIdle, w') \<and>
     logged request (snd (snd (w_ext w'))) = structs [tk_second, tk_first]"
  by (simp add: tk_schedule_def numeral_eq_Suc conc_turn_def recv_step_def send_step_def tk_wrapper_def tk_stream_def
      tk_env_def popLastReq_def swapLastReq_def setReq_def setResp_def go_bind_def go_return_def tk_emit tk_world_def tk_rule_logs
      tk_structs ex_request_def ex_payload_def logged_def structs_def converted_def
      Let_def)

end
