(* ===== verification/Shell.thy ===== *)
theory Shell
  imports Security Audit_Opt Server
begin

section \<open>The HTTP test server: clients/go/test/shell, clients/go/test/util\<close>

text \<open>
  A server that emits one audit log per HTTP request with the audit client, the local server of the
  public keys it checks justification tokens with, and the program around it.  Of \<open>net/http\<close> the
  model has the header fields and query values of a request, the two ways the code answers, and
  the exact-path pattern of a mux.  Parameters are the HTML sanitizer, the JWT parser (unverified),
  the listener and the environment.
\<close>

subsection \<open>Requests and responses\<close>

record http_request =
  rq_ctx :: ctx
  rq_header :: "(string \<times> string) list"
  rq_query :: "(string \<times> string) list"

record http_response =
  rs_status :: nat
  rs_body :: string

text \<open>
  \<open>Header.Get\<close>: the first value of the field, whose name is compared without case.  \<open>Values.Get\<close>:
  the first value of the key.  Both give the empty string when there is none.
\<close>

definition Header_Get :: "(string \<times> string) list \<Rightarrow> string \<Rightarrow> string" where
  "Header_Get h k = (case List.find (\<lambda>(n, v). ToLower n = ToLower k) h of Some (n, v) \<Rightarrow> v | None \<Rightarrow> [])"

definition Query_Get :: "(string \<times> string) list \<Rightarrow> string \<Rightarrow> string" where
  "Query_Get q k = (case map_of q k of Some v \<Rightarrow> v | None \<Rightarrow> [])"

definition StatusOK :: nat where "StatusOK = 200"
definition StatusBadRequest :: nat where "StatusBadRequest = 400"
definition StatusNotFound :: nat where "StatusNotFound = 404"
definition StatusInternalServerError :: nat where "StatusInternalServerError = 500"

lemmas http_codes [simp] =
  StatusOK_def StatusBadRequest_def StatusNotFound_def StatusInternalServerError_def

text \<open>\<open>http.Error\<close> ends the text with a newline; \<open>fmt.Fprint\<close> on a fresh writer answers 200.\<close>

definition http_Error :: "string \<Rightarrow> nat \<Rightarrow> http_response" where
  "http_Error msg code = \<lparr>rs_status = code, rs_body = msg @ [CHR 0x0A]\<rparr>"

definition Fprint :: "string \<Rightarrow> http_response" where
  "Fprint s = \<lparr>rs_status = StatusOK, rs_body = s\<rparr>"

subsection \<open>handler.ServeHTTP\<close>

definition traceIDKey :: string where "traceIDKey = ''trace_id''"
definition shell_serviceName :: string where "shell_serviceName = ''go-shell-app''"

record 'w shell_handler =
  sh_client :: "'w client option"
  Sanitize :: "string \<Rightarrow> string"
  ParseString :: "string \<Rightarrow> gerror + (string \<rightharpoonup> json)"

definition idTokenFrom :: "string \<Rightarrow> string" where
  "idTokenFrom s0 =
     (let s = TrimSpace s0 in
      if length s \<ge> 7 \<and> ToLower (take 7 s) = ToLower ''bearer '' then TrimSpace (drop 7 s) else [])"

definition shell_log_request :: "string \<Rightarrow> string \<Rightarrow> string \<Rightarrow> log_request" where
  "shell_log_request traceID email jvsToken =
     empty_log_request\<lparr>
       req_type := LT_DATA_ACCESS,
       payload := Some (empty_audit_log\<lparr>service_name := shell_serviceName, resource_name := traceID,
         authentication := Some \<lparr>principal_email = email\<rparr>, method_name := ''loggingShell''\<rparr>),
       req_labels := Some [traceIDKey \<mapsto> traceID],
       justification_token := jvsToken\<rparr>"

text \<open>The guards before the log request: the trace, the email and the token, or the answer.\<close>

definition shell_email :: "'w shell_handler \<Rightarrow> http_request \<Rightarrow> http_response + string" where
  "shell_email h r =
     (case ParseString h (idTokenFrom (Header_Get (rq_header r) ''Authorization'')) of
        Inl err \<Rightarrow> Inl (http_Error (''failed to parse id token: '' @ error_text err) StatusBadRequest)
      | Inr token \<Rightarrow>
          (case token ''email'' of
             None \<Rightarrow> Inl (http_Error ''email claim is missing'' StatusBadRequest)
           | Some emailRaw \<Rightarrow>
               (case emailRaw of
                  JStr email \<Rightarrow>
                    if email = [] then Inl (http_Error ''email claim cannot be blank'' StatusBadRequest)
                    else Inr email
                | _ \<Rightarrow> Inl (http_Error (''email claim is not string (got '' @ claim_type emailRaw @ '')'')
                         StatusBadRequest))))"

definition ServeHTTP :: "'w shell_handler \<Rightarrow> http_request \<Rightarrow> ('w, http_response) go" where
  "ServeHTTP h r =
     (let traceID0 = Query_Get (rq_query r) traceIDKey in
      go_bind (go_log LevelDebug ''received request'' None) (\<lambda>_.
      if traceID0 = []
      then go_return (http_Error ''missing trace_id in the request, add one by appending the URL with ?trace_id=$TRACE_ID.''
             StatusBadRequest)
      else
        let traceID = Sanitize h traceID0 in
        go_bind (go_log LevelDebug ''found trace id'' None) (\<lambda>_.
        case shell_email h r of
          Inl resp \<Rightarrow> go_return resp
        | Inr email \<Rightarrow>
            let jvsToken = TrimSpace (Header_Get (rq_header r) ''justification-token'') in
            if jvsToken = []
            then go_return (http_Error ''justification-token header cannot be blank'' StatusBadRequest)
            else go_bind (Log (sh_client h) (rq_ctx r) (Some (shell_log_request traceID email jvsToken)))
              (\<lambda>(err, _).
                 case err of
                   Some e \<Rightarrow> go_return (http_Error (''failed to emit application audit log: '' @ error_text e)
                     StatusInternalServerError)
                 | None \<Rightarrow> go_bind (go_log LevelDebug ''finished request'' None) (\<lambda>_.
                     go_return (Fprint (''Successfully emitted application audit log with trace ID '' @
                       traceID @ ''.'')))))))"

subsection \<open>The public key server\<close>

text \<open>
  \<open>httptest.NewServer\<close> gives the address of a server of the mux; the function returned last closes it.
\<close>

record key_server =
  ks_endpoint :: string
  ks_serve :: "string \<Rightarrow> http_response"

definition StartLocalPublicKeyServer ::
  "(string \<Rightarrow> gerror + string) \<Rightarrow> string \<Rightarrow> gerror + key_server" where
  "StartLocalPublicKeyServer readFile server_URL =
     (case readFile ''test_jwks'' of
        Inl err \<Rightarrow> Inl (wrapf ''failed to read public key file'' err)
      | Inr j \<Rightarrow>
          let path = ''/.well-known/jwks'' in
          Inr \<lparr>ks_endpoint = server_URL @ path,
               ks_serve = (\<lambda>p. if p = path then Fprint j
                               else http_Error ''404 page not found'' StatusNotFound)\<rparr>)"

subsection \<open>The programs\<close>

text \<open>
  What the two test programs use of the environment.  \<open>Setenv\<close> changes what the options see,
  so the options are taken after it.  \<open>serve_until\<close> is the run of the listener with the select:
  \<open>Some e\<close> when the listener fails first, \<open>None\<close> when the context is done first.
\<close>

record ('w, 't) app_deps =
  ad_ReadFile :: "string \<Rightarrow> gerror + string"
  ad_key_server_URL :: string
  ad_key_server_Close :: "('w, unit) go"
  Setenv :: "string \<Rightarrow> string \<Rightarrow> ('w, gerror option) go"
  Getenv :: "string \<Rightarrow> string"
  ad_options :: "string \<Rightarrow> ('w, 't) opt_deps"
  ad_Sanitize :: "string \<Rightarrow> string"
  ad_ParseString :: "string \<Rightarrow> gerror + (string \<rightharpoonup> json)"
  serve_until :: "string \<Rightarrow> 'w shell_handler \<Rightarrow> ('w, gerror option) go"
  server_Shutdown :: "('w, gerror option) go"
  ad_serving_New :: "string \<Rightarrow> gerror option"
  ad_StartGRPC :: "'w interceptor \<Rightarrow> ('w, gerror option) go"

definition jvs_endpoint_env :: string where
  "jvs_endpoint_env = ''AUDIT_CLIENT_JUSTIFICATION_PUBLIC_KEYS_ENDPOINT''"

text \<open>A deferred call without a result: it runs after the body, also on a panic.\<close>

definition with_close :: "('w, gerror option) go \<Rightarrow> ('w, unit) go \<Rightarrow> ('w, gerror option) go" where
  "with_close body close w =
     (case body w of
        (Ret e, w1) \<Rightarrow> (case close w1 of (Ret _, w2) \<Rightarrow> (Ret e, w2) | (Panic t, w2) \<Rightarrow> (Panic t, w2))
      | (Panic s, w1) \<Rightarrow> (case close w1 of (Ret _, w2) \<Rightarrow> (Panic s, w2) | (Panic t, w2) \<Rightarrow> (Panic t, w2)))"

definition port_or_default :: "('w, 't) app_deps \<Rightarrow> string" where
  "port_or_default d = (let port = Getenv d ''PORT'' in if port = [] then ''8080'' else port)"

text \<open>Both programs start the key server, tell the options its address, and close it at the end.\<close>

definition with_key_server ::
  "('w, 't) app_deps \<Rightarrow> (('w, 't) opt_deps \<Rightarrow> ('w, gerror option) go) \<Rightarrow> ('w, gerror option) go" where
  "with_key_server d body =
     (case StartLocalPublicKeyServer (ad_ReadFile d) (ad_key_server_URL d) of
        Inl err \<Rightarrow> go_return (Some (wrapf ''failed to start local public key server'' err))
      | Inr ks \<Rightarrow>
          with_close
            (go_bind (Setenv d jvs_endpoint_env (ks_endpoint ks)) (\<lambda>err.
               case err of
                 Some e \<Rightarrow> go_return (Some (wrapf ''failed to set env'' e))
               | None \<Rightarrow> body (ad_options d (ks_endpoint ks))))
            (ad_key_server_Close d))"

definition shell_realMain :: "('w, 't) app_deps \<Rightarrow> ctx \<Rightarrow> ('w, gerror option) go" where
  "shell_realMain d c =
     with_key_server d (\<lambda>od.
       go_bind (NewClient c [FromConfigFile od []]) (\<lambda>res.
         case res of
           Inl err \<Rightarrow> go_return (Some (wrapf ''failed to init audit client'' err))
         | Inr client \<Rightarrow>
             go_bind (serve_until d ('':'' @ port_or_default d)
                 \<lparr>sh_client = Some client, Sanitize = ad_Sanitize d, ParseString = ad_ParseString d\<rparr>) (\<lambda>err.
               case err of
                 Some e \<Rightarrow> go_return (Some (wrapf ''error from server listener'' e))
               | None \<Rightarrow> go_bind (server_Shutdown d) (\<lambda>err. go_return
                   (map_option (wrapf ''failed to shutdown server'') err)))))"

text \<open>\<open>interceptor.Stop\<close> is the method of the embedded client.\<close>

definition interceptor_Stop :: "'w interceptor \<Rightarrow> ('w, gerror option) go" where
  "interceptor_Stop i = (case it_Client i of None \<Rightarrow> go_panic nil_deref | Some cl \<Rightarrow> Stop cl)"

definition grpc_realMain :: "('w, 't) app_deps \<Rightarrow> ctx \<Rightarrow> ('w, gerror option) go" where
  "grpc_realMain d c =
     with_key_server d (\<lambda>od.
       go_bind (go_log LevelDebug ''using public key endpoint'' None) (\<lambda>_.
       go_bind (NewInterceptor c [InterceptorFromConfigFile od DefaultConfigFilePath]) (\<lambda>res.
         case res of
           Inl err \<Rightarrow> go_return (Some (wrapf ''failed to setup audit interceptor'' err))
         | Inr i \<Rightarrow>
             with_defer
               (case ad_serving_New d (port_or_default d) of
                  Some err \<Rightarrow> go_return (Some (wrapf ''failed to create serving infrastructure'' err))
                | None \<Rightarrow> ad_StartGRPC d i)
               ''failed to stop interceptor'' (interceptor_Stop i))))"

text \<open>
  \<open>main\<close> of both programs: the exit status and what \<open>log.Fatal\<close> prints.  A panic ends a program with
  the status 2.  The context is done when a signal arrives.
\<close>

definition program_main :: "('w, gerror option) go \<Rightarrow> ('w, nat \<times> string) go" where
  "program_main main_body w =
     (case main_body w of
        (Ret (Some err), w1) \<Rightarrow> (Ret (1, error_text err), w1)
      | (Ret None, w1) \<Rightarrow> (Ret (0, []), w1)
      | (Panic s, w1) \<Rightarrow> (Ret (2, s), w1))"

definition shell_main :: "('w, 't) app_deps \<Rightarrow> ctx \<Rightarrow> ('w, nat \<times> string) go" where
  "shell_main d c = program_main (shell_realMain d c)"

definition grpc_main :: "('w, 't) app_deps \<Rightarrow> ctx \<Rightarrow> ('w, nat \<times> string) go" where
  "grpc_main d c = program_main (grpc_realMain d c)"

subsection \<open>Lemmas\<close>

lemma shell_email_Inr:
  "shell_email h r = Inr email \<longleftrightarrow> email \<noteq> [] \<and>
     (\<exists>token. ParseString h (idTokenFrom (Header_Get (rq_header r) ''Authorization'')) = Inr token \<and>
        token ''email'' = Some (JStr email))"
  by (auto simp: shell_email_def split: sum.splits option.splits json.splits if_splits)

lemma shell_email_Inl: "shell_email h r = Inl resp \<Longrightarrow> rs_status resp = 400"
  by (auto simp: shell_email_def http_Error_def split: sum.splits option.splits json.splits if_splits)

text \<open>The request may be logged: the trace, the email and the token are there.\<close>

definition shell_ready :: "'w shell_handler \<Rightarrow> http_request \<Rightarrow> string \<Rightarrow> string \<Rightarrow> bool" where
  "shell_ready h r email tok \<longleftrightarrow>
     Query_Get (rq_query r) traceIDKey \<noteq> [] \<and> shell_email h r = Inr email \<and>
     tok = TrimSpace (Header_Get (rq_header r) ''justification-token'') \<and> tok \<noteq> []"

abbreviation shell_submits :: "'w shell_handler \<Rightarrow> http_request \<Rightarrow> string \<Rightarrow> string \<Rightarrow> log_request" where
  "shell_submits h r email tok \<equiv>
     shell_log_request (Sanitize h (Query_Get (rq_query r) traceIDKey)) email tok"

lemma ServeHTTP_not_ready:
  assumes "\<not> (\<exists>email tok. shell_ready h r email tok)"
  shows "\<exists>resp w'. ServeHTTP h r w = (Ret resp, w') \<and> rs_status resp = 400 \<and> w_ext w' = w_ext w"
  using assms
  by (auto simp: ServeHTTP_def Let_def shell_ready_def http_Error_def split: sum.splits dest: shell_email_Inl)

lemma ServeHTTP_ready:
  assumes "shell_ready h r email tok"
  shows "\<exists>w1. w_ext w1 = w_ext w \<and> ServeHTTP h r w =
     go_bind (Log (sh_client h) (rq_ctx r) (Some (shell_submits h r email tok))) (\<lambda>(err, _).
       case err of
         Some e \<Rightarrow> go_return (http_Error (''failed to emit application audit log: '' @ error_text e) StatusInternalServerError)
       | None \<Rightarrow> go_bind (go_log LevelDebug ''finished request'' None) (\<lambda>_.
           go_return (Fprint (''Successfully emitted application audit log with trace ID '' @
             Sanitize h (Query_Get (rq_query r) traceIDKey) @ ''.'')))) w1"
proof -
  let ?d = "\<lambda>m. \<lparr>d_level = LevelDebug, d_msg = m, d_err = None\<rparr>"
  let ?w1 = "w\<lparr>w_diag := (w_diag w @ [?d ''received request'']) @ [?d ''found trace id'']\<rparr>"
  from assms have r: "Query_Get (rq_query r) traceIDKey \<noteq> []" "shell_email h r = Inr email"
    "TrimSpace (Header_Get (rq_header r) ''justification-token'') = tok" "tok \<noteq> []"
    unfolding shell_ready_def by blast+
  show ?thesis
    by (intro exI [of _ ?w1]) (simp add: ServeHTTP_def Let_def r)
qed

lemma ServeHTTP_logs:
  assumes "shell_ready h r email tok" "ServeHTTP h r w = (Ret resp, w')"
  shows "\<exists>w1 err r' w2. w_ext w1 = w_ext w \<and>
     Log (sh_client h) (rq_ctx r) (Some (shell_submits h r email tok)) w1 = (Ret (err, r'), w2) \<and>
     w_ext w' = w_ext w2 \<and> rs_status resp = (if err = None then 200 else 500)"
proof -
  from ServeHTTP_ready [OF assms(1), of w] assms(2) obtain w1 where w1: "w_ext w1 = w_ext w"
    and b: "go_bind (Log (sh_client h) (rq_ctx r) (Some (shell_submits h r email tok))) (\<lambda>(err, _).
       case err of
         Some e \<Rightarrow> go_return (http_Error (''failed to emit application audit log: '' @ error_text e) StatusInternalServerError)
       | None \<Rightarrow> go_bind (go_log LevelDebug ''finished request'' None) (\<lambda>_.
           go_return (Fprint (''Successfully emitted application audit log with trace ID '' @
             Sanitize h (Query_Get (rq_query r) traceIDKey) @ ''.'')))) w1 = (Ret resp, w')"
    by auto
  from b obtain err r' w2 where
    l: "Log (sh_client h) (rq_ctx r) (Some (shell_submits h r email tok)) w1 = (Ret (err, r'), w2)"
    by (auto elim!: go_bind_RetE)
  with b have "w_ext w' = w_ext w2 \<and> rs_status resp = (if err = None then 200 else 500)"
    by (cases err) (auto simp: go_bind_Ret http_Error_def Fprint_def)
  with w1 l show ?thesis by blast
qed

lemma shell_request_valid:
  "valid_request (shell_log_request t email tok) \<longleftrightarrow> t \<noteq> [] \<and> valid_email email"
  by (simp add: valid_request_def valid_audit_log_def valid_identity_def audit_identity_def
      shell_log_request_def shell_serviceName_def)

text \<open>The key server serves the file at the address it gives out.\<close>

lemma key_server_serves:
  "StartLocalPublicKeyServer rf url = Inr ks \<longleftrightarrow>
     (\<exists>j. rf ''test_jwks'' = Inr j \<and> ks = \<lparr>ks_endpoint = url @ ''/.well-known/jwks'',
        ks_serve = (\<lambda>p. if p = ''/.well-known/jwks'' then Fprint j
                        else http_Error ''404 page not found'' StatusNotFound)\<rparr>)"
  by (auto simp: StartLocalPublicKeyServer_def Let_def split: sum.splits)

lemma with_close_RetE:
  assumes "with_close body close w = (Ret e, w')"
  obtains w1 where "body w = (Ret e, w1)" "close w1 = (Ret (), w')"
  using assms by (auto simp: with_close_def split: prod.splits ret.splits)

lemma with_key_server_closes:
  assumes "with_key_server d body w = (Ret r, w')" "ad_ReadFile d ''test_jwks'' = Inr j"
  shows "\<exists>w1. ad_key_server_Close d w1 = (Ret (), w')"
  using assms
  by (auto simp: with_key_server_def StartLocalPublicKeyServer_def Let_def elim!: with_close_RetE)

text \<open>The gRPC program stops its interceptor after serving, and reports it if that fails.\<close>

lemma grpc_realMain_stops:
  assumes "grpc_realMain d c w = (Ret r, w')" "ad_ReadFile d ''test_jwks'' = Inr j"
    and "Setenv d jvs_endpoint_env (ad_key_server_URL d @ ''/.well-known/jwks'') w = (Ret None, w1)"
    and "NewInterceptor c [InterceptorFromConfigFile
       (ad_options d (ad_key_server_URL d @ ''/.well-known/jwks'')) DefaultConfigFilePath]
       (w1\<lparr>w_diag := w_diag w1 @ [\<lparr>d_level = LevelDebug, d_msg = ''using public key endpoint'', d_err = None\<rparr>]\<rparr>) =
         (Ret (Inr i), w2)"
  shows "\<exists>r1 w3 e w4. (case ad_serving_New d (port_or_default d) of
         Some err \<Rightarrow> go_return (Some (wrapf ''failed to create serving infrastructure'' err))
       | None \<Rightarrow> ad_StartGRPC d i) w2 = (Ret r1, w3) \<and>
     interceptor_Stop i w3 = (Ret e, w4) \<and> ad_key_server_Close d w4 = (Ret (), w') \<and>
     (r = None \<longleftrightarrow> r1 = None \<and> e = None)"
proof -
  from assms obtain w4 where
    d: "with_defer (case ad_serving_New d (port_or_default d) of
         Some err \<Rightarrow> go_return (Some (wrapf ''failed to create serving infrastructure'' err))
       | None \<Rightarrow> ad_StartGRPC d i) ''failed to stop interceptor'' (interceptor_Stop i) w2 = (Ret r, w4)"
    and c: "ad_key_server_Close d w4 = (Ret (), w')"
    by (auto simp: grpc_realMain_def with_key_server_def StartLocalPublicKeyServer_def Let_def go_bind_Ret
        elim!: with_close_RetE)
  from with_defer_None_iff [OF d] c show ?thesis by blast
qed

text \<open>The status is 0 exactly when \<open>realMain\<close> returned no error.\<close>

lemma program_main_status:
  "program_main rm w = (Ret (n, t), w') \<Longrightarrow> n = 0 \<longleftrightarrow> rm w = (Ret None, w')"
  by (auto simp: program_main_def split: prod.splits ret.splits option.splits)

end
