(* ===== verification/Talker_Client.thy ===== *)
theory Talker_Client
  imports Talker Grpc
begin

section \<open>The generated client of the talker service: internal/talkerpb/talker\_grpc.pb.go\<close>

text \<open>
  The stubs a test calls the service with, over a connection whose messages and answers are
  \<open>goval\<close>s.  A stub that returns a nil pointer or a nil stream with an error is a sum: the error,
  or the value.
\<close>

type_synonym 'w talker_cc = "('w, goval, goval) conn"
type_synonym 'w talker_stream = "('w, goval, goval) client_stream"

record 'w talkerClient =
  talker_cc :: "'w talker_cc"

definition NewTalkerClient :: "'w talker_cc \<Rightarrow> 'w talkerClient" where
  "NewTalkerClient cc = \<lparr>talker_cc = cc\<rparr>"

definition Talker_Streams :: "stream_desc list" where
  "Talker_Streams =
     [\<lparr>StreamName = ''Fibonacci'', ServerStreams = True, ClientStreams = False\<rparr>,
      \<lparr>StreamName = ''Addition'', ServerStreams = False, ClientStreams = True\<rparr>,
      \<lparr>StreamName = ''FailOnFour'', ServerStreams = False, ClientStreams = True\<rparr>]"

subsection \<open>Unary methods\<close>

definition unary_stub ::
  "string \<Rightarrow> 'w talkerClient \<Rightarrow> ctx \<Rightarrow> goval \<Rightarrow> call_option list \<Rightarrow> ('w, gerror + goval) go" where
  "unary_stub method c ctx req opts =
     go_bind (Invoke (talker_cc c) ctx method req opts) (\<lambda>res.
       case res of Inl err \<Rightarrow> go_return (Inl err) | Inr out \<Rightarrow> go_return (Inr out))"

definition client_Hello ::
  "'w talkerClient \<Rightarrow> ctx \<Rightarrow> goval \<Rightarrow> call_option list \<Rightarrow> ('w, gerror + goval) go" where
  "client_Hello = unary_stub ''/abcxyz.test.Talker/Hello''"

definition client_Whisper ::
  "'w talkerClient \<Rightarrow> ctx \<Rightarrow> goval \<Rightarrow> call_option list \<Rightarrow> ('w, gerror + goval) go" where
  "client_Whisper = unary_stub ''/abcxyz.test.Talker/Whisper''"

definition client_Bye ::
  "'w talkerClient \<Rightarrow> ctx \<Rightarrow> goval \<Rightarrow> call_option list \<Rightarrow> ('w, gerror + goval) go" where
  "client_Bye = unary_stub ''/abcxyz.test.Talker/Bye''"

definition client_Fail ::
  "'w talkerClient \<Rightarrow> ctx \<Rightarrow> goval \<Rightarrow> call_option list \<Rightarrow> ('w, gerror + goval) go" where
  "client_Fail = unary_stub ''/abcxyz.test.Talker/Fail''"

subsection \<open>Streams\<close>

definition client_Fibonacci ::
  "'w talkerClient \<Rightarrow> ctx \<Rightarrow> goval \<Rightarrow> call_option list \<Rightarrow> ('w, gerror + 'w talker_stream) go" where
  "client_Fibonacci c ctx req opts =
     go_bind (NewStream (talker_cc c) ctx (Talker_Streams ! 0) ''/abcxyz.test.Talker/Fibonacci'' opts) (\<lambda>res.
       case res of
         Inl err \<Rightarrow> go_return (Inl err)
       | Inr x \<Rightarrow>
           go_bind (cs_SendMsg x req) (\<lambda>err.
             case err of
               Some e \<Rightarrow> go_return (Inl e)
             | None \<Rightarrow>
                 go_bind (cs_CloseSend x) (\<lambda>err.
                   case err of
                     Some e \<Rightarrow> go_return (Inl e)
                   | None \<Rightarrow> go_return (Inr x))))"

definition client_Addition ::
  "'w talkerClient \<Rightarrow> ctx \<Rightarrow> call_option list \<Rightarrow> ('w, gerror + 'w talker_stream) go" where
  "client_Addition c ctx opts =
     go_bind (NewStream (talker_cc c) ctx (Talker_Streams ! 1) ''/abcxyz.test.Talker/Addition'' opts) (\<lambda>res.
       case res of Inl err \<Rightarrow> go_return (Inl err) | Inr x \<Rightarrow> go_return (Inr x))"

definition client_FailOnFour ::
  "'w talkerClient \<Rightarrow> ctx \<Rightarrow> call_option list \<Rightarrow> ('w, gerror + 'w talker_stream) go" where
  "client_FailOnFour c ctx opts =
     go_bind (NewStream (talker_cc c) ctx (Talker_Streams ! 2) ''/abcxyz.test.Talker/FailOnFour'' opts) (\<lambda>res.
       case res of Inl err \<Rightarrow> go_return (Inl err) | Inr x \<Rightarrow> go_return (Inr x))"

text \<open>
  The methods of the streams; the caller may hold a nil stream, whose methods panic.
\<close>

definition stream_Recv :: "'w talker_stream option \<Rightarrow> ('w, gerror + goval) go" where
  "stream_Recv x = (case x of None \<Rightarrow> go_panic nil_deref | Some s \<Rightarrow> cs_RecvMsg s)"

definition stream_Send :: "'w talker_stream option \<Rightarrow> goval \<Rightarrow> ('w, gerror option) go" where
  "stream_Send x m = (case x of None \<Rightarrow> go_panic nil_deref | Some s \<Rightarrow> cs_SendMsg s m)"

definition CloseAndRecv :: "'w talker_stream option \<Rightarrow> ('w, gerror + goval) go" where
  "CloseAndRecv x =
     (case x of
        None \<Rightarrow> go_panic nil_deref
      | Some s \<Rightarrow>
          go_bind (cs_CloseSend s) (\<lambda>err.
            case err of Some e \<Rightarrow> go_return (Inl e) | None \<Rightarrow> cs_RecvMsg s))"

lemma unary_stub_Invoke: "unary_stub method c ctx req opts w = Invoke (talker_cc c) ctx method req opts w"
  by (auto simp: unary_stub_def go_bind_def split: prod.splits ret.splits sum.splits)

end
