(* ===== verification/Testing.thy ===== *)
theory Testing
  imports Go_Prelude
begin

section \<open>Go's testing.TB\<close>

text \<open>
  What a test reports, and its value unless \<open>Fatalf\<close> ended it.
\<close>

type_synonym 'a tb = "string list \<times> 'a option"

definition tb_return :: "'a \<Rightarrow> 'a tb" where "tb_return a = ([], Some a)"
definition tb_Errorf :: "string \<Rightarrow> unit tb" where "tb_Errorf m = ([m], Some ())"
definition tb_Fatalf :: "string \<Rightarrow> 'a tb" where "tb_Fatalf m = ([m], None)"

definition tb_bind :: "'a tb \<Rightarrow> ('a \<Rightarrow> 'b tb) \<Rightarrow> 'b tb" where
  "tb_bind t f = (case t of (ms, None) \<Rightarrow> (ms, None) | (ms, Some a) \<Rightarrow> (ms @ fst (f a), snd (f a)))"

definition tb_check :: "bool \<Rightarrow> string \<Rightarrow> unit tb" where
  "tb_check bad m = (if bad then tb_Errorf m else tb_return ())"

definition passes :: "'a tb \<Rightarrow> bool" where "passes t \<longleftrightarrow> (\<exists>a. t = ([], Some a))"

text \<open>A test whose steps call the world; \<open>Fatalf\<close> ends it.\<close>

definition tb_then :: "('w, 'a tb) go \<Rightarrow> ('a \<Rightarrow> ('w, 'b tb) go) \<Rightarrow> ('w, 'b tb) go" where
  "tb_then m f = go_bind m (\<lambda>t.
     case snd t of
       None \<Rightarrow> go_return (fst t, None)
     | Some a \<Rightarrow> go_bind (f a) (\<lambda>u. go_return (fst t @ fst u, snd u)))"

lemma tb_bind_simps [simp]:
  "tb_bind (tb_return a) f = f a" "tb_bind (tb_Fatalf m) f = tb_Fatalf m"
  by (simp_all add: tb_bind_def tb_return_def tb_Fatalf_def)

lemma passes_simps [simp]:
  "passes (tb_return a)" "\<not> passes (tb_Fatalf m)" "\<not> passes (tb_Errorf m)"
  "passes (tb_check bad m) \<longleftrightarrow> \<not> bad"
  by (simp_all add: passes_def tb_return_def tb_Fatalf_def tb_Errorf_def tb_check_def)

lemma passes_bind_unit [simp]:
  fixes t :: "unit tb"
  shows "passes (tb_bind t f) \<longleftrightarrow> passes t \<and> passes (f ())"
  by (cases t; cases "snd t"; cases "f ()") (auto simp: passes_def tb_bind_def)

lemma tb_then_passes:
  fixes m :: "('w, unit tb) go"
  assumes "tb_then m f w = (Ret t, w')" "passes t"
  shows "\<exists>a w1 u. m w = (Ret a, w1) \<and> passes a \<and> f () w1 = (Ret u, w') \<and> passes u"
  using assms by (fastforce simp: tb_then_def passes_def elim!: go_bind_RetE split: option.splits)

end
