(* ===== verification/Testrunner.thy ===== *)
theory Testrunner
  imports Shell Talker_Client Puller Testing
begin

section \<open>The integration test runner: integration/testrunner\<close>

text \<open>
  The functions the integration tests are made of: the configuration and the justification token,
  the calls to the HTTP and gRPC test servers, and the check of the logs in BigQuery.  Parameters
  are the environment, the crypto and JWT libraries, the HTTP client, BigQuery and go-retry.
\<close>

subsection \<open>config.go\<close>

record test_config =
  AuditLogRequestTimeout :: int
  AuditLogRequestWait :: int
  HTTPEndpoints :: string
  GRPCEndpoints :: string
  LogRoutingWait :: int
  MaxAuditLogRequestTries :: nat
  MaxDBQueryTries :: nat
  JustificationSubject :: string
  IDToken :: string
  ProjectID :: string
  BigQueryDataset :: string
  PrivateKeyFilePath :: string

text \<open>\<open>Config\<close> with its parsed key, and what a test case adds.\<close>

record 'k keyed_config =
  base_config :: test_config
  PrivateKey :: "'k option"

record 'k test_case =
  tc_config :: "'k keyed_config"
  Endpoint :: string
  TraceID :: string

text \<open>
  \<open>pem.Decode\<close> gives no block (nil) when the data holds none; the code reads its bytes anyway.
\<close>

definition parsePrivateKey ::
  "(string \<Rightarrow> gerror + string) \<Rightarrow> (string \<Rightarrow> string option) \<Rightarrow> (string \<Rightarrow> gerror + 'k) \<Rightarrow> string \<Rightarrow>
     ('w, gerror + 'k) go" where
  "parsePrivateKey readFile pem_Decode ParseECPrivateKey path =
     (case readFile path of
        Inl err \<Rightarrow> go_return (Inl (wrapf (''failed to read data from key file '' @ path) err))
      | Inr b \<Rightarrow>
          (case pem_Decode b of
             None \<Rightarrow> go_panic nil_deref
           | Some bytes \<Rightarrow>
               (case ParseECPrivateKey bytes of
                  Inl err \<Rightarrow> go_return (Inl (wrapf ''failed to parse EC private key'' err))
                | Inr privateKey \<Rightarrow> go_return (Inr privateKey))))"

definition newTestConfig ::
  "(string \<Rightarrow> gerror + string) \<Rightarrow> (string \<Rightarrow> string option) \<Rightarrow> (string \<Rightarrow> gerror + 'k) \<Rightarrow>
     gerror + test_config \<Rightarrow> ('w, gerror + 'k keyed_config) go" where
  "newTestConfig readFile pem_Decode ParseECPrivateKey env =
     (case env of
        Inl err \<Rightarrow> go_return (Inl (wrapf ''failed to process environment'' err))
      | Inr c \<Rightarrow>
          go_bind (parsePrivateKey readFile pem_Decode ParseECPrivateKey (PrivateKeyFilePath c)) (\<lambda>res.
            case res of
              Inl err \<Rightarrow> go_return (Inl (wrapf ''failed to parse private key'' err))
            | Inr pk \<Rightarrow> go_return (Inr \<lparr>base_config = c, PrivateKey = Some pk\<rparr>)))"

text \<open>The token, with times in nanoseconds; building, signing and the header are the JWT library's.\<close>

record jvs_token =
  tk_Audience :: "string list"
  tk_Expiration :: int
  tk_JwtID :: string
  tk_IssuedAt :: int
  tk_Issuer :: string
  tk_NotBefore :: int
  tk_Subject :: string
  tk_justifications :: "(string \<times> string) list"

record ('w, 'k) jwt_lib =
  jl_Now :: "('w, int) go"
  jl_uuid :: "('w, string) go"
  jl_Build :: "jvs_token \<Rightarrow> gerror option"
  SetJustifications :: "jvs_token \<Rightarrow> (string \<times> string) list \<Rightarrow> gerror + jvs_token"
  headers_Set_kid :: "string \<Rightarrow> gerror option"
  jwt_Sign :: "jvs_token \<Rightarrow> 'k option \<Rightarrow> string \<Rightarrow> gerror + string"

definition hour :: int where "hour = 3600 * 10 ^ 9"

definition justification_claims :: "string \<Rightarrow> string \<Rightarrow> int \<Rightarrow> string \<Rightarrow> jvs_token" where
  "justification_claims aud subject now jti =
     \<lparr>tk_Audience = [aud], tk_Expiration = now + hour, tk_JwtID = jti, tk_IssuedAt = now,
      tk_Issuer = ''lumberjack-test-runner'', tk_NotBefore = now, tk_Subject = subject,
      tk_justifications = []\<rparr>"

definition justificationToken ::
  "('w, 'k) jwt_lib \<Rightarrow> string \<Rightarrow> string \<Rightarrow> 'k option \<Rightarrow> ('w, gerror + string) go" where
  "justificationToken j aud subject key =
     go_bind (jl_Now j) (\<lambda>now. go_bind (jl_uuid j) (\<lambda>jti.
       let token = justification_claims aud subject now jti in
       case jl_Build j token of
         Some err \<Rightarrow> go_return (Inl (wrapf ''failed to build justification token'' err))
       | None \<Rightarrow>
           (case SetJustifications j token [(''test'', ''test'')] of
              Inl err \<Rightarrow> go_return (Inl (wrapf ''failed to set justifications'' err))
            | Inr token' \<Rightarrow>
                (case headers_Set_kid j ''integ-key'' of
                   Some err \<Rightarrow> go_return (Inl (wrapf ''failed to set header'' err))
                 | None \<Rightarrow>
                     (case jwt_Sign j token' key ''integ-key'' of
                        Inl err \<Rightarrow> go_return (Inl (wrapf ''failed to sign token'' err))
                      | Inr b \<Rightarrow> go_return (Inr b))))))"

subsection \<open>db.go\<close>

record bq_query =
  q_text :: string
  q_parameter :: string

definition makeQuery :: "string \<Rightarrow> string \<Rightarrow> bq_query" where
  "makeQuery query_id queryString = \<lparr>q_text = queryString, q_parameter = query_id\<rparr>"

text \<open>
  BigQuery: run the query, wait for the job (whose status may hold an error), and read the rows,
  which come one by one until the end or an error.
\<close>

record 'w bigquery =
  bq_Run :: "bq_query \<Rightarrow> ('w, gerror option) go"
  job_Wait :: "('w, gerror + gerror option) go"
  job_Read :: "('w, gerror + string list \<times> gerror option) go"

fun read_rows :: "string list \<Rightarrow> gerror option \<Rightarrow> string list \<Rightarrow> gerror + string list" where
  "read_rows (r # rs) err entries = read_rows rs err (entries @ [r])"
| "read_rows [] None entries = Inr entries"
| "read_rows [] (Some err) entries = Inl (wrapf ''failed to get next entry'' err)"

definition run_query :: "'w bigquery \<Rightarrow> bq_query \<Rightarrow> ('w, gerror + string list) go" where
  "run_query bq q =
     go_bind (bq_Run bq q) (\<lambda>err.
       case err of
         Some e \<Rightarrow> go_return (Inl (wrapf ''failed to run query'' e))
       | None \<Rightarrow> go_bind (job_Wait bq) (\<lambda>res.
           case res of
             Inl e \<Rightarrow> go_return (Inl (wrapf ''failed to wait for query'' e))
           | Inr (Some e) \<Rightarrow> go_return (Inl (wrapf ''query failed'' e))
           | Inr None \<Rightarrow> go_bind (job_Read bq) (\<lambda>it.
               case it of
                 Inl e \<Rightarrow> go_return (Inl (wrapf ''failed to read query result'' e))
               | Inr (rows, final) \<Rightarrow> go_return (read_rows rows final []))))"

text \<open>An attempt: it succeeds when there are enough rows, and keeps them.\<close>

definition query_attempt :: "'w bigquery \<Rightarrow> bq_query \<Rightarrow> nat \<Rightarrow> ('w, string list) attempt_fun" where
  "query_attempt bq q wantNum results =
     go_bind (run_query bq q) (\<lambda>res.
       case res of
         Inl err \<Rightarrow> go_return (Retryable (wrapf ''failed to execute query'' err), results)
       | Inr entries \<Rightarrow>
           if length entries \<ge> wantNum then go_return (AttemptOk, entries)
           else go_return (Retryable (errorf (''not enough entries (got '' @ show_nat (length entries) @
                  '', want '' @ show_nat wantNum @ '')'')), results))"

text \<open>
  A log entry as the query returns it, and the libraries that read it: \<open>protojson\<close> for the row and
  the payload, \<open>net/mail\<close> for the email.
\<close>

record bq_entry =
  be_logName :: string
  be_timestamp :: "timestamp option"
  be_jsonPayload :: "pstruct option"

record entry_lib =
  el_unmarshal :: "string \<Rightarrow> gerror + bq_entry"
  el_MarshalJSON :: "pstruct option \<Rightarrow> gerror + string"
  el_unmarshal_audit :: "string \<Rightarrow> gerror + audit_log"
  ParseAddress :: "string \<Rightarrow> gerror + string"

definition isValidEmail :: "entry_lib \<Rightarrow> string \<Rightarrow> bool" where
  "isValidEmail el email =
     (if email = [] then False
      else case ParseAddress el email of Inl err \<Rightarrow> False | Inr _ \<Rightarrow> True)"

definition parseJSONPayload :: "entry_lib \<Rightarrow> bq_entry \<Rightarrow> gerror + audit_log" where
  "parseJSONPayload el logEntry =
     (case el_MarshalJSON el (be_jsonPayload logEntry) of
        Inl err \<Rightarrow> Inl (wrapf ''error marshaling *structpb.Struct to json'' err)
      | Inr jsonPayloadBytes \<Rightarrow>
          (case el_unmarshal_audit el jsonPayloadBytes of
             Inl err \<Rightarrow> Inl (wrapf (''error parsing json '' @ jsonPayloadBytes @ '' to AuditLog'') err)
           | Inr auditLog \<Rightarrow> Inr auditLog))"

text \<open>
  The value of \<open>AsMap\<close> at the key; \<open>json.Marshal\<close> takes every value that can be there, and gives
  \<open>null\<close> for the null value only.
\<close>

definition no_justification :: string where
  "no_justification =
     ''queryResult field jsonPayload.metadata.justification doesn'' @ [CHR 0x27] @ ''t exist''"

definition checkJustification :: "audit_log \<Rightarrow> unit tb" where
  "checkJustification a =
     (case GetFields (metadata a) of
        None \<Rightarrow> tb_Fatalf no_justification
      | Some fm \<Rightarrow>
          (case fm ''justification'' of
             None \<Rightarrow> tb_Fatalf no_justification
           | Some v \<Rightarrow> tb_check (value_json v = JNull)
               ''queryResult field jsonPayload.metadata.justification is blank''))"

definition diffLogEntry :: "entry_lib \<Rightarrow> bq_entry \<Rightarrow> unit tb" where
  "diffLogEntry el logEntry =
     (case parseJSONPayload el logEntry of
        Inl err \<Rightarrow> tb_Fatalf (''failed to get jsonPayload from logEntry: '' @ error_text err)
      | Inr a \<Rightarrow>
          let email = GetPrincipalEmail (authentication a) in
          tb_bind (tb_check (be_logName logEntry = []) ''queryResult field logName is blank'') (\<lambda>_.
          tb_bind (tb_check (be_timestamp logEntry = None) ''queryResult field timestamp is blank'') (\<lambda>_.
          tb_bind (tb_check (\<not> isValidEmail el email)
            (''queryResult field jsonPayload.authentication_info.principal_email is invalid, got '' @ email)) (\<lambda>_.
          tb_bind (tb_check (service_name a = []) ''queryResult field jsonPayload.service_name is blank'') (\<lambda>_.
          tb_bind (tb_check (method_name a = []) ''queryResult field jsonPayload.method_name is blank'') (\<lambda>_.
          checkJustification a))))))"

fun check_rows :: "entry_lib \<Rightarrow> nat \<Rightarrow> string list \<Rightarrow> unit tb" where
  "check_rows el i [] = tb_return ()"
| "check_rows el i (r # rs) =
     (case el_unmarshal el r of
        Inl err \<Rightarrow> tb_Fatalf (''unmarshal BigQuery row['' @ show_nat i @ ''] to LogEntry failed: '' @ error_text err)
      | Inr logEntry \<Rightarrow> tb_bind (diffLogEntry el logEntry) (\<lambda>_. check_rows el (i + 1) rs))"

text \<open>\<open>backoff\<close> is made of the configured tries and wait.\<close>

definition validateAuditLogsWithRetries ::
  "('w, string list, nat \<times> int) retry_do \<Rightarrow> 'w bigquery \<Rightarrow> entry_lib \<Rightarrow> test_config \<Rightarrow> bq_query \<Rightarrow> nat \<Rightarrow>
     ('w, unit tb) go" where
  "validateAuditLogsWithRetries retry_Do bq el cfg q wantNum =
     go_bind (retry_Do (MaxDBQueryTries cfg, LogRoutingWait cfg) (query_attempt bq q wantNum) [])
       (\<lambda>(err, results). go_return
          (case err of
             Some e \<Rightarrow> tb_Fatalf (''BigQuery query failed: '' @ error_text e)
           | None \<Rightarrow> check_rows el 0 results))"

subsection \<open>http.go\<close>

text \<open>
  \<open>NewRequest\<close> gives the query values of the endpoint's URL; \<open>http_Do\<close> runs a request under a
  timeout; \<open>ReadBody\<close> reads what \<open>LimitReader\<close> lets through.  Closing the body is left out.
\<close>

record ('w, 'k) http_lib =
  hl_jwt :: "('w, 'k) jwt_lib"
  background :: ctx
  NewRequest :: "string \<Rightarrow> gerror + (string \<times> string) list"
  http_Do :: "int \<Rightarrow> http_request \<Rightarrow> ('w, gerror + http_response) go"
  ReadBody :: "http_response \<Rightarrow> ('w, gerror + string) go"

definition line_feed :: string where "line_feed = [CHR 0x0A, CHR 0x09]"

definition trace_query :: "string \<Rightarrow> test_config \<Rightarrow> string" where
  "trace_query cond cfg =
     ''WITH temptable AS ('' @ line_feed @ [CHR 0x09] @ ''SELECT *'' @ line_feed @ [CHR 0x09] @ ''FROM `'' @
     ProjectID cfg @ ''.'' @ BigQueryDataset cfg @ ''`'' @ line_feed @ [CHR 0x09] @ ''WHERE '' @ cond @ '' = ?'' @
     [CHR 0x0A] @ '' '' @ [CHR 0x09] @ '')'' @ [CHR 0x0A] @ '' '' @ [CHR 0x09] @
     ''SELECT TO_JSON(t) AS result FROM temptable AS t'' @ [CHR 0x0A]"

definition makeQueryForHTTP :: "'k test_case \<Rightarrow> bq_query" where
  "makeQueryForHTTP tc = makeQuery (TraceID tc)
     (trace_query ''labels.trace_id'' (base_config (tc_config tc)) @ [CHR 0x09])"

definition http_audit_request :: "ctx \<Rightarrow> (string \<times> string) list \<Rightarrow> string \<Rightarrow> string \<Rightarrow> string \<Rightarrow> http_request" where
  "http_audit_request c q signedToken idToken traceID =
     \<lparr>rq_ctx = c,
      rq_header = [(''justification-token'', signedToken), (''Authorization'', ''Bearer '' @ idToken)],
      rq_query = q @ [(''trace_id'', traceID)]\<rparr>"

definition makeHTTPAuditLogRequest ::
  "('w, 'k) http_lib \<Rightarrow> 'k test_case \<Rightarrow> ('w, gerror + http_response) go" where
  "makeHTTPAuditLogRequest hl tc =
     (let cfg = base_config (tc_config tc) in
      case NewRequest hl (Endpoint tc) of
        Inl err \<Rightarrow> go_return (Inl (wrapf ''failed to create audit log http request'' err))
      | Inr q \<Rightarrow>
          go_bind (justificationToken (hl_jwt hl) ''logging-shell'' (JustificationSubject cfg)
              (PrivateKey (tc_config tc))) (\<lambda>res.
            case res of
              Inl err \<Rightarrow> go_return (Inl (wrapf (''couldn'' @ [CHR 0x27] @ ''t generate justification token'') err))
            | Inr signedToken \<Rightarrow>
                go_bind (http_Do hl (AuditLogRequestTimeout cfg)
                    (http_audit_request (background hl) q signedToken (IDToken cfg) (TraceID tc)))
                  (\<lambda>res. go_return
                     (case res of
                        Inl err \<Rightarrow> Inl (wrapf ''failed to execute audit log request'' err)
                      | Inr resp \<Rightarrow> Inr resp))))"

text \<open>An attempt ends with no error, one that is retried, or one that is not.\<close>

datatype http_attempt = HttpOk | HttpRetry gerror | HttpStop gerror

definition http_attempt_once :: "('w, 'k) http_lib \<Rightarrow> 'k test_case \<Rightarrow> ('w, http_attempt) go" where
  "http_attempt_once hl tc =
     go_bind (makeHTTPAuditLogRequest hl tc) (\<lambda>res.
       case res of
         Inl err \<Rightarrow> go_return (HttpStop (wrapf ''failed to make audit log request'' err))
       | Inr resp \<Rightarrow>
           if rs_status resp = StatusOK then go_return HttpOk
           else go_bind (ReadBody hl resp) (\<lambda>b. go_return
             (case b of
                Inl err \<Rightarrow> HttpRetry (wrapf ''failed to read response body'' err)
              | Inr _ \<Rightarrow> HttpRetry (errorf ''audit logging failed, retrying''))))"

text \<open>The result of \<open>testHTTPEndpoint\<close>: the trace ID is new, and is used in the request and the query.\<close>

definition testHTTPEndpoint ::
  "(nat \<times> int \<Rightarrow> ('w, http_attempt) go \<Rightarrow> ('w, gerror option) go) \<Rightarrow>
     ('w, string list, nat \<times> int) retry_do \<Rightarrow> ('w, 'k) http_lib \<Rightarrow> 'w bigquery \<Rightarrow> entry_lib \<Rightarrow>
     'k test_case \<Rightarrow> ('w, unit tb) go" where
  "testHTTPEndpoint retry_http retry_Do hl bq el tc0 =
     go_bind (jl_uuid (hl_jwt hl)) (\<lambda>u.
       let tc = tc0\<lparr>TraceID := u\<rparr>; cfg = base_config (tc_config tc) in
       tb_then
         (go_bind (retry_http (MaxAuditLogRequestTries cfg, AuditLogRequestWait cfg) (http_attempt_once hl tc))
            (\<lambda>err. go_return (case err of Some e \<Rightarrow> tb_Fatalf (error_text e) | None \<Rightarrow> tb_return ())))
         (\<lambda>_. validateAuditLogsWithRetries retry_Do bq el cfg (makeQueryForHTTP tc) 1))"

subsection \<open>grpc.go\<close>

definition TrimPrefix :: "string \<Rightarrow> string \<Rightarrow> string" where
  "TrimPrefix s p = (if HasPrefix s p then drop (length p) s else s)"

definition createConnection ::
  "gerror + 'pool \<Rightarrow> ('pool \<Rightarrow> string \<Rightarrow> string \<Rightarrow> gerror + 'conn) \<Rightarrow> string \<Rightarrow> string \<Rightarrow> 'conn tb" where
  "createConnection systemPool newConn addr idToken =
     (case systemPool of
        Inl err \<Rightarrow> tb_Fatalf (''failed to load system cert pool: '' @ error_text err)
      | Inr pool \<Rightarrow>
          (case newConn pool idToken (TrimPrefix addr ''https://'' @ '':443'') of
             Inl err \<Rightarrow> tb_Fatalf (''did not connect: '' @ error_text err)
           | Inr conn \<Rightarrow> tb_return conn))"

definition makeQueryForGRPC :: "'k test_case \<Rightarrow> bq_query" where
  "makeQueryForGRPC tc = makeQuery (TraceID tc)
     (trace_query ''jsonPayload.resource_name'' (base_config (tc_config tc)) @ '' '' @ [CHR 0x09])"

text \<open>
  What a test reports for the error of a call that is to succeed, and for one that is to fail with
  a code; \<open>status.FromError\<close> of an error that is no status gives the code \<open>Unknown\<close>, which is 2.
\<close>

definition expect_no_error :: "string \<Rightarrow> gerror option \<Rightarrow> unit tb" where
  "expect_no_error m err = (case err of Some e \<Rightarrow> tb_Errorf (m @ error_text e) | None \<Rightarrow> tb_return ())"

definition call_error :: "gerror + 'a \<Rightarrow> gerror option" where
  "call_error res = (case res of Inl e \<Rightarrow> Some e | Inr _ \<Rightarrow> None)"

definition call_value :: "gerror + 'a \<Rightarrow> 'a option" where
  "call_value res = (case res of Inl _ \<Rightarrow> None | Inr a \<Rightarrow> Some a)"

definition expect_code :: "(gerror \<Rightarrow> rpc_status option) \<Rightarrow> nat \<Rightarrow> gerror option \<Rightarrow> unit tb" where
  "expect_code status_FromErr want err =
     (case err of
        None \<Rightarrow> tb_Errorf ''Did not get err as expected. Instead got reply''
      | Some e \<Rightarrow>
          let ok = status_FromErr e \<noteq> None; code = (case status_FromErr e of Some s \<Rightarrow> st_code s | None \<Rightarrow> 2) in
          tb_bind (tb_check (\<not> ok) (''Could not convert err to status '' @ error_text e)) (\<lambda>_.
            tb_check (code \<noteq> want) (''Got unexpected Err. Got code '' @ show_nat code @
              '' but expected '' @ show_nat want)))"

text \<open>The BigQuery client of a test (db.go), with the cleanup that runs when the test ends.\<close>

definition makeBigQueryClient ::
  "(string \<Rightarrow> gerror + 'c) \<Rightarrow> ('c \<Rightarrow> ('w, gerror option) go) \<Rightarrow> string \<Rightarrow> ('c \<times> ('w, unit tb) go) tb" where
  "makeBigQueryClient NewBigQuery Close projectID =
     (case NewBigQuery projectID of
        Inl err \<Rightarrow> tb_Fatalf (error_text err)
      | Inr client \<Rightarrow> tb_return (client, go_bind (Close client) (\<lambda>err. go_return
          (expect_no_error ''failed to close the biquery client: '' err))))"

text \<open>
  A subtest runs on a copy of the test case with a trace ID of its own, and ends with the check of
  the logs.  The context \<open>c\<close> has the token in its outgoing metadata.  A test whose loop need not end
  gives \<open>None\<close> when it does not.
\<close>

record ('w, 'k) grpc_lib =
  gl_jwt :: "('w, 'k) jwt_lib"
  gl_status_FromError :: "gerror \<Rightarrow> rpc_status option"
  gl_retry :: "('w, string list, nat \<times> int) retry_do"
  gl_bigquery :: "'w bigquery"
  gl_entries :: entry_lib

type_synonym ('w, 'k) subtest = "'w talkerClient \<Rightarrow> ctx \<Rightarrow> 'k test_case \<Rightarrow> ('w, unit tb) may_diverge"

definition tb_seq ::
  "('w, 'a tb) may_diverge \<Rightarrow> ('a \<Rightarrow> ('w, 'b tb) may_diverge) \<Rightarrow> ('w, 'b tb) may_diverge" where
  "tb_seq m f = dv_bind m (\<lambda>t.
     case snd t of
       None \<Rightarrow> dv_of (go_return (fst t, None))
     | Some a \<Rightarrow> dv_bind (f a) (\<lambda>u. dv_of (go_return (fst t @ fst u, snd u))))"

definition with_trace :: "('w, 'k) grpc_lib \<Rightarrow> 'k test_case \<Rightarrow> ('k test_case \<Rightarrow> ('w, unit tb) may_diverge) \<Rightarrow>
    ('w, unit tb) may_diverge" where
  "with_trace L tc body = dv_bind (dv_of (jl_uuid (gl_jwt L))) (\<lambda>u. body (tc\<lparr>TraceID := u\<rparr>))"

definition then_validate ::
  "('w, 'k) grpc_lib \<Rightarrow> 'k test_case \<Rightarrow> nat \<Rightarrow> ('w, unit tb) may_diverge \<Rightarrow> ('w, unit tb) may_diverge" where
  "then_validate L tc wantNum m = tb_seq m (\<lambda>_.
     dv_of (validateAuditLogsWithRetries (gl_retry L) (gl_bigquery L) (gl_entries L)
       (base_config (tc_config tc)) (makeQueryForGRPC tc) wantNum))"

definition hello_subtest :: "('w, 'k) grpc_lib \<Rightarrow> ('w, 'k) subtest" where
  "hello_subtest L client c tc0 = with_trace L tc0 (\<lambda>tc. then_validate L tc 1
     (dv_of (go_bind (client_Hello client c (HelloRequest (TraceID tc) ''Some Message'') []) (\<lambda>res.
        go_return (expect_no_error ''could not greet: '' (call_error res))))))"

definition fail_subtest :: "('w, 'k) grpc_lib \<Rightarrow> ('w, 'k) subtest" where
  "fail_subtest L client c tc0 = with_trace L tc0 (\<lambda>tc. then_validate L tc 1
     (dv_of (go_bind (client_Fail client c (FailRequest (TraceID tc) ''Some Message'') []) (\<lambda>res.
        go_return (expect_code (gl_status_FromError L) code_ResourceExhausted (call_error res))))))"

text \<open>
  Opening a stream: \<open>Errorf\<close> does not end the test, so it goes on with a nil stream.  The loop that
  reads the Fibonacci numbers ends at the end of the stream or with another error.
\<close>

definition open_stream ::
  "string \<Rightarrow> ('w, gerror + 'w talker_stream) go \<Rightarrow> ('w, 'w talker_stream option tb) may_diverge" where
  "open_stream m call = dv_of (go_bind call (\<lambda>res. go_return
     (tb_bind (expect_no_error m (call_error res)) (\<lambda>_. tb_return (call_value res)))))"

partial_function (option) read_stream ::
  "'w talker_stream option \<Rightarrow> 'w world \<Rightarrow> (unit tb ret \<times> 'w world) option" where
  "read_stream stream w =
     (case stream_Recv stream w of
        (Panic s, w1) \<Rightarrow> Some (Panic s, w1)
      | (Ret (Inl err), w1) \<Rightarrow>
          if errors_is err io_EOF then Some (Ret (tb_return ()), w1)
          else Some (Ret (tb_Errorf (''failed to read fibonacci stream: '' @ error_text err)), w1)
      | (Ret (Inr place), w1) \<Rightarrow> read_stream stream w1)"

definition fibonacci_subtest :: "('w, 'k) grpc_lib \<Rightarrow> ('w, 'k) subtest" where
  "fibonacci_subtest L client c tc0 = with_trace L tc0 (\<lambda>tc.
     let places = 5 in then_validate L tc places
     (tb_seq (open_stream ''fibonacci call failed: ''
         (client_Fibonacci client c (FibonacciRequest (of_nat places) (TraceID tc)) []))
       read_stream))"

fun send_all :: "'w talker_stream option \<Rightarrow> goval list \<Rightarrow> ('w, unit tb) go" where
  "send_all stream [] = go_return (tb_return ())"
| "send_all stream (m # ms) =
     tb_then (go_bind (stream_Send stream m) (\<lambda>err. go_return
         (expect_no_error ''sending value to addition failed: '' err)))
       (\<lambda>_. send_all stream ms)"

definition addition_subtest :: "('w, 'k) grpc_lib \<Rightarrow> ('w, 'k) subtest" where
  "addition_subtest L client c tc0 = with_trace L tc0 (\<lambda>tc.
     tb_seq (open_stream ''addition call failed: '' (client_Addition client c [])) (\<lambda>stream.
       let totalNumbers = 5 in then_validate L tc totalNumbers
         (tb_seq (dv_of (send_all stream
             (map (\<lambda>i. AdditionRequest (of_nat i) (TraceID tc)) [0..<totalNumbers]))) (\<lambda>_.
           dv_of (go_bind (CloseAndRecv stream) (\<lambda>res. go_return
             (expect_no_error ''failed getting result from addition: '' (call_error res))))))))"

definition fail_on_four_subtest :: "('w, 'k) grpc_lib \<Rightarrow> ('w, 'k) subtest" where
  "fail_on_four_subtest L client c tc0 = with_trace L tc0 (\<lambda>tc.
     tb_seq (open_stream ''addition call failed: '' (client_FailOnFour client c [])) (\<lambda>stream.
       let totalNumbers = 5 in then_validate L tc 4
         (tb_seq (dv_of (send_all stream
             (map (\<lambda>i. FailOnFourRequest (TraceID tc) (of_nat i)) [1..<totalNumbers + 1]))) (\<lambda>_.
           dv_of (go_bind (CloseAndRecv stream) (\<lambda>res. go_return
             (expect_code (gl_status_FromError L) code_InvalidArgument (call_error res))))))))"

definition grpc_subtests :: "('w, 'k) grpc_lib \<Rightarrow> (string \<times> ('w, 'k) subtest) list" where
  "grpc_subtests L =
     [(''hello_req_unary_success'', hello_subtest L),
      (''fail_req_unary_failure'', fail_subtest L),
      (''fibonacci_req_server_streaming_success'', fibonacci_subtest L),
      (''addition_req_client_streaming_success'', addition_subtest L),
      (''fail_on_four_req_client_stream_failure'', fail_on_four_subtest L)]"

text \<open>
  The test itself: a client is made unless the test case has one, over a connection that is closed
  when the test ends (the second result).  Then the subtests get the client and the context with
  the token, which replaces one that the context has already.
\<close>

definition testGRPCEndpoint ::
  "('w, 'k) grpc_lib \<Rightarrow> 'w talkerClient option \<Rightarrow> 'w talker_cc tb \<Rightarrow> ctx \<Rightarrow> 'k test_case \<Rightarrow>
     ('w, (string \<times> ('w, unit tb) may_diverge) list tb \<times> ('w, gerror option) go list) go" where
  "testGRPCEndpoint L TalkerClient createConn c tc =
     (let opened = (case TalkerClient of Some _ \<Rightarrow> None | None \<Rightarrow> Some createConn);
          cleanups = (case opened of Some (ms, Some conn) \<Rightarrow> [conn_Close conn] | _ \<Rightarrow> []);
          client = (case TalkerClient of
             Some cl \<Rightarrow> tb_return cl
           | None \<Rightarrow> tb_bind createConn (\<lambda>conn. tb_return (NewTalkerClient conn)))
      in go_bind
        (tb_then (go_return client) (\<lambda>cl.
          go_bind (justificationToken (gl_jwt L) ''talker-app'' (JustificationSubject (base_config (tc_config tc)))
              (PrivateKey (tc_config tc))) (\<lambda>res. go_return
            (case res of
               Inl err \<Rightarrow> tb_Fatalf (''couldn'' @ [CHR 0x27] @ ''t generate justification token: '' @ error_text err)
             | Inr signedToken \<Rightarrow>
                 let c' = set_outgoing c ''justification-token'' signedToken
                 in tb_return (map (\<lambda>(n, s). (n, s cl c' tc)) (grpc_subtests L))))))
        (\<lambda>t. go_return (t, cleanups)))"

subsection \<open>Lemmas: the checks on the logs\<close>

lemma checkJustification_passes:
  "passes (checkJustification a) \<longleftrightarrow>
     (\<exists>fm v. GetFields (metadata a) = Some fm \<and> fm ''justification'' = Some v \<and> v \<noteq> NullValue)"
proof -
  have "value_json v = JNull \<longleftrightarrow> v = NullValue" for v by (cases v) (auto split: option.splits)
  then show ?thesis by (auto simp: checkJustification_def split: option.splits)
qed

lemma diffLogEntry_passes:
  "passes (diffLogEntry el le) \<longleftrightarrow>
     (\<exists>a. parseJSONPayload el le = Inr a \<and> be_logName le \<noteq> [] \<and> be_timestamp le \<noteq> None \<and>
        isValidEmail el (GetPrincipalEmail (authentication a)) \<and> service_name a \<noteq> [] \<and> method_name a \<noteq> [] \<and>
        passes (checkJustification a))"
  by (auto simp: diffLogEntry_def Let_def split: sum.splits)

lemma check_rows_passes:
  "passes (check_rows el i rs) \<longleftrightarrow> (\<forall>r \<in> set rs. \<exists>le. el_unmarshal el r = Inr le \<and> passes (diffLogEntry el le))"
  by (induction rs arbitrary: i) (auto split: sum.splits)

text \<open>A passing check read enough rows in its last attempt, and they are all good.\<close>

lemma query_attempts_enough:
  assumes "attempts (query_attempt bq q n) s w a s' w'" "a = AttemptOk"
  shows "n \<le> length s' \<and> (\<exists>v v'. run_query bq q v = (Ret (Inr s'), v'))"
  using assms
  by (induction rule: attempts.induct)
    (fastforce simp: query_attempt_def elim!: go_bind_RetE split: sum.splits if_splits)+

lemma validate_passes:
  assumes "validateAuditLogsWithRetries R bq el cfg q n w = (Ret t, w')" "passes t" "obeys_retry R"
  shows "\<exists>rows v v'. run_query bq q v = (Ret (Inr rows), v') \<and> n \<le> length rows \<and>
     (\<forall>r \<in> set rows. \<exists>le. el_unmarshal el r = Inr le \<and> passes (diffLogEntry el le))"
proof -
  from assms(1,2) obtain rows w1 where
    r: "R (MaxDBQueryTries cfg, LogRoutingWait cfg) (query_attempt bq q n) [] w = (Ret (None, rows), w1)"
    and p: "passes (check_rows el 0 rows)"
    by (auto simp: validateAuditLogsWithRetries_def elim!: go_bind_RetE split: option.splits)
  from r assms(3) have "attempts (query_attempt bq q n) [] w AttemptOk rows w1"
    unfolding obeys_retry_def by blast
  from query_attempts_enough [OF this refl] p show ?thesis by (auto simp: check_rows_passes)
qed

subsection \<open>Lemmas: the requests\<close>

lemma parsePrivateKey_panics:
  "parsePrivateKey rf pem pk path w = (Panic s, w') \<longleftrightarrow>
     s = nil_deref \<and> w' = w \<and> (\<exists>b. rf path = Inr b \<and> pem b = None)"
  by (auto simp: parsePrivateKey_def split: sum.splits option.splits)

lemma justification_token_window:
  "justificationToken j aud sub key w = (Ret (Inr b), w') \<Longrightarrow>
     \<exists>now jti w1 t. jl_Now j w = (Ret now, w1) \<and>
       SetJustifications j (justification_claims aud sub now jti) [(''test'', ''test'')] = Inr t \<and>
       jwt_Sign j t key ''integ-key'' = Inr b"
  by (fastforce simp: justificationToken_def Let_def elim!: go_bind_RetE split: option.splits sum.splits)

lemma TrimSpace_blank: "\<forall>c \<in> set t. is_space c \<Longrightarrow> TrimSpace t = []"
proof -
  assume "\<forall>c \<in> set t. is_space c"
  then have "dropWhile is_space t = []" unfolding dropWhile_eq_Nil_conv .
  then show ?thesis unfolding TrimSpace_def by (simp only: rev.simps dropWhile.simps)
qed

lemma TrimSpace_idem_right: "TrimSpace (rev (dropWhile is_space (rev t))) = TrimSpace t"
proof -
  define a where "a = rev (takeWhile is_space (rev t))"
  define b where "b = rev (dropWhile is_space (rev t))"
  have t: "t = b @ a" unfolding a_def b_def
    by (metis rev_append rev_rev_ident takeWhile_dropWhile_id)
  have sp: "\<forall>c \<in> set a. is_space c" unfolding a_def using set_takeWhileD by fastforce
  have d: "dropWhile is_space (rev (x @ a)) = dropWhile is_space (rev x)" for x
    unfolding rev_append by (rule dropWhile_append2) (use sp in auto)
  show ?thesis unfolding b_def [symmetric]
  proof (cases "\<forall>c \<in> set b. is_space c")
    case True
    with sp t have "\<forall>c \<in> set t. is_space c" by auto
    with True show "TrimSpace b = TrimSpace t" by (simp add: TrimSpace_blank)
  next
    case False
    then obtain c where "c \<in> set b" "\<not> is_space c" by blast
    then have "dropWhile is_space t = dropWhile is_space b @ a"
      unfolding t by (rule dropWhile_append1)
    then show "TrimSpace b = TrimSpace t" unfolding TrimSpace_def by (simp only: d)
  qed
qed

lemma bearer_lower: "ToLower ''Bearer '' = ToLower ''bearer ''"
  by code_simp

lemma idTokenFrom_bearer: "idTokenFrom (''Bearer '' @ t) = TrimSpace t"
proof (cases "\<forall>c \<in> set t. is_space c")
  case True
  then have "dropWhile is_space (rev t @ x) = dropWhile is_space x" for x
    by (intro dropWhile_append2) auto
  then have "TrimSpace (''Bearer '' @ t) = ''Bearer''" by (simp add: TrimSpace_def is_space_def)
  then show ?thesis unfolding idTokenFrom_def Let_def TrimSpace_blank [OF True] by simp
next
  case False
  then have "dropWhile is_space (rev t @ x) = dropWhile is_space (rev t) @ x" for x
    by (auto simp: dropWhile_append1)
  then have "TrimSpace (''Bearer '' @ t) = ''Bearer '' @ rev (dropWhile is_space (rev t))"
    by (simp add: TrimSpace_def is_space_def)
  then show ?thesis
    unfolding idTokenFrom_def Let_def TrimSpace_idem_right [of t, symmetric] by (simp add: bearer_lower)
qed

lemma Query_Get_append: "k \<notin> fst ` set q \<Longrightarrow> Query_Get (q @ [(k, v)]) k = v"
  by (auto simp: Query_Get_def map_add_def simp flip: map_of_eq_None_iff split: option.splits)

lemma http_request_fields:
  "Header_Get (rq_header (http_audit_request c q tok idt u)) ''justification-token'' = tok"
  "Header_Get (rq_header (http_audit_request c q tok idt u)) ''Authorization'' = ''Bearer '' @ idt"
  by (simp_all add: Header_Get_def http_audit_request_def ToLower_def ascii_lower_def)

text \<open>The test's request, at the shell server, is one the server logs.\<close>

lemma http_request_ready:
  assumes "''trace_id'' \<notin> fst ` set q" "u \<noteq> []" "TrimSpace tok \<noteq> []"
    and "ParseString h (TrimSpace idt) = Inr claims" "claims ''email'' = Some (JStr email)" "email \<noteq> []"
  shows "shell_ready h (http_audit_request c q tok idt u) email (TrimSpace tok) \<and>
     Query_Get (rq_query (http_audit_request c q tok idt u)) traceIDKey = u"
proof -
  have "Query_Get (rq_query (http_audit_request c q tok idt u)) traceIDKey = u"
    using Query_Get_append [OF assms(1)] by (simp add: http_audit_request_def traceIDKey_def)
  then show ?thesis
    unfolding shell_ready_def shell_email_Inr http_request_fields idTokenFrom_bearer
    using assms(2-6) by simp
qed

end
