(* ===== verification/Test_Log.thy ===== *)
theory Test_Log
  imports Talker_Log Testrunner
begin

section \<open>What the integration test finds\<close>

text \<open>
  The integration test of the gRPC service against the model of that service: each call of a
  subtest leaves as many logs with its trace ID as resource name as the subtest asks for, and the
  check of the logs accepts them.
\<close>

definition named :: "string \<Rightarrow> log_request \<Rightarrow> bool" where
  "named t q \<longleftrightarrow> (\<exists>a. payload q = Some a \<and> resource_name a = t)"

lemma named_kept: "keeps_messages g \<Longrightarrow> named t q \<Longrightarrow> named t (g q)"
  unfolding named_def by (metis keeps_messagesD audit_core_eqD(3))

lemma named_entry [simp]: "named t (entry_request (b, lr, rs)) = named t b"
  by (cases "payload b"; cases lr; cases rs)
    (simp_all add: named_def entry_request_def put_request_def put_response_def)

lemma named_set_resource [simp]: "named t (set_resource s b) \<longleftrightarrow> payload b \<noteq> None \<and> s = t"
  by (cases "payload b") (auto simp: named_def set_resource_def)

lemma named_error_status [simp]: "named t (error_status env e q) = named t q"
  by (cases "payload q") (simp_all add: named_def error_status_def)

lemma payload_set_resource [simp]: "payload (set_resource t b) = None \<longleftrightarrow> payload b = None"
  by (simp add: set_resource_def)

lemma completable_payload: "completable v b \<Longrightarrow> payload b \<noteq> None"
  by (auto simp: completable_def blank_def)

text \<open>A log of a call for the target \<open>t\<close>, as it is given to the client, and as it is stored.\<close>

definition log_for :: "'w views \<Rightarrow> string \<Rightarrow> log_request \<Rightarrow> bool" where
  "log_for v t q \<longleftrightarrow> storable v q \<and> named t q"

definition stored_for :: "'w views \<Rightarrow> (log_request \<Rightarrow> log_request) \<Rightarrow> string \<Rightarrow> log_request \<Rightarrow> bool" where
  "stored_for v g t q' \<longleftrightarrow> (\<exists>q. q' = g q \<and> log_for v t q)"

lemma log_for_entry [simp]: "log_for v t (entry_request (b, lr, rs)) = log_for v t b"
  by (simp add: log_for_def storable_entry_request)

lemma log_for_error [simp]: "log_for v t (error_status env e q) = log_for v t q"
  by (simp add: log_for_def storable_error_status)

lemma log_for_completed: "completable v b \<Longrightarrow> t \<noteq> [] \<Longrightarrow> log_for v t (set_resource t b)"
  by (simp add: log_for_def completable_valid completable_payload)

lemma stored_for_named: "keeps_messages g \<Longrightarrow> stored_for v g t q \<Longrightarrow> named t q"
  by (auto simp: stored_for_def log_for_def named_kept)

subsection \<open>Every log of a stream call names its target\<close>

lemma recv_entries_for:
  assumes "completable v b" "t \<noteq> []" "p = None \<or> log_for v t b" "\<forall>m \<in> set ms. GetTarget m = t"
  shows "\<forall>e \<in> set (stream_entries r b p (recv_events ms)). log_for v t (entry_request e)"
  using assms
proof (induction ms arbitrary: b p)
  case (Cons m ms)
  from Cons.prems have "\<forall>e \<in> set (stream_entries r (set_resource t b) (Some m) (recv_events ms)). log_for v t (entry_request e)"
    by (intro Cons.IH) (simp_all add: log_for_completed)
  with Cons.prems show ?case by auto
qed simp

lemma sent_entries_for:
  "log_for v t b \<Longrightarrow> \<forall>e \<in> set (stream_entries r b p (map (Sent \<circ> f) ks)). log_for v t (entry_request e)"
  by (induction ks arbitrary: p) simp_all

lemma call_log_for:
  assumes "completable v b" "t \<noteq> []" "\<forall>m \<in> set ms. GetTarget m = t" "ks = [] \<or> ms \<noteq> []"
  shows "\<forall>q \<in> set (call_log g r b (recv_events ms @ map (Sent \<circ> f) ks)). stored_for v g t q"
proof -
  have a: "\<forall>e \<in> set (stream_entries r b None (recv_events ms)). log_for v t (entry_request e)"
    by (rule recv_entries_for [OF assms(1,2) _ assms(3)]) simp
  have "\<forall>e \<in> set (stream_entries r (written b (recv_events ms)) p (map (Sent \<circ> f) ks)). log_for v t (entry_request e)" for p
  proof (cases "ks = []")
    case False
    with assms have "log_for v t (written b (recv_events ms))"
      by (simp add: written_recv_events log_for_completed)
    then show ?thesis by (rule sent_entries_for)
  qed simp
  with a show ?thesis by (force simp: call_log_def stream_append stored_for_def)
qed

subsection \<open>Unary calls\<close>

text \<open>A handler that answers and names the resource of the log request in its context.\<close>

definition answers :: "'w unary_handler \<Rightarrow> goval \<Rightarrow> goval \<Rightarrow> gerror option \<Rightarrow> bool" where
  "answers h req resp err \<longleftrightarrow> (\<forall>c q w. payload q \<noteq> None \<longrightarrow>
     h (with_log_req q c) req w = (Ret (resp, err, set_resource (GetTarget req) q), w))"

lemma name_resource_set:
  "payload q \<noteq> None \<Longrightarrow> name_resource (with_log_req q c) t = go_return (set_resource t q)"
  by (auto simp: name_resource_def LogReqFromCtx_def with_log_req_def set_resource_def)

lemma talker_answers:
  "answers Hello req (HelloResponse (''Hi, I'' @ [CHR 0x27] @ ''m '' @ GetTarget req @ ''!'')) None"
  "answers Fail req GoNil (Some (StatusError code_ResourceExhausted ''this call will always fail''))"
  by (simp_all add: answers_def Hello_def Fail_def name_resource_set)

lemma unary_token: "justification_token (unary_log_request i c r svc m ts) = context_token c"
  by (simp add: unary_log_request_def fillJVSToken_token empty_log_request_def)

lemma unary_call_logs:
  assumes "talker_call v g env i st m r" "serviceName m = Inr svc" "reads v w ms os qs"
    and "names_target req" "answers h req resp err" "err = None \<longrightarrow> is_msg resp"
  shows "\<exists>w' q. UnaryInterceptor env i (ss_Context st) req m h w = (Ret (resp, err), w') \<and>
     reads v w' ms os (qs @ [q]) \<and> stored_for v g (GetTarget req) q"
proof -
  let ?c = "ss_Context st" and ?t = "GetTarget req"
  from assms(1) obtain cl sc p where e: "inert v env" "mostRelevantRule m (it_rules i) = Some r"
    "it_Client i = Some cl" "stores v g cl" "it_sc i = Some sc" "sc ?c = Inr p" "valid_email p"
    "accepts v p (context_token ?c)"
    unfolding talker_call_def by blast
  from e(1) assms(3) obtain ts w1 where ts: "time_Now env w = (Ret ts, w1)" "reads v w1 ms os qs"
    unfolding inert_def by blast
  let ?q = "handler_request i ?c r svc m ts p req"
  let ?q1 = "set_resource ?t ?q"
  from assms(4) have "is_msg req" "?t \<noteq> []" by (simp_all add: names_target_def)
  then have conv: "\<exists>s. toProtoStruct req = Inr s" and vq: "valid_request ?q1"
    using is_msg_converts handler_request_valid [OF assms(2)] e(7) by blast+
  obtain a where pq: "payload ?q = Some a" by (simp add: handler_request_def)
  have lq: "log_for v ?t ?q1"
    using vq e(8) by (simp add: log_for_def storable_def named_def handler_request_def set_resource_def
        unary_token empty_audit_log_def)
  from assms(5) pq have h: "h (with_log_req ?q ?c) req w1 = (Ret (resp, err, ?q1), w1)"
    unfolding answers_def by blast
  have run: "UnaryInterceptor env i ?c req m h w = run_unary env i ?c r req h ?q w1"
    by (rule UnaryInterceptor_prepared [where sc = sc]) (use e assms(2) ts(1) conv in auto)
  have st: "\<exists>r' w2. Log (Some cl) c (Some q) w1 = (Ret (None, r'), w2) \<and> reads v w2 ms os (qs @ [g q])"
    if "log_for v ?t q" for c q
    using stores_Log [OF e(4) _ ts(2)] that by (simp add: log_for_def)
  show ?thesis
  proof (cases err)
    case None
    with assms(6) is_msg_converts obtain s where s: "toProtoStruct resp = Inr s" by blast
    let ?q2 = "entry_request (?q1, None, if shouldLogResp r then Some resp else None)"
    have sr: "(if shouldLogResp r then setResp ?q1 resp else go_return (None, ?q1)) w1 = (Ret (None, ?q2), w1)"
      using pq s by (simp add: setResp_def set_resource_def entry_request_def put_response_def converted_def)
    have l2: "log_for v ?t ?q2" using lq by simp
    from st [OF this, of "with_log_req ?q2 ?c"] obtain r' w2 where
      l: "Log (Some cl) (with_log_req ?q2 ?c) (Some ?q2) w1 = (Ret (None, r'), w2)"
      "reads v w2 ms os (qs @ [g ?q2])" by blast
    from run h None sr l(1) e(3) have "UnaryInterceptor env i ?c req m h w = (Ret (resp, err), w2)"
      by (simp add: run_unary_def log_response_def go_bind_Ret)
    moreover from l2 have "stored_for v g ?t (g ?q2)" unfolding stored_for_def by blast
    ultimately show ?thesis using l(2) by blast
  next
    case (Some x)
    let ?q2 = "error_status env x ?q1"
    have sr: "setErrorStatus env x ?q1 w1 = (Ret ?q2, w1)"
      using pq by (auto simp: setErrorStatus_def error_status_def set_resource_def Let_def split: option.splits)
    have l2: "log_for v ?t ?q2" using lq by simp
    from st [OF this, of "with_log_req ?q2 ?c"] obtain r' w2 where
      l: "Log (Some cl) (with_log_req ?q2 ?c) (Some ?q2) w1 = (Ret (None, r'), w2)"
      "reads v w2 ms os (qs @ [g ?q2])" by blast
    from run h Some sr l(1) e(3) have "UnaryInterceptor env i ?c req m h w = (Ret (resp, err), w2)"
      by (simp add: run_unary_def log_handler_error_def go_bind_Ret)
    moreover from l2 have "stored_for v g ?t (g ?q2)" unfolding stored_for_def by blast
    ultimately show ?thesis using l(2) by blast
  qed
qed

end
