(* ===== verification/Test_Run.thy ===== *)
theory Test_Run
  imports Test_Log
begin

section \<open>The gRPC subtests against the talker server\<close>

text \<open>
  What the libraries of the test do, as properties of their fields, and that each subtest passes.
  Calls are made one at a time.  A connection brings a stream's messages to the server, which
  handles them when the client has closed its side, and brings the answers back.
\<close>

subsection \<open>The connection\<close>

text \<open>The status of an error, as the server's transport sends it and the client's makes an error of it.\<close>

definition on_wire :: "'w grpc_env \<Rightarrow> gerror \<Rightarrow> gerror" where
  "on_wire env e =
     (case status_FromError env e of
        Some s \<Rightarrow> StatusError (st_code s) (st_message s)
      | None \<Rightarrow> StatusError 2 (error_text e))"

definition stream_end :: "'w grpc_env \<Rightarrow> gerror option \<Rightarrow> gerror" where
  "stream_end env err = (case err of None \<Rightarrow> io_EOF | Some e \<Rightarrow> on_wire env e)"

text \<open>The client receives the answers \<open>os\<close>, then \<open>e\<close>; the log requests stored stay what they are.\<close>

fun gives_back ::
  "'w views \<Rightarrow> 'w talker_stream \<Rightarrow> log_request list \<Rightarrow> gerror \<Rightarrow> goval list \<Rightarrow> 'w world \<Rightarrow> bool" where
  "gives_back v x qs e [] w \<longleftrightarrow> (\<exists>w'. cs_RecvMsg x w = (Ret (Inl e), w') \<and> stored v (w_ext w') = qs)"
| "gives_back v x qs e (m # ms) w \<longleftrightarrow>
     (\<exists>w'. cs_RecvMsg x w = (Ret (Inr m), w') \<and> stored v (w_ext w') = qs \<and> gives_back v x qs e ms w')"

definition carries ::
  "'w views \<Rightarrow> 'w grpc_env \<Rightarrow> 'w interceptor \<Rightarrow> 'w server_stream \<Rightarrow> string \<Rightarrow> 'w talker_stream \<Rightarrow> bool" where
  "carries v env i st method x \<longleftrightarrow>
     (\<forall>m w ms os qs. reads v w ms os qs \<longrightarrow>
        (\<exists>w'. cs_SendMsg x m w = (Ret None, w') \<and> reads v w' (ms @ [m]) os qs)) \<and>
     (\<forall>w ms qs err w1 ms' os' qs'. reads v w ms [] qs \<longrightarrow>
        serve_talker_stream env i st method w = Some (Ret err, w1) \<longrightarrow> reads v w1 ms' os' qs' \<longrightarrow>
        (\<exists>w2. cs_CloseSend x w = (Ret None, w2) \<and> gives_back v x qs' (stream_end env err) os' w2))"

text \<open>
  A call made in the context \<open>c\<close> is handled on the server stream \<open>srv c\<close>, whose context has the
  metadata that goes out with the call.
\<close>

definition connects ::
  "'w views \<Rightarrow> 'w grpc_env \<Rightarrow> 'w interceptor \<Rightarrow> (ctx \<Rightarrow> 'w server_stream) \<Rightarrow> 'w talker_cc \<Rightarrow> bool" where
  "connects v env i srv cc \<longleftrightarrow>
     (\<forall>c method m opts w resp err w1 ms os qs.
        serve_talker_call env i (ss_Context (srv c)) method m w = (Ret (resp, err), w1) \<longrightarrow> reads v w1 ms os qs \<longrightarrow>
        (\<exists>w2. Invoke cc c method m opts w =
             (Ret (case err of None \<Rightarrow> Inr resp | Some e \<Rightarrow> Inl (on_wire env e)), w2) \<and> reads v w2 ms os qs)) \<and>
     (\<forall>c d method opts w ms os qs. reads v w ms os qs \<longrightarrow>
        (\<exists>x w'. NewStream cc c d method opts w = (Ret (Inr x), w') \<and> reads v w' [] [] qs \<and>
           carries v env i (srv c) method x)) \<and>
     (\<forall>c md k. outgoing_md c = Some md \<longrightarrow> md k \<noteq> [] \<longrightarrow>
        (\<exists>md'. incoming_md (ss_Context (srv c)) = Some md' \<and> md' k = md k))"

subsection \<open>The other libraries\<close>

text \<open>
  BigQuery has a row for each stored log with the resource name the query asks for.  The row has a
  log name and a timestamp, and its payload agrees with that of the log in what the check reads.
\<close>

definition justified :: "audit_log \<Rightarrow> bool" where
  "justified a \<longleftrightarrow>
     (\<exists>fm x. GetFields (metadata a) = Some fm \<and> fm ''justification'' = Some x \<and> x \<noteq> NullValue)"

definition row_of :: "entry_lib \<Rightarrow> string \<Rightarrow> log_request \<Rightarrow> bool" where
  "row_of el row q \<longleftrightarrow>
     (\<exists>le js a b. el_unmarshal el row = Inr le \<and> be_logName le \<noteq> [] \<and> be_timestamp le \<noteq> None \<and>
        el_MarshalJSON el (be_jsonPayload le) = Inr js \<and> el_unmarshal_audit el js = Inr b \<and>
        payload q = Some a \<and> audit_identity b = audit_identity a \<and> justified b = justified a)"

definition finds_logs :: "'w views \<Rightarrow> entry_lib \<Rightarrow> 'w bigquery \<Rightarrow> 'k test_case \<Rightarrow> bool" where
  "finds_logs v el bq tc \<longleftrightarrow>
     (\<forall>t w. \<exists>w1 w2 w3 rows. bq_Run bq (makeQueryForGRPC (tc\<lparr>TraceID := t\<rparr>)) w = (Ret None, w1) \<and>
        job_Wait bq w1 = (Ret (Inr None), w2) \<and> job_Read bq w2 = (Ret (Inr (rows, None)), w3) \<and>
        list_all2 (row_of el) rows (filter (named t) (stored v (w_ext w))))"

definition first_try :: "('w, 's, 'b) retry_do \<Rightarrow> bool" where
  "first_try R \<longleftrightarrow> (\<forall>b f s w s' w'. f s w = (Ret (AttemptOk, s'), w') \<longrightarrow> R b f s w = (Ret (None, s'), w'))"

text \<open>A new trace ID names no log yet.\<close>

definition fresh_ids :: "'w views \<Rightarrow> ('w, string) go \<Rightarrow> bool" where
  "fresh_ids v uuid \<longleftrightarrow> (\<forall>w ms os qs. reads v w ms os qs \<longrightarrow>
     (\<exists>u w'. uuid w = (Ret u, w') \<and> reads v w' ms os qs \<and> u \<noteq> [] \<and> (\<forall>q \<in> set qs. \<not> named u q)))"

definition keeps_status :: "(gerror \<Rightarrow> rpc_status option) \<Rightarrow> bool" where
  "keeps_status f \<longleftrightarrow> (\<forall>c m. f (StatusError c m) = Some \<lparr>st_code = c, st_message = m\<rparr>)"

definition test_libraries :: "'w views \<Rightarrow> ('w, 'k) grpc_lib \<Rightarrow> 'k test_case \<Rightarrow> bool" where
  "test_libraries v L tc \<longleftrightarrow>
     fresh_ids v (jl_uuid (gl_jwt L)) \<and> keeps_status (gl_status_FromError L) \<and> first_try (gl_retry L) \<and>
     finds_logs v (gl_entries L) (gl_bigquery L) tc"

text \<open>
  What the audit client of the server must do for the check of the logs: the principals it lets
  pass are addresses, and the requests it stores have a justification in their metadata.
\<close>

definition justifies :: "'w views \<Rightarrow> (log_request \<Rightarrow> log_request) \<Rightarrow> entry_lib \<Rightarrow> bool" where
  "justifies v g el \<longleftrightarrow>
     (\<forall>p tok. accepts v p tok \<longrightarrow> isValidEmail el p) \<and>
     (\<forall>q a. storable v q \<longrightarrow> payload (g q) = Some a \<longrightarrow>
        justified a)"

subsection \<open>The check of the logs\<close>

lemma diff_stored:
  assumes "stored_for v g t q" "keeps_messages g" "justifies v g el" "row_of el row q"
  shows "\<exists>le. el_unmarshal el row = Inr le \<and> passes (diffLogEntry el le)"
proof -
  from assms(4) obtain le js a b where le: "el_unmarshal el row = Inr le" "be_logName le \<noteq> []" "be_timestamp le \<noteq> None"
    "el_MarshalJSON el (be_jsonPayload le) = Inr js" "el_unmarshal_audit el js = Inr b" "payload q = Some a"
    "audit_identity b = audit_identity a" "justified b = justified a"
    unfolding row_of_def by blast
  from le(4,5) have p: "parseJSONPayload el le = Inr b" by (simp add: parseJSONPayload_def)
  from assms(1) obtain q0 where q0: "q = g q0" "storable v q0" by (auto simp: stored_for_def log_for_def)
  from q0(2) obtain a0 where a0: "payload q0 = Some a0" "valid_audit_log (Some a0)"
    by (auto simp: storable_def valid_request_def valid_audit_log_def split: option.splits)
  from keeps_messagesD [OF assms(2) a0(1)] q0(1) le(6) have "audit_core a = audit_core a0" by auto
  with le(7) have id: "service_name b = service_name a0" "method_name b = method_name a0"
    "authentication b = authentication a0"
    using audit_core_eqD [of a a0] by (simp_all add: audit_identity_def)
  from q0(2) a0(1) have "\<exists>tok. accepts v (GetPrincipalEmail (authentication b)) tok"
    by (auto simp: storable_def id)
  with assms(3) have "isValidEmail el (GetPrincipalEmail (authentication b))"
    unfolding justifies_def by blast
  moreover from a0(2) have "service_name b \<noteq> []" "method_name b \<noteq> []"
    unfolding id by (auto simp: valid_audit_log_def valid_identity_def audit_identity_def)
  moreover from assms(3) le(6,8) q0 have "passes (checkJustification b)"
    unfolding checkJustification_passes justifies_def justified_def by blast
  ultimately show ?thesis using p le(1-3) unfolding diffLogEntry_passes by blast
qed

lemma check_rows_stored:
  assumes "list_all2 (row_of el) rows qs" "\<forall>q \<in> set qs. stored_for v g t q" "keeps_messages g" "justifies v g el"
  shows "passes (check_rows el 0 rows)"
  unfolding check_rows_passes
proof
  fix r assume "r \<in> set rows"
  with assms(1) obtain q where "q \<in> set qs" "row_of el r q"
    by (metis in_set_conv_nth list_all2_conv_all_nth)
  with diff_stored [OF _ assms(3,4), of t q r] assms(2)
  show "\<exists>le. el_unmarshal el r = Inr le \<and> passes (diffLogEntry el le)" by blast
qed

text \<open>A body of a subtest that passed and left the logs the check asks for.\<close>

definition leaves ::
  "'w views \<Rightarrow> (log_request \<Rightarrow> log_request) \<Rightarrow> string \<Rightarrow> log_request list \<Rightarrow> nat \<Rightarrow> (unit tb ret \<times> 'w world) option \<Rightarrow> bool" where
  "leaves v g u qs n res \<longleftrightarrow>
     (\<exists>w' qs'. res = Some (Ret (tb_return ()), w') \<and> stored v (w_ext w') = qs @ qs' \<and> length qs' = n \<and>
        (\<forall>q \<in> set qs'. stored_for v g u q))"

lemma then_validate_passes:
  assumes "leaves v g u qs n (m w)" "\<forall>q \<in> set qs. \<not> named u q" "test_libraries v L tc"
    and "keeps_messages g" "justifies v g (gl_entries L)"
  shows "\<exists>t w'. then_validate L (tc\<lparr>TraceID := u\<rparr>) n m w = Some (Ret t, w') \<and> passes t"
proof -
  let ?el = "gl_entries L" and ?bq = "gl_bigquery L" and ?q = "makeQueryForGRPC (tc\<lparr>TraceID := u\<rparr>)"
  from assms(1) obtain w1 qs' where m: "m w = Some (Ret (tb_return ()), w1)"
    and st: "stored v (w_ext w1) = qs @ qs'" "length qs' = n" "\<forall>q \<in> set qs'. stored_for v g u q"
    unfolding leaves_def by blast
  from st(3) have "filter (named u) qs' = qs'"
    unfolding filter_id_conv using stored_for_named [OF assms(4)] by blast
  with st(1) assms(2) have f: "filter (named u) (stored v (w_ext w1)) = qs'" by simp
  from assms(3) have "finds_logs v ?el ?bq tc" by (simp add: test_libraries_def)
  with f obtain w2 w3 w4 rows where r: "bq_Run ?bq ?q w1 = (Ret None, w2)" "job_Wait ?bq w2 = (Ret (Inr None), w3)"
    "job_Read ?bq w3 = (Ret (Inr (rows, None)), w4)" "list_all2 (row_of ?el) rows qs'"
    unfolding finds_logs_def by metis
  have rr: "read_rows rs None es = Inr (es @ rs)" for rs es
    by (induction rs arbitrary: es) simp_all
  from r(4) st(2) have "length rows = n" by (simp add: list_all2_lengthD)
  with r have "query_attempt ?bq ?q n [] w1 = (Ret (AttemptOk, rows), w4)"
    by (simp add: query_attempt_def run_query_def go_bind_Ret rr)
  moreover have "first_try (gl_retry L)" using assms(3) by (simp add: test_libraries_def)
  ultimately have "gl_retry L b (query_attempt ?bq ?q n) [] w1 = (Ret (None, rows), w4)" for b
    unfolding first_try_def by blast
  then have "validateAuditLogsWithRetries (gl_retry L) ?bq ?el (base_config (tc_config tc)) ?q n w1 =
      (Ret (check_rows ?el 0 rows), w4)"
    by (simp add: validateAuditLogsWithRetries_def go_bind_Ret)
  with m have "then_validate L (tc\<lparr>TraceID := u\<rparr>) n m w = Some (Ret (check_rows ?el 0 rows), w4)"
    by (simp add: then_validate_def tb_seq_def dv_bind_def tb_return_def)
  with check_rows_stored [OF r(4) st(3) assms(4,5)] show ?thesis by blast
qed

lemma with_trace_passes:
  assumes "fresh_ids v (jl_uuid (gl_jwt L))" "reads v w ms os qs"
    and "\<And>u w' . u \<noteq> [] \<Longrightarrow> \<forall>q \<in> set qs. \<not> named u q \<Longrightarrow> reads v w' ms os qs \<Longrightarrow>
      \<exists>t w2. body (tc\<lparr>TraceID := u\<rparr>) w' = Some (Ret t, w2) \<and> passes t"
  shows "\<exists>t w2. with_trace L tc body w = Some (Ret t, w2) \<and> passes t"
proof -
  from assms(1,2) obtain u w' where "jl_uuid (gl_jwt L) w = (Ret u, w')" "reads v w' ms os qs" "u \<noteq> []"
    "\<forall>q \<in> set qs. \<not> named u q" unfolding fresh_ids_def by blast
  with assms(3) show ?thesis by (simp add: with_trace_def dv_bind_of)
qed

subsection \<open>Calls over the connection\<close>

lemma answered_call:
  assumes "connects v env i srv cc"
    and "serve_talker_call env i (ss_Context (srv c)) method m w = (Ret (resp, err), w1)" "reads v w1 ms os qs"
  shows "\<exists>w2. unary_stub method (NewTalkerClient cc) c m opts w =
      (Ret (case err of None \<Rightarrow> Inr resp | Some e \<Rightarrow> Inl (on_wire env e)), w2) \<and> reads v w2 ms os qs"
  using assms unfolding unary_stub_Invoke connects_def by (simp add: NewTalkerClient_def)

lemma opened_stream:
  assumes "connects v env i srv cc" "reads v w ms os qs"
  shows "\<exists>x w'. NewStream cc c d method opts w = (Ret (Inr x), w') \<and> reads v w' [] [] qs \<and>
     carries v env i (srv c) method x"
  using assms unfolding connects_def by blast

lemma sent_metadata:
  assumes "connects v env i srv cc" "outgoing_md c = Some md" "md k \<noteq> []"
  shows "\<exists>md'. incoming_md (ss_Context (srv c)) = Some md' \<and> md' k = md k"
  using assms unfolding connects_def by blast

lemma carried_message:
  assumes "carries v env i st method x" "reads v w ms os qs"
  shows "\<exists>w'. cs_SendMsg x m w = (Ret None, w') \<and> reads v w' (ms @ [m]) os qs"
  using assms unfolding carries_def by blast

lemma closed_stream:
  assumes "carries v env i st method x" "reads v w ms [] qs"
    and "serve_talker_stream env i st method w = Some (Ret err, w1)" "reads v w1 ms' os' qs'"
  shows "\<exists>w2. cs_CloseSend x w = (Ret None, w2) \<and> gives_back v x qs' (stream_end env err) os' w2"
  using assms unfolding carries_def by blast

lemma read_stream_end:
  assumes "gives_back v x qs io_EOF os w"
  shows "\<exists>w'. read_stream (Some x) w = Some (Ret (tb_return ()), w') \<and> stored v (w_ext w') = qs"
  using assms
proof (induction os arbitrary: w)
  case Nil
  then show ?case by (subst read_stream.simps) (auto simp: stream_Recv_def io_EOF_def)
next
  case (Cons m os)
  then show ?case by (subst read_stream.simps) (auto simp: stream_Recv_def)
qed

lemma send_all_sends:
  assumes "carries v env i st method x" "reads v w ms os qs"
  shows "\<exists>w'. send_all (Some x) ns w = (Ret (tb_return ()), w') \<and> reads v w' (ms @ ns) os qs"
  using assms(2)
proof (induction ns arbitrary: w ms)
  case (Cons n ns)
  from carried_message [OF assms(1) Cons.prems] obtain w1 where
    1: "cs_SendMsg x n w = (Ret None, w1)" "reads v w1 (ms @ [n]) os qs" by blast
  from Cons.IH [OF 1(2)] obtain w' where
    "send_all (Some x) ns w1 = (Ret (tb_return ()), w')" "reads v w' (ms @ n # ns) os qs" by auto
  with 1(1) show ?case
    by (auto simp: tb_then_def go_bind_def stream_Send_def expect_no_error_def tb_return_def)
qed simp

lemma reads_stored: "reads v w ms os qs \<Longrightarrow> stored v (w_ext w) = qs"
  by (simp add: reads_def)

lemma expectations [simp]:
  "expect_no_error m None = tb_return ()"
  "keeps_status f \<Longrightarrow> expect_code f c (Some (StatusError c m)) = tb_return ()"
  by (simp_all add: expect_no_error_def expect_code_def keeps_status_def tb_check_def)

lemma wired_status [simp]: "keeps_status (status_FromError env) \<Longrightarrow> on_wire env (StatusError c m) = StatusError c m"
  by (simp add: on_wire_def keeps_status_def)

subsection \<open>The bodies of the subtests\<close>

lemma unary_services:
  "serviceName ''/abcxyz.test.Talker/Hello'' = Inr ''abcxyz.test.Talker''"
  "serviceName ''/abcxyz.test.Talker/Fail'' = Inr ''abcxyz.test.Talker''"
  by (simp_all add: serviceName_def serviceName_group_def)

lemma hello_leaves:
  assumes "connects v env i srv cc" "talker_call v g env i (srv c) ''/abcxyz.test.Talker/Hello'' r"
    and "reads v w ms os qs" "u \<noteq> []"
  shows "leaves v g u qs 1 (dv_of (go_bind (client_Hello (NewTalkerClient cc) c (HelloRequest u ''Some Message'') [])
     (\<lambda>res. go_return (expect_no_error m (call_error res)))) w)"
proof -
  have n: "names_target (HelloRequest u ''Some Message'')" using assms(4) by (simp add: names_target_def)
  from unary_call_logs [OF assms(2) unary_services(1) assms(3) n talker_answers(1)] obtain w' q where
    "UnaryInterceptor env i (ss_Context (srv c)) (HelloRequest u ''Some Message'') ''/abcxyz.test.Talker/Hello'' Hello w =
       (Ret (HelloResponse (''Hi, I'' @ [CHR 0x27] @ ''m '' @ u @ ''!''), None), w')"
    "reads v w' ms os (qs @ [q])" "stored_for v g u q" by auto
  moreover from this answered_call [OF assms(1), of c "''/abcxyz.test.Talker/Hello''" "HelloRequest u ''Some Message''" w _ None w']
  obtain w2 where "client_Hello (NewTalkerClient cc) c (HelloRequest u ''Some Message'') [] w =
      (Ret (Inr (HelloResponse (''Hi, I'' @ [CHR 0x27] @ ''m '' @ u @ ''!''))), w2)" "reads v w2 ms os (qs @ [q])"
    unfolding client_Hello_def by (fastforce simp: Talker_Hello_Handler_def unary_method_def)
  ultimately show ?thesis
    by (auto simp: leaves_def go_bind_Ret call_error_def dest!: reads_stored)
qed

lemma fail_leaves:
  assumes "connects v env i srv cc" "talker_call v g env i (srv c) ''/abcxyz.test.Talker/Fail'' r"
    and "reads v w ms os qs" "u \<noteq> []" "keeps_status (status_FromError env)" "keeps_status f"
  shows "leaves v g u qs 1 (dv_of (go_bind (client_Fail (NewTalkerClient cc) c (FailRequest u ''Some Message'') [])
     (\<lambda>res. go_return (expect_code f code_ResourceExhausted (call_error res)))) w)"
proof -
  let ?e = "StatusError code_ResourceExhausted ''this call will always fail''"
  have n: "names_target (FailRequest u ''Some Message'')" using assms(4) by (simp add: names_target_def)
  from unary_call_logs [OF assms(2) unary_services(2) assms(3) n talker_answers(2)] obtain w' q where
    "UnaryInterceptor env i (ss_Context (srv c)) (FailRequest u ''Some Message'') ''/abcxyz.test.Talker/Fail'' Fail w =
       (Ret (GoNil, Some ?e), w')"
    "reads v w' ms os (qs @ [q])" "stored_for v g u q" by (auto simp del: code_defs)
  moreover from this answered_call [OF assms(1), of c "''/abcxyz.test.Talker/Fail''" "FailRequest u ''Some Message''" w GoNil "Some ?e" w']
  obtain w2 where "client_Fail (NewTalkerClient cc) c (FailRequest u ''Some Message'') [] w = (Ret (Inl ?e), w2)"
    "reads v w2 ms os (qs @ [q])"
    unfolding client_Fail_def using assms(5) by (fastforce simp: Talker_Fail_Handler_def unary_method_def simp del: code_defs)
  ultimately show ?thesis using assms(6)
    by (auto simp: leaves_def go_bind_Ret call_error_def simp del: code_defs dest!: reads_stored)
qed

lemma dv_bind_eta [simp]: "dv_bind m (\<lambda>t. dv_of (go_return t)) = m"
  by (rule ext) (simp add: dv_bind_def split: option.splits prod.splits ret.splits)

lemma tb_seq_return: "m w = Some (Ret (tb_return a), w') \<Longrightarrow> tb_seq m f w = f a w'"
  by (simp add: tb_seq_def dv_bind_Ret) (simp add: tb_return_def)

lemma opens: "call w = (Ret (Inr x), w') \<Longrightarrow> tb_seq (open_stream m call) f w = f (Some x) w'"
  by (rule tb_seq_return) (simp add: open_stream_def go_bind_Ret call_error_def call_value_def)

lemma fibonacci_leaves:
  assumes "connects v env i srv cc" "talker_call v g env i (srv c) ''/abcxyz.test.Talker/Fibonacci'' r"
    and "reads v w ms os qs" "u \<noteq> []"
  shows "leaves v g u qs 5 (tb_seq (open_stream m (client_Fibonacci (NewTalkerClient cc) c (FibonacciRequest (of_nat 5) u) []))
     read_stream w)"
proof -
  let ?mt = "''/abcxyz.test.Talker/Fibonacci''" and ?m = "FibonacciRequest (of_nat 5) u"
  from opened_stream [OF assms(1,3), of c "Talker_Streams ! 0" ?mt "[]"] obtain x w1 where
    x: "NewStream cc c (Talker_Streams ! 0) ?mt [] w = (Ret (Inr x), w1)" "carries v env i (srv c) ?mt x"
    and r1: "reads v w1 [] [] qs" by blast
  from carried_message [OF x(2) r1, of ?m] obtain w2 where
    s: "cs_SendMsg x ?m w1 = (Ret None, w2)" and r2: "reads v w2 [?m] [] qs" by auto
  have n: "names_target ?m" using assms(4) by simp
  have p: "unat (GetPlaces ?m) = 5" by simp
  from fib_call [OF assms(2) r2 n] p obtain b w3 where b: "completable v b"
    and c: "StreamInterceptor env i (srv c) ?mt Talker_Fibonacci_Handler w2 = Some (Ret None, w3)"
    and r3: "reads v w3 [] (map fib_response [0..<5])
      (qs @ call_log g r b (recv_events [?m] @ map (Sent \<circ> fib_response) [0..<5]))" unfolding p by auto
  let ?qs = "call_log g r b (recv_events [?m] @ map (Sent \<circ> fib_response) [0..<5])"
  have l: "length ?qs = 5" unfolding length_call_log_sends by simp
  have f: "\<forall>q \<in> set ?qs. stored_for v g u q"
    by (rule call_log_for [OF b assms(4)]) simp_all
  from closed_stream [OF x(2) r2 _ r3, of None] c obtain w4 where
    cl: "cs_CloseSend x w2 = (Ret None, w4)" "gives_back v x (qs @ ?qs) io_EOF (map fib_response [0..<5]) w4"
    by (auto simp: stream_end_def)
  have "client_Fibonacci (NewTalkerClient cc) c ?m [] w = (Ret (Inr x), w4)"
    using x(1) s cl(1) by (simp add: client_Fibonacci_def NewTalkerClient_def go_bind_Ret)
  moreover from read_stream_end [OF cl(2)] obtain w5 where
    "read_stream (Some x) w4 = Some (Ret (tb_return ()), w5)" "stored v (w_ext w5) = qs @ ?qs" by blast
  ultimately show ?thesis using l f unfolding leaves_def
    by (simp only: opens) blast
qed

text \<open>The rest of a client streaming call: the messages are sent, and one answer is received.\<close>

lemma close_and_recv:
  assumes "carries v env i st method x" "reads v w ms [] qs"
    and "serve_talker_stream env i st method w = Some (Ret err, w1)" "reads v w1 ms' os' qs'"
  shows "\<exists>w2. CloseAndRecv (Some x) w =
      (Ret (case os' of [] \<Rightarrow> Inl (stream_end env err) | m # _ \<Rightarrow> Inr m), w2) \<and> stored v (w_ext w2) = qs'"
proof -
  from closed_stream [OF assms] obtain w2 where
    "cs_CloseSend x w = (Ret None, w2)" "gives_back v x qs' (stream_end env err) os' w2" by blast
  then show ?thesis by (cases os') (auto simp: CloseAndRecv_def go_bind_Ret)
qed

lemma sends_then:
  assumes "carries v env i st method x" "reads v w [] [] qs"
    and "\<And>w1. reads v w1 ns [] qs \<Longrightarrow> \<exists>w2 qs'. body w1 = Some (Ret (tb_return ()), w2) \<and>
       stored v (w_ext w2) = qs @ qs' \<and> length qs' = n \<and> (\<forall>q \<in> set qs'. stored_for v g u q)"
  shows "leaves v g u qs n (tb_seq (dv_of (send_all (Some x) ns)) (\<lambda>_. body) w)"
proof -
  from send_all_sends [OF assms(1,2), of ns] obtain w1 where
    1: "send_all (Some x) ns w = (Ret (tb_return ()), w1)" and r: "reads v w1 ns [] qs" by auto
  from 1 have "tb_seq (dv_of (send_all (Some x) ns)) (\<lambda>_. body) w = body w1"
    by (simp add: tb_seq_return)
  with assms(3) [OF r] show ?thesis unfolding leaves_def by simp
qed

lemma addition_leaves:
  assumes "talker_call v g env i st ''/abcxyz.test.Talker/Addition'' r" "shouldLogReq r"
    and "carries v env i st ''/abcxyz.test.Talker/Addition'' x" "reads v w [] [] qs" "u \<noteq> []"
  shows "leaves v g u qs 5 (tb_seq (dv_of (send_all (Some x) (map (\<lambda>i. AdditionRequest (of_nat i) u) [0..<5])))
     (\<lambda>_. dv_of (go_bind (CloseAndRecv (Some x)) (\<lambda>res. go_return (expect_no_error m (call_error res))))) w)"
proof (rule sends_then [OF assms(3,4)])
  let ?ms = "map (\<lambda>i. AdditionRequest (of_nat i) u) [0..<5]" and ?mt = "''/abcxyz.test.Talker/Addition''"
  fix w1 assume rd: "reads v w1 ?ms [] qs"
  define a where "a = AdditionResponse (sum_list (map (ucast \<circ> GetAddend) ?ms))"
  have n: "\<forall>x \<in> set ?ms. names_target x" "?ms \<noteq> []" using assms(5) by auto
  from add_call [OF assms(1) rd n a_def] obtain b w2 where b: "completable v b"
    and c: "StreamInterceptor env i st ?mt Talker_Addition_Handler w1 = Some (Ret None, w2)"
    and r: "reads v w2 [] [a] (qs @ call_log g r b (recv_events ?ms @ [Sent a]))" by auto
  let ?qs = "call_log g r b (recv_events ?ms @ [Sent a])"
  have "length ?qs = 5" unfolding length_call_log_recv_send [OF assms(2) n(2)] by simp
  moreover have "\<forall>q \<in> set (call_log g r b (recv_events ?ms @ map (Sent \<circ> (\<lambda>_. a)) [()])). stored_for v g u q"
    by (rule call_log_for [OF b assms(5)]) auto
  moreover from close_and_recv [OF assms(3) rd _ r, of None] c obtain w3 where
    "CloseAndRecv (Some x) w1 = (Ret (Inr a), w3)" "stored v (w_ext w3) = qs @ ?qs" by auto
  ultimately show "\<exists>w2 qs'. dv_of (go_bind (CloseAndRecv (Some x)) (\<lambda>res. go_return (expect_no_error m (call_error res)))) w1 =
      Some (Ret (tb_return ()), w2) \<and> stored v (w_ext w2) = qs @ qs' \<and> length qs' = 5 \<and> (\<forall>q \<in> set qs'. stored_for v g u q)"
    by (auto simp: go_bind_Ret call_error_def)
qed

lemma fail_on_four_leaves:
  assumes "talker_call v g env i st ''/abcxyz.test.Talker/FailOnFour'' r" "shouldLogReq r"
    and "carries v env i st ''/abcxyz.test.Talker/FailOnFour'' x" "reads v w [] [] qs" "u \<noteq> []"
    and "keeps_status (status_FromError env)" "keeps_status f"
  shows "leaves v g u qs 4 (tb_seq (dv_of (send_all (Some x) (map (\<lambda>i. FailOnFourRequest u (of_nat i)) [1..<5 + 1])))
     (\<lambda>_. dv_of (go_bind (CloseAndRecv (Some x)) (\<lambda>res. go_return (expect_code f code_InvalidArgument (call_error res))))) w)"
proof (rule sends_then [OF assms(3,4)])
  let ?ms = "map (\<lambda>i. FailOnFourRequest u (of_nat i)) [1..<5 + 1]" and ?mt = "''/abcxyz.test.Talker/FailOnFour''"
  let ?f = "\<lambda>i :: nat. FailOnFourRequest u (of_nat i)"
  let ?pre = "[?f 1, ?f 2, ?f 3]" and ?m = "?f 4"
  fix w1 assume "reads v w1 ?ms [] qs"
  moreover have "?ms = ?pre @ ?m # [?f 5]" by (simp add: upt_rec)
  ultimately have rd: "reads v w1 (?pre @ ?m # [?f 5]) [] qs" by simp
  have n: "\<forall>x \<in> set ?pre. names_target x \<and> GetValue x \<noteq> 4" "names_target ?m" "GetValue ?m = 4"
    using assms(5) by auto
  from four_call [OF assms(1) rd n] obtain b w2 where b: "completable v b"
    and c: "StreamInterceptor env i st ?mt Talker_FailOnFour_Handler w1 = Some (Ret (Some four_error), w2)"
    and r: "reads v w2 [?f 5] [] (qs @ call_log g r b (recv_events (?pre @ [?m])) @
       [g (error_status env four_error (set_resource (GetTarget ?m) b))])" by blast
  let ?qs = "call_log g r b (recv_events (?pre @ [?m])) @ [g (error_status env four_error (set_resource (GetTarget ?m) b))]"
  have "length ?qs = 4" unfolding length_append length_call_log_recv [OF assms(2)] by simp
  moreover have "\<forall>q \<in> set (call_log g r b (recv_events (?pre @ [?m]) @ map (Sent \<circ> (\<lambda>_. GoNil)) [])). stored_for v g u q"
    by (rule call_log_for [OF b assms(5)]) auto
  moreover have "stored_for v g u (g (error_status env four_error (set_resource (GetTarget ?m) b)))"
    unfolding stored_for_def using log_for_completed [OF b assms(5)] by auto
  moreover from close_and_recv [OF assms(3) rd _ r, of "Some four_error"] c assms(6) obtain w3 where
    "CloseAndRecv (Some x) w1 = (Ret (Inl four_error), w3)" "stored v (w_ext w3) = qs @ ?qs"
    by (auto simp: stream_end_def four_error_def simp del: code_defs)
  ultimately show "\<exists>w2 qs'. dv_of (go_bind (CloseAndRecv (Some x)) (\<lambda>res. go_return (expect_code f code_InvalidArgument (call_error res)))) w1 =
      Some (Ret (tb_return ()), w2) \<and> stored v (w_ext w2) = qs @ qs' \<and> length qs' = 4 \<and> (\<forall>q \<in> set qs'. stored_for v g u q)"
    using assms(7) by (intro exI [of _ w3] exI [of _ ?qs]) (auto simp: go_bind_Ret call_error_def four_error_def simp del: code_defs)
qed

subsection \<open>The subtests\<close>

lemma test_libraries_parts:
  assumes "test_libraries v L tc"
  shows "fresh_ids v (jl_uuid (gl_jwt L))" "keeps_status (gl_status_FromError L)"
  using assms by (simp_all add: test_libraries_def)

text \<open>The five methods the test calls, on a server whose rules ask for the requests.\<close>

definition called_methods :: "string list" where
  "called_methods = map ((@) ''/abcxyz.test.Talker/'') [''Hello'', ''Fail'', ''Fibonacci'', ''Addition'', ''FailOnFour'']"

lemma called_methods_simps:
  "set called_methods = {''/abcxyz.test.Talker/Hello'', ''/abcxyz.test.Talker/Fail'', ''/abcxyz.test.Talker/Fibonacci'',
     ''/abcxyz.test.Talker/Addition'', ''/abcxyz.test.Talker/FailOnFour''}"
  by (simp add: called_methods_def)

definition serves_calls ::
  "'w views \<Rightarrow> (log_request \<Rightarrow> log_request) \<Rightarrow> 'w grpc_env \<Rightarrow> 'w interceptor \<Rightarrow> 'w server_stream \<Rightarrow> bool" where
  "serves_calls v g env i st \<longleftrightarrow> keeps_status (status_FromError env) \<and>
     (\<forall>m \<in> set called_methods. \<exists>r. talker_call v g env i st m r \<and> shouldLogReq r)"

lemma traced: "TraceID (tc\<lparr>TraceID := u\<rparr>) = u"
  by simp

lemma subtest_passes:
  assumes "connects v env i srv cc" "serves_calls v g env i (srv c)" "test_libraries v L tc"
    and "justifies v g (gl_entries L)" "(n, s) \<in> set (grpc_subtests L)" "reads v w ms os qs"
  shows "\<exists>t w'. s (NewTalkerClient cc) c tc w = Some (Ret t, w') \<and> passes t"
proof -
  let ?cl = "NewTalkerClient cc" and ?f = "gl_status_FromError L"
  note L = test_libraries_parts [OF assms(3)]
  from assms(2) have k: "keeps_status (status_FromError env)" by (simp add: serves_calls_def)
  have call: "\<exists>r. talker_call v g env i (srv c) m r \<and> shouldLogReq r" if "m \<in> set called_methods" for m
    using assms(2) that by (simp add: serves_calls_def)
  have kg: "keeps_messages g" using call [of "''/abcxyz.test.Talker/Hello''"] talker_call_keeps
    by (auto simp: called_methods_simps)
  note val = then_validate_passes [OF _ _ assms(3) kg assms(4)]
  note tr = with_trace_passes [OF L(1) assms(6)]
  from assms(5) consider "s = hello_subtest L" | "s = fail_subtest L" | "s = fibonacci_subtest L"
    | "s = addition_subtest L" | "s = fail_on_four_subtest L"
    by (auto simp: grpc_subtests_def)
  then show ?thesis
  proof cases
    case 1
    from call obtain r where "talker_call v g env i (srv c) ''/abcxyz.test.Talker/Hello'' r"
      by (auto simp: called_methods_simps)
    note l = hello_leaves [OF assms(1) this]
    show ?thesis unfolding 1 hello_subtest_def
      by (rule tr, unfold traced) (rule val, rule l)
  next
    case 2
    from call obtain r where "talker_call v g env i (srv c) ''/abcxyz.test.Talker/Fail'' r"
      by (auto simp: called_methods_simps)
    note l = fail_leaves [OF assms(1) this _ _ k L(2)]
    show ?thesis unfolding 2 fail_subtest_def
      by (rule tr, unfold traced) (rule val, rule l)
  next
    case 3
    from call obtain r where "talker_call v g env i (srv c) ''/abcxyz.test.Talker/Fibonacci'' r"
      by (auto simp: called_methods_simps)
    note l = fibonacci_leaves [OF assms(1) this]
    show ?thesis unfolding 3 fibonacci_subtest_def Let_def
      by (rule tr, unfold traced) (rule val, rule l)
  next
    case 4
    from call obtain r where r: "talker_call v g env i (srv c) ''/abcxyz.test.Talker/Addition'' r" "shouldLogReq r"
      by (auto simp: called_methods_simps)
    show ?thesis unfolding 4 addition_subtest_def Let_def
    proof (rule tr)
      fix u w1 assume u: "u \<noteq> []" "\<forall>q \<in> set qs. \<not> named u q" and w1: "reads v w1 ms os qs"
      from opened_stream [OF assms(1) w1, of c "Talker_Streams ! 1" "''/abcxyz.test.Talker/Addition''" "[]"]
      obtain x w2 where x: "NewStream cc c (Talker_Streams ! 1) ''/abcxyz.test.Talker/Addition'' [] w1 = (Ret (Inr x), w2)"
        "reads v w2 [] [] qs" "carries v env i (srv c) ''/abcxyz.test.Talker/Addition'' x" by blast
      have o: "client_Addition ?cl c [] w1 = (Ret (Inr x), w2)"
        using x(1) by (simp add: client_Addition_def NewTalkerClient_def go_bind_Ret)
      show "\<exists>t w'. tb_seq (open_stream ''addition call failed: '' (client_Addition ?cl c []))
          (\<lambda>stream. then_validate L (tc\<lparr>TraceID := u\<rparr>) 5
            (tb_seq (dv_of (send_all stream (map (\<lambda>i. AdditionRequest (of_nat i) (TraceID (tc\<lparr>TraceID := u\<rparr>))) [0..<5])))
              (\<lambda>_. dv_of (go_bind (CloseAndRecv stream) (\<lambda>res. go_return
                (expect_no_error ''failed getting result from addition: '' (call_error res))))))) w1 = Some (Ret t, w') \<and> passes t"
        unfolding opens [where call = "client_Addition ?cl c []", OF o] traced
        by (rule val, rule addition_leaves [OF r x(3,2) u(1)], rule u(2))
    qed
  next
    case 5
    from call obtain r where r: "talker_call v g env i (srv c) ''/abcxyz.test.Talker/FailOnFour'' r" "shouldLogReq r"
      by (auto simp: called_methods_simps)
    show ?thesis unfolding 5 fail_on_four_subtest_def Let_def
    proof (rule tr)
      fix u w1 assume u: "u \<noteq> []" "\<forall>q \<in> set qs. \<not> named u q" and w1: "reads v w1 ms os qs"
      from opened_stream [OF assms(1) w1, of c "Talker_Streams ! 2" "''/abcxyz.test.Talker/FailOnFour''" "[]"]
      obtain x w2 where x: "NewStream cc c (Talker_Streams ! 2) ''/abcxyz.test.Talker/FailOnFour'' [] w1 = (Ret (Inr x), w2)"
        "reads v w2 [] [] qs" "carries v env i (srv c) ''/abcxyz.test.Talker/FailOnFour'' x" by blast
      have o: "client_FailOnFour ?cl c [] w1 = (Ret (Inr x), w2)"
        using x(1) by (simp add: client_FailOnFour_def NewTalkerClient_def go_bind_Ret)
      show "\<exists>t w'. tb_seq (open_stream ''addition call failed: '' (client_FailOnFour ?cl c []))
          (\<lambda>stream. then_validate L (tc\<lparr>TraceID := u\<rparr>) 4
            (tb_seq (dv_of (send_all stream (map (\<lambda>i. FailOnFourRequest (TraceID (tc\<lparr>TraceID := u\<rparr>)) (of_nat i)) [1..<5 + 1])))
              (\<lambda>_. dv_of (go_bind (CloseAndRecv stream) (\<lambda>res. go_return
                (expect_code ?f code_InvalidArgument (call_error res))))))) w1 = Some (Ret t, w') \<and> passes t"
        unfolding opens [where call = "client_FailOnFour ?cl c []", OF o] traced
        by (rule val, rule fail_on_four_leaves [OF r x(3,2) u(1) k L(2)], rule u(2))
    qed
  qed
qed

text \<open>
  The token the test makes reaches the server's audit client: it is in the metadata of each call,
  and the interceptor takes it from there.
\<close>

definition answers_calls ::
  "'w views \<Rightarrow> (log_request \<Rightarrow> log_request) \<Rightarrow> 'w grpc_env \<Rightarrow> 'w interceptor \<Rightarrow> 'w server_stream \<Rightarrow> string \<Rightarrow> bool" where
  "answers_calls v g env i st p \<longleftrightarrow>
     inert v env \<and> keeps_status (status_FromError env) \<and> transports v st \<and>
     (\<exists>cl. it_Client i = Some cl \<and> stores v g cl) \<and>
     (\<exists>sc. it_sc i = Some sc \<and> sc (ss_Context st) = Inr p) \<and> valid_email p \<and>
     (\<forall>m \<in> set called_methods. \<exists>r. mostRelevantRule m (it_rules i) = Some r \<and> shouldLogReq r)"

lemma sent_token:
  assumes "connects v env i srv cc"
  shows "context_token (ss_Context (srv (set_outgoing c ''justification-token'' tok))) = TrimSpace tok"
proof -
  let ?c = "set_outgoing c ''justification-token'' tok"
  have l: "ToLower ''justification-token'' = ''justification-token''" by code_simp
  obtain md where md: "outgoing_md ?c = Some md" "md ''justification-token'' = [tok]"
    by (simp add: set_outgoing_def l Let_def)
  from sent_metadata [OF assms md(1), of "''justification-token''"] md(2) obtain md' where
    "incoming_md (ss_Context (srv ?c)) = Some md'" "md' ''justification-token'' = [tok]" by auto
  then show ?thesis by (simp add: context_token_def fillJVSToken_def TokenHeaderKey_def)
qed

lemma token_serves:
  assumes "connects v env i srv cc" "accepts v p (TrimSpace tok)"
    and "answers_calls v g env i (srv (set_outgoing c ''justification-token'' tok)) p"
  shows "serves_calls v g env i (srv (set_outgoing c ''justification-token'' tok))"
proof -
  let ?st = "srv (set_outgoing c ''justification-token'' tok)"
  from assms(3) have a: "inert v env" "keeps_status (status_FromError env)" "transports v ?st"
    "\<exists>cl. it_Client i = Some cl \<and> stores v g cl" "\<exists>sc. it_sc i = Some sc \<and> sc (ss_Context ?st) = Inr p" "valid_email p"
    "\<And>m. m \<in> set called_methods \<Longrightarrow> \<exists>r. mostRelevantRule m (it_rules i) = Some r \<and> shouldLogReq r"
    unfolding answers_calls_def by blast+
  from a(5,6) assms(2) have p: "\<exists>sc p. it_sc i = Some sc \<and> sc (ss_Context ?st) = Inr p \<and> valid_email p \<and>
      accepts v p (context_token (ss_Context ?st))"
    unfolding sent_token [OF assms(1)] by blast
  show ?thesis unfolding serves_calls_def talker_call_def using a(1-4,7) p by blast
qed

lemma testGRPCEndpoint_subtests:
  assumes "justificationToken (gl_jwt L) ''talker-app'' (JustificationSubject (base_config (tc_config tc)))
       (PrivateKey (tc_config tc)) w = (Ret (Inr tok), w1)"
  shows "testGRPCEndpoint L None (tb_return cc) c tc w =
     (Ret (tb_return (map (\<lambda>(n, s). (n, s (NewTalkerClient cc) (set_outgoing c ''justification-token'' tok) tc))
        (grpc_subtests L)), [conn_Close cc]), w1)"
  using assms by (simp add: testGRPCEndpoint_def tb_then_def go_bind_Ret tb_return_def tb_bind_def)

subsection \<open>A send that comes late\<close>

text \<open>
  A connection may bring messages to the server while the client still sends.  The handler of
  \<open>FailOnFour\<close> ends the call at the fourth message, and gRPC gives \<open>io.EOF\<close> to a send on a stream
  that has ended.  The subtest reports that as a failure, though the call fails as it should.
\<close>

lemma send_all_append:
  "send_all x ms w = (Ret (tb_return ()), w1) \<Longrightarrow> send_all x (ms @ ns) w = send_all x ns w1"
proof (induction ms arbitrary: w)
  case Nil
  then show ?case by simp
next
  case (Cons m ms)
  from Cons.prems obtain v where v: "stream_Send x m w = (Ret None, v)" "send_all x ms v = (Ret (tb_return ()), w1)"
    by (auto simp: tb_then_def tb_return_def expect_no_error_def tb_Errorf_def go_bind_def
        split: prod.splits ret.splits option.splits)
  from Cons.IH [OF v(2)] v(1) show ?case
    by (auto simp: tb_then_def go_bind_def tb_return_def expect_no_error_def split: prod.splits ret.splits)
qed

lemma tb_seq_reported:
  assumes "m w = Some (Ret t1, w1)" "fst t1 \<noteq> []" "tb_seq m f w = Some (Ret t, w')"
  shows "fst t \<noteq> []"
  using assms by (fastforce simp: tb_seq_def dv_bind_def split: option.splits prod.splits ret.splits)

lemma late_send_reported:
  assumes "jl_uuid (gl_jwt L) w = (Ret u, w0)" "client_FailOnFour client c [] w0 = (Ret (Inr x), w1)"
    and "send_all (Some x) (map (\<lambda>i. FailOnFourRequest u (of_nat i)) [1..<5]) w1 = (Ret (tb_return ()), w2)"
    and "cs_SendMsg x (FailOnFourRequest u 5) w2 = (Ret (Some io_EOF), w3)"
    and "fail_on_four_subtest L client c tc w = Some (Ret t, w')"
  shows "\<not> passes t"
proof -
  have ms: "map (\<lambda>i. FailOnFourRequest u (of_nat i)) [1..<5 + 1] =
      map (\<lambda>i. FailOnFourRequest u (of_nat i)) [1..<5] @ [FailOnFourRequest u 5]" by (simp add: upt_rec)
  obtain t1 where s: "send_all (Some x) (map (\<lambda>i. FailOnFourRequest u (of_nat i)) [1..<5 + 1]) w1 = (Ret t1, w3)"
    "fst t1 \<noteq> []"
    unfolding ms send_all_append [OF assms(3)] using assms(4)
    by (auto simp: tb_then_def go_bind_def stream_Send_def expect_no_error_def tb_Errorf_def tb_return_def)
  let ?k = "\<lambda>_. dv_of (go_bind (CloseAndRecv (Some x)) (\<lambda>res. go_return
      (expect_code (gl_status_FromError L) code_InvalidArgument (call_error res))))"
  from assms(5) have r: "then_validate L (tc\<lparr>TraceID := u\<rparr>) 4
      (tb_seq (dv_of (send_all (Some x) (map (\<lambda>i. FailOnFourRequest u (of_nat i)) [1..<5 + 1]))) ?k) w1 = Some (Ret t, w')"
    unfolding fail_on_four_subtest_def with_trace_def dv_bind_of [where m = "jl_uuid (gl_jwt L)", OF assms(1)] Let_def
      opens [where call = "client_FailOnFour client c []", OF assms(2)] traced .
  then obtain t2 w4 where
    "tb_seq (dv_of (send_all (Some x) (map (\<lambda>i. FailOnFourRequest u (of_nat i)) [1..<5 + 1]))) ?k w1 = Some (Ret t2, w4)"
    unfolding then_validate_def tb_seq_def [of "tb_seq _ _"] by (elim dv_bind_RetE) blast
  moreover from tb_seq_reported [OF _ s(2) this] s(1) have "fst t2 \<noteq> []" by simp
  ultimately have "fst t \<noteq> []" using tb_seq_reported r unfolding then_validate_def by blast
  then show ?thesis by (auto simp: passes_def)
qed

end
