(* ===== verification/Run_Examples.thy ===== *)
theory Run_Examples
  imports Test_Run Talker_Examples "HOL-Library.Countable"
begin

section \<open>A concrete run of the integration test\<close>

text \<open>
  The talker server of \<open>Talker_Examples\<close>, with the justification processor as the mutator of its
  audit client; a connection that runs the server when the client closes its side of a stream; and
  a BigQuery with the stored logs.
\<close>

subsection \<open>The server\<close>

definition run_env :: "tk_ext grpc_env" where
  "run_env = tk_env\<lparr>status_FromError := (\<lambda>e. case e of
     StatusError c m \<Rightarrow> Some \<lparr>st_code = c, st_message = m\<rparr> | _ \<Rightarrow> None)\<rparr>"

definition run_client :: "tk_ext client" where
  "run_client = tk_client\<lparr>mutators := [justification_log_processor ex_jvs]\<rparr>"

definition run_interceptor :: "tk_ext interceptor" where
  "run_interceptor = tk_interceptor\<lparr>it_Client := Some run_client\<rparr>"

definition run_views :: "tk_ext views" where
  "run_views = tk_views\<lparr>accepts := (\<lambda>p tok. p = ''a@b'' \<and> tok = ''jvs'')\<rparr>"

text \<open>What the client does to a request that is stored.\<close>

definition run_justify :: "audit_log \<Rightarrow> audit_log" where
  "run_justify a = set_reason
     (a\<lparr>metadata := Some (Some [''justification'' \<mapsto> StructValue (Some [''sub'' \<mapsto> StringValue ''a@b''])])\<rparr>) ''js''"

definition run_stamp :: "log_request \<Rightarrow> log_request" where
  "run_stamp q = (tk_stamp q)\<lparr>payload := map_option run_justify (payload q)\<rparr>"

lemma run_keeps_status: "keeps_status (status_FromError run_env)"
  by (simp add: keeps_status_def run_env_def)

lemma run_inert: "inert run_views run_env"
  using tk_inert by (simp add: inert_def clones_def run_env_def reads_def run_views_def)

lemma reads_run: "reads run_views w ms os qs \<longleftrightarrow> w_ext w = (ms, os, qs)"
  using reads_tk by (simp add: reads_def run_views_def)

lemma run_keeps: "keeps_messages run_stamp"
proof -
  have "audit_core (run_justify a) = audit_core a" for a
    by (simp add: run_justify_def audit_core_def set_reason_def Let_def)
  then have "map_option audit_core (payload (run_stamp q)) = map_option audit_core (payload q)" for q
    by (cases "payload q") (simp_all add: run_stamp_def)
  then show ?thesis by (simp add: keeps_messages_def)
qed

lemma run_mode: "effective_mode run_client q = effective_mode tk_client q"
  by (simp add: effective_mode_def run_client_def)

lemma run_Log:
  assumes "storable run_views q" "w_ext w = (ms, os, qs)"
  shows "Log (Some run_client) c (Some q) w =
     (Ret (None, Some (run_stamp q)), w\<lparr>w_ext := (ms, os, qs @ [run_stamp q])\<rparr>)"
proof -
  from assms(1) obtain a where a: "payload q = Some a" "metadata a = None"
    and q: "valid_request q" "GetPrincipalEmail (authentication a) = ''a@b''" "justification_token q = ''jvs''"
    by (auto simp: storable_def valid_request_def valid_audit_log_def run_views_def split: option.splits)
  have "valid_request (tk_stamp q)" using q(1) by (simp add: valid_request_def)
  then have v: "RequestValidator_Process c (Some (tk_stamp q)) v = (Ret (None, Some (tk_stamp q)), v)" for v :: "tk_ext world"
    using validate_request_None [of "Some (tk_stamp q)"] by (simp add: RequestValidator_Process_eq)
  have t: "justification_token (tk_stamp q) = ''jvs''" "payload (tk_stamp q) = Some a"
    using q(3) a(1) by (simp_all add: tk_stamp_def)
  have j: "Justification_Process ex_jvs c (Some (tk_stamp q)) v = (Ret (None, Some (run_stamp q)), v)" for v :: "tk_ext world"
    using t a q(2) by (simp add: Justification_Process_def justify_def ex_jvs_def principalEmail_eq
        set_metadata_def LogMetadataKey_def Let_def run_stamp_def run_justify_def)
  show ?thesis
    unfolding Log_Some run_mode tk_stamp_def [symmetric]
    by (simp add: Log_stages_def run_client_def tk_client_def justification_log_processor_def then_stage_def
        go_bind_def tk_store_def v j assms(2))
qed

lemma run_stores: "stores run_views run_stamp run_client"
  by (auto simp: stores_def reads_run run_Log run_keeps)

definition run_srv :: "ctx \<Rightarrow> tk_ext server_stream" where
  "run_srv c = tk_stream\<lparr>ss_Context := c\<lparr>incoming_md := outgoing_md c, outgoing_md := None\<rparr>\<rparr>"

lemma run_transports: "transports run_views (run_srv c)"
  using tk_transports by (simp add: transports_def reads_run reads_tk run_srv_def)

lemma run_answers: "answers_calls run_views run_stamp run_env run_interceptor (run_srv c) ''a@b''"
  using run_inert run_keeps_status run_transports run_stores tk_rule tk_rule_logs
  by (simp add: answers_calls_def run_interceptor_def tk_interceptor_def known_def valid_email_def)

subsection \<open>The connection\<close>

text \<open>The end of a stream comes after its answers, as a trailer.\<close>

definition trailer :: "gerror \<Rightarrow> goval" where
  "trailer e = (case e of StatusError c m \<Rightarrow> GoMsg [(''status'', FUint c), (m, FString m)] | _ \<Rightarrow> GoNil)"

definition trailer_error :: "goval \<Rightarrow> gerror" where
  "trailer_error m = (case m of GoMsg [(k, FUint c), (k', FString s)] \<Rightarrow> StatusError c s | _ \<Rightarrow> io_EOF)"

definition run_stream_of :: "ctx \<Rightarrow> string \<Rightarrow> tk_ext talker_stream" where
  "run_stream_of c meth =
     \<lparr>cs_SendMsg = (\<lambda>m w. case w_ext w of (ms, os, qs) \<Rightarrow> (Ret None, w\<lparr>w_ext := (ms @ [m], os, qs)\<rparr>)),
      cs_CloseSend = (\<lambda>w. case serve_talker_stream run_env run_interceptor (run_srv c) meth w of
          Some (Ret err, w1) \<Rightarrow> (case w_ext w1 of (ms, os, qs) \<Rightarrow>
            (Ret None, w1\<lparr>w_ext := (ms, os @ [trailer (stream_end run_env err)], qs)\<rparr>))
        | _ \<Rightarrow> (Ret (Some (Opaque ''no end'')), w)),
      cs_RecvMsg = (\<lambda>w. case w_ext w of
          (ms, [], qs) \<Rightarrow> (Ret (Inl io_EOF), w)
        | (ms, [t], qs) \<Rightarrow> (Ret (Inl (trailer_error t)), w)
        | (ms, m # os, qs) \<Rightarrow> (Ret (Inr m), w\<lparr>w_ext := (ms, os, qs)\<rparr>))\<rparr>"

definition run_cc :: "tk_ext talker_cc" where
  "run_cc = \<lparr>Invoke = (\<lambda>c meth m opts w.
       case serve_talker_call run_env run_interceptor (ss_Context (run_srv c)) meth m w of
         (Ret (resp, None), w1) \<Rightarrow> (Ret (Inr resp), w1)
       | (Ret (resp, Some e), w1) \<Rightarrow> (Ret (Inl (on_wire run_env e)), w1)
       | (Panic s, w1) \<Rightarrow> (Ret (Inl (StatusError code_Internal s)), w1)),
     NewStream = (\<lambda>c d meth opts w. case w_ext w of (ms, os, qs) \<Rightarrow>
       (Ret (Inr (run_stream_of c meth)), w\<lparr>w_ext := ([], [], qs)\<rparr>)),
     conn_Close = go_return None\<rparr>"

lemma trailer_end: "trailer_error (trailer (stream_end env err)) = stream_end env err"
  by (simp add: trailer_error_def trailer_def stream_end_def on_wire_def io_EOF_def GoNil_def split: option.splits)

lemma run_gives_back:
  "w_ext w = (ms, os @ [trailer (stream_end env err)], qs) \<Longrightarrow>
     gives_back run_views (run_stream_of c meth) qs (stream_end env err) os w"
proof (induction os arbitrary: w)
  case Nil
  then show ?case by (simp add: run_stream_of_def trailer_end run_views_def tk_views_def)
next
  case (Cons m os)
  obtain o1 os1 where o: "os @ [trailer (stream_end env err)] = o1 # os1" by (cases os) auto
  let ?w = "w\<lparr>w_ext := (ms, os @ [trailer (stream_end env err)], qs)\<rparr>"
  have "cs_RecvMsg (run_stream_of c meth) w = (Ret (Inr m), ?w)"
    using Cons.prems o by (simp add: run_stream_of_def)
  moreover have "gives_back run_views (run_stream_of c meth) qs (stream_end env err) os ?w"
    by (rule Cons.IH) simp
  moreover have "stored run_views (w_ext ?w) = qs" by (simp add: run_views_def tk_views_def)
  ultimately show ?case by auto
qed

lemma run_carries: "carries run_views run_env run_interceptor (run_srv c) meth (run_stream_of c meth)"
proof -
  have "\<exists>w2. cs_CloseSend (run_stream_of c meth) w = (Ret None, w2) \<and>
      gives_back run_views (run_stream_of c meth) qs' (stream_end run_env err) os' w2"
    if "serve_talker_stream run_env run_interceptor (run_srv c) meth w = Some (Ret err, w1)"
      "w_ext w1 = (ms', os', qs')" for w w1 err ms' os' qs'
    using that run_gives_back [of "w1\<lparr>w_ext := (ms', os' @ [trailer (stream_end run_env err)], qs')\<rparr>" ms' os' run_env err qs' c meth]
    by (auto simp: run_stream_of_def)
  then show ?thesis unfolding carries_def reads_run by (auto simp: run_stream_of_def)
qed

lemma run_connects: "connects run_views run_env run_interceptor run_srv run_cc"
proof -
  have "outgoing_md c = Some md \<longrightarrow> incoming_md (ss_Context (run_srv c)) = Some md" for c md
    by (simp add: run_srv_def)
  then show ?thesis
    unfolding connects_def reads_run using run_carries
    by (auto simp: run_cc_def split: option.splits)
qed

subsection \<open>The other libraries\<close>

text \<open>
  The query is kept in the world until its rows are read.  A row is a number for what the check
  reads of a log: its identity, and whether it is justified.
\<close>

type_synonym run_row = "(string \<times> string \<times> string \<times> string option) \<times> bool"

definition run_key :: "audit_log \<Rightarrow> run_row" where
  "run_key a = ((service_name a, method_name a, resource_name a, map_option principal_email (authentication a)), justified a)"

definition run_decode :: "string \<Rightarrow> audit_log" where
  "run_decode row = (case from_nat (length row) :: run_row of ((svc, m, res, p), j) \<Rightarrow>
     empty_audit_log\<lparr>service_name := svc, method_name := m, resource_name := res,
       authentication := map_option (\<lambda>e. \<lparr>principal_email = e\<rparr>) p,
       metadata := (if j then Some (Some [''justification'' \<mapsto> BoolValue True]) else None)\<rparr>)"

definition run_row_of :: "log_request \<Rightarrow> string" where
  "run_row_of q = (case payload q of None \<Rightarrow> [] | Some a \<Rightarrow> replicate (to_nat (run_key a)) CHR ''x'')"

definition run_entries :: entry_lib where
  "run_entries = \<lparr>el_unmarshal = (\<lambda>row. Inr \<lparr>be_logName = ''log'', be_timestamp = Some 0,
       be_jsonPayload = Some (Some [''row'' \<mapsto> StringValue row])\<rparr>),
     el_MarshalJSON = (\<lambda>s. case GetFields s of Some f \<Rightarrow> (case f ''row'' of Some (StringValue x) \<Rightarrow> Inr x
       | _ \<Rightarrow> Inr []) | None \<Rightarrow> Inr []),
     el_unmarshal_audit = (\<lambda>s. Inr (run_decode s)), ParseAddress = Inr\<rparr>"

definition run_bigquery :: "tk_ext bigquery" where
  "run_bigquery = \<lparr>bq_Run = (\<lambda>q w. case w_ext w of (ms, os, qs) \<Rightarrow>
       (Ret None, w\<lparr>w_ext := ([HelloRequest (q_parameter q) []], os, qs)\<rparr>)),
     job_Wait = go_return (Inr None),
     job_Read = (\<lambda>w. case w_ext w of (ms, os, qs) \<Rightarrow>
       (Ret (Inr (map run_row_of (filter (named (GetTarget (hd ms))) qs), None)), w))\<rparr>"

definition run_uuid :: "tk_ext world \<Rightarrow> string ret \<times> tk_ext world" where
  "run_uuid w = (case w_ext w of (ms, os, qs) \<Rightarrow>
     (Ret (CHR ''u'' # concat (map (\<lambda>q. case payload q of None \<Rightarrow> [] | Some a \<Rightarrow> resource_name a) qs)), w))"

definition run_jwt :: "(tk_ext, unit) jwt_lib" where
  "run_jwt = \<lparr>jl_Now = go_return 0, jl_uuid = run_uuid, jl_Build = (\<lambda>_. None), SetJustifications = (\<lambda>t js. Inr t),
     headers_Set_kid = (\<lambda>_. None), jwt_Sign = (\<lambda>t k h. Inr ''jvs'')\<rparr>"

definition run_lib :: "(tk_ext, unit) grpc_lib" where
  "run_lib = \<lparr>gl_jwt = run_jwt, gl_status_FromError = status_FromError run_env,
     gl_retry = (\<lambda>b f s. go_bind (f s) (\<lambda>(a, s'). go_return (case a of AttemptOk \<Rightarrow> None | Retryable e \<Rightarrow> Some e, s'))),
     gl_bigquery = run_bigquery, gl_entries = run_entries\<rparr>"

definition run_config :: test_config where
  "run_config = \<lparr>AuditLogRequestTimeout = 0, AuditLogRequestWait = 0, HTTPEndpoints = [], GRPCEndpoints = [],
     LogRoutingWait = 0, MaxAuditLogRequestTries = 1, MaxDBQueryTries = 1, JustificationSubject = ''s'', IDToken = [],
     ProjectID = ''p'', BigQueryDataset = ''d'', PrivateKeyFilePath = []\<rparr>"

definition run_case :: "unit test_case" where
  "run_case = \<lparr>tc_config = \<lparr>base_config = run_config, PrivateKey = Some ()\<rparr>, Endpoint = [], TraceID = []\<rparr>"

lemma run_decode_row:
  "payload q = Some a \<Longrightarrow> audit_identity (run_decode (run_row_of q)) = audit_identity a \<and>
     justified (run_decode (run_row_of q)) = justified a"
  by (cases "authentication a")
    (simp_all add: run_decode_def run_row_of_def run_key_def audit_identity_def empty_audit_log_def justified_def)

lemma run_row: "named t q \<Longrightarrow> row_of run_entries (run_row_of q) q"
  using run_decode_row [of q] by (auto simp: row_of_def run_entries_def named_def)

lemma run_finds: "finds_logs run_views run_entries run_bigquery tc"
proof -
  have "list_all2 (row_of run_entries) (map run_row_of (filter (named t) qs)) (filter (named t) qs)" for t qs
    by (auto simp: list_all2_map1 list_all2_same run_row)
  then show ?thesis
    unfolding finds_logs_def
    by (auto simp: run_bigquery_def run_views_def tk_views_def makeQueryForGRPC_def makeQuery_def split: prod.splits)
qed

lemma run_fresh: "fresh_ids run_views run_uuid"
proof -
  let ?n = "\<lambda>q :: log_request. case payload q of None \<Rightarrow> [] | Some a \<Rightarrow> resource_name a"
  have "\<not> named (CHR ''u'' # concat (map ?n qs)) q" if "q \<in> set qs" for q qs
  proof
    assume "named (CHR ''u'' # concat (map ?n qs)) q"
    then have "?n q = CHR ''u'' # concat (map ?n qs)" by (auto simp: named_def)
    moreover have "length (?n q) \<le> length (concat (map ?n qs))"
      using that by (metis (no_types, lifting) in_set_conv_decomp concat_append length_append list.map map_append
          concat.simps(2) le_add1 le_add2 order_trans)
    ultimately show False by simp
  qed
  then show ?thesis by (simp add: fresh_ids_def reads_run run_uuid_def)
qed

lemma run_libraries: "test_libraries run_views run_lib run_case"
proof -
  have "first_try (gl_retry run_lib)" by (auto simp: first_try_def run_lib_def go_bind_def)
  then show ?thesis
    using run_fresh run_keeps_status run_finds by (simp add: test_libraries_def run_lib_def run_jwt_def)
qed

lemma run_justifies: "justifies run_views run_stamp run_entries"
  by (auto simp: justifies_def run_views_def run_entries_def isValidEmail_def run_stamp_def run_justify_def justified_def)

lemma run_token: "justificationToken run_jwt ''talker-app'' subj k w = (Ret (Inr ''jvs''), w)"
  by (simp add: justificationToken_def run_jwt_def Let_def go_bind_def run_uuid_def split: prod.splits)

lemma run_trim: "TrimSpace ''jvs'' = ''jvs''"
  by (simp add: TrimSpace_def is_space_def)

end
