(* ===== verification/Cli_Pull.thy ===== *)
theory Cli_Pull
  imports Cli Puller
begin

section \<open>The tail command over the puller\<close>

text \<open>
  The interface \<open>logPuller\<close> of \<open>pkg/cli/tail.go\<close>, with the law \<open>list\<close> relies on, and its provider
  \<open>pkg/cloudlogging/puller.go\<close>; what \<open>tail\<close> prints over it; and what \<open>StreamPull\<close> delivers while
  the server sends.  The provider is given with the retry function it calls: it keeps the law for
  every retry function that behaves as documented.
\<close>

subsection \<open>The interface\<close>

locale log_pulling =
  fixes pull :: "'r \<Rightarrow> string \<Rightarrow> int \<Rightarrow> ('w, gerror + 'e list) go"
    and good :: "'r \<Rightarrow> bool"
  assumes bounded: "good R \<Longrightarrow> 0 \<le> n \<Longrightarrow> pull R f n w = (Ret (Inr ls), w') \<Longrightarrow> int (length ls) \<le> n"
begin

lemma within_limit:
  assumes "good R" "0 < n" "n \<le> 1000" "pull R f n w = (Ret (Inr ls), w')"
  shows "length ls \<le> 1000 \<and> int (length ls) \<le> n"
  using bounded [OF assms(1) _ assms(4)] assms(2,3) by simp

end

lemma pull_loop_length:
  assumes "pull_loop nxt n ls w = (Ret (a, ls'), w')" "int (length ls) \<le> n"
  shows "int (length ls') \<le> n"
  using assms
proof (induction nxt n ls w rule: pull_loop.induct)
  case (1 nxt n ls w)
  from 1(2,3) show ?case
    by (subst (asm) pull_loop.simps) (auto split: if_splits prod.splits ret.splits next_result.splits intro!: 1(1))
qed

lemma pull_attempts_length:
  assumes "attempts (pull_attempt c req n) s w a s' w'" "int (length s) \<le> n"
  shows "int (length s') \<le> n"
  using assms
  by (induction rule: attempts.induct)
    (auto simp: pull_attempt_def elim!: go_bind_RetE dest: pull_loop_length)

lemma Pull_bounded:
  assumes "obeys_retry R" "0 \<le> n" "Pull R p f n w = (Ret (Inr ls), w')"
  shows "int (length ls) \<le> n"
proof -
  from assms(3) obtain b v where
    "R b (pull_attempt (pu_client p) (pull_request (resource p) f) n) [] w = (Ret (None, ls), v)"
    by (auto simp: Pull_def elim!: go_bind_RetE split: option.splits)
  with assms(1) have "attempts (pull_attempt (pu_client p) (pull_request (resource p) f) n) [] w AttemptOk ls v"
    unfolding obeys_retry_def by blast
  from pull_attempts_length [OF this] assms(2) show ?thesis by simp
qed

interpretation cloud_puller: log_pulling "\<lambda>R. Pull R p" obeys_retry
  by unfold_locales (rule Pull_bounded)

subsection \<open>The tail command\<close>

text \<open>What \<open>list\<close> prints for the entries it got.\<close>

definition list_output :: "protojson \<Rightarrow> bool \<Rightarrow> validator list \<Rightarrow> log_entry list \<Rightarrow> print_call list" where
  "list_output pj v extra ls =
     (if ls = [] then [Outf ''No logs found.'' []]
      else concat (map (step_prints pj v extra) ls) @
        (if v then [print_summary (length (filter (\<lambda>l. marshal_fails pj l \<or> entry_invalid pj extra l) ls)) (length ls)]
         else []))"

lemma tail_list_prints:
  assumes "tail_list env c extra pl w = (Ret (err, out), w')"
  shows "(\<exists>x. lp_Pull pl (queryFilter env c) (flagMaxNum c) w = (Ret (Inl x), w') \<and>
            err = Some (wrapf ''failed to pull logs'' x) \<and> out = []) \<or>
         (\<exists>ls. lp_Pull pl (queryFilter env c) (flagMaxNum c) w = (Ret (Inr ls), w') \<and> err = None \<and>
            out = list_output (ce_protojson env) (flagValidate c) extra ls)"
  using assms
  by (auto simp: tail_list_def list_loop_eq list_output_def elim!: go_bind_RetE split: sum.splits if_splits)

lemma tail_Run_lists:
  assumes "parse args = Inr (c, [])" "flagScope c \<noteq> []" "0 < flagMaxNum c" "flagMaxNum c \<le> 1000"
    and "\<not> flagFollow c" "tail_Run parse env (Some pl) args w = (Ret (err, out), w')"
  shows "(\<exists>x. lp_Pull pl (queryFilter env c) (flagMaxNum c) w = (Ret (Inl x), w') \<and> err \<noteq> None \<and> out = []) \<or>
         (\<exists>ls. lp_Pull pl (queryFilter env c) (flagMaxNum c) w = (Ret (Inr ls), w') \<and> err = None \<and>
            out = list_output (ce_protojson env) (flagValidate c) (tail_extra env c) ls)"
proof -
  from assms obtain e v where t: "tail_list env c (tail_extra env c) pl w = (Ret (e, out), w')"
    and e: "err = (case e of Some e \<Rightarrow> errors_join [None, Some e] | None \<Rightarrow> None)"
    by (auto simp: tail_Run_def tail_with_puller_def elim!: go_bind_RetE)
  from tail_list_prints [OF t] e show ?thesis by auto
qed

subsection \<open>What StreamPull delivers\<close>

text \<open>
  The server sends responses with the entries \<open>es\<close>, between them maybe the end of the stream, and
  then fails with \<open>e\<close>.
\<close>

inductive streams ::
  "('w, 'e recv_result) go \<Rightarrow> ('e \<Rightarrow> ('w, unit) go) \<Rightarrow> 'w world \<Rightarrow> 'e list \<Rightarrow> gerror \<Rightarrow> 'w world \<Rightarrow> bool"
  for recv emit where
  fails: "recv w = (Ret (RecvError e), w1) \<Longrightarrow> \<not> errors_is e io_EOF \<Longrightarrow> streams recv emit w [] e w1"
| ended: "recv w = (Ret (RecvError x), w1) \<Longrightarrow> errors_is x io_EOF \<Longrightarrow> streams recv emit w1 es e w2 \<Longrightarrow>
     streams recv emit w es e w2"
| gives: "recv w = (Ret (RecvOk vs), w1) \<Longrightarrow> emit_all emit vs w1 = (Ret (), w2) \<Longrightarrow>
     streams recv emit w2 es e w3 \<Longrightarrow> streams recv emit w (vs @ es) e w3"

lemma streams_loop:
  "streams recv emit w es e w' \<Longrightarrow> stream_loop recv emit w = Some (Ret (wrapf ''failed to receive response'' e), w')"
proof (induction rule: streams.induct)
  case (fails w e w1)
  then show ?case by (subst stream_loop.simps) simp
next
  case (ended w x w1 es e w2)
  then show ?case by (subst stream_loop.simps) simp
next
  case (gives w vs w1 w2 es e w3)
  then show ?case by (subst stream_loop.simps) simp
qed

text \<open>A channel that takes every entry, in the order of the sends, as \<open>obs\<close> sees it.\<close>

definition channel :: "('w \<Rightarrow> 'e list) \<Rightarrow> ('e \<Rightarrow> ('w, unit) go) \<Rightarrow> bool" where
  "channel obs emit \<longleftrightarrow> (\<forall>v w u w'. emit v w = (Ret u, w') \<longrightarrow> obs (w_ext w') = obs (w_ext w) @ [v])"

definition unseen :: "('w \<Rightarrow> 'e list) \<Rightarrow> ('w, 'a) go \<Rightarrow> bool" where
  "unseen obs m \<longleftrightarrow> (\<forall>w. obs (w_ext (snd (m w))) = obs (w_ext w))"

lemma unseen_Ret: "unseen obs m \<Longrightarrow> m w = (Ret a, w') \<Longrightarrow> obs (w_ext w') = obs (w_ext w)"
  unfolding unseen_def by (metis snd_conv)

lemma emit_all_channel:
  "channel obs emit \<Longrightarrow> emit_all emit vs w = (Ret u, w') \<Longrightarrow> obs (w_ext w') = obs (w_ext w) @ vs"
  by (induction vs arbitrary: w) (auto simp: channel_def elim!: go_bind_RetE)

lemma streams_delivers:
  assumes "streams recv emit w es e w'" "channel obs emit" "unseen obs recv"
  shows "obs (w_ext w') = obs (w_ext w) @ es"
  using assms(1)
  by (induction rule: streams.induct)
    (auto simp: emit_all_channel [OF assms(2)] unseen_Ret [OF assms(3)])

text \<open>
  \<open>retry.Do\<close> with a limit of \<open>n\<close> retries: the function, which here always fails, runs again until the
  limit is reached.
\<close>

fun repeat_attempts ::
  "nat \<Rightarrow> ('w world \<Rightarrow> (gerror ret \<times> 'w world) option) \<Rightarrow> 'w world \<Rightarrow> (gerror ret \<times> 'w world) option" where
  "repeat_attempts 0 f w = f w"
| "repeat_attempts (Suc n) f w =
     (case f w of
        None \<Rightarrow> None
      | Some (Panic s, w1) \<Rightarrow> Some (Panic s, w1)
      | Some (Ret e, w1) \<Rightarrow> repeat_attempts n f w1)"

text \<open>A server that lets each of the attempts send its request and then streams.\<close>

inductive serves ::
  "('w, 'e) tail_client \<Rightarrow> list_request \<Rightarrow> ('e \<Rightarrow> ('w, unit) go) \<Rightarrow> nat \<Rightarrow> 'w world \<Rightarrow> 'e list \<Rightarrow> gerror \<Rightarrow> 'w world \<Rightarrow> bool"
  for tc req emit where
  last_attempt: "tc_Send tc req w = (Ret None, w1) \<Longrightarrow> streams (tc_Recv tc) emit w1 es e w2 \<Longrightarrow>
     serves tc req emit 0 w es e w2"
| one_more: "tc_Send tc req w = (Ret None, w1) \<Longrightarrow> streams (tc_Recv tc) emit w1 es x w2 \<Longrightarrow>
     serves tc req emit n w2 es' e w3 \<Longrightarrow> serves tc req emit (Suc n) w (es @ es') e w3"

lemma serves_repeats:
  "serves tc req emit n w es e w' \<Longrightarrow>
     repeat_attempts n (stream_attempt tc req emit) w = Some (Ret (wrapf ''failed to receive response'' e), w')"
  by (induction rule: serves.induct) (simp_all add: stream_attempt_def streams_loop)

lemma serves_delivers:
  assumes "serves tc req emit n w es e w'" "channel obs emit" "unseen obs (tc_Recv tc)" "unseen obs (tc_Send tc req)"
  shows "obs (w_ext w') = obs (w_ext w) @ es"
  using assms(1)
  by (induction rule: serves.induct)
    (auto simp: streams_delivers [OF _ assms(2,3)] unseen_Ret [OF assms(4)])

lemma StreamPull_serves:
  assumes "TailLogEntries (pu_client p) w = (Ret (Inr tc), w1)" "pu_retry p = Some b"
    and "serves tc (tail_request (resource p) f) emit n w1 es e w2" "tc_CloseSend tc w2 = (Ret None, w3)"
  shows "StreamPull (\<lambda>b. repeat_attempts n) p f emit w =
     Some (Ret (Some (Joined [wrapf ''failed to pull log entries'' (wrapf ''failed to receive response'' e)])), w3)"
  using assms(1,2,4) serves_repeats [OF assms(3)]
  by (simp add: StreamPull_def go_bind_Ret)

end
