(* ===== verification/Lumberctl.thy ===== *)
theory Lumberctl
  imports Cli_Pull
begin

section \<open>The program lumberctl: cmd/lumberctl, internal/version, pkg/cli/root.go\<close>

text \<open>
  The root command with its version, and how the program ends.  The build information and the root
  command's \<open>Run\<close>, which finds the command that its first argument names, are library code.
\<close>

record build_info =
  buildinfo_Version :: string
  buildinfo_Commit :: string
  buildinfo_OSArch :: string

definition version_Name :: string where "version_Name = ''lumberjack''"

definition HumanVersion :: "build_info \<Rightarrow> string" where
  "HumanVersion b =
     version_Name @ '' '' @ buildinfo_Version b @ '' ('' @ buildinfo_Commit b @ '', '' @ buildinfo_OSArch b @ '')''"

record root_command =
  rc_Name :: string
  rc_Version :: string
  rc_Commands :: "string \<rightharpoonup> command"

definition rootCmd :: "build_info \<Rightarrow> root_command" where
  "rootCmd b = \<lparr>rc_Name = ''lumberctl'', rc_Version = HumanVersion b, rc_Commands = root_commands\<rparr>"

text \<open>A command gives its error and what it printed.\<close>

type_synonym 'w command_run = "string list \<Rightarrow> ('w, gerror option \<times> print_call list) go"

definition cli_Run :: "(root_command \<Rightarrow> 'w command_run) \<Rightarrow> build_info \<Rightarrow> 'w command_run" where
  "cli_Run RootCommand_Run b args = RootCommand_Run (rootCmd b) args"

definition lumberctl_realMain :: "(root_command \<Rightarrow> 'w command_run) \<Rightarrow> build_info \<Rightarrow> 'w command_run" where
  "lumberctl_realMain RootCommand_Run b osArgs = cli_Run RootCommand_Run b (drop 1 osArgs)"

text \<open>The exit status, what was printed, and the lines on the standard error; a panic ends with 2.\<close>

definition lumberctl_main ::
  "(root_command \<Rightarrow> 'w command_run) \<Rightarrow> build_info \<Rightarrow> string list \<Rightarrow>
     'w world \<Rightarrow> (nat \<times> print_call list \<times> string list) \<times> 'w world" where
  "lumberctl_main RootCommand_Run b osArgs w =
     (case lumberctl_realMain RootCommand_Run b osArgs w of
        (Ret (Some err, out), w1) \<Rightarrow> ((1, out, [error_text err]), w1)
      | (Ret (None, out), w1) \<Rightarrow> ((0, out, []), w1)
      | (Panic s, w1) \<Rightarrow> ((2, [], [s]), w1))"

text \<open>The root command runs the command its first argument names, with the other arguments.\<close>

definition dispatches ::
  "(root_command \<Rightarrow> 'w command_run) \<Rightarrow> (command \<Rightarrow> 'w command_run) \<Rightarrow> bool" where
  "dispatches RootCommand_Run run \<longleftrightarrow>
     (\<forall>r name c rest. rc_Commands r name = Some c \<longrightarrow> RootCommand_Run r (name # rest) = run c rest)"

definition run_command ::
  "(string list \<Rightarrow> gerror + tail_command \<times> string list) \<Rightarrow>
     (string list \<Rightarrow> gerror + validate_command \<times> string list) \<Rightarrow> 'w cli_env \<Rightarrow> command \<Rightarrow> 'w command_run" where
  "run_command parse_tail parse_validate env c args =
     (case c of
        TailCmd \<Rightarrow> tail_Run parse_tail env None args
      | ValidateCmd \<Rightarrow> go_return (validate_Run parse_validate env args))"

text \<open>\<open>lumberctl validate\<close> and \<open>lumberctl tail\<close> exit with 0 exactly when the command has no error.\<close>

lemma lumberctl_validate:
  assumes "dispatches R (run_command pt pv env)"
  shows "fst (lumberctl_main R b (prog # ''validate'' # args) w) =
     (case validate_Run pv env args of
        (None, out) \<Rightarrow> (0, out, []) | (Some e, out) \<Rightarrow> (1, out, [error_text e]))"
proof -
  have "rc_Commands (rootCmd b) ''validate'' = Some ValidateCmd"
    by (simp add: rootCmd_def root_commands_def)
  with assms have "R (rootCmd b) (''validate'' # args) = run_command pt pv env ValidateCmd args"
    unfolding dispatches_def by blast
  then show ?thesis
    by (simp add: lumberctl_main_def lumberctl_realMain_def cli_Run_def run_command_def
        split: prod.splits option.splits)
qed

lemma lumberctl_tail:
  assumes "dispatches R (run_command pt pv env)" "tail_Run pt env None args w = (Ret (err, out), w')"
  shows "lumberctl_main R b (prog # ''tail'' # args) w =
     ((if err = None then 0 else 1, out, map error_text (case err of None \<Rightarrow> [] | Some e \<Rightarrow> [e])), w')"
proof -
  have "rc_Commands (rootCmd b) ''tail'' = Some TailCmd"
    by (simp add: rootCmd_def root_commands_def)
  with assms(1) have "R (rootCmd b) (''tail'' # args) = run_command pt pv env TailCmd args"
    unfolding dispatches_def by blast
  with assms(2) show ?thesis
    by (simp add: lumberctl_main_def lumberctl_realMain_def cli_Run_def run_command_def
        split: option.splits)
qed

end
