(* ===== verification/Testutil.thy ===== *)
theory Testutil
  imports Validation Testing
begin

section \<open>What the unit tests share: clients/go/pkg/testutil\<close>

text \<open>
  The builder of log requests with its options (\<open>request.go\<close>), a signed token (\<open>jwt.go\<close>) and a
  server to connect to (\<open>grpc.go\<close>).  An option of a request writes through its pointers, and panics
  when one is nil.
\<close>

subsection \<open>jwt.go and grpc.go\<close>

text \<open>The JWT library builds a token of claims and signs it with HS512 and a key.\<close>

definition signingString :: string where
  "signingString = ''this-is-definitely-not-a-secret-string-for-signing-jwts-look-the-other-way-please-and-thank-you''"

definition JWTFromClaims ::
  "((string \<rightharpoonup> 'v) \<Rightarrow> gerror + 't) \<Rightarrow> ('t \<Rightarrow> string \<Rightarrow> gerror + string) \<Rightarrow> (string \<rightharpoonup> 'v) \<Rightarrow> string tb" where
  "JWTFromClaims Build Sign_HS512 claims =
     (case Build claims of
        Inl err \<Rightarrow> tb_Fatalf (error_text err)
      | Inr token \<Rightarrow>
          (case Sign_HS512 token signingString of
             Inl err \<Rightarrow> tb_Fatalf (error_text err)
           | Inr b \<Rightarrow> tb_return b))"

text \<open>
  The server is registered, listens on a port of its own and serves on another goroutine (\<open>serving\<close>
  starts that), the client is connected to it; the server is stopped when the test ends, whatever
  happened (the second result).
\<close>

record ('w, 's, 'l, 'c) server_lib =
  sl_NewServer :: 's
  GracefulStop :: "'s \<Rightarrow> ('w, unit) go"
  net_Listen :: "string \<Rightarrow> ('w, gerror + 'l) go"
  lis_Addr :: "'l \<Rightarrow> string"
  serving :: "'s \<Rightarrow> 'l \<Rightarrow> ('w, unit) go"
  insecure_NewClient :: "string \<Rightarrow> ('w, gerror + 'c) go"

definition TestFakeGRPCServer ::
  "('w, 's, 'l, 'c) server_lib \<Rightarrow> ('s \<Rightarrow> ('w, 's) go) \<Rightarrow> ('w, (string \<times> 'c) tb \<times> ('w, unit) go) go" where
  "TestFakeGRPCServer L registerFunc =
     go_bind (registerFunc (sl_NewServer L)) (\<lambda>s.
     go_bind (net_Listen L ''localhost:0'') (\<lambda>res.
       case res of
         Inl err \<Rightarrow> go_return (tb_Fatalf (''net.Listen(tcp, localhost:0) failed: '' @ error_text err), GracefulStop L s)
       | Inr lis \<Rightarrow>
           go_bind (serving L s lis) (\<lambda>_.
           let addr = lis_Addr L lis in
           go_bind (insecure_NewClient L addr) (\<lambda>res.
             case res of
               Inl err \<Rightarrow> go_return (tb_Fatalf (''failed to dail '' @ go_quote addr @ '': '' @ error_text err), GracefulStop L s)
             | Inr conn \<Rightarrow> go_return (tb_return (addr, conn), GracefulStop L s)))))"

subsection \<open>request.go\<close>

type_synonym 'w request_option = "log_request \<Rightarrow> ('w, log_request) go"

definition default_request :: log_request where
  "default_request = empty_log_request\<lparr>
     req_type := LT_DATA_ACCESS,
     payload := Some (empty_audit_log\<lparr>method_name := ''test-method'', service_name := ''test-service'',
       resource_name := ''test-resource'', authentication := Some \<lparr>principal_email = ''user@example.com''\<rparr>\<rparr>)\<rparr>"

fun apply_request_options :: "'w request_option list \<Rightarrow> log_request \<Rightarrow> ('w, log_request) go" where
  "apply_request_options [] r = go_return r"
| "apply_request_options (opt # opts) r = go_bind (opt r) (apply_request_options opts)"

definition NewRequest_with :: "'w request_option list \<Rightarrow> ('w, log_request) go" where
  "NewRequest_with opts = apply_request_options opts default_request"

definition update_payload :: "(audit_log \<Rightarrow> audit_log) \<Rightarrow> 'w request_option" where
  "update_payload f r =
     (case payload r of None \<Rightarrow> go_panic nil_deref | Some a \<Rightarrow> go_return (r\<lparr>payload := Some (f a)\<rparr>))"

definition WithLabels :: "labels option \<Rightarrow> 'w request_option" where
  "WithLabels ls r = go_return (r\<lparr>req_labels := ls\<rparr>)"

definition WithPrincipal :: "string \<Rightarrow> 'w request_option" where
  "WithPrincipal p r =
     (case payload r of
        None \<Rightarrow> go_panic nil_deref
      | Some a \<Rightarrow>
          (case authentication a of
             None \<Rightarrow> go_panic nil_deref
           | Some i \<Rightarrow> go_return (r\<lparr>payload := Some (a\<lparr>authentication := Some (i\<lparr>principal_email := p\<rparr>)\<rparr>)\<rparr>)))"

definition WithMethodName :: "string \<Rightarrow> 'w request_option" where
  "WithMethodName m = update_payload (method_name_update (\<lambda>_. m))"

definition WithServiceName :: "string \<Rightarrow> 'w request_option" where
  "WithServiceName s = update_payload (service_name_update (\<lambda>_. s))"

definition WithMetadata :: "pstruct option \<Rightarrow> 'w request_option" where
  "WithMetadata md = update_payload (metadata_update (\<lambda>_. md))"

definition WithMode :: "log_mode \<Rightarrow> 'w request_option" where
  "WithMode m r = go_return (r\<lparr>mode := m\<rparr>)"

text \<open>The request is valid, and stays so under options that set values validation accepts.\<close>

lemma default_request_valid: "valid_request default_request"
  by (simp add: default_request_def valid_request_def valid_audit_log_def valid_identity_def audit_identity_def
      valid_email_def)

definition keeps_valid :: "'w request_option \<Rightarrow> bool" where
  "keeps_valid opt \<longleftrightarrow> (\<forall>r w. valid_request r \<longrightarrow> (\<exists>r'. opt r w = (Ret r', w) \<and> valid_request r'))"

lemma options_keep_valid:
  "keeps_valid (WithLabels ls)" "keeps_valid (WithMode m)" "keeps_valid (WithMetadata md)"
  "s \<noteq> [] \<Longrightarrow> keeps_valid (WithMethodName s)" "s \<noteq> [] \<Longrightarrow> keeps_valid (WithServiceName s)"
  "valid_email s \<Longrightarrow> keeps_valid (WithPrincipal s)"
  by (auto simp: keeps_valid_def WithLabels_def WithMode_def WithMetadata_def WithMethodName_def
      WithServiceName_def WithPrincipal_def update_payload_def valid_request_def valid_audit_log_def
      valid_identity_def audit_identity_def split: option.splits)

lemma apply_request_options_valid:
  "\<forall>opt \<in> set opts. keeps_valid opt \<Longrightarrow> valid_request r \<Longrightarrow>
     \<exists>r'. apply_request_options opts r w = (Ret r', w) \<and> valid_request r'"
proof (induction opts arbitrary: r)
  case (Cons opt opts)
  then obtain r1 where "opt r w = (Ret r1, w)" "valid_request r1"
    unfolding keeps_valid_def by force
  with Cons show ?case by (simp add: go_bind_Ret)
qed simp

end
