(* ===== verification/Main_Test.thy ===== *)
theory Main_Test
  imports Testrunner
begin

section \<open>The tests of all endpoints: integration/testrunner/main\_test.go\<close>

text \<open>
  The entry of the integration test and the two tests that run a test for each endpoint.  A test
  case embeds a pointer to the global configuration, so the identity token that \<open>resolveIDToken\<close>
  assigns goes into the configuration all tests share: the configuration is state that the
  tests hand on.  \<open>json.Unmarshal\<close>, the token source and BigQuery's client are parameters.
\<close>

subsection \<open>The code\<close>

text \<open>The exit status, and what \<open>log.Fatalf\<close> prints.\<close>

definition TestMain ::
  "string \<Rightarrow> ('w, gerror + 'k keyed_config) go \<Rightarrow> ('k keyed_config \<Rightarrow> ('w, nat) go) \<Rightarrow>
     ('w, nat \<times> string) go" where
  "TestMain TEST_INTEGRATION newConfig m_Run =
     (if ToLower TEST_INTEGRATION \<noteq> ''true'' then go_return (0, [])
      else go_bind newConfig (\<lambda>res.
        case res of
          Inl err \<Rightarrow> go_return (1, ''Failed to parse integration test config: '' @ error_text err)
        | Inr c \<Rightarrow> go_bind (m_Run c) (\<lambda>code. go_return (code, []))))"

text \<open>A token source is made for an audience; it gives an access token.\<close>

type_synonym 'w token_lib = "string \<Rightarrow> gerror + ('w, gerror + string) go"

definition set_IDToken :: "string \<Rightarrow> 'k keyed_config \<Rightarrow> 'k keyed_config" where
  "set_IDToken t cfg = cfg\<lparr>base_config := (base_config cfg)\<lparr>IDToken := t\<rparr>\<rparr>"

definition resolveIDToken ::
  "'w token_lib \<Rightarrow> string \<Rightarrow> 'k keyed_config \<Rightarrow> ('w, gerror option \<times> 'k keyed_config) go" where
  "resolveIDToken newSource endpoint cfg =
     (if IDToken (base_config cfg) \<noteq> [] then go_return (None, cfg)
      else case newSource endpoint of
          Inl err \<Rightarrow> go_return (Some (wrapf ''unable to create token source'' err), cfg)
        | Inr ts \<Rightarrow> go_bind ts (\<lambda>res.
            case res of
              Inl err \<Rightarrow> go_return (Some (wrapf ''unable to get token'' err), cfg)
            | Inr t \<Rightarrow> go_return (None, set_IDToken t cfg)))"

text \<open>
  The test of one endpoint: what it reports, with the result of the test it runs, the cleanups that
  are left to run, and the configuration.
\<close>

type_synonym ('w, 'r) outcome = "'r tb \<times> ('w, unit tb) go list"

record ('w, 'c) endpoint_libs =
  el_NewBigQuery :: "string \<Rightarrow> gerror + 'c"
  el_Close :: "'c \<Rightarrow> ('w, gerror option) go"
  el_NewTokenSource :: "'w token_lib"

definition endpoint_test ::
  "('w, 'c) endpoint_libs \<Rightarrow> ('c \<Rightarrow> 'k test_case \<Rightarrow> ('w, ('w, 'r) outcome) go) \<Rightarrow> nat \<Rightarrow> string \<Rightarrow>
     'k keyed_config \<Rightarrow> ('w, ('w, 'r) outcome \<times> 'k keyed_config) go" where
  "endpoint_test L test i tc cfg =
     (if tc = []
      then go_return ((tb_Fatalf (''URL for test with index '' @ show_nat i @ '' not found.''), []), cfg)
      else
        case makeBigQueryClient (el_NewBigQuery L) (el_Close L) (ProjectID (base_config cfg)) of
          (ms, None) \<Rightarrow> go_return (((ms, None), []), cfg)
        | (_, Some (client, close)) \<Rightarrow>
            go_bind (resolveIDToken (el_NewTokenSource L) tc cfg) (\<lambda>(err, cfg).
              case err of
                Some e \<Rightarrow> go_return
                  ((tb_Fatalf (''Resolving ID Token failed: '' @ error_text e @ ''.''), [close]), cfg)
              | None \<Rightarrow>
                  go_bind (test client \<lparr>tc_config = cfg, Endpoint = tc, TraceID = []\<rparr>) (\<lambda>(t, cleanups).
                    go_return ((t, close # cleanups), cfg))))"

text \<open>The two tests; \<open>skip\<close> is the verdict of \<open>SkipIfNotIntegration\<close>.  The subtests have the endpoint as name.\<close>

type_synonym ('w, 'k, 'r) endpoint_subtest =
  "string \<times> ('k keyed_config \<Rightarrow> ('w, ('w, 'r) outcome \<times> 'k keyed_config) go)"

definition endpoint_subtests ::
  "('w, 'c) endpoint_libs \<Rightarrow> ('c \<Rightarrow> 'k test_case \<Rightarrow> ('w, ('w, 'r) outcome) go) \<Rightarrow> string list \<Rightarrow>
     ('w, 'k, 'r) endpoint_subtest list" where
  "endpoint_subtests L test tests = map (\<lambda>(i, tc). (tc, endpoint_test L test i tc)) (enumerate 0 tests)"

definition run_for_endpoints ::
  "bool \<Rightarrow> (string \<Rightarrow> gerror + string list) \<Rightarrow> ('w, 'c) endpoint_libs \<Rightarrow>
     ('c \<Rightarrow> 'k test_case \<Rightarrow> ('w, ('w, 'r) outcome) go) \<Rightarrow> string \<Rightarrow> ('w, 'k, 'r) endpoint_subtest list tb" where
  "run_for_endpoints skip Unmarshal L test testsData =
     (if skip then tb_return []
      else case Unmarshal testsData of
          Inl err \<Rightarrow> tb_Fatalf (''Unable to parse HTTP endpoints: '' @ error_text err @ ''.'')
        | Inr tests \<Rightarrow> tb_return (endpoint_subtests L test tests))"

lemma map_snd_endpoint_subtests:
  "map snd (endpoint_subtests L test es) = map (\<lambda>(i, e). endpoint_test L test i e) (enumerate 0 es)"
  by (simp add: endpoint_subtests_def split_def comp_def)

text \<open>The HTTP test of an endpoint, with the BigQuery client's operations.\<close>

definition TestHTTPEndpoints ::
  "bool \<Rightarrow> (string \<Rightarrow> gerror + string list) \<Rightarrow> ('w, 'c) endpoint_libs \<Rightarrow>
     (nat \<times> int \<Rightarrow> ('w, http_attempt) go \<Rightarrow> ('w, gerror option) go) \<Rightarrow>
     ('w, string list, nat \<times> int) retry_do \<Rightarrow> ('w, 'k) http_lib \<Rightarrow> ('c \<Rightarrow> 'w bigquery) \<Rightarrow> entry_lib \<Rightarrow>
     'k keyed_config \<Rightarrow> ('w, 'k, unit) endpoint_subtest list tb" where
  "TestHTTPEndpoints skip Unmarshal L retry_http retry_Do hl bq el cfg =
     run_for_endpoints skip Unmarshal L
       (\<lambda>client tc. go_bind (testHTTPEndpoint retry_http retry_Do hl (bq client) el tc)
          (\<lambda>t. go_return (t, [])))
       (HTTPEndpoints (base_config cfg))"

text \<open>The gRPC test: the connection is made with the endpoint and the token; the error of its \<open>Close\<close> is ignored.\<close>

definition TestGRPCEndpoints ::
  "bool \<Rightarrow> (string \<Rightarrow> gerror + string list) \<Rightarrow> ('w, 'c) endpoint_libs \<Rightarrow> ('c \<Rightarrow> ('w, 'k) grpc_lib) \<Rightarrow>
     gerror + 'pool \<Rightarrow> ('pool \<Rightarrow> string \<Rightarrow> string \<Rightarrow> gerror + 'w talker_cc) \<Rightarrow> ctx \<Rightarrow>
     'k keyed_config \<Rightarrow> ('w, 'k, (string \<times> ('w, unit tb) may_diverge) list) endpoint_subtest list tb" where
  "TestGRPCEndpoints skip Unmarshal L gl systemPool newConn c cfg =
     run_for_endpoints skip Unmarshal L
       (\<lambda>client tc. go_bind
          (testGRPCEndpoint (gl client) None
             (createConnection systemPool newConn (Endpoint tc) (IDToken (base_config (tc_config tc)))) c tc)
          (\<lambda>(t, closes). go_return (t, map (\<lambda>close. go_bind close (\<lambda>_. go_return (tb_return ()))) closes)))
       (GRPCEndpoints (base_config cfg))"

subsection \<open>One endpoint after the other\<close>

text \<open>
  The subtests are marked parallel.  This is the run that takes them in order, each with the
  configuration the one before left.
\<close>

fun run_in_order ::
  "('k keyed_config \<Rightarrow> ('w, 'o \<times> 'k keyed_config) go) list \<Rightarrow> 'k keyed_config \<Rightarrow>
     ('w, 'o list \<times> 'k keyed_config) go" where
  "run_in_order [] cfg = go_return ([], cfg)"
| "run_in_order (s # ss) cfg =
     go_bind (s cfg) (\<lambda>(r, cfg). go_bind (run_in_order ss cfg) (\<lambda>(rs, cfg). go_return (r # rs, cfg)))"

text \<open>With a token in the configuration no endpoint asks for one.\<close>

lemma resolveIDToken_present:
  "IDToken (base_config cfg) \<noteq> [] \<Longrightarrow> resolveIDToken ts e cfg = go_return (None, cfg)"
  by (simp add: resolveIDToken_def)

lemma resolveIDToken_cases:
  assumes "resolveIDToken newSource e cfg w = (Ret (None, cfg'), w')" "IDToken (base_config cfg) = []"
  shows "\<exists>ts t. newSource e = Inr ts \<and> ts w = (Ret (Inr t), w') \<and> cfg' = set_IDToken t cfg"
  using assms by (auto simp: resolveIDToken_def elim!: go_bind_RetE split: sum.splits)

lemma endpoint_test_present:
  assumes "IDToken (base_config cfg) \<noteq> []"
  shows "endpoint_test (L\<lparr>el_NewTokenSource := ts\<rparr>) test i e cfg = endpoint_test L test i e cfg"
  unfolding endpoint_test_def resolveIDToken_present [OF assms] by simp

lemma endpoint_test_keeps:
  assumes "IDToken (base_config cfg) \<noteq> []" "endpoint_test L test i e cfg w = (Ret (r, cfg'), w')"
  shows "cfg' = cfg"
  using assms
  by (auto simp: endpoint_test_def resolveIDToken_present elim!: go_bind_RetE split: if_splits option.splits prod.splits)

lemma run_in_order_present:
  assumes "IDToken (base_config cfg) \<noteq> []"
  shows "run_in_order (map (\<lambda>(i, e). endpoint_test L test i e) es) cfg w =
     run_in_order (map (\<lambda>(i, e). endpoint_test (L\<lparr>el_NewTokenSource := ts\<rparr>) test i e) es) cfg w"
proof (induction es arbitrary: w)
  case (Cons x es)
  obtain i e where x: "x = (i, e)" by fastforce
  show ?case
  proof (cases "endpoint_test L test i e cfg w")
    case (Pair r w1)
    show ?thesis
    proof (cases r)
      case (Ret rc)
      then obtain o1 cfg1 where rc: "r = Ret (o1, cfg1)" by (cases rc) simp
      with endpoint_test_keeps [OF assms] Pair have "cfg1 = cfg" by blast
      with Pair rc Cons.IH show ?thesis
        by (simp add: x go_bind_def endpoint_test_present [OF assms])
    qed (simp add: x Pair go_bind_def endpoint_test_present [OF assms])
  qed
qed simp

text \<open>The first endpoint that gets a token leaves it to all that come after.\<close>

lemma first_endpoint_resolves:
  assumes "IDToken (base_config cfg) = []" "e \<noteq> []" "newSource e = Inr src" "src w = (Ret (Inr t), w1)" "t \<noteq> []"
    and "el_NewBigQuery L (ProjectID (base_config cfg)) = Inr client" "el_NewTokenSource L = newSource"
  shows "endpoint_test L test i e cfg w = endpoint_test L test i e (set_IDToken t cfg) w1"
  using assms
  by (simp add: endpoint_test_def resolveIDToken_def makeBigQueryClient_def set_IDToken_def tb_return_def go_bind_def)

end
