(* ===== verification/Proto_Wire.thy ===== *)
theory Proto_Wire
  imports Go_Prelude "HOL-Library.Word"
begin

section \<open>The wire format of Protocol Buffers\<close>

text \<open>
  The documented encoding of a message, as a specification: a message is a sequence of fields, each
  a tag and a value.  The tag and the integers are variable-length, seven bits to a byte and the
  least significant first.  A descriptor holds integers, strings and messages only, so the fixed
  wire types do not occur in one.  \<open>wire_fields\<close> reads what \<open>put_fields\<close> writes (lemma
  \<open>wire_fields_put\<close>), and \<open>decode_file\<close> reads a file descriptor, the parts of \<open>descriptor.proto\<close>
  that the files of this repository use.
\<close>

type_synonym byte = "8 word"

subsection \<open>Fields\<close>

fun get_varint :: "byte list \<Rightarrow> (nat \<times> byte list) option" where
  "get_varint [] = None"
| "get_varint (b # bs) =
     (let n = unat b
      in if n < 128 then Some (n, bs)
         else map_option (map_prod (\<lambda>m. n - 128 + 128 * m) id) (get_varint bs))"

datatype wire = Varint nat | Bytes "byte list"

fun get_bytes :: "nat \<Rightarrow> byte list \<Rightarrow> (byte list \<times> byte list) option" where
  "get_bytes 0 bs = Some ([], bs)"
| "get_bytes (Suc n) [] = None"
| "get_bytes (Suc n) (b # bs) = map_option (map_prod (Cons b) id) (get_bytes n bs)"

definition get_field :: "byte list \<Rightarrow> ((nat \<times> wire) \<times> byte list) option" where
  "get_field bs =
     Option.bind (get_varint bs) (\<lambda>(tag, bs).
     Option.bind (get_varint bs) (\<lambda>(n, bs).
       if tag mod 8 = 0 then Some ((tag div 8, Varint n), bs)
       else if tag mod 8 = 2 then map_option (map_prod (\<lambda>v. (tag div 8, Bytes v)) id) (get_bytes n bs)
       else None))"

lemma get_varint_shorter: "get_varint bs = Some (n, bs') \<Longrightarrow> length bs' < length bs"
proof (induction bs arbitrary: n)
  case (Cons b bs)
  show ?case
  proof (cases "unat b < 128")
    case False
    with Cons.prems obtain m where "get_varint bs = Some (m, bs')"
      by (auto simp: Let_def)
    with Cons.IH show ?thesis by (simp add: less_SucI)
  qed (use Cons.prems in \<open>simp add: Let_def\<close>)
qed simp

lemma get_bytes_Some: "get_bytes n bs = Some (v, bs') \<longleftrightarrow> bs = v @ bs' \<and> length v = n"
proof (induction n bs arbitrary: v rule: get_bytes.induct)
  case (3 n b bs)
  then show ?case by (cases v) auto
qed auto

lemma get_bytes_append [simp]: "get_bytes (length v) (v @ bs) = Some (v, bs)"
  by (simp add: get_bytes_Some)

lemma get_field_shorter: "get_field bs = Some (f, bs') \<Longrightarrow> length bs' < length bs"
  by (fastforce simp: get_field_def bind_eq_Some_conv get_bytes_Some dest: get_varint_shorter
      split: if_splits)

function wire_fields :: "byte list \<Rightarrow> (nat \<times> wire) list option" where
  "wire_fields bs =
     (if bs = [] then Some []
      else case get_field bs of
          None \<Rightarrow> None
        | Some (f, bs') \<Rightarrow> map_option (Cons f) (wire_fields bs'))"
  by pat_completeness auto
termination by (relation "measure length") (auto dest: get_field_shorter)

declare wire_fields.simps [simp del]

lemma wire_fields_simps:
  "wire_fields [] = Some []"
  "wire_fields (b # bs) =
     (case get_field (b # bs) of None \<Rightarrow> None | Some (f, bs') \<Rightarrow> map_option (Cons f) (wire_fields bs'))"
  by (simp_all add: wire_fields.simps)

text \<open>The writer.\<close>

fun put_varint :: "nat \<Rightarrow> byte list" where
  "put_varint n = (if n < 128 then [of_nat n] else of_nat (128 + n mod 128) # put_varint (n div 128))"

declare put_varint.simps [simp del]

fun put_field :: "nat \<times> wire \<Rightarrow> byte list" where
  "put_field (k, Varint n) = put_varint (8 * k) @ put_varint n"
| "put_field (k, Bytes bs) = put_varint (8 * k + 2) @ put_varint (length bs) @ bs"

definition put_fields :: "(nat \<times> wire) list \<Rightarrow> byte list" where
  "put_fields fs = concat (map put_field fs)"

lemma get_put_varint [simp]: "get_varint (put_varint n @ bs) = Some (n, bs)"
proof (induction n rule: put_varint.induct)
  case (1 n)
  have "unat (of_nat (128 + n mod 128) :: byte) = 128 + n mod 128"
    by (simp add: unat_of_nat del: of_nat_add)
  moreover have "unat (of_nat n :: byte) = n" if "n < 128"
    using that by (simp add: unat_of_nat)
  ultimately show ?case
    using 1 by (subst put_varint.simps) (simp add: Let_def del: of_nat_add)
qed

lemma tag_mod_div [simp]: "(8 * k + 2) mod 8 = (2 :: nat)" "(8 * k + 2) div 8 = (k :: nat)"
  by presburger+

lemma get_put_field [simp]: "get_field (put_field f @ bs) = Some (f, bs)"
  by (cases f rule: put_field.cases)
    (simp_all add: get_field_def del: add_2_eq_Suc add_2_eq_Suc')

lemma put_field_nonempty [simp]: "put_field f \<noteq> []"
  by (cases f rule: put_field.cases) (simp_all add: put_varint.simps)

lemma wire_fields_put: "wire_fields (put_fields fs) = Some fs"
  by (induction fs) (simp_all add: put_fields_def wire_fields_simps wire_fields.simps [of "_ @ _"])

subsection \<open>Descriptors\<close>

text \<open>A string of a descriptor is ASCII.\<close>

definition text_of :: "byte list \<Rightarrow> string" where
  "text_of bs = map (char_of \<circ> unat) bs"

text \<open>The values of the field with a number: of a singular field the last counts.\<close>

definition nums :: "nat \<Rightarrow> (nat \<times> wire) list \<Rightarrow> nat list" where
  "nums k fs = List.map_filter (\<lambda>(j, v). case v of Varint n \<Rightarrow> if j = k then Some n else None | _ \<Rightarrow> None) fs"

definition blobs :: "nat \<Rightarrow> (nat \<times> wire) list \<Rightarrow> byte list list" where
  "blobs k fs = List.map_filter (\<lambda>(j, v). case v of Bytes bs \<Rightarrow> if j = k then Some bs else None | _ \<Rightarrow> None) fs"

definition the_num :: "nat \<Rightarrow> (nat \<times> wire) list \<Rightarrow> nat" where
  "the_num k fs = (case nums k fs of [] \<Rightarrow> 0 | ns \<Rightarrow> last ns)"

definition the_text :: "nat \<Rightarrow> (nat \<times> wire) list \<Rightarrow> string" where
  "the_text k fs = (case blobs k fs of [] \<Rightarrow> [] | bs \<Rightarrow> text_of (last bs))"

definition the_flag :: "nat \<Rightarrow> (nat \<times> wire) list \<Rightarrow> bool" where
  "the_flag k fs \<longleftrightarrow> the_num k fs \<noteq> 0"

fun all_some :: "'a option list \<Rightarrow> 'a list option" where
  "all_some [] = Some []"
| "all_some (x # xs) = Option.bind x (\<lambda>y. map_option (Cons y) (all_some xs))"

text \<open>\<open>FieldDescriptorProto.Type\<close> and \<open>Label\<close>, the ones that occur.\<close>

datatype field_type = TYPE_STRING | TYPE_UINT32 | TYPE_UINT64 | TYPE_MESSAGE string | TYPE_ENUM string
datatype field_label = LABEL_OPTIONAL | LABEL_REPEATED

definition field_type_of :: "nat \<Rightarrow> string \<Rightarrow> field_type option" where
  "field_type_of n t =
     (if n = 4 then Some TYPE_UINT64
      else if n = 9 then Some TYPE_STRING
      else if n = 11 then Some (TYPE_MESSAGE t)
      else if n = 13 then Some TYPE_UINT32
      else if n = 14 then Some (TYPE_ENUM t)
      else None)"

definition field_label_of :: "nat \<Rightarrow> field_label option" where
  "field_label_of n = (if n = 1 then Some LABEL_OPTIONAL else if n = 3 then Some LABEL_REPEATED else None)"

record field_desc =
  fd_name :: string
  fd_number :: nat
  fd_label :: field_label
  fd_type :: field_type

record enum_value_desc =
  ev_name :: string
  ev_number :: nat
  ev_log_name :: string

record enum_desc =
  ed_name :: string
  ed_values :: "enum_value_desc list"

datatype message_desc =
  MessageDesc (md_name: string) (md_fields: "field_desc list") (md_nested: "message_desc list")
    (md_enums: "enum_desc list") (md_map_entry: bool)

record method_desc =
  mt_name :: string
  mt_input :: string
  mt_output :: string
  mt_client_streaming :: bool
  mt_server_streaming :: bool

record svc_desc =
  sv_name :: string
  sv_methods :: "method_desc list"

record extension_desc =
  ex_field :: field_desc
  ex_extendee :: string

record file_desc =
  fl_name :: string
  fl_package :: string
  fl_dependencies :: "string list"
  fl_messages :: "message_desc list"
  fl_enums :: "enum_desc list"
  fl_services :: "svc_desc list"
  fl_extensions :: "extension_desc list"
  fl_go_package :: string
  fl_syntax :: string

definition decode_field :: "byte list \<Rightarrow> field_desc option" where
  "decode_field bs =
     Option.bind (wire_fields bs) (\<lambda>fs.
     Option.bind (field_type_of (the_num 5 fs) (the_text 6 fs)) (\<lambda>t.
     Option.bind (field_label_of (the_num 4 fs)) (\<lambda>l.
       Some \<lparr>fd_name = the_text 1 fs, fd_number = the_num 3 fs, fd_label = l, fd_type = t\<rparr>)))"

text \<open>The extension \<open>log_name\<close> of an enum value has the number 390161750.\<close>

definition decode_enum_value :: "byte list \<Rightarrow> enum_value_desc option" where
  "decode_enum_value bs =
     Option.bind (wire_fields bs) (\<lambda>fs.
     Option.bind (wire_fields (concat (blobs 3 fs))) (\<lambda>opts.
       Some \<lparr>ev_name = the_text 1 fs, ev_number = the_num 2 fs, ev_log_name = the_text 390161750 opts\<rparr>))"

definition decode_enum :: "byte list \<Rightarrow> enum_desc option" where
  "decode_enum bs =
     Option.bind (wire_fields bs) (\<lambda>fs.
     Option.bind (all_some (map decode_enum_value (blobs 2 fs))) (\<lambda>vs.
       Some \<lparr>ed_name = the_text 1 fs, ed_values = vs\<rparr>))"

text \<open>Messages nest: the bound on the depth is the length of the descriptor.\<close>

fun decode_message :: "nat \<Rightarrow> byte list \<Rightarrow> message_desc option" where
  "decode_message 0 bs = None"
| "decode_message (Suc d) bs =
     Option.bind (wire_fields bs) (\<lambda>fs.
     Option.bind (all_some (map decode_field (blobs 2 fs))) (\<lambda>fields.
     Option.bind (all_some (map (decode_message d) (blobs 3 fs))) (\<lambda>nested.
     Option.bind (all_some (map decode_enum (blobs 4 fs))) (\<lambda>enums.
     Option.bind (wire_fields (concat (blobs 7 fs))) (\<lambda>opts.
       Some (MessageDesc (the_text 1 fs) fields nested enums (the_flag 7 opts)))))))"

definition decode_method :: "byte list \<Rightarrow> method_desc option" where
  "decode_method bs =
     Option.bind (wire_fields bs) (\<lambda>fs.
       Some \<lparr>mt_name = the_text 1 fs, mt_input = the_text 2 fs, mt_output = the_text 3 fs,
         mt_client_streaming = the_flag 5 fs, mt_server_streaming = the_flag 6 fs\<rparr>)"

definition decode_service :: "byte list \<Rightarrow> svc_desc option" where
  "decode_service bs =
     Option.bind (wire_fields bs) (\<lambda>fs.
     Option.bind (all_some (map decode_method (blobs 2 fs))) (\<lambda>ms.
       Some \<lparr>sv_name = the_text 1 fs, sv_methods = ms\<rparr>))"

definition decode_extension :: "byte list \<Rightarrow> extension_desc option" where
  "decode_extension bs =
     Option.bind (wire_fields bs) (\<lambda>fs.
     Option.bind (decode_field bs) (\<lambda>f.
       Some \<lparr>ex_field = f, ex_extendee = the_text 2 fs\<rparr>))"

definition decode_file :: "byte list \<Rightarrow> file_desc option" where
  "decode_file bs =
     Option.bind (wire_fields bs) (\<lambda>fs.
     Option.bind (all_some (map (decode_message (length bs)) (blobs 4 fs))) (\<lambda>msgs.
     Option.bind (all_some (map decode_enum (blobs 5 fs))) (\<lambda>enums.
     Option.bind (all_some (map decode_service (blobs 6 fs))) (\<lambda>services.
     Option.bind (all_some (map decode_extension (blobs 7 fs))) (\<lambda>extensions.
     Option.bind (wire_fields (concat (blobs 8 fs))) (\<lambda>opts.
       Some \<lparr>fl_name = the_text 1 fs, fl_package = the_text 2 fs,
         fl_dependencies = map text_of (blobs 3 fs), fl_messages = msgs, fl_enums = enums,
         fl_services = services, fl_extensions = extensions, fl_go_package = the_text 11 opts,
         fl_syntax = the_text 12 fs\<rparr>))))))"

end
