(* ===== verification/Proto_Raw.thy ===== *)
theory Proto_Raw
  imports Proto_Wire
begin

section \<open>The raw descriptors of the generated code\<close>

text \<open>
  The encoded file descriptors, byte by byte as they stand in the generated files.
\<close>

definition audit_log_request_rawDesc :: "byte list" where
  "audit_log_request_rawDesc = [
     0x0A, 0x17, 0x61, 0x75, 0x64, 0x69, 0x74, 0x5F, 0x6C, 0x6F, 0x67, 0x5F, 0x72, 0x65, 0x71, 0x75,
     0x65, 0x73, 0x74, 0x2E, 0x70, 0x72, 0x6F, 0x74, 0x6F, 0x12, 0x11, 0x61, 0x62, 0x63, 0x78, 0x79,
     0x7A, 0x2E, 0x6C, 0x75, 0x6D, 0x62, 0x65, 0x72, 0x6A, 0x61, 0x63, 0x6B, 0x1A, 0x22, 0x67, 0x6F,
     0x6F, 0x67, 0x6C, 0x65, 0x2F, 0x63, 0x6C, 0x6F, 0x75, 0x64, 0x2F, 0x61, 0x75, 0x64, 0x69, 0x74,
     0x2F, 0x61, 0x75, 0x64, 0x69, 0x74, 0x5F, 0x6C, 0x6F, 0x67, 0x2E, 0x70, 0x72, 0x6F, 0x74, 0x6F,
     0x1A, 0x21, 0x67, 0x6F, 0x6F, 0x67, 0x6C, 0x65, 0x2F, 0x6C, 0x6F, 0x67, 0x67, 0x69, 0x6E, 0x67,
     0x2F, 0x76, 0x32, 0x2F, 0x6C, 0x6F, 0x67, 0x5F, 0x65, 0x6E, 0x74, 0x72, 0x79, 0x2E, 0x70, 0x72,
     0x6F, 0x74, 0x6F, 0x1A, 0x20, 0x67, 0x6F, 0x6F, 0x67, 0x6C, 0x65, 0x2F, 0x70, 0x72, 0x6F, 0x74,
     0x6F, 0x62, 0x75, 0x66, 0x2F, 0x64, 0x65, 0x73, 0x63, 0x72, 0x69, 0x70, 0x74, 0x6F, 0x72, 0x2E,
     0x70, 0x72, 0x6F, 0x74, 0x6F, 0x1A, 0x1C, 0x67, 0x6F, 0x6F, 0x67, 0x6C, 0x65, 0x2F, 0x70, 0x72,
     0x6F, 0x74, 0x6F, 0x62, 0x75, 0x66, 0x2F, 0x73, 0x74, 0x72, 0x75, 0x63, 0x74, 0x2E, 0x70, 0x72,
     0x6F, 0x74, 0x6F, 0x1A, 0x1F, 0x67, 0x6F, 0x6F, 0x67, 0x6C, 0x65, 0x2F, 0x70, 0x72, 0x6F, 0x74,
     0x6F, 0x62, 0x75, 0x66, 0x2F, 0x74, 0x69, 0x6D, 0x65, 0x73, 0x74, 0x61, 0x6D, 0x70, 0x2E, 0x70,
     0x72, 0x6F, 0x74, 0x6F, 0x22, 0xF5, 0x06, 0x0A, 0x0F, 0x41, 0x75, 0x64, 0x69, 0x74, 0x4C, 0x6F,
     0x67, 0x52, 0x65, 0x71, 0x75, 0x65, 0x73, 0x74, 0x12, 0x3E, 0x0A, 0x04, 0x74, 0x79, 0x70, 0x65,
     0x18, 0x01, 0x20, 0x01, 0x28, 0x0E, 0x32, 0x2A, 0x2E, 0x61, 0x62, 0x63, 0x78, 0x79, 0x7A, 0x2E,
     0x6C, 0x75, 0x6D, 0x62, 0x65, 0x72, 0x6A, 0x61, 0x63, 0x6B, 0x2E, 0x41, 0x75, 0x64, 0x69, 0x74,
     0x4C, 0x6F, 0x67, 0x52, 0x65, 0x71, 0x75, 0x65, 0x73, 0x74, 0x2E, 0x4C, 0x6F, 0x67, 0x54, 0x79,
     0x70, 0x65, 0x52, 0x04, 0x74, 0x79, 0x70, 0x65, 0x12, 0x36, 0x0A, 0x07, 0x70, 0x61, 0x79, 0x6C,
     0x6F, 0x61, 0x64, 0x18, 0x02, 0x20, 0x01, 0x28, 0x0B, 0x32, 0x1C, 0x2E, 0x67, 0x6F, 0x6F, 0x67,
     0x6C, 0x65, 0x2E, 0x63, 0x6C, 0x6F, 0x75, 0x64, 0x2E, 0x61, 0x75, 0x64, 0x69, 0x74, 0x2E, 0x41,
     0x75, 0x64, 0x69, 0x74, 0x4C, 0x6F, 0x67, 0x52, 0x07, 0x70, 0x61, 0x79, 0x6C, 0x6F, 0x61, 0x64,
     0x12, 0x46, 0x0A, 0x06, 0x6C, 0x61, 0x62, 0x65, 0x6C, 0x73, 0x18, 0x03, 0x20, 0x03, 0x28, 0x0B,
     0x32, 0x2E, 0x2E, 0x61, 0x62, 0x63, 0x78, 0x79, 0x7A, 0x2E, 0x6C, 0x75, 0x6D, 0x62, 0x65, 0x72,
     0x6A, 0x61, 0x63, 0x6B, 0x2E, 0x41, 0x75, 0x64, 0x69, 0x74, 0x4C, 0x6F, 0x67, 0x52, 0x65, 0x71,
     0x75, 0x65, 0x73, 0x74, 0x2E, 0x4C, 0x61, 0x62, 0x65, 0x6C, 0x73, 0x45, 0x6E, 0x74, 0x72, 0x79,
     0x52, 0x06, 0x6C, 0x61, 0x62, 0x65, 0x6C, 0x73, 0x12, 0x3E, 0x0A, 0x04, 0x6D, 0x6F, 0x64, 0x65,
     0x18, 0x04, 0x20, 0x01, 0x28, 0x0E, 0x32, 0x2A, 0x2E, 0x61, 0x62, 0x63, 0x78, 0x79, 0x7A, 0x2E,
     0x6C, 0x75, 0x6D, 0x62, 0x65, 0x72, 0x6A, 0x61, 0x63, 0x6B, 0x2E, 0x41, 0x75, 0x64, 0x69, 0x74,
     0x4C, 0x6F, 0x67, 0x52, 0x65, 0x71, 0x75, 0x65, 0x73, 0x74, 0x2E, 0x4C, 0x6F, 0x67, 0x4D, 0x6F,
     0x64, 0x65, 0x52, 0x04, 0x6D, 0x6F, 0x64, 0x65, 0x12, 0x42, 0x0A, 0x09, 0x6F, 0x70, 0x65, 0x72,
     0x61, 0x74, 0x69, 0x6F, 0x6E, 0x18, 0x05, 0x20, 0x01, 0x28, 0x0B, 0x32, 0x24, 0x2E, 0x67, 0x6F,
     0x6F, 0x67, 0x6C, 0x65, 0x2E, 0x6C, 0x6F, 0x67, 0x67, 0x69, 0x6E, 0x67, 0x2E, 0x76, 0x32, 0x2E,
     0x4C, 0x6F, 0x67, 0x45, 0x6E, 0x74, 0x72, 0x79, 0x4F, 0x70, 0x65, 0x72, 0x61, 0x74, 0x69, 0x6F,
     0x6E, 0x52, 0x09, 0x6F, 0x70, 0x65, 0x72, 0x61, 0x74, 0x69, 0x6F, 0x6E, 0x12, 0x38, 0x0A, 0x09,
     0x74, 0x69, 0x6D, 0x65, 0x73, 0x74, 0x61, 0x6D, 0x70, 0x18, 0x06, 0x20, 0x01, 0x28, 0x0B, 0x32,
     0x1A, 0x2E, 0x67, 0x6F, 0x6F, 0x67, 0x6C, 0x65, 0x2E, 0x70, 0x72, 0x6F, 0x74, 0x6F, 0x62, 0x75,
     0x66, 0x2E, 0x54, 0x69, 0x6D, 0x65, 0x73, 0x74, 0x61, 0x6D, 0x70, 0x52, 0x09, 0x74, 0x69, 0x6D,
     0x65, 0x73, 0x74, 0x61, 0x6D, 0x70, 0x12, 0x31, 0x0A, 0x07, 0x63, 0x6F, 0x6E, 0x74, 0x65, 0x78,
     0x74, 0x18, 0x07, 0x20, 0x01, 0x28, 0x0B, 0x32, 0x17, 0x2E, 0x67, 0x6F, 0x6F, 0x67, 0x6C, 0x65,
     0x2E, 0x70, 0x72, 0x6F, 0x74, 0x6F, 0x62, 0x75, 0x66, 0x2E, 0x53, 0x74, 0x72, 0x75, 0x63, 0x74,
     0x52, 0x07, 0x63, 0x6F, 0x6E, 0x74, 0x65, 0x78, 0x74, 0x12, 0x2F, 0x0A, 0x13, 0x6A, 0x75, 0x73,
     0x74, 0x69, 0x66, 0x69, 0x63, 0x61, 0x74, 0x69, 0x6F, 0x6E, 0x5F, 0x74, 0x6F, 0x6B, 0x65, 0x6E,
     0x18, 0x08, 0x20, 0x01, 0x28, 0x09, 0x52, 0x12, 0x6A, 0x75, 0x73, 0x74, 0x69, 0x66, 0x69, 0x63,
     0x61, 0x74, 0x69, 0x6F, 0x6E, 0x54, 0x6F, 0x6B, 0x65, 0x6E, 0x1A, 0x39, 0x0A, 0x0B, 0x4C, 0x61,
     0x62, 0x65, 0x6C, 0x73, 0x45, 0x6E, 0x74, 0x72, 0x79, 0x12, 0x10, 0x0A, 0x03, 0x6B, 0x65, 0x79,
     0x18, 0x01, 0x20, 0x01, 0x28, 0x09, 0x52, 0x03, 0x6B, 0x65, 0x79, 0x12, 0x14, 0x0A, 0x05, 0x76,
     0x61, 0x6C, 0x75, 0x65, 0x18, 0x02, 0x20, 0x01, 0x28, 0x09, 0x52, 0x05, 0x76, 0x61, 0x6C, 0x75,
     0x65, 0x3A, 0x02, 0x38, 0x01, 0x22, 0xFE, 0x01, 0x0A, 0x07, 0x4C, 0x6F, 0x67, 0x54, 0x79, 0x70,
     0x65, 0x12, 0x2F, 0x0A, 0x0B, 0x55, 0x4E, 0x53, 0x50, 0x45, 0x43, 0x49, 0x46, 0x49, 0x45, 0x44,
     0x10, 0x00, 0x1A, 0x1E, 0xB2, 0xD5, 0xAC, 0xD0, 0x0B, 0x18, 0x61, 0x75, 0x64, 0x69, 0x74, 0x2E,
     0x61, 0x62, 0x63, 0x78, 0x79, 0x7A, 0x2F, 0x75, 0x6E, 0x73, 0x70, 0x65, 0x63, 0x69, 0x66, 0x69,
     0x65, 0x64, 0x12, 0x2F, 0x0A, 0x0E, 0x41, 0x44, 0x4D, 0x49, 0x4E, 0x5F, 0x41, 0x43, 0x54, 0x49,
     0x56, 0x49, 0x54, 0x59, 0x10, 0x01, 0x1A, 0x1B, 0xB2, 0xD5, 0xAC, 0xD0, 0x0B, 0x15, 0x61, 0x75,
     0x64, 0x69, 0x74, 0x2E, 0x61, 0x62, 0x63, 0x78, 0x79, 0x7A, 0x2F, 0x61, 0x63, 0x74, 0x69, 0x76,
     0x69, 0x74, 0x79, 0x12, 0x2F, 0x0A, 0x0B, 0x44, 0x41, 0x54, 0x41, 0x5F, 0x41, 0x43, 0x43, 0x45,
     0x53, 0x53, 0x10, 0x02, 0x1A, 0x1E, 0xB2, 0xD5, 0xAC, 0xD0, 0x0B, 0x18, 0x61, 0x75, 0x64, 0x69,
     0x74, 0x2E, 0x61, 0x62, 0x63, 0x78, 0x79, 0x7A, 0x2F, 0x64, 0x61, 0x74, 0x61, 0x5F, 0x61, 0x63,
     0x63, 0x65, 0x73, 0x73, 0x12, 0x2D, 0x0A, 0x0D, 0x43, 0x4F, 0x4E, 0x53, 0x45, 0x4E, 0x54, 0x5F,
     0x45, 0x56, 0x45, 0x4E, 0x54, 0x10, 0x03, 0x1A, 0x1A, 0xB2, 0xD5, 0xAC, 0xD0, 0x0B, 0x14, 0x61,
     0x75, 0x64, 0x69, 0x74, 0x2E, 0x61, 0x62, 0x63, 0x78, 0x79, 0x7A, 0x2F, 0x63, 0x6F, 0x6E, 0x73,
     0x65, 0x6E, 0x74, 0x12, 0x31, 0x0A, 0x0C, 0x53, 0x59, 0x53, 0x54, 0x45, 0x4D, 0x5F, 0x45, 0x56,
     0x45, 0x4E, 0x54, 0x10, 0x32, 0x1A, 0x1F, 0xB2, 0xD5, 0xAC, 0xD0, 0x0B, 0x19, 0x61, 0x75, 0x64,
     0x69, 0x74, 0x2E, 0x61, 0x62, 0x63, 0x78, 0x79, 0x7A, 0x2F, 0x73, 0x79, 0x73, 0x74, 0x65, 0x6D,
     0x5F, 0x65, 0x76, 0x65, 0x6E, 0x74, 0x22, 0x44, 0x0A, 0x07, 0x4C, 0x6F, 0x67, 0x4D, 0x6F, 0x64,
     0x65, 0x12, 0x18, 0x0A, 0x14, 0x4C, 0x4F, 0x47, 0x5F, 0x4D, 0x4F, 0x44, 0x45, 0x5F, 0x55, 0x4E,
     0x53, 0x50, 0x45, 0x43, 0x49, 0x46, 0x49, 0x45, 0x44, 0x10, 0x00, 0x12, 0x0E, 0x0A, 0x0A, 0x46,
     0x41, 0x49, 0x4C, 0x5F, 0x43, 0x4C, 0x4F, 0x53, 0x45, 0x10, 0x01, 0x12, 0x0F, 0x0A, 0x0B, 0x42,
     0x45, 0x53, 0x54, 0x5F, 0x45, 0x46, 0x46, 0x4F, 0x52, 0x54, 0x10, 0x02, 0x3A, 0x40, 0x0A, 0x08,
     0x6C, 0x6F, 0x67, 0x5F, 0x6E, 0x61, 0x6D, 0x65, 0x12, 0x21, 0x2E, 0x67, 0x6F, 0x6F, 0x67, 0x6C,
     0x65, 0x2E, 0x70, 0x72, 0x6F, 0x74, 0x6F, 0x62, 0x75, 0x66, 0x2E, 0x45, 0x6E, 0x75, 0x6D, 0x56,
     0x61, 0x6C, 0x75, 0x65, 0x4F, 0x70, 0x74, 0x69, 0x6F, 0x6E, 0x73, 0x18, 0xD6, 0xCA, 0x85, 0xBA,
     0x01, 0x20, 0x01, 0x28, 0x09, 0x52, 0x07, 0x6C, 0x6F, 0x67, 0x4E, 0x61, 0x6D, 0x65, 0x42, 0x6F,
     0x0A, 0x1E, 0x63, 0x6F, 0x6D, 0x2E, 0x61, 0x62, 0x63, 0x78, 0x79, 0x7A, 0x2E, 0x6C, 0x75, 0x6D,
     0x62, 0x65, 0x72, 0x6A, 0x61, 0x63, 0x6B, 0x2E, 0x76, 0x31, 0x61, 0x6C, 0x70, 0x68, 0x61, 0x31,
     0x42, 0x14, 0x41, 0x75, 0x64, 0x69, 0x74, 0x4C, 0x6F, 0x67, 0x52, 0x65, 0x71, 0x75, 0x65, 0x73,
     0x74, 0x50, 0x72, 0x6F, 0x74, 0x6F, 0x50, 0x01, 0x5A, 0x35, 0x67, 0x69, 0x74, 0x68, 0x75, 0x62,
     0x2E, 0x63, 0x6F, 0x6D, 0x2F, 0x61, 0x62, 0x63, 0x78, 0x79, 0x7A, 0x2F, 0x6C, 0x75, 0x6D, 0x62,
     0x65, 0x72, 0x6A, 0x61, 0x63, 0x6B, 0x2F, 0x63, 0x6C, 0x69, 0x65, 0x6E, 0x74, 0x73, 0x2F, 0x67,
     0x6F, 0x2F, 0x61, 0x70, 0x69, 0x73, 0x2F, 0x76, 0x31, 0x61, 0x6C, 0x70, 0x68, 0x61, 0x31, 0x62,
     0x06, 0x70, 0x72, 0x6F, 0x74, 0x6F, 0x33]"

definition audit_log_agent_rawDesc :: "byte list" where
  "audit_log_agent_rawDesc = [
     0x0A, 0x15, 0x61, 0x75, 0x64, 0x69, 0x74, 0x5F, 0x6C, 0x6F, 0x67, 0x5F, 0x61, 0x67, 0x65, 0x6E,
     0x74, 0x2E, 0x70, 0x72, 0x6F, 0x74, 0x6F, 0x12, 0x11, 0x61, 0x62, 0x63, 0x78, 0x79, 0x7A, 0x2E,
     0x6C, 0x75, 0x6D, 0x62, 0x65, 0x72, 0x6A, 0x61, 0x63, 0x6B, 0x1A, 0x17, 0x61, 0x75, 0x64, 0x69,
     0x74, 0x5F, 0x6C, 0x6F, 0x67, 0x5F, 0x72, 0x65, 0x71, 0x75, 0x65, 0x73, 0x74, 0x2E, 0x70, 0x72,
     0x6F, 0x74, 0x6F, 0x22, 0x4E, 0x0A, 0x10, 0x41, 0x75, 0x64, 0x69, 0x74, 0x4C, 0x6F, 0x67, 0x52,
     0x65, 0x73, 0x70, 0x6F, 0x6E, 0x73, 0x65, 0x12, 0x3A, 0x0A, 0x06, 0x72, 0x65, 0x73, 0x75, 0x6C,
     0x74, 0x18, 0x01, 0x20, 0x01, 0x28, 0x0B, 0x32, 0x22, 0x2E, 0x61, 0x62, 0x63, 0x78, 0x79, 0x7A,
     0x2E, 0x6C, 0x75, 0x6D, 0x62, 0x65, 0x72, 0x6A, 0x61, 0x63, 0x6B, 0x2E, 0x41, 0x75, 0x64, 0x69,
     0x74, 0x4C, 0x6F, 0x67, 0x52, 0x65, 0x71, 0x75, 0x65, 0x73, 0x74, 0x52, 0x06, 0x72, 0x65, 0x73,
     0x75, 0x6C, 0x74, 0x32, 0x68, 0x0A, 0x0D, 0x41, 0x75, 0x64, 0x69, 0x74, 0x4C, 0x6F, 0x67, 0x41,
     0x67, 0x65, 0x6E, 0x74, 0x12, 0x57, 0x0A, 0x0A, 0x50, 0x72, 0x6F, 0x63, 0x65, 0x73, 0x73, 0x4C,
     0x6F, 0x67, 0x12, 0x22, 0x2E, 0x61, 0x62, 0x63, 0x78, 0x79, 0x7A, 0x2E, 0x6C, 0x75, 0x6D, 0x62,
     0x65, 0x72, 0x6A, 0x61, 0x63, 0x6B, 0x2E, 0x41, 0x75, 0x64, 0x69, 0x74, 0x4C, 0x6F, 0x67, 0x52,
     0x65, 0x71, 0x75, 0x65, 0x73, 0x74, 0x1A, 0x23, 0x2E, 0x61, 0x62, 0x63, 0x78, 0x79, 0x7A, 0x2E,
     0x6C, 0x75, 0x6D, 0x62, 0x65, 0x72, 0x6A, 0x61, 0x63, 0x6B, 0x2E, 0x41, 0x75, 0x64, 0x69, 0x74,
     0x4C, 0x6F, 0x67, 0x52, 0x65, 0x73, 0x70, 0x6F, 0x6E, 0x73, 0x65, 0x22, 0x00, 0x42, 0x6D, 0x0A,
     0x1E, 0x63, 0x6F, 0x6D, 0x2E, 0x61, 0x62, 0x63, 0x78, 0x79, 0x7A, 0x2E, 0x6C, 0x75, 0x6D, 0x62,
     0x65, 0x72, 0x6A, 0x61, 0x63, 0x6B, 0x2E, 0x76, 0x31, 0x61, 0x6C, 0x70, 0x68, 0x61, 0x31, 0x42,
     0x12, 0x41, 0x75, 0x64, 0x69, 0x74, 0x4C, 0x6F, 0x67, 0x41, 0x67, 0x65, 0x6E, 0x74, 0x50, 0x72,
     0x6F, 0x74, 0x6F, 0x50, 0x01, 0x5A, 0x35, 0x67, 0x69, 0x74, 0x68, 0x75, 0x62, 0x2E, 0x63, 0x6F,
     0x6D, 0x2F, 0x61, 0x62, 0x63, 0x78, 0x79, 0x7A, 0x2F, 0x6C, 0x75, 0x6D, 0x62, 0x65, 0x72, 0x6A,
     0x61, 0x63, 0x6B, 0x2F, 0x63, 0x6C, 0x69, 0x65, 0x6E, 0x74, 0x73, 0x2F, 0x67, 0x6F, 0x2F, 0x61,
     0x70, 0x69, 0x73, 0x2F, 0x76, 0x31, 0x61, 0x6C, 0x70, 0x68, 0x61, 0x31, 0x62, 0x06, 0x70, 0x72,
     0x6F, 0x74, 0x6F, 0x33]"

definition talker_rawDesc :: "byte list" where
  "talker_rawDesc = [
     0x0A, 0x0C, 0x74, 0x61, 0x6C, 0x6B, 0x65, 0x72, 0x2E, 0x70, 0x72, 0x6F, 0x74, 0x6F, 0x12, 0x0B,
     0x61, 0x62, 0x63, 0x78, 0x79, 0x7A, 0x2E, 0x74, 0x65, 0x73, 0x74, 0x22, 0x40, 0x0A, 0x0C, 0x48,
     0x65, 0x6C, 0x6C, 0x6F, 0x52, 0x65, 0x71, 0x75, 0x65, 0x73, 0x74, 0x12, 0x16, 0x0A, 0x06, 0x74,
     0x61, 0x72, 0x67, 0x65, 0x74, 0x18, 0x01, 0x20, 0x01, 0x28, 0x09, 0x52, 0x06, 0x74, 0x61, 0x72,
     0x67, 0x65, 0x74, 0x12, 0x18, 0x0A, 0x07, 0x6D, 0x65, 0x73, 0x73, 0x61, 0x67, 0x65, 0x18, 0x02,
     0x20, 0x01, 0x28, 0x09, 0x52, 0x07, 0x6D, 0x65, 0x73, 0x73, 0x61, 0x67, 0x65, 0x22, 0x29, 0x0A,
     0x0D, 0x48, 0x65, 0x6C, 0x6C, 0x6F, 0x52, 0x65, 0x73, 0x70, 0x6F, 0x6E, 0x73, 0x65, 0x12, 0x18,
     0x0A, 0x07, 0x6D, 0x65, 0x73, 0x73, 0x61, 0x67, 0x65, 0x18, 0x01, 0x20, 0x01, 0x28, 0x09, 0x52,
     0x07, 0x6D, 0x65, 0x73, 0x73, 0x61, 0x67, 0x65, 0x22, 0x42, 0x0A, 0x0E, 0x57, 0x68, 0x69, 0x73,
     0x70, 0x65, 0x72, 0x52, 0x65, 0x71, 0x75, 0x65, 0x73, 0x74, 0x12, 0x16, 0x0A, 0x06, 0x74, 0x61,
     0x72, 0x67, 0x65, 0x74, 0x18, 0x01, 0x20, 0x01, 0x28, 0x09, 0x52, 0x06, 0x74, 0x61, 0x72, 0x67,
     0x65, 0x74, 0x12, 0x18, 0x0A, 0x07, 0x6D, 0x65, 0x73, 0x73, 0x61, 0x67, 0x65, 0x18, 0x02, 0x20,
     0x01, 0x28, 0x09, 0x52, 0x07, 0x6D, 0x65, 0x73, 0x73, 0x61, 0x67, 0x65, 0x22, 0x2B, 0x0A, 0x0F,
     0x57, 0x68, 0x69, 0x73, 0x70, 0x65, 0x72, 0x52, 0x65, 0x73, 0x70, 0x6F, 0x6E, 0x73, 0x65, 0x12,
     0x18, 0x0A, 0x07, 0x6D, 0x65, 0x73, 0x73, 0x61, 0x67, 0x65, 0x18, 0x01, 0x20, 0x01, 0x28, 0x09,
     0x52, 0x07, 0x6D, 0x65, 0x73, 0x73, 0x61, 0x67, 0x65, 0x22, 0x3E, 0x0A, 0x0A, 0x42, 0x79, 0x65,
     0x52, 0x65, 0x71, 0x75, 0x65, 0x73, 0x74, 0x12, 0x16, 0x0A, 0x06, 0x74, 0x61, 0x72, 0x67, 0x65,
     0x74, 0x18, 0x01, 0x20, 0x01, 0x28, 0x09, 0x52, 0x06, 0x74, 0x61, 0x72, 0x67, 0x65, 0x74, 0x12,
     0x18, 0x0A, 0x07, 0x6D, 0x65, 0x73, 0x73, 0x61, 0x67, 0x65, 0x18, 0x02, 0x20, 0x01, 0x28, 0x09,
     0x52, 0x07, 0x6D, 0x65, 0x73, 0x73, 0x61, 0x67, 0x65, 0x22, 0x27, 0x0A, 0x0B, 0x42, 0x79, 0x65,
     0x52, 0x65, 0x73, 0x70, 0x6F, 0x6E, 0x73, 0x65, 0x12, 0x18, 0x0A, 0x07, 0x6D, 0x65, 0x73, 0x73,
     0x61, 0x67, 0x65, 0x18, 0x01, 0x20, 0x01, 0x28, 0x09, 0x52, 0x07, 0x6D, 0x65, 0x73, 0x73, 0x61,
     0x67, 0x65, 0x22, 0x42, 0x0A, 0x10, 0x46, 0x69, 0x62, 0x6F, 0x6E, 0x61, 0x63, 0x63, 0x69, 0x52,
     0x65, 0x71, 0x75, 0x65, 0x73, 0x74, 0x12, 0x16, 0x0A, 0x06, 0x70, 0x6C, 0x61, 0x63, 0x65, 0x73,
     0x18, 0x01, 0x20, 0x01, 0x28, 0x0D, 0x52, 0x06, 0x70, 0x6C, 0x61, 0x63, 0x65, 0x73, 0x12, 0x16,
     0x0A, 0x06, 0x74, 0x61, 0x72, 0x67, 0x65, 0x74, 0x18, 0x02, 0x20, 0x01, 0x28, 0x09, 0x52, 0x06,
     0x74, 0x61, 0x72, 0x67, 0x65, 0x74, 0x22, 0x45, 0x0A, 0x11, 0x46, 0x69, 0x62, 0x6F, 0x6E, 0x61,
     0x63, 0x63, 0x69, 0x52, 0x65, 0x73, 0x70, 0x6F, 0x6E, 0x73, 0x65, 0x12, 0x1A, 0x0A, 0x08, 0x70,
     0x6F, 0x73, 0x69, 0x74, 0x69, 0x6F, 0x6E, 0x18, 0x01, 0x20, 0x01, 0x28, 0x0D, 0x52, 0x08, 0x70,
     0x6F, 0x73, 0x69, 0x74, 0x69, 0x6F, 0x6E, 0x12, 0x14, 0x0A, 0x05, 0x76, 0x61, 0x6C, 0x75, 0x65,
     0x18, 0x02, 0x20, 0x01, 0x28, 0x0D, 0x52, 0x05, 0x76, 0x61, 0x6C, 0x75, 0x65, 0x22, 0x41, 0x0A,
     0x0F, 0x41, 0x64, 0x64, 0x69, 0x74, 0x69, 0x6F, 0x6E, 0x52, 0x65, 0x71, 0x75, 0x65, 0x73, 0x74,
     0x12, 0x16, 0x0A, 0x06, 0x61, 0x64, 0x64, 0x65, 0x6E, 0x64, 0x18, 0x01, 0x20, 0x01, 0x28, 0x0D,
     0x52, 0x06, 0x61, 0x64, 0x64, 0x65, 0x6E, 0x64, 0x12, 0x16, 0x0A, 0x06, 0x74, 0x61, 0x72, 0x67,
     0x65, 0x74, 0x18, 0x02, 0x20, 0x01, 0x28, 0x09, 0x52, 0x06, 0x74, 0x61, 0x72, 0x67, 0x65, 0x74,
     0x22, 0x24, 0x0A, 0x10, 0x41, 0x64, 0x64, 0x69, 0x74, 0x69, 0x6F, 0x6E, 0x52, 0x65, 0x73, 0x70,
     0x6F, 0x6E, 0x73, 0x65, 0x12, 0x10, 0x0A, 0x03, 0x73, 0x75, 0x6D, 0x18, 0x01, 0x20, 0x01, 0x28,
     0x04, 0x52, 0x03, 0x73, 0x75, 0x6D, 0x22, 0x3F, 0x0A, 0x0B, 0x46, 0x61, 0x69, 0x6C, 0x52, 0x65,
     0x71, 0x75, 0x65, 0x73, 0x74, 0x12, 0x16, 0x0A, 0x06, 0x74, 0x61, 0x72, 0x67, 0x65, 0x74, 0x18,
     0x01, 0x20, 0x01, 0x28, 0x09, 0x52, 0x06, 0x74, 0x61, 0x72, 0x67, 0x65, 0x74, 0x12, 0x18, 0x0A,
     0x07, 0x6D, 0x65, 0x73, 0x73, 0x61, 0x67, 0x65, 0x18, 0x02, 0x20, 0x01, 0x28, 0x09, 0x52, 0x07,
     0x6D, 0x65, 0x73, 0x73, 0x61, 0x67, 0x65, 0x22, 0x28, 0x0A, 0x0C, 0x46, 0x61, 0x69, 0x6C, 0x52,
     0x65, 0x73, 0x70, 0x6F, 0x6E, 0x73, 0x65, 0x12, 0x18, 0x0A, 0x07, 0x6D, 0x65, 0x73, 0x73, 0x61,
     0x67, 0x65, 0x18, 0x01, 0x20, 0x01, 0x28, 0x09, 0x52, 0x07, 0x6D, 0x65, 0x73, 0x73, 0x61, 0x67,
     0x65, 0x22, 0x41, 0x0A, 0x11, 0x46, 0x61, 0x69, 0x6C, 0x4F, 0x6E, 0x46, 0x6F, 0x75, 0x72, 0x52,
     0x65, 0x71, 0x75, 0x65, 0x73, 0x74, 0x12, 0x16, 0x0A, 0x06, 0x74, 0x61, 0x72, 0x67, 0x65, 0x74,
     0x18, 0x01, 0x20, 0x01, 0x28, 0x09, 0x52, 0x06, 0x74, 0x61, 0x72, 0x67, 0x65, 0x74, 0x12, 0x14,
     0x0A, 0x05, 0x76, 0x61, 0x6C, 0x75, 0x65, 0x18, 0x02, 0x20, 0x01, 0x28, 0x0D, 0x52, 0x05, 0x76,
     0x61, 0x6C, 0x75, 0x65, 0x22, 0x2E, 0x0A, 0x12, 0x46, 0x61, 0x69, 0x6C, 0x4F, 0x6E, 0x46, 0x6F,
     0x75, 0x72, 0x52, 0x65, 0x73, 0x70, 0x6F, 0x6E, 0x73, 0x65, 0x12, 0x18, 0x0A, 0x07, 0x6D, 0x65,
     0x73, 0x73, 0x61, 0x67, 0x65, 0x18, 0x01, 0x20, 0x01, 0x28, 0x09, 0x52, 0x07, 0x6D, 0x65, 0x73,
     0x73, 0x61, 0x67, 0x65, 0x32, 0xEF, 0x03, 0x0A, 0x06, 0x54, 0x61, 0x6C, 0x6B, 0x65, 0x72, 0x12,
     0x3E, 0x0A, 0x05, 0x48, 0x65, 0x6C, 0x6C, 0x6F, 0x12, 0x19, 0x2E, 0x61, 0x62, 0x63, 0x78, 0x79,
     0x7A, 0x2E, 0x74, 0x65, 0x73, 0x74, 0x2E, 0x48, 0x65, 0x6C, 0x6C, 0x6F, 0x52, 0x65, 0x71, 0x75,
     0x65, 0x73, 0x74, 0x1A, 0x1A, 0x2E, 0x61, 0x62, 0x63, 0x78, 0x79, 0x7A, 0x2E, 0x74, 0x65, 0x73,
     0x74, 0x2E, 0x48, 0x65, 0x6C, 0x6C, 0x6F, 0x52, 0x65, 0x73, 0x70, 0x6F, 0x6E, 0x73, 0x65, 0x12,
     0x44, 0x0A, 0x07, 0x57, 0x68, 0x69, 0x73, 0x70, 0x65, 0x72, 0x12, 0x1B, 0x2E, 0x61, 0x62, 0x63,
     0x78, 0x79, 0x7A, 0x2E, 0x74, 0x65, 0x73, 0x74, 0x2E, 0x57, 0x68, 0x69, 0x73, 0x70, 0x65, 0x72,
     0x52, 0x65, 0x71, 0x75, 0x65, 0x73, 0x74, 0x1A, 0x1C, 0x2E, 0x61, 0x62, 0x63, 0x78, 0x79, 0x7A,
     0x2E, 0x74, 0x65, 0x73, 0x74, 0x2E, 0x57, 0x68, 0x69, 0x73, 0x70, 0x65, 0x72, 0x52, 0x65, 0x73,
     0x70, 0x6F, 0x6E, 0x73, 0x65, 0x12, 0x38, 0x0A, 0x03, 0x42, 0x79, 0x65, 0x12, 0x17, 0x2E, 0x61,
     0x62, 0x63, 0x78, 0x79, 0x7A, 0x2E, 0x74, 0x65, 0x73, 0x74, 0x2E, 0x42, 0x79, 0x65, 0x52, 0x65,
     0x71, 0x75, 0x65, 0x73, 0x74, 0x1A, 0x18, 0x2E, 0x61, 0x62, 0x63, 0x78, 0x79, 0x7A, 0x2E, 0x74,
     0x65, 0x73, 0x74, 0x2E, 0x42, 0x79, 0x65, 0x52, 0x65, 0x73, 0x70, 0x6F, 0x6E, 0x73, 0x65, 0x12,
     0x4C, 0x0A, 0x09, 0x46, 0x69, 0x62, 0x6F, 0x6E, 0x61, 0x63, 0x63, 0x69, 0x12, 0x1D, 0x2E, 0x61,
     0x62, 0x63, 0x78, 0x79, 0x7A, 0x2E, 0x74, 0x65, 0x73, 0x74, 0x2E, 0x46, 0x69, 0x62, 0x6F, 0x6E,
     0x61, 0x63, 0x63, 0x69, 0x52, 0x65, 0x71, 0x75, 0x65, 0x73, 0x74, 0x1A, 0x1E, 0x2E, 0x61, 0x62,
     0x63, 0x78, 0x79, 0x7A, 0x2E, 0x74, 0x65, 0x73, 0x74, 0x2E, 0x46, 0x69, 0x62, 0x6F, 0x6E, 0x61,
     0x63, 0x63, 0x69, 0x52, 0x65, 0x73, 0x70, 0x6F, 0x6E, 0x73, 0x65, 0x30, 0x01, 0x12, 0x49, 0x0A,
     0x08, 0x41, 0x64, 0x64, 0x69, 0x74, 0x69, 0x6F, 0x6E, 0x12, 0x1C, 0x2E, 0x61, 0x62, 0x63, 0x78,
     0x79, 0x7A, 0x2E, 0x74, 0x65, 0x73, 0x74, 0x2E, 0x41, 0x64, 0x64, 0x69, 0x74, 0x69, 0x6F, 0x6E,
     0x52, 0x65, 0x71, 0x75, 0x65, 0x73, 0x74, 0x1A, 0x1D, 0x2E, 0x61, 0x62, 0x63, 0x78, 0x79, 0x7A,
     0x2E, 0x74, 0x65, 0x73, 0x74, 0x2E, 0x41, 0x64, 0x64, 0x69, 0x74, 0x69, 0x6F, 0x6E, 0x52, 0x65,
     0x73, 0x70, 0x6F, 0x6E, 0x73, 0x65, 0x28, 0x01, 0x12, 0x3B, 0x0A, 0x04, 0x46, 0x61, 0x69, 0x6C,
     0x12, 0x18, 0x2E, 0x61, 0x62, 0x63, 0x78, 0x79, 0x7A, 0x2E, 0x74, 0x65, 0x73, 0x74, 0x2E, 0x46,
     0x61, 0x69, 0x6C, 0x52, 0x65, 0x71, 0x75, 0x65, 0x73, 0x74, 0x1A, 0x19, 0x2E, 0x61, 0x62, 0x63,
     0x78, 0x79, 0x7A, 0x2E, 0x74, 0x65, 0x73, 0x74, 0x2E, 0x46, 0x61, 0x69, 0x6C, 0x52, 0x65, 0x73,
     0x70, 0x6F, 0x6E, 0x73, 0x65, 0x12, 0x4F, 0x0A, 0x0A, 0x46, 0x61, 0x69, 0x6C, 0x4F, 0x6E, 0x46,
     0x6F, 0x75, 0x72, 0x12, 0x1E, 0x2E, 0x61, 0x62, 0x63, 0x78, 0x79, 0x7A, 0x2E, 0x74, 0x65, 0x73,
     0x74, 0x2E, 0x46, 0x61, 0x69, 0x6C, 0x4F, 0x6E, 0x46, 0x6F, 0x75, 0x72, 0x52, 0x65, 0x71, 0x75,
     0x65, 0x73, 0x74, 0x1A, 0x1F, 0x2E, 0x61, 0x62, 0x63, 0x78, 0x79, 0x7A, 0x2E, 0x74, 0x65, 0x73,
     0x74, 0x2E, 0x46, 0x61, 0x69, 0x6C, 0x4F, 0x6E, 0x46, 0x6F, 0x75, 0x72, 0x52, 0x65, 0x73, 0x70,
     0x6F, 0x6E, 0x73, 0x65, 0x28, 0x01, 0x42, 0x62, 0x0A, 0x21, 0x63, 0x6F, 0x6D, 0x2E, 0x61, 0x62,
     0x63, 0x78, 0x79, 0x7A, 0x2E, 0x6C, 0x75, 0x6D, 0x62, 0x65, 0x72, 0x6A, 0x61, 0x63, 0x6B, 0x2E,
     0x74, 0x65, 0x73, 0x74, 0x2E, 0x74, 0x61, 0x6C, 0x6B, 0x65, 0x72, 0x42, 0x0B, 0x54, 0x61, 0x6C,
     0x6B, 0x65, 0x72, 0x50, 0x72, 0x6F, 0x74, 0x6F, 0x50, 0x01, 0x5A, 0x2E, 0x67, 0x69, 0x74, 0x68,
     0x75, 0x62, 0x2E, 0x63, 0x6F, 0x6D, 0x2F, 0x61, 0x62, 0x63, 0x78, 0x79, 0x7A, 0x2F, 0x6C, 0x75,
     0x6D, 0x62, 0x65, 0x72, 0x6A, 0x61, 0x63, 0x6B, 0x2F, 0x69, 0x6E, 0x74, 0x65, 0x72, 0x6E, 0x61,
     0x6C, 0x2F, 0x74, 0x61, 0x6C, 0x6B, 0x65, 0x72, 0x70, 0x62, 0x62, 0x06, 0x70, 0x72, 0x6F, 0x74,
     0x6F, 0x33]"

end
