(* ===== verification/Proto_Files.thy ===== *)
theory Proto_Files
  imports Proto_Raw
begin

section \<open>The declarations: protos/v1alpha1, internal/protos/talker\<close>

text \<open>
  What the \<open>.proto\<close> files declare, with type names resolved the way the language says: a name of
  the file is looked up from the innermost scope outwards, a map field has a nested entry message
  with the fields \<open>key\<close> and \<open>value\<close>.  The options for Java are left out.
\<close>

definition singular :: "string \<Rightarrow> nat \<Rightarrow> field_type \<Rightarrow> field_desc" where
  "singular n k t = \<lparr>fd_name = n, fd_number = k, fd_label = LABEL_OPTIONAL, fd_type = t\<rparr>"

definition map_field :: "string \<Rightarrow> nat \<Rightarrow> string \<Rightarrow> field_desc" where
  "map_field n k entry = \<lparr>fd_name = n, fd_number = k, fd_label = LABEL_REPEATED, fd_type = TYPE_MESSAGE entry\<rparr>"

definition map_entry :: "string \<Rightarrow> field_type \<Rightarrow> field_type \<Rightarrow> message_desc" where
  "map_entry n k v = MessageDesc n [singular ''key'' 1 k, singular ''value'' 2 v] [] [] True"

definition plain_message :: "string \<Rightarrow> field_desc list \<Rightarrow> message_desc" where
  "plain_message n fs = MessageDesc n fs [] [] False"

definition rpc :: "string \<Rightarrow> bool \<Rightarrow> string \<Rightarrow> bool \<Rightarrow> string \<Rightarrow> method_desc" where
  "rpc n cs i ss out = \<lparr>mt_name = n, mt_input = i, mt_output = out,
     mt_client_streaming = cs, mt_server_streaming = ss\<rparr>"

subsection \<open>The audit log request\<close>

definition LogType_proto :: enum_desc where
  "LogType_proto =
     \<lparr>ed_name = ''LogType'',
      ed_values =
        [\<lparr>ev_name = ''UNSPECIFIED'', ev_number = 0, ev_log_name = ''audit.abcxyz/unspecified''\<rparr>,
         \<lparr>ev_name = ''ADMIN_ACTIVITY'', ev_number = 1, ev_log_name = ''audit.abcxyz/activity''\<rparr>,
         \<lparr>ev_name = ''DATA_ACCESS'', ev_number = 2, ev_log_name = ''audit.abcxyz/data_access''\<rparr>,
         \<lparr>ev_name = ''CONSENT_EVENT'', ev_number = 3, ev_log_name = ''audit.abcxyz/consent''\<rparr>,
         \<lparr>ev_name = ''SYSTEM_EVENT'', ev_number = 50, ev_log_name = ''audit.abcxyz/system_event''\<rparr>]\<rparr>"

definition LogMode_proto :: enum_desc where
  "LogMode_proto =
     \<lparr>ed_name = ''LogMode'',
      ed_values =
        [\<lparr>ev_name = ''LOG_MODE_UNSPECIFIED'', ev_number = 0, ev_log_name = []\<rparr>,
         \<lparr>ev_name = ''FAIL_CLOSE'', ev_number = 1, ev_log_name = []\<rparr>,
         \<lparr>ev_name = ''BEST_EFFORT'', ev_number = 2, ev_log_name = []\<rparr>]\<rparr>"

definition AuditLogRequest_proto :: message_desc where
  "AuditLogRequest_proto = MessageDesc ''AuditLogRequest''
     [singular ''type'' 1 (TYPE_ENUM ''.abcxyz.lumberjack.AuditLogRequest.LogType''),
      singular ''payload'' 2 (TYPE_MESSAGE ''.google.cloud.audit.AuditLog''),
      map_field ''labels'' 3 ''.abcxyz.lumberjack.AuditLogRequest.LabelsEntry'',
      singular ''mode'' 4 (TYPE_ENUM ''.abcxyz.lumberjack.AuditLogRequest.LogMode''),
      singular ''operation'' 5 (TYPE_MESSAGE ''.google.logging.v2.LogEntryOperation''),
      singular ''timestamp'' 6 (TYPE_MESSAGE ''.google.protobuf.Timestamp''),
      singular ''context'' 7 (TYPE_MESSAGE ''.google.protobuf.Struct''),
      singular ''justification_token'' 8 TYPE_STRING]
     [map_entry ''LabelsEntry'' TYPE_STRING TYPE_STRING]
     [LogType_proto, LogMode_proto] False"

definition audit_log_request_proto :: file_desc where
  "audit_log_request_proto =
     \<lparr>fl_name = ''audit_log_request.proto'', fl_package = ''abcxyz.lumberjack'',
      fl_dependencies =
        [''google/cloud/audit/audit_log.proto'', ''google/logging/v2/log_entry.proto'',
         ''google/protobuf/descriptor.proto'', ''google/protobuf/struct.proto'',
         ''google/protobuf/timestamp.proto''],
      fl_messages = [AuditLogRequest_proto], fl_enums = [], fl_services = [],
      fl_extensions = [\<lparr>ex_field = singular ''log_name'' 390161750 TYPE_STRING,
                        ex_extendee = ''.google.protobuf.EnumValueOptions''\<rparr>],
      fl_go_package = ''github.com/abcxyz/lumberjack/clients/go/apis/v1alpha1'',
      fl_syntax = ''proto3''\<rparr>"

subsection \<open>The agent\<close>

definition audit_log_agent_proto :: file_desc where
  "audit_log_agent_proto =
     \<lparr>fl_name = ''audit_log_agent.proto'', fl_package = ''abcxyz.lumberjack'',
      fl_dependencies = [''audit_log_request.proto''],
      fl_messages =
        [plain_message ''AuditLogResponse''
           [singular ''result'' 1 (TYPE_MESSAGE ''.abcxyz.lumberjack.AuditLogRequest'')]],
      fl_enums = [],
      fl_services =
        [\<lparr>sv_name = ''AuditLogAgent'',
          sv_methods = [rpc ''ProcessLog'' False ''.abcxyz.lumberjack.AuditLogRequest''
                            False ''.abcxyz.lumberjack.AuditLogResponse'']\<rparr>],
      fl_extensions = [],
      fl_go_package = ''github.com/abcxyz/lumberjack/clients/go/apis/v1alpha1'',
      fl_syntax = ''proto3''\<rparr>"

subsection \<open>The talker\<close>

definition Talker_proto :: svc_desc where
  "Talker_proto =
     \<lparr>sv_name = ''Talker'',
      sv_methods =
        [rpc ''Hello'' False ''.abcxyz.test.HelloRequest'' False ''.abcxyz.test.HelloResponse'',
         rpc ''Whisper'' False ''.abcxyz.test.WhisperRequest'' False ''.abcxyz.test.WhisperResponse'',
         rpc ''Bye'' False ''.abcxyz.test.ByeRequest'' False ''.abcxyz.test.ByeResponse'',
         rpc ''Fibonacci'' False ''.abcxyz.test.FibonacciRequest'' True ''.abcxyz.test.FibonacciResponse'',
         rpc ''Addition'' True ''.abcxyz.test.AdditionRequest'' False ''.abcxyz.test.AdditionResponse'',
         rpc ''Fail'' False ''.abcxyz.test.FailRequest'' False ''.abcxyz.test.FailResponse'',
         rpc ''FailOnFour'' True ''.abcxyz.test.FailOnFourRequest'' False ''.abcxyz.test.FailOnFourResponse'']\<rparr>"

definition talker_proto :: file_desc where
  "talker_proto =
     \<lparr>fl_name = ''talker.proto'', fl_package = ''abcxyz.test'', fl_dependencies = [],
      fl_messages =
        [plain_message ''HelloRequest'' [singular ''target'' 1 TYPE_STRING, singular ''message'' 2 TYPE_STRING],
         plain_message ''HelloResponse'' [singular ''message'' 1 TYPE_STRING],
         plain_message ''WhisperRequest'' [singular ''target'' 1 TYPE_STRING, singular ''message'' 2 TYPE_STRING],
         plain_message ''WhisperResponse'' [singular ''message'' 1 TYPE_STRING],
         plain_message ''ByeRequest'' [singular ''target'' 1 TYPE_STRING, singular ''message'' 2 TYPE_STRING],
         plain_message ''ByeResponse'' [singular ''message'' 1 TYPE_STRING],
         plain_message ''FibonacciRequest'' [singular ''places'' 1 TYPE_UINT32, singular ''target'' 2 TYPE_STRING],
         plain_message ''FibonacciResponse'' [singular ''position'' 1 TYPE_UINT32, singular ''value'' 2 TYPE_UINT32],
         plain_message ''AdditionRequest'' [singular ''addend'' 1 TYPE_UINT32, singular ''target'' 2 TYPE_STRING],
         plain_message ''AdditionResponse'' [singular ''sum'' 1 TYPE_UINT64],
         plain_message ''FailRequest'' [singular ''target'' 1 TYPE_STRING, singular ''message'' 2 TYPE_STRING],
         plain_message ''FailResponse'' [singular ''message'' 1 TYPE_STRING],
         plain_message ''FailOnFourRequest'' [singular ''target'' 1 TYPE_STRING, singular ''value'' 2 TYPE_UINT32],
         plain_message ''FailOnFourResponse'' [singular ''message'' 1 TYPE_STRING]],
      fl_enums = [], fl_services = [Talker_proto], fl_extensions = [],
      fl_go_package = ''github.com/abcxyz/lumberjack/internal/talkerpb'',
      fl_syntax = ''proto3''\<rparr>"

end
