(* ===== verification/Proto_Gen.thy ===== *)
theory Proto_Gen
  imports Proto_Files Agent_Api Talker_Client Cloud_Logging
begin

section \<open>The generated message code: audit\_log\_request.pb.go, audit\_log\_agent.pb.go, talker.pb.go\<close>

text \<open>
  What \<open>protoc-gen-go\<close> writes for the messages beside their fields and getters: the methods of a
  message type, the tables of types and of their dependencies, and the package variables that the
  initialization fills.  The runtime of Protocol Buffers that builds types from these
  (\<open>protoimpl\<close>) is a parameter.
\<close>

subsection \<open>Messages\<close>

text \<open>
  A message in memory: the state that points to the type's information, an element of an array
  \<open>msgTypes\<close>, the cached size, the unknown fields, and the declared fields, a value of \<open>'m\<close>.
\<close>

type_synonym info_ptr = "string \<times> nat"

record 'm gen_message =
  msg_state :: "info_ptr option"
  sizeCache :: "32 word"
  unknownFields :: "byte list"
  declared :: 'm

text \<open>
  A generated message type: its name, the tags of its fields, its place in the array, and the
  struct whose fields all have their zero value.  The methods differ in nothing else.
\<close>

record 'm gen_type =
  gt_name :: string
  gt_tags :: "string list"
  gt_info :: info_ptr
  gt_zero :: 'm

definition Reset ::
  "'m gen_type \<Rightarrow> bool \<Rightarrow> 'm gen_message option \<Rightarrow> 'm gen_message option ret" where
  "Reset T UnsafeEnabled x =
     (case x of
        None \<Rightarrow> Panic nil_deref
      | Some _ \<Rightarrow>
          (let x = \<lparr>msg_state = None, sizeCache = 0, unknownFields = [], declared = gt_zero T\<rparr>
           in Ret (Some (if UnsafeEnabled then x\<lparr>msg_state := Some (gt_info T)\<rparr> else x))))"

text \<open>
  \<open>ProtoReflect\<close> gives the message's own state, which then points to an information, or a value made
  by \<open>MessageOf\<close>; it may set the state.
\<close>

datatype 'm reflected = StateOf info_ptr | MessageOf info_ptr "'m gen_message option"

definition ProtoReflect ::
  "'m gen_type \<Rightarrow> bool \<Rightarrow> 'm gen_message option \<Rightarrow> 'm reflected \<times> 'm gen_message option" where
  "ProtoReflect T UnsafeEnabled x =
     (let mi = gt_info T
      in case x of
           Some m \<Rightarrow>
             if UnsafeEnabled
             then (case msg_state m of
                     None \<Rightarrow> (StateOf mi, Some (m\<lparr>msg_state := Some mi\<rparr>))
                   | Some mi' \<Rightarrow> (StateOf mi', Some m))
             else (MessageOf mi x, x)
         | None \<Rightarrow> (MessageOf mi x, x))"

definition Message_String :: "('m gen_message option \<Rightarrow> string) \<Rightarrow> 'm gen_message option \<Rightarrow> string" where
  "Message_String MessageStringOf x = MessageStringOf x"

text \<open>\<open>Descriptor\<close>: the compressed file descriptor and the path to the message in it.\<close>

definition Descriptor :: "'m gen_type \<Rightarrow> byte list \<Rightarrow> byte list \<times> nat list" where
  "Descriptor T rawDescGZIP = (rawDescGZIP, [snd (gt_info T)])"

subsection \<open>The message types\<close>

definition AuditLogRequest_type :: "log_request gen_type" where
  "AuditLogRequest_type = \<lparr>gt_name = ''AuditLogRequest'',
     gt_tags = [''varint,1,opt,name=type,proto3,enum=abcxyz.lumberjack.AuditLogRequest_LogType'',
                ''bytes,2,opt,name=payload,proto3'',
                ''bytes,3,rep,name=labels,proto3'',
                ''varint,4,opt,name=mode,proto3,enum=abcxyz.lumberjack.AuditLogRequest_LogMode'',
                ''bytes,5,opt,name=operation,proto3'',
                ''bytes,6,opt,name=timestamp,proto3'',
                ''bytes,7,opt,name=context,proto3'',
                ''bytes,8,opt,name=justification_token,json=justificationToken,proto3''],
     gt_info = (''file_audit_log_request_proto_msgTypes'', 0), gt_zero = empty_log_request\<rparr>"

definition AuditLogResponse_type :: "audit_log_response gen_type" where
  "AuditLogResponse_type = \<lparr>gt_name = ''AuditLogResponse'',
     gt_tags = [''bytes,1,opt,name=result,proto3''],
     gt_info = (''file_audit_log_agent_proto_msgTypes'', 0), gt_zero = \<lparr>Result = None\<rparr>\<rparr>"

definition HelloRequest_type :: "goval gen_type" where
  "HelloRequest_type = \<lparr>gt_name = ''HelloRequest'',
     gt_tags = [''bytes,1,opt,name=target,proto3'',
                ''bytes,2,opt,name=message,proto3''],
     gt_info = (''file_talker_proto_msgTypes'', 0), gt_zero = HelloRequest [] []\<rparr>"

definition HelloResponse_type :: "goval gen_type" where
  "HelloResponse_type = \<lparr>gt_name = ''HelloResponse'',
     gt_tags = [''bytes,1,opt,name=message,proto3''],
     gt_info = (''file_talker_proto_msgTypes'', 1), gt_zero = HelloResponse []\<rparr>"

definition WhisperRequest_type :: "goval gen_type" where
  "WhisperRequest_type = \<lparr>gt_name = ''WhisperRequest'',
     gt_tags = [''bytes,1,opt,name=target,proto3'',
                ''bytes,2,opt,name=message,proto3''],
     gt_info = (''file_talker_proto_msgTypes'', 2), gt_zero = WhisperRequest [] []\<rparr>"

definition WhisperResponse_type :: "goval gen_type" where
  "WhisperResponse_type = \<lparr>gt_name = ''WhisperResponse'',
     gt_tags = [''bytes,1,opt,name=message,proto3''],
     gt_info = (''file_talker_proto_msgTypes'', 3), gt_zero = WhisperResponse []\<rparr>"

definition ByeRequest_type :: "goval gen_type" where
  "ByeRequest_type = \<lparr>gt_name = ''ByeRequest'',
     gt_tags = [''bytes,1,opt,name=target,proto3'',
                ''bytes,2,opt,name=message,proto3''],
     gt_info = (''file_talker_proto_msgTypes'', 4), gt_zero = ByeRequest [] []\<rparr>"

definition ByeResponse_type :: "goval gen_type" where
  "ByeResponse_type = \<lparr>gt_name = ''ByeResponse'',
     gt_tags = [''bytes,1,opt,name=message,proto3''],
     gt_info = (''file_talker_proto_msgTypes'', 5), gt_zero = ByeResponse []\<rparr>"

definition FibonacciRequest_type :: "goval gen_type" where
  "FibonacciRequest_type = \<lparr>gt_name = ''FibonacciRequest'',
     gt_tags = [''varint,1,opt,name=places,proto3'',
                ''bytes,2,opt,name=target,proto3''],
     gt_info = (''file_talker_proto_msgTypes'', 6), gt_zero = FibonacciRequest 0 []\<rparr>"

definition FibonacciResponse_type :: "goval gen_type" where
  "FibonacciResponse_type = \<lparr>gt_name = ''FibonacciResponse'',
     gt_tags = [''varint,1,opt,name=position,proto3'',
                ''varint,2,opt,name=value,proto3''],
     gt_info = (''file_talker_proto_msgTypes'', 7), gt_zero = FibonacciResponse 0 0\<rparr>"

definition AdditionRequest_type :: "goval gen_type" where
  "AdditionRequest_type = \<lparr>gt_name = ''AdditionRequest'',
     gt_tags = [''varint,1,opt,name=addend,proto3'',
                ''bytes,2,opt,name=target,proto3''],
     gt_info = (''file_talker_proto_msgTypes'', 8), gt_zero = AdditionRequest 0 []\<rparr>"

definition AdditionResponse_type :: "goval gen_type" where
  "AdditionResponse_type = \<lparr>gt_name = ''AdditionResponse'',
     gt_tags = [''varint,1,opt,name=sum,proto3''],
     gt_info = (''file_talker_proto_msgTypes'', 9), gt_zero = AdditionResponse 0\<rparr>"

definition FailRequest_type :: "goval gen_type" where
  "FailRequest_type = \<lparr>gt_name = ''FailRequest'',
     gt_tags = [''bytes,1,opt,name=target,proto3'',
                ''bytes,2,opt,name=message,proto3''],
     gt_info = (''file_talker_proto_msgTypes'', 10), gt_zero = FailRequest [] []\<rparr>"

definition FailResponse_type :: "goval gen_type" where
  "FailResponse_type = \<lparr>gt_name = ''FailResponse'',
     gt_tags = [''bytes,1,opt,name=message,proto3''],
     gt_info = (''file_talker_proto_msgTypes'', 11), gt_zero = FailResponse []\<rparr>"

definition FailOnFourRequest_type :: "goval gen_type" where
  "FailOnFourRequest_type = \<lparr>gt_name = ''FailOnFourRequest'',
     gt_tags = [''bytes,1,opt,name=target,proto3'',
                ''varint,2,opt,name=value,proto3''],
     gt_info = (''file_talker_proto_msgTypes'', 12), gt_zero = FailOnFourRequest [] 0\<rparr>"

definition FailOnFourResponse_type :: "goval gen_type" where
  "FailOnFourResponse_type = \<lparr>gt_name = ''FailOnFourResponse'',
     gt_tags = [''bytes,1,opt,name=message,proto3''],
     gt_info = (''file_talker_proto_msgTypes'', 13), gt_zero = FailOnFourResponse []\<rparr>"

definition talker_types :: "goval gen_type list" where
  "talker_types =
     [HelloRequest_type, HelloResponse_type, WhisperRequest_type, WhisperResponse_type, ByeRequest_type,
      ByeResponse_type, FibonacciRequest_type, FibonacciResponse_type, AdditionRequest_type,
      AdditionResponse_type, FailRequest_type, FailResponse_type, FailOnFourRequest_type,
      FailOnFourResponse_type]"

text \<open>The getters of each message, in the order of the fields; a nil message has zero values.\<close>

type_synonym msg_getters = "(string \<times> (goval \<Rightarrow> msg_field)) list"

definition HelloRequest_getters :: msg_getters where
  "HelloRequest_getters = [(''GetTarget'', FString \<circ> GetTarget), (''GetMessage'', FString \<circ> GetMessage)]"

definition HelloResponse_getters :: msg_getters where
  "HelloResponse_getters = [(''GetMessage'', FString \<circ> GetMessage)]"

definition WhisperRequest_getters :: msg_getters where
  "WhisperRequest_getters = [(''GetTarget'', FString \<circ> GetTarget), (''GetMessage'', FString \<circ> GetMessage)]"

definition WhisperResponse_getters :: msg_getters where
  "WhisperResponse_getters = [(''GetMessage'', FString \<circ> GetMessage)]"

definition ByeRequest_getters :: msg_getters where
  "ByeRequest_getters = [(''GetTarget'', FString \<circ> GetTarget), (''GetMessage'', FString \<circ> GetMessage)]"

definition ByeResponse_getters :: msg_getters where
  "ByeResponse_getters = [(''GetMessage'', FString \<circ> GetMessage)]"

definition FibonacciRequest_getters :: msg_getters where
  "FibonacciRequest_getters = [(''GetPlaces'', FUint \<circ> unat \<circ> GetPlaces), (''GetTarget'', FString \<circ> GetTarget)]"

definition FibonacciResponse_getters :: msg_getters where
  "FibonacciResponse_getters = [(''GetPosition'', FUint \<circ> unat \<circ> GetPosition), (''GetValue'', FUint \<circ> unat \<circ> GetValue)]"

definition AdditionRequest_getters :: msg_getters where
  "AdditionRequest_getters = [(''GetAddend'', FUint \<circ> unat \<circ> GetAddend), (''GetTarget'', FString \<circ> GetTarget)]"

definition AdditionResponse_getters :: msg_getters where
  "AdditionResponse_getters = [(''GetSum'', FUint \<circ> unat \<circ> GetSum)]"

definition FailRequest_getters :: msg_getters where
  "FailRequest_getters = [(''GetTarget'', FString \<circ> GetTarget), (''GetMessage'', FString \<circ> GetMessage)]"

definition FailResponse_getters :: msg_getters where
  "FailResponse_getters = [(''GetMessage'', FString \<circ> GetMessage)]"

definition FailOnFourRequest_getters :: msg_getters where
  "FailOnFourRequest_getters = [(''GetTarget'', FString \<circ> GetTarget), (''GetValue'', FUint \<circ> unat \<circ> GetValue)]"

definition FailOnFourResponse_getters :: msg_getters where
  "FailOnFourResponse_getters = [(''GetMessage'', FString \<circ> GetMessage)]"

definition talker_getters :: "msg_getters list" where
  "talker_getters =
     [HelloRequest_getters, HelloResponse_getters, WhisperRequest_getters, WhisperResponse_getters,
      ByeRequest_getters, ByeResponse_getters, FibonacciRequest_getters, FibonacciResponse_getters,
      AdditionRequest_getters, AdditionResponse_getters, FailRequest_getters, FailResponse_getters,
      FailOnFourRequest_getters, FailOnFourResponse_getters]"

lemmas getter_list_defs =
  HelloRequest_getters_def HelloResponse_getters_def WhisperRequest_getters_def
  WhisperResponse_getters_def ByeRequest_getters_def ByeResponse_getters_def
  FibonacciRequest_getters_def FibonacciResponse_getters_def AdditionRequest_getters_def
  AdditionResponse_getters_def FailRequest_getters_def FailResponse_getters_def
  FailOnFourRequest_getters_def FailOnFourResponse_getters_def

lemmas gen_type_defs =
  AuditLogRequest_type_def AuditLogResponse_type_def HelloRequest_type_def HelloResponse_type_def
  WhisperRequest_type_def WhisperResponse_type_def ByeRequest_type_def ByeResponse_type_def
  FibonacciRequest_type_def FibonacciResponse_type_def AdditionRequest_type_def
  AdditionResponse_type_def FailRequest_type_def FailResponse_type_def FailOnFourRequest_type_def
  FailOnFourResponse_type_def

text \<open>The methods of the enums: a copy on the heap, the number, the text the runtime finds for it.\<close>

definition LogType_Enum :: "log_type \<Rightarrow> log_type option" where
  "LogType_Enum x = Some x"

definition LogType_String :: "(string \<times> nat \<Rightarrow> int \<Rightarrow> string) \<Rightarrow> log_type \<Rightarrow> string" where
  "LogType_String EnumStringOf x = EnumStringOf (''file_audit_log_request_proto_enumTypes'', 0) (sint x)"

definition LogMode_String :: "(string \<times> nat \<Rightarrow> int \<Rightarrow> string) \<Rightarrow> log_mode \<Rightarrow> string" where
  "LogMode_String EnumStringOf x = EnumStringOf (''file_audit_log_request_proto_enumTypes'', 1) (sint x)"

subsection \<open>The tables\<close>

text \<open>A type of the table with the full name its comment gives; the type of a map entry is nil.\<close>

type_synonym go_types = "(string option \<times> string) list"

definition audit_log_request_goTypes :: go_types where
  "audit_log_request_goTypes =
     [(Some ''AuditLogRequest_LogType'', ''abcxyz.lumberjack.AuditLogRequest.LogType''),
      (Some ''AuditLogRequest_LogMode'', ''abcxyz.lumberjack.AuditLogRequest.LogMode''),
      (Some ''*AuditLogRequest'', ''abcxyz.lumberjack.AuditLogRequest''),
      (None, ''abcxyz.lumberjack.AuditLogRequest.LabelsEntry''),
      (Some ''*audit.AuditLog'', ''google.cloud.audit.AuditLog''),
      (Some ''*loggingpb.LogEntryOperation'', ''google.logging.v2.LogEntryOperation''),
      (Some ''*timestamppb.Timestamp'', ''google.protobuf.Timestamp''),
      (Some ''*structpb.Struct'', ''google.protobuf.Struct''),
      (Some ''*descriptorpb.EnumValueOptions'', ''google.protobuf.EnumValueOptions'')]"

definition audit_log_request_depIdxs :: "nat list" where
  "audit_log_request_depIdxs = [0, 4, 3, 1, 5, 6, 7, 8, 8, 8, 8, 7, 0]"

definition audit_log_agent_goTypes :: go_types where
  "audit_log_agent_goTypes =
     [(Some ''*AuditLogResponse'', ''abcxyz.lumberjack.AuditLogResponse''),
      (Some ''*AuditLogRequest'', ''abcxyz.lumberjack.AuditLogRequest'')]"

definition audit_log_agent_depIdxs :: "nat list" where
  "audit_log_agent_depIdxs = [1, 1, 0, 2, 1, 1, 1, 0]"

definition talker_goTypes :: go_types where
  "talker_goTypes =
     [(Some ''*HelloRequest'', ''abcxyz.test.HelloRequest''),
      (Some ''*HelloResponse'', ''abcxyz.test.HelloResponse''),
      (Some ''*WhisperRequest'', ''abcxyz.test.WhisperRequest''),
      (Some ''*WhisperResponse'', ''abcxyz.test.WhisperResponse''),
      (Some ''*ByeRequest'', ''abcxyz.test.ByeRequest''),
      (Some ''*ByeResponse'', ''abcxyz.test.ByeResponse''),
      (Some ''*FibonacciRequest'', ''abcxyz.test.FibonacciRequest''),
      (Some ''*FibonacciResponse'', ''abcxyz.test.FibonacciResponse''),
      (Some ''*AdditionRequest'', ''abcxyz.test.AdditionRequest''),
      (Some ''*AdditionResponse'', ''abcxyz.test.AdditionResponse''),
      (Some ''*FailRequest'', ''abcxyz.test.FailRequest''),
      (Some ''*FailResponse'', ''abcxyz.test.FailResponse''),
      (Some ''*FailOnFourRequest'', ''abcxyz.test.FailOnFourRequest''),
      (Some ''*FailOnFourResponse'', ''abcxyz.test.FailOnFourResponse'')]"

definition talker_depIdxs :: "nat list" where
  "talker_depIdxs = [0, 2, 4, 6, 8, 10, 12, 1, 3, 5, 7, 9, 11, 13, 7, 0, 0, 0, 0]"

text \<open>The extension field \<open>E_LogName\<close>.\<close>

record extension_info =
  ei_ExtendedType :: string
  ei_ExtensionType :: string
  ei_Field :: nat
  ei_Name :: string
  ei_Tag :: string
  ei_Filename :: string

definition audit_log_request_extTypes :: "extension_info list" where
  "audit_log_request_extTypes =
     [\<lparr>ei_ExtendedType = ''*descriptorpb.EnumValueOptions'', ei_ExtensionType = ''*string'',
       ei_Field = 390161750, ei_Name = ''abcxyz.lumberjack.log_name'',
       ei_Tag = ''bytes,390161750,opt,name=log_name'', ei_Filename = ''audit_log_request.proto''\<rparr>]"

definition E_LogName :: extension_info where
  "E_LogName = audit_log_request_extTypes ! 0"

subsection \<open>Initialization\<close>

text \<open>
  The variables of a generated file.  A slice that is set to nil is \<open>None\<close>; \<open>'f\<close> is the built
  descriptor.  Without unsafe code the runtime gets at the internal fields of a message by an
  exporter, a function of the message, here its dynamic type, and the number of the field.
\<close>

datatype internal_field = StateField | SizeCacheField | UnknownFieldsField

record message_info =
  Exporter :: "(string \<Rightarrow> int \<Rightarrow> internal_field option ret) option"

record 'f gen_vars =
  File :: "'f option"
  rawDesc :: "byte list option"
  goTypes :: "go_types option"
  depIdxs :: "nat list option"
  rawDescOnce :: bool
  rawDescData :: "byte list option"
  msgTypes :: "message_info list"

record type_builder =
  GoPackagePath :: string
  RawDescriptor :: "byte list option"
  NumEnums :: nat
  NumMessages :: nat
  NumExtensions :: nat
  NumServices :: nat
  GoTypes :: "go_types option"
  DependencyIndexes :: "nat list option"
  EnumInfos :: nat
  MessageInfos :: "message_info list"
  ExtensionInfos :: "extension_info list"

definition exporter :: "string \<Rightarrow> string \<Rightarrow> int \<Rightarrow> internal_field option ret" where
  "exporter T v i =
     (if v \<noteq> T then Panic (''interface conversion: not '' @ T)
      else Ret (if i = 0 then Some StateField
                else if i = 1 then Some SizeCacheField
                else if i = 2 then Some UnknownFieldsField
                else None))"

fun set_exporters :: "string list \<Rightarrow> message_info list \<Rightarrow> message_info list" where
  "set_exporters (T # Ts) (mi # mis) = mi\<lparr>Exporter := Some (exporter T)\<rparr> # set_exporters Ts mis"
| "set_exporters _ mis = mis"

text \<open>The variables at the start, with the copy of the descriptor that \<open>rawDescData\<close> takes.\<close>

definition vars_at_start :: "byte list \<Rightarrow> go_types \<Rightarrow> nat list \<Rightarrow> nat \<Rightarrow> 'f gen_vars" where
  "vars_at_start raw types deps n =
     \<lparr>File = None, rawDesc = Some raw, goTypes = Some types, depIdxs = Some deps,
      rawDescOnce = False, rawDescData = Some raw, msgTypes = replicate n \<lparr>Exporter = None\<rparr>\<rparr>"

definition init_file :: "(type_builder \<Rightarrow> 'f) \<Rightarrow> ('f gen_vars \<Rightarrow> type_builder) \<Rightarrow> 'f gen_vars \<Rightarrow> 'f gen_vars" where
  "init_file Build builder s =
     (if File s \<noteq> None then s
      else let tb = builder s
           in s\<lparr>msgTypes := MessageInfos tb, File := Some (Build tb), rawDesc := None, goTypes := None,
                depIdxs := None\<rparr>)"

definition exported :: "bool \<Rightarrow> string list \<Rightarrow> message_info list \<Rightarrow> message_info list" where
  "exported UnsafeEnabled Ts infos = (if UnsafeEnabled then infos else set_exporters Ts infos)"

definition audit_log_request_builder :: "bool \<Rightarrow> 'f gen_vars \<Rightarrow> type_builder" where
  "audit_log_request_builder UnsafeEnabled s =
     \<lparr>GoPackagePath = ''github.com/abcxyz/lumberjack/clients/go/apis/v1alpha1'',
      RawDescriptor = rawDesc s, NumEnums = 2, NumMessages = 2, NumExtensions = 1, NumServices = 0,
      GoTypes = goTypes s, DependencyIndexes = depIdxs s, EnumInfos = 2,
      MessageInfos = exported UnsafeEnabled [''*AuditLogRequest''] (msgTypes s),
      ExtensionInfos = audit_log_request_extTypes\<rparr>"

definition file_audit_log_request_proto_init ::
  "bool \<Rightarrow> (type_builder \<Rightarrow> 'f) \<Rightarrow> 'f gen_vars \<Rightarrow> 'f gen_vars" where
  "file_audit_log_request_proto_init UnsafeEnabled Build =
     init_file Build (audit_log_request_builder UnsafeEnabled)"

text \<open>The two files of the package: the agent's is built after the one it depends on.\<close>

record 'f v1alpha1_vars =
  request_file :: "'f gen_vars"
  agent_file :: "'f gen_vars"

definition audit_log_agent_builder :: "bool \<Rightarrow> 'f gen_vars \<Rightarrow> type_builder" where
  "audit_log_agent_builder UnsafeEnabled s =
     \<lparr>GoPackagePath = ''github.com/abcxyz/lumberjack/clients/go/apis/v1alpha1'',
      RawDescriptor = rawDesc s, NumEnums = 0, NumMessages = 1, NumExtensions = 0, NumServices = 1,
      GoTypes = goTypes s, DependencyIndexes = depIdxs s, EnumInfos = 0,
      MessageInfos = exported UnsafeEnabled [''*AuditLogResponse''] (msgTypes s), ExtensionInfos = []\<rparr>"

definition file_audit_log_agent_proto_init ::
  "bool \<Rightarrow> (type_builder \<Rightarrow> 'f) \<Rightarrow> 'f v1alpha1_vars \<Rightarrow> 'f v1alpha1_vars" where
  "file_audit_log_agent_proto_init UnsafeEnabled Build p =
     (if File (agent_file p) \<noteq> None then p
      else p\<lparr>request_file := file_audit_log_request_proto_init UnsafeEnabled Build (request_file p),
             agent_file := init_file Build (audit_log_agent_builder UnsafeEnabled) (agent_file p)\<rparr>)"

definition talker_message_types :: "string list" where
  "talker_message_types =
     [''*HelloRequest'', ''*HelloResponse'', ''*WhisperRequest'', ''*WhisperResponse'', ''*ByeRequest'',
      ''*ByeResponse'', ''*FibonacciRequest'', ''*FibonacciResponse'', ''*AdditionRequest'',
      ''*AdditionResponse'', ''*FailRequest'', ''*FailResponse'', ''*FailOnFourRequest'',
      ''*FailOnFourResponse'']"

definition talker_builder :: "bool \<Rightarrow> 'f gen_vars \<Rightarrow> type_builder" where
  "talker_builder UnsafeEnabled s =
     \<lparr>GoPackagePath = ''github.com/abcxyz/lumberjack/internal/talkerpb'',
      RawDescriptor = rawDesc s, NumEnums = 0, NumMessages = 14, NumExtensions = 0, NumServices = 1,
      GoTypes = goTypes s, DependencyIndexes = depIdxs s, EnumInfos = 0,
      MessageInfos = exported UnsafeEnabled talker_message_types (msgTypes s), ExtensionInfos = []\<rparr>"

definition file_talker_proto_init :: "bool \<Rightarrow> (type_builder \<Rightarrow> 'f) \<Rightarrow> 'f gen_vars \<Rightarrow> 'f gen_vars" where
  "file_talker_proto_init UnsafeEnabled Build = init_file Build (talker_builder UnsafeEnabled)"

definition rawDescGZIP :: "(byte list option \<Rightarrow> byte list option) \<Rightarrow> 'f gen_vars \<Rightarrow> byte list option \<times> 'f gen_vars" where
  "rawDescGZIP CompressGZIP s =
     (let s' = (if rawDescOnce s then s
                else s\<lparr>rawDescOnce := True, rawDescData := CompressGZIP (rawDescData s)\<rparr>)
      in (rawDescData s', s'))"

definition audit_log_request_at_start :: "'f gen_vars" where
  "audit_log_request_at_start =
     vars_at_start audit_log_request_rawDesc audit_log_request_goTypes audit_log_request_depIdxs 2"

definition audit_log_agent_at_start :: "'f gen_vars" where
  "audit_log_agent_at_start =
     vars_at_start audit_log_agent_rawDesc audit_log_agent_goTypes audit_log_agent_depIdxs 1"

definition v1alpha1_at_start :: "'f v1alpha1_vars" where
  "v1alpha1_at_start = \<lparr>request_file = audit_log_request_at_start, agent_file = audit_log_agent_at_start\<rparr>"

definition talker_at_start :: "'f gen_vars" where
  "talker_at_start = vars_at_start talker_rawDesc talker_goTypes talker_depIdxs 14"

end
