(* ===== verification/Proto_Check.thy ===== *)
theory Proto_Check
  imports Proto_Gen
begin

section \<open>The generated code against its \<open>.proto\<close> files\<close>

text \<open>
  The raw descriptors decode to what the \<open>.proto\<close> files declare; the type builder a file hands to
  the runtime meets the documented contract of a type builder; the tables of the generated code,
  the struct tags and the service descriptions agree with the declarations; and the variables of a
  package keep the descriptor whatever the order of initialization and use.
\<close>

subsection \<open>Decoding by evaluation\<close>

lemma get_bytes_simps:
  "get_bytes (numeral k) (b # bs) = map_option (map_prod (Cons b) id) (get_bytes (pred_numeral k) bs)"
  "get_bytes (Suc 0) (b # bs) = Some ([b], bs)"
  by (simp_all add: numeral_eq_Suc)

lemmas decode_simps =
  decode_file_def decode_field_def decode_enum_def decode_enum_value_def decode_method_def
  decode_service_def decode_extension_def field_type_of_def field_label_of_def text_of_def nums_def
  blobs_def the_num_def the_text_def the_flag_def List.map_filter_def char_of_def bit_Suc_0_iff
  get_field_def wire_fields_simps get_bytes_simps

lemmas shape_defs = plain_message_def singular_def rpc_def map_field_def map_entry_def

lemma decode_audit_log_agent: "decode_file audit_log_agent_rawDesc = Some audit_log_agent_proto"
  by (simp add: audit_log_agent_rawDesc_def decode_simps audit_log_agent_proto_def shape_defs)

lemma decode_audit_log_request: "decode_file audit_log_request_rawDesc = Some audit_log_request_proto"
  by (simp add: audit_log_request_rawDesc_def decode_simps audit_log_request_proto_def
      AuditLogRequest_proto_def LogType_proto_def LogMode_proto_def shape_defs)

lemma decode_talker: "decode_file talker_rawDesc = Some talker_proto"
  by (simp add: talker_rawDesc_def decode_simps talker_proto_def Talker_proto_def shape_defs)

subsection \<open>The contract of a type builder\<close>

text \<open>
  The enums and messages of a file in the documented flattened order, with their full names: those
  of the top level first, then those nested in them.
\<close>

definition dot :: "string \<Rightarrow> string \<Rightarrow> string" where
  "dot p n = p @ ''.'' @ n"

fun nested_in :: "string \<Rightarrow> message_desc \<Rightarrow> (string \<times> message_desc) list" where
  "nested_in p (MessageDesc n fs ms es me) =
     map (\<lambda>m. (dot (dot p n) (md_name m), m)) ms @ concat (map (nested_in (dot p n)) ms)"

definition all_messages :: "file_desc \<Rightarrow> (string \<times> message_desc) list" where
  "all_messages fd =
     map (\<lambda>m. (dot (fl_package fd) (md_name m), m)) (fl_messages fd) @
     concat (map (nested_in (fl_package fd)) (fl_messages fd))"

definition all_enums :: "file_desc \<Rightarrow> (string \<times> enum_desc) list" where
  "all_enums fd =
     map (\<lambda>e. (dot (fl_package fd) (ed_name e), e)) (fl_enums fd) @
     concat (map (\<lambda>(q, m). map (\<lambda>e. (dot q (ed_name e), e)) (md_enums m)) (all_messages fd))"

definition refers_to :: "field_desc \<Rightarrow> string option" where
  "refers_to f = (case fd_type f of TYPE_MESSAGE t \<Rightarrow> Some t | TYPE_ENUM t \<Rightarrow> Some t | _ \<Rightarrow> None)"

definition all_methods :: "file_desc \<Rightarrow> method_desc list" where
  "all_methods fd = concat (map sv_methods (fl_services fd))"

text \<open>
  The dependency indexes are five lists one after the other, for the types of fields, what
  extensions extend, the types of extensions, the inputs and the outputs of methods, followed by
  their five starts, the last one first.
\<close>

definition sub_list :: "nat \<Rightarrow> nat list \<Rightarrow> nat list" where
  "sub_list k idxs =
     (let n = length idxs - 5; starts = rev (drop n idxs) @ [n]
      in drop (starts ! k) (take (starts ! Suc k) idxs))"

definition resolved :: "go_types \<Rightarrow> nat list \<Rightarrow> string list" where
  "resolved types is = map (\<lambda>i. ''.'' @ snd (types ! i)) is"

definition dependencies :: "file_desc \<Rightarrow> string list list" where
  "dependencies fd =
     [List.map_filter refers_to (concat (map (md_fields \<circ> snd) (all_messages fd))),
      map ex_extendee (fl_extensions fd),
      List.map_filter (refers_to \<circ> ex_field) (fl_extensions fd),
      map mt_input (all_methods fd),
      map mt_output (all_methods fd)]"

definition well_built :: "file_desc \<Rightarrow> type_builder \<Rightarrow> bool" where
  "well_built fd tb \<longleftrightarrow>
     Option.bind (RawDescriptor tb) decode_file = Some fd \<and>
     GoPackagePath tb = fl_go_package fd \<and>
     NumEnums tb = length (all_enums fd) \<and> EnumInfos tb = NumEnums tb \<and>
     NumMessages tb = length (all_messages fd) \<and> length (MessageInfos tb) = NumMessages tb \<and>
     NumExtensions tb = length (fl_extensions fd) \<and>
     map ei_Field (ExtensionInfos tb) = map (fd_number \<circ> ex_field) (fl_extensions fd) \<and>
     map ei_Name (ExtensionInfos tb) = map (dot (fl_package fd) \<circ> fd_name \<circ> ex_field) (fl_extensions fd) \<and>
     NumServices tb = length (fl_services fd) \<and>
     map_option (map snd \<circ> take (NumEnums tb + NumMessages tb)) (GoTypes tb) =
       Some (map fst (all_enums fd) @ map fst (all_messages fd)) \<and>
     (case (GoTypes tb, DependencyIndexes tb) of
        (Some types, Some deps) \<Rightarrow> map (\<lambda>k. resolved types (sub_list k deps)) [0, 1, 2, 3, 4] = dependencies fd
      | _ \<Rightarrow> False)"

lemmas built_simps =
  well_built_def all_enums_def all_messages_def all_methods_def dependencies_def refers_to_def
  resolved_def sub_list_def dot_def vars_at_start_def exported_def Let_def List.map_filter_def

lemma length_set_exporters [simp]: "length (set_exporters Ts mis) = length mis"
  by (induction Ts mis rule: set_exporters.induct) simp_all

text \<open>What each file hands to the runtime at the start, whatever that makes of it.\<close>

definition talker_tb :: "bool \<Rightarrow> type_builder" where
  "talker_tb u = talker_builder u (talker_at_start :: unit gen_vars)"

definition request_tb :: "bool \<Rightarrow> type_builder" where
  "request_tb u = audit_log_request_builder u (audit_log_request_at_start :: unit gen_vars)"

definition agent_tb :: "bool \<Rightarrow> type_builder" where
  "agent_tb u = audit_log_agent_builder u (audit_log_agent_at_start :: unit gen_vars)"

lemma tb_at_start:
  "audit_log_request_builder u audit_log_request_at_start = request_tb u"
  "audit_log_agent_builder u audit_log_agent_at_start = agent_tb u"
  "talker_builder u talker_at_start = talker_tb u"
  by (simp_all add: request_tb_def agent_tb_def talker_tb_def audit_log_request_builder_def
      audit_log_agent_builder_def talker_builder_def audit_log_request_at_start_def
      audit_log_agent_at_start_def talker_at_start_def vars_at_start_def)

lemma talker_well_built: "well_built talker_proto (talker_tb u)"
  by (simp add: talker_tb_def talker_builder_def talker_at_start_def decode_talker talker_goTypes_def
      talker_depIdxs_def built_simps talker_proto_def Talker_proto_def shape_defs)

lemma request_well_built:
  "well_built audit_log_request_proto (request_tb u)"
  by (simp add: request_tb_def audit_log_request_builder_def audit_log_request_at_start_def decode_audit_log_request
      audit_log_request_goTypes_def audit_log_request_depIdxs_def audit_log_request_extTypes_def
      built_simps audit_log_request_proto_def AuditLogRequest_proto_def LogType_proto_def
      LogMode_proto_def shape_defs)

lemma agent_well_built:
  "well_built audit_log_agent_proto (agent_tb u)"
  by (simp add: agent_tb_def audit_log_agent_builder_def audit_log_agent_at_start_def decode_audit_log_agent
      audit_log_agent_goTypes_def audit_log_agent_depIdxs_def built_simps audit_log_agent_proto_def
      shape_defs)

subsection \<open>Structs, enums and services\<close>

text \<open>
  The documented items of a struct tag: the wire type, the number, the label and the name of the
  field.  By the number the runtime finds the struct field of a declared field.
\<close>

definition tag_wire :: "field_type \<Rightarrow> string" where
  "tag_wire t =
     (case t of
        TYPE_STRING \<Rightarrow> ''bytes'' | TYPE_MESSAGE _ \<Rightarrow> ''bytes''
      | TYPE_UINT32 \<Rightarrow> ''varint'' | TYPE_UINT64 \<Rightarrow> ''varint'' | TYPE_ENUM _ \<Rightarrow> ''varint'')"

definition tag_label :: "field_label \<Rightarrow> string" where
  "tag_label l = (case l of LABEL_OPTIONAL \<Rightarrow> ''opt'' | LABEL_REPEATED \<Rightarrow> ''rep'')"

definition tag_fits :: "field_desc \<Rightarrow> string \<Rightarrow> bool" where
  "tag_fits f tag \<longleftrightarrow>
     take 4 (Split tag (CHR '','')) =
       [tag_wire (fd_type f), show_nat (fd_number f), tag_label (fd_label f), ''name='' @ fd_name f]"

definition type_fits :: "message_desc \<Rightarrow> 'm gen_type \<Rightarrow> bool" where
  "type_fits m T \<longleftrightarrow> gt_name T = md_name m \<and> list_all2 tag_fits (md_fields m) (gt_tags T)"

text \<open>The types of a file's messages, each at its own place in the array of the file.\<close>

definition types_fit :: "file_desc \<Rightarrow> string \<Rightarrow> 'm gen_type list \<Rightarrow> bool" where
  "types_fit fd infos Ts \<longleftrightarrow>
     list_all2 type_fits (fl_messages fd) Ts \<and> map gt_info Ts = map (Pair infos) [0..<length Ts]"

lemmas tag_simps = tag_fits_def tag_wire_def tag_label_def show_nat.simps char_of_def bit_Suc_0_iff

lemma request_type_fits:
  "types_fit audit_log_request_proto ''file_audit_log_request_proto_msgTypes'' [AuditLogRequest_type]"
  by (simp add: types_fit_def type_fits_def audit_log_request_proto_def AuditLogRequest_proto_def
      AuditLogRequest_type_def tag_simps shape_defs)

lemma agent_type_fits:
  "types_fit audit_log_agent_proto ''file_audit_log_agent_proto_msgTypes'' [AuditLogResponse_type]"
  by (simp add: types_fit_def type_fits_def audit_log_agent_proto_def AuditLogResponse_type_def
      tag_simps shape_defs)

lemma talker_types_fit:
  "types_fit talker_proto ''file_talker_proto_msgTypes'' talker_types"
  by (simp add: types_fit_def type_fits_def talker_proto_def talker_types_def gen_type_defs
      tag_simps shape_defs)

text \<open>A zero message has exactly the declared fields.\<close>

definition field_names :: "goval \<Rightarrow> string list" where
  "field_names m = (case m of GoMsg fs \<Rightarrow> map fst fs | _ \<Rightarrow> [])"

lemma talker_fields:
  "map (field_names \<circ> gt_zero) talker_types = map (map fd_name \<circ> md_fields) (fl_messages talker_proto)"
  by (simp add: talker_types_def gen_type_defs field_names_def message_defs talker_proto_def shape_defs)

text \<open>Each declared field has its getter, which reads that field, and gives the zero value on nil.\<close>

definition getter_name :: "string \<Rightarrow> string" where
  "getter_name n = ''Get'' @ map ascii_upper (take 1 n) @ drop 1 n"

definition reads_field :: "field_desc \<Rightarrow> string \<times> (goval \<Rightarrow> msg_field) \<Rightarrow> bool" where
  "reads_field f g \<longleftrightarrow> fst g = getter_name (fd_name f) \<and>
     (case fd_type f of
        TYPE_STRING \<Rightarrow> snd g GoNil = FString [] \<and> (\<forall>fs s. snd g (GoMsg ((fd_name f, FString s) # fs)) = FString s)
      | TYPE_UINT32 \<Rightarrow> snd g GoNil = FUint 0 \<and>
          (\<forall>fs n. snd g (GoMsg ((fd_name f, FUint (unat (n :: 32 word))) # fs)) = FUint (unat n))
      | TYPE_UINT64 \<Rightarrow> snd g GoNil = FUint 0 \<and>
          (\<forall>fs n. snd g (GoMsg ((fd_name f, FUint (unat (n :: 64 word))) # fs)) = FUint (unat n))
      | _ \<Rightarrow> False)"

lemma talker_getters_read: "list_all2 (\<lambda>m gs. list_all2 reads_field (md_fields m) gs) (fl_messages talker_proto) talker_getters"
  by (simp add: talker_proto_def talker_getters_def getter_list_defs shape_defs reads_field_def getter_name_def
      ascii_upper_def GetTarget_def GetMessage_def GetPlaces_def GetPosition_def GetValue_def GetAddend_def
      GetSum_def get_string_def get_uint32_def GoNil_def char_of_def bit_Suc_0_iff)

text \<open>The tables of the enums, and the log names of Cloud Logging.\<close>

definition enum_entries :: "enum_desc \<Rightarrow> (32 word \<times> string) list" where
  "enum_entries e = map (\<lambda>v. (of_nat (ev_number v), ev_name v)) (ed_values e)"

definition enum_log_names :: "enum_desc \<Rightarrow> (32 word \<times> string) list" where
  "enum_log_names e = map (\<lambda>v. (of_nat (ev_number v), ev_log_name v)) (ed_values e)"

lemma request_enums:
  "map (enum_entries \<circ> snd) (all_enums audit_log_request_proto) = [LogType_entries, LogMode_entries]"
  "enum_log_names LogType_proto = log_name_annotations"
  by (simp_all add: all_enums_def all_messages_def audit_log_request_proto_def AuditLogRequest_proto_def
      LogType_proto_def LogMode_proto_def enum_entries_def enum_log_names_def LogType_entries_def
      LogMode_entries_def log_name_annotations_def log_type_defs log_mode_defs shape_defs)

text \<open>The services: the methods a server registers are the declared ones, under the names a client calls.\<close>

definition service_full_name :: "file_desc \<Rightarrow> svc_desc \<Rightarrow> string" where
  "service_full_name fd sv = dot (fl_package fd) (sv_name sv)"

definition is_streaming :: "method_desc \<Rightarrow> bool" where
  "is_streaming m \<longleftrightarrow> mt_client_streaming m \<or> mt_server_streaming m"

definition unary_names :: "svc_desc \<Rightarrow> string list" where
  "unary_names sv = map mt_name (filter (Not \<circ> is_streaming) (sv_methods sv))"

definition stream_descs :: "svc_desc \<Rightarrow> stream_desc list" where
  "stream_descs sv =
     map (\<lambda>m. \<lparr>StreamName = mt_name m, ServerStreams = mt_server_streaming m,
              ClientStreams = mt_client_streaming m\<rparr>) (filter is_streaming (sv_methods sv))"

lemma agent_service:
  "map (service_full_name audit_log_agent_proto) (fl_services audit_log_agent_proto) =
     [ServiceName (AuditLogAgent_ServiceDesc srv)]"
  "map unary_names (fl_services audit_log_agent_proto) = [map fst (Methods (AuditLogAgent_ServiceDesc srv))]"
  "map stream_descs (fl_services audit_log_agent_proto) = [[]]"
  by (simp_all add: audit_log_agent_proto_def service_full_name_def dot_def unary_names_def
      stream_descs_def is_streaming_def rpc_def AuditLogAgent_ServiceDesc_def)

lemma talker_service_declared:
  "fl_services talker_proto = [Talker_proto]"
  "unary_names Talker_proto = map fst (Talker_Methods env i)"
  "map StreamName (stream_descs Talker_proto) = map fst Talker_Stream_Handlers"
  "stream_descs Talker_proto = Talker_Streams"
  "unary_names Talker_proto = map fst UnimplementedTalkerServer"
  "map StreamName (stream_descs Talker_proto) = map fst UnimplementedTalkerServer_streams"
  by (simp_all add: talker_proto_def Talker_proto_def unary_names_def stream_descs_def is_streaming_def
      rpc_def Talker_Methods_def Talker_Stream_Handlers_def Talker_Streams_def
      UnimplementedTalkerServer_def UnimplementedTalkerServer_streams_def)

text \<open>A client's call of any declared method finds the handler that is registered for it.\<close>

lemma talker_methods_found:
  "map (find_talker (Talker_Methods env i) \<circ> full_method (service_full_name talker_proto Talker_proto))
     (unary_names Talker_proto) = map (Some \<circ> snd) (Talker_Methods env i)"
  "map (find_talker Talker_Stream_Handlers \<circ> full_method (service_full_name talker_proto Talker_proto) \<circ> StreamName)
     (stream_descs Talker_proto) = map (Some \<circ> snd) Talker_Stream_Handlers"
  by (simp_all add: find_talker_def full_method_def service_full_name_def dot_def talker_proto_def
      Talker_proto_def unary_names_def stream_descs_def is_streaming_def rpc_def Talker_Methods_def
      Talker_Stream_Handlers_def)

subsection \<open>The methods of a message\<close>

text \<open>Neither touches the declared fields without need: \<open>ProtoReflect\<close> keeps them, \<open>Reset\<close> clears all.\<close>

lemma ProtoReflect_keeps:
  "map_option declared (snd (ProtoReflect T u x)) = map_option declared x"
  "map_option unknownFields (snd (ProtoReflect T u x)) = map_option unknownFields x"
  by (auto simp: ProtoReflect_def Let_def split: option.splits)

lemma ProtoReflect_again:
  "ProtoReflect T u (snd (ProtoReflect T u x)) = ProtoReflect T u x"
  by (auto simp: ProtoReflect_def Let_def split: option.splits)

lemma Reset_then_reflect:
  "Reset T True (Some m) = Ret (Some x) \<Longrightarrow> ProtoReflect T True (Some x) = (StateOf (gt_info T), Some x)"
  by (auto simp: Reset_def ProtoReflect_def Let_def)

subsection \<open>Initialization and use, in any order\<close>

datatype file_op = InitRequest | InitAgent | GzipRequest | GzipAgent

fun do_op ::
  "bool \<Rightarrow> (type_builder \<Rightarrow> 'f) \<Rightarrow> (byte list option \<Rightarrow> byte list option) \<Rightarrow> file_op \<Rightarrow>
     'f v1alpha1_vars \<Rightarrow> 'f v1alpha1_vars" where
  "do_op u Build gz InitRequest p =
     p\<lparr>request_file := file_audit_log_request_proto_init u Build (request_file p)\<rparr>"
| "do_op u Build gz InitAgent p = file_audit_log_agent_proto_init u Build p"
| "do_op u Build gz GzipRequest p = p\<lparr>request_file := snd (rawDescGZIP gz (request_file p))\<rparr>"
| "do_op u Build gz GzipAgent p = p\<lparr>agent_file := snd (rawDescGZIP gz (agent_file p))\<rparr>"

text \<open>A file is as at the start, but for the compressed descriptor, or it is built.\<close>

definition same_sources :: "'f gen_vars \<Rightarrow> 'f gen_vars \<Rightarrow> bool" where
  "same_sources s t \<longleftrightarrow>
     File s = File t \<and> rawDesc s = rawDesc t \<and> goTypes s = goTypes t \<and> depIdxs s = depIdxs t \<and>
     msgTypes s = msgTypes t"

definition file_inv ::
  "(type_builder \<Rightarrow> 'f) \<Rightarrow> (byte list option \<Rightarrow> byte list option) \<Rightarrow> ('f gen_vars \<Rightarrow> type_builder) \<Rightarrow>
     'f gen_vars \<Rightarrow> 'f gen_vars \<Rightarrow> bool" where
  "file_inv Build gz builder t s \<longleftrightarrow>
     rawDescData s = (if rawDescOnce s then gz (rawDescData t) else rawDescData t) \<and>
     (same_sources s t \<or> File s = Some (Build (builder t)))"

definition local_builder :: "('f gen_vars \<Rightarrow> type_builder) \<Rightarrow> bool" where
  "local_builder builder \<longleftrightarrow> (\<forall>s t. same_sources s t \<longrightarrow> builder s = builder t)"

lemma local_builders [simp]:
  "local_builder (audit_log_request_builder u)" "local_builder (audit_log_agent_builder u)"
  "local_builder (talker_builder u)"
  by (simp_all add: local_builder_def same_sources_def audit_log_request_builder_def
      audit_log_agent_builder_def talker_builder_def)

lemma file_inv_start: "\<not> rawDescOnce t \<Longrightarrow> file_inv Build gz builder t t"
  by (simp add: file_inv_def same_sources_def)

lemma file_inv_gzip: "file_inv Build gz builder t s \<Longrightarrow> file_inv Build gz builder t (snd (rawDescGZIP gz s))"
  by (auto simp: file_inv_def rawDescGZIP_def same_sources_def)

lemma file_inv_init:
  assumes "file_inv Build gz builder t s" and "local_builder builder" and "File t = None"
  shows "file_inv Build gz builder t (init_file Build builder s)"
    and "File (init_file Build builder s) = Some (Build (builder t))"
proof -
  from assms(1,3) consider "same_sources s t" "File s = None" | "File s = Some (Build (builder t))"
    by (auto simp: file_inv_def same_sources_def)
  then have "File (init_file Build builder s) = Some (Build (builder t))"
    using assms(2) by cases (simp_all add: init_file_def Let_def local_builder_def)
  moreover have "rawDescOnce (init_file Build builder s) = rawDescOnce s"
    "rawDescData (init_file Build builder s) = rawDescData s"
    by (simp_all add: init_file_def Let_def)
  ultimately show "file_inv Build gz builder t (init_file Build builder s)"
    "File (init_file Build builder s) = Some (Build (builder t))"
    using assms(1) by (simp_all add: file_inv_def)
qed

lemma file_inv_result: "file_inv Build gz builder t s \<Longrightarrow> fst (rawDescGZIP gz s) = gz (rawDescData t)"
  by (simp add: file_inv_def rawDescGZIP_def)

lemma file_inv_File:
  "file_inv Build gz builder t s \<Longrightarrow> File t = None \<Longrightarrow> File s \<in> {None, Some (Build (builder t))}"
  by (auto simp: file_inv_def same_sources_def)

lemma File_gzip [simp]: "File (snd (rawDescGZIP gz s)) = File s"
  by (simp add: rawDescGZIP_def)

lemma at_start [simp]:
  "File audit_log_request_at_start = None" "File audit_log_agent_at_start = None"
  "\<not> rawDescOnce audit_log_request_at_start" "\<not> rawDescOnce audit_log_agent_at_start"
  "rawDescData audit_log_request_at_start = Some audit_log_request_rawDesc"
  "rawDescData audit_log_agent_at_start = Some audit_log_agent_rawDesc"
  by (simp_all add: audit_log_request_at_start_def audit_log_agent_at_start_def vars_at_start_def)

definition ops_inv ::
  "bool \<Rightarrow> (type_builder \<Rightarrow> 'f) \<Rightarrow> (byte list option \<Rightarrow> byte list option) \<Rightarrow> 'f v1alpha1_vars \<Rightarrow> bool" where
  "ops_inv u Build gz p \<longleftrightarrow>
     file_inv Build gz (audit_log_request_builder u) audit_log_request_at_start (request_file p) \<and>
     file_inv Build gz (audit_log_agent_builder u) audit_log_agent_at_start (agent_file p) \<and>
     (File (agent_file p) \<noteq> None \<longrightarrow> File (request_file p) \<noteq> None)"

lemma do_op_inv: "ops_inv u Build gz p \<Longrightarrow> ops_inv u Build gz (do_op u Build gz e p)"
  by (cases e) (auto simp: ops_inv_def file_inv_gzip file_inv_init file_audit_log_request_proto_init_def
      file_audit_log_agent_proto_init_def)

lemma fold_inv: "ops_inv u Build gz (fold (do_op u Build gz) es v1alpha1_at_start)"
proof (rule fold_invariant [where P = "ops_inv u Build gz" and Q = "\<lambda>_. True"])
  show "ops_inv u Build gz v1alpha1_at_start"
    by (simp add: ops_inv_def file_inv_start v1alpha1_at_start_def)
qed (simp_all add: do_op_inv)

text \<open>After any use of the package the two files hold what they held, and are built in order.\<close>

lemma ops_inv_files:
  assumes "ops_inv u Build gz p"
  shows "(File (request_file p), File (agent_file p)) \<in>
    {(None, None), (Some (Build (request_tb u)), None), (Some (Build (request_tb u)), Some (Build (agent_tb u)))}"
proof -
  from assms have i: "file_inv Build gz (audit_log_request_builder u) audit_log_request_at_start (request_file p)"
      "file_inv Build gz (audit_log_agent_builder u) audit_log_agent_at_start (agent_file p)"
    and o: "File (agent_file p) \<noteq> None \<longrightarrow> File (request_file p) \<noteq> None"
    by (simp_all add: ops_inv_def)
  from file_inv_File [OF i(1) at_start(1)] file_inv_File [OF i(2) at_start(2)] o show ?thesis
    by (auto simp: tb_at_start)
qed

lemma ops_inv_gzip:
  "ops_inv u Build gz p \<Longrightarrow> fst (rawDescGZIP gz (request_file p)) = gz (Some audit_log_request_rawDesc) \<and>
     fst (rawDescGZIP gz (agent_file p)) = gz (Some audit_log_agent_rawDesc)"
  by (auto simp: ops_inv_def dest!: file_inv_result)

end
