(* ===== verification/Program_Examples.thy ===== *)
theory Program_Examples
  imports Talker_Examples Run_Examples Cli_Pull Lumberctl Testutil Main_Test Proto_Check
begin

section \<open>Concrete programs\<close>

subsection \<open>The HTTP server\<close>

definition ex_shell :: "log_request list shell_handler" where
  "ex_shell = \<lparr>sh_client = Some ex_storing, Sanitize = id,
     ParseString = (\<lambda>s. Inr [''email'' \<mapsto> JStr s])\<rparr>"

definition ex_get :: http_request where
  "ex_get = http_audit_request ex_ctx [] ''jvs'' ''a@b'' ''id''"

lemma ex_trim [simp]: "TrimSpace ''jvs'' = ''jvs''" "TrimSpace ''a@b'' = ''a@b''"
  by (simp_all add: TrimSpace_def is_space_def)

lemma ex_get_ready: "shell_ready ex_shell ex_get ''a@b'' ''jvs''"
  using http_request_ready [of "[]" "''id''" "''jvs''" ex_shell "''a@b''" "[''email'' \<mapsto> JStr ''a@b'']" "''a@b''" ex_ctx]
  by (simp add: ex_get_def ex_shell_def)

lemma ex_shell_returns: "\<exists>resp w'. ServeHTTP ex_shell ex_get ex_world = (Ret resp, w')"
proof -
  from ServeHTTP_ready [OF ex_get_ready, of ex_world] obtain w1 where
    "ServeHTTP ex_shell ex_get ex_world =
       go_bind (Log (sh_client ex_shell) (rq_ctx ex_get) (Some (shell_submits ex_shell ex_get ''a@b'' ''jvs''))) (\<lambda>(err, _).
         case err of
           Some e \<Rightarrow> go_return (http_Error (''failed to emit application audit log: '' @ error_text e) StatusInternalServerError)
         | None \<Rightarrow> go_bind (go_log LevelDebug ''finished request'' None) (\<lambda>_.
             go_return (Fprint (''Successfully emitted application audit log with trace ID '' @
               Sanitize ex_shell (Query_Get (rq_query ex_get) traceIDKey) @ ''.'')))) w1" by blast
  moreover have "sh_client ex_shell = Some ex_storing" by (simp add: ex_shell_def)
  ultimately show ?thesis by (simp add: go_bind_Ret [OF ex_storing_Log])
qed

subsection \<open>A log to list, and a stream to tail\<close>

text \<open>The world is the list of entries still to come; a retry function that does not try again.\<close>

definition shelf_api :: "(log_entry list, log_entry) logging_api" where
  "shelf_api = \<lparr>ListLogEntries = (\<lambda>req. go_return (\<lambda>w. case w_ext w of
       [] \<Rightarrow> (Ret NextDone, w) | l # ls \<Rightarrow> (Ret (NextEntry l), w\<lparr>w_ext := ls\<rparr>))),
     TailLogEntries = go_return (Inl (Opaque ''closed''))\<rparr>"

definition shelf_puller :: "(log_entry list, log_entry, unit) puller" where
  "shelf_puller = NewPuller () shelf_api ''projects/p'' []"

definition try_once :: "('w, 's, unit) retry_do" where
  "try_once b f s = go_bind (f s) (\<lambda>(a, s1). go_return (case a of AttemptOk \<Rightarrow> None | Retryable e \<Rightarrow> Some e, s1))"

lemma try_once_obeys: "obeys_retry try_once"
  by (auto simp: obeys_retry_def try_once_def elim!: go_bind_RetE split: attempt.splits intro: attempts.last)

definition shelf_log_puller :: "log_entry list log_puller" where
  "shelf_log_puller = \<lparr>lp_Pull = Pull try_once shelf_puller, lp_StreamPull = (\<lambda>f. go_return ([], None))\<rparr>"

definition ex_tail :: tail_command where
  "ex_tail = tail_defaults\<lparr>flagScope := ''projects/p''\<rparr>"

definition ex_cli_env :: "log_entry list cli_env" where
  "ex_cli_env = \<lparr>ce_protojson = \<lparr>unmarshal_entry = (\<lambda>s. Inl (Opaque ''no'')), marshal_entry = (\<lambda>l. Inr (insert_id l)),
       marshal_struct = (\<lambda>p. Inl (Opaque ''no'')), unmarshal_audit_log = (\<lambda>s. Inl (Opaque ''no''))\<rparr>,
     ce_label_order = [], ce_now = 0, format_RFC3339 = (\<lambda>t. ''t''), ce_NewClient = Inl (Opaque ''no''),
     PromptAll = (\<lambda>s. Inl (Opaque ''no''))\<rparr>"

definition shelf_entry :: "string \<Rightarrow> log_entry" where
  "shelf_entry k = \<lparr>insert_id = k, entry_labels = None, json_payload = None\<rparr>"

definition shelf_world :: "log_entry list world" where
  "shelf_world = \<lparr>w_ext = [shelf_entry ''1'', shelf_entry ''2''], w_diag = []\<rparr>"

lemma ex_shelf_pull:
  "Pull try_once shelf_puller f 10 shelf_world = (Ret (Inr [shelf_entry ''1'', shelf_entry ''2'']), shelf_world\<lparr>w_ext := []\<rparr>)"
  by (simp add: Pull_def shelf_puller_def NewPuller_def try_once_def pull_attempt_def shelf_api_def
      go_bind_def shelf_world_def pull_loop.simps)

lemma ex_tail_runs:
  "\<exists>out w'. tail_Run (\<lambda>_. Inr (ex_tail, [])) ex_cli_env (Some shelf_log_puller) [] shelf_world = (Ret (None, out), w')"
  by (simp add: tail_Run_def ex_tail_def tail_defaults_def tail_with_puller_def tail_list_def shelf_log_puller_def
      go_bind_def ex_shelf_pull split: prod.splits)

text \<open>
  A server whose tail sends responses and then an error, twice; the world is what is left to
  receive and what was sent to the channel.
\<close>

type_synonym feed_ext = "nat recv_result list \<times> nat list"

definition feed_tail :: "(feed_ext, nat) tail_client" where
  "feed_tail = \<lparr>tc_Send = (\<lambda>req. go_return None),
     tc_Recv = (\<lambda>w. case w_ext w of
        ([], es) \<Rightarrow> (Ret (RecvError io_EOF), w) | (r # rs, es) \<Rightarrow> (Ret r, w\<lparr>w_ext := (rs, es)\<rparr>)),
     tc_CloseSend = go_return None\<rparr>"

definition feed_channel :: "nat \<Rightarrow> (feed_ext, unit) go" where
  "feed_channel v w = (case w_ext w of (rs, es) \<Rightarrow> (Ret (), w\<lparr>w_ext := (rs, es @ [v])\<rparr>))"

definition feed_puller :: "(feed_ext, nat, unit) puller" where
  "feed_puller = \<lparr>pu_client = \<lparr>ListLogEntries = (\<lambda>req. go_return (go_return NextDone)),
     TailLogEntries = go_return (Inr feed_tail)\<rparr>, resource = ''projects/p'', pu_retry = Some ()\<rparr>"

definition feed :: "nat recv_result list \<Rightarrow> nat list \<Rightarrow> feed_ext world" where
  "feed rs es = \<lparr>w_ext = (rs, es), w_diag = []\<rparr>"

definition feed_world :: "feed_ext world" where
  "feed_world = feed [RecvOk [1, 2], RecvError (Opaque ''a''), RecvOk [3], RecvError (Opaque ''b'')] []"

lemma feed_channel: "channel snd feed_channel"
  by (auto simp: channel_def feed_channel_def split: prod.splits)

lemma feed_unseen: "unseen snd (tc_Recv feed_tail)" "unseen snd (tc_Send feed_tail req)"
  by (auto simp: unseen_def feed_tail_def split: prod.splits list.splits)

lemma feed_recv: "tc_Recv feed_tail (feed (r # rs) es) = (Ret r, feed rs es)"
  by (simp add: feed_tail_def feed_def)

lemma feed_emit: "emit_all feed_channel vs (feed rs es) = (Ret (), feed rs (es @ vs))"
  by (induction vs arbitrary: es) (simp_all add: feed_channel_def feed_def go_bind_def)

lemma feed_ops: "tc_Send feed_tail req w = (Ret None, w)" "tc_CloseSend feed_tail w = (Ret None, w)"
  by (simp_all add: feed_tail_def)

lemma feed_streams:
  "\<not> errors_is e io_EOF \<Longrightarrow> streams (tc_Recv feed_tail) feed_channel (feed (RecvOk vs # RecvError e # rs) es)
     (vs @ []) e (feed rs (es @ vs))"
  by (rule streams.gives, rule feed_recv, rule feed_emit, rule streams.fails, rule feed_recv)

lemma feed_serves:
  "serves feed_tail req feed_channel 1 feed_world [1, 2, 3] (Opaque ''b'') (feed [] [1, 2, 3])"
proof -
  have n: "\<not> errors_is (Opaque x) io_EOF" for x by (simp add: io_EOF_def)
  have "serves feed_tail req feed_channel (Suc 0) feed_world (([1, 2] @ []) @ [3] @ []) (Opaque ''b'') (feed [] (([] @ [1, 2]) @ [3]))"
    unfolding feed_world_def
    by (rule serves.one_more, rule feed_ops, rule feed_streams, rule n,
        rule serves.last_attempt, rule feed_ops, rule feed_streams, rule n)
  then show ?thesis by simp
qed

subsection \<open>Two endpoints without a configured token\<close>

text \<open>A token source that names its audience, and a test that reports the endpoint and the token it was given.\<close>

definition ex_endpoint_libs :: "(log_request list, unit) endpoint_libs" where
  "ex_endpoint_libs = \<lparr>el_NewBigQuery = (\<lambda>_. Inr ()), el_Close = (\<lambda>_. go_return None),
     el_NewTokenSource = (\<lambda>e. Inr (go_return (Inr (''token for '' @ e))))\<rparr>"

definition ex_keyed_config :: "unit keyed_config" where
  "ex_keyed_config = \<lparr>base_config = run_config, PrivateKey = None\<rparr>"

definition token_report ::
  "unit \<Rightarrow> unit test_case \<Rightarrow> (log_request list, (log_request list, string \<times> string) outcome) go" where
  "token_report client tc =
     go_return (tb_return (Endpoint tc, IDToken (base_config (tc_config tc))), [])"

definition reported :: "(('w, 'r) outcome list \<times> 'k keyed_config) ret \<times> 'v \<Rightarrow> 'r option list" where
  "reported res = (case fst res of Ret (os, _) \<Rightarrow> map (snd \<circ> fst) os | Panic _ \<Rightarrow> [])"

lemma ex_endpoints_with_token:
  "reported (run_in_order (map snd (endpoint_subtests (ex_endpoint_libs\<lparr>el_NewTokenSource := others\<rparr>)
       token_report [''https://a'', ''https://b''])) (set_IDToken ''t'' ex_keyed_config) ex_world) =
     [Some (''https://a'', ''t''), Some (''https://b'', ''t'')]"
  by (simp add: reported_def endpoint_subtests_def endpoint_test_def ex_endpoint_libs_def makeBigQueryClient_def
      resolveIDToken_def set_IDToken_def ex_keyed_config_def run_config_def token_report_def tb_return_def)

end
