(* ===== verification/Spec2Isabelle.thy ===== *)
theory Spec2Isabelle
  imports Examples Program_Examples
begin

text \<open>
  \<^bold>\<open>Lumberjack in Isabelle/HOL.\<close>  Lumberjack is an audit logging system in Go.  A service links the
  client library (\<open>clients/go\<close>), whose gRPC interceptors build an audit log request for each call
  and give it to an audit client; the client runs its validators, mutators and backends on it; a
  backend writes to Cloud Logging or sends the request to the agent (\<open>cmd/server\<close>,
  \<open>pkg/server\<close>), which runs an audit client of its own; \<open>pkg/cloudlogging\<close> and \<open>pkg/cli\<close> read
  logs back and validate them.  Two test programs (\<open>clients/go/test\<close>), one over HTTP and one over
  gRPC, link the library, and the integration test (\<open>integration/testrunner\<close>) calls them and looks
  for their logs in BigQuery.  The development follows the Go code function by function; a
  definition has the name of the function, method or type it models, with the type's name in front
  where two share a name (\<open>Remote_Process\<close>, \<open>CloudLogging_Process\<close>); parts of a long function
  (a loop, a branch, the construction of a value) are definitions the function composes.

  \<^bold>\<open>Theories\<close>, in import order (properties are in this one, all lemmas in the others):
  \<^item> \<open>Go_Prelude\<close>: what Go and its standard library provide: \<open>strings\<close>, error trees with
    \<open>errors.Is\<close>, \<open>errors.Join\<close>, \<open>%w\<close> and the gRPC status codes, calls as state passing with
    run-time panics (type \<open>go\<close>), the diagnostic log.
  \<^item> \<open>Api\<close>: \<open>apis/v1alpha1/audit_log_request.pb.go\<close>, \<open>auditlogutil.go\<close>: log types, log modes, the
    request and the parts of \<open>google.cloud.audit.AuditLog\<close> the code reads or writes.
  \<^item> \<open>Grpc\<close>, \<open>Agent_Api\<close>: the interfaces of the gRPC library between stubs and transport, and the
    generated service of the agent, \<open>audit_log_agent.pb.go\<close> and \<open>audit_log_agent_grpc.pb.go\<close>: the
    client stub, the handler, the service description, and a connection of the one to the other.
  \<^item> \<open>Proto_Wire\<close>, \<open>Proto_Raw\<close>, \<open>Proto_Files\<close>, \<open>Proto_Gen\<close>, \<open>Proto_Check\<close>: the rest of the generated
    code.  A specification of the wire format and of file descriptors, the raw descriptors of the
    three \<open>.pb.go\<close> files, the declarations of the \<open>.proto\<close> files, the methods of the messages with
    the tables and the initialization, and that all of these agree.
  \<^item> \<open>Validation\<close>: \<open>pkg/validation/validation.go\<close>, \<open>audit/validation.go\<close>, with the
    specification \<open>valid_audit_log\<close> and the list of violated requirements.
  \<^item> \<open>Processors\<close>: the contracts of a log processor as locales (\<open>validator_process\<close>,
    \<open>mode_process\<close>, \<open>mutator_process\<close>).  The theories of the processors interpret them.
  \<^item> \<open>Labels\<close>, \<open>Filtering\<close>, \<open>Justification\<close>, \<open>Runtime_Info\<close>, \<open>Cloud_Logging\<close>, \<open>Remote\<close>: one
    processor each: \<open>audit/labels.go\<close>, \<open>filtering/processor.go\<close>, \<open>justification/processor.go\<close>,
    \<open>audit/runtime.go\<close>, \<open>cloudlogging/processor.go\<close>, \<open>remote/processor.go\<close> and
    \<open>remote/idtoken_auth.go\<close> (all under \<open>clients/go/pkg\<close>).
  \<^item> \<open>Client\<close>, \<open>Client_Log\<close>: \<open>audit/client.go\<close>: options, \<open>Stop\<close>, \<open>Log\<close>; its three stages as one
    loop, what it returns in each mode, what it writes to the diagnostic log.
  \<^item> \<open>Config\<close>: \<open>apis/v1alpha1/config.go\<close>, defaults and validation of every configuration type.
  \<^item> \<open>Rules\<close>, \<open>Struct_Conv\<close>, \<open>Security\<close>: \<open>audit/rules.go\<close> and the method names; the conversion of
    values to \<open>structpb.Struct\<close>; \<open>security/grpc.go\<close>.
  \<^item> \<open>Interceptor\<close>, \<open>Stream\<close>, \<open>Stream_Log\<close>: \<open>audit/interceptor.go\<close>: the unary interceptor, the
    stream interceptor with its stream wrapper, and the specification of what a stream logs.  A
    handler is a possibly infinite tree of interactions with its stream (a \<open>codatatype\<close>).
  \<^item> \<open>Stream_Conc\<close>: the steps of \<open>RecvMsg\<close> and \<open>SendMsg\<close> around the wrapper's lock, and every
    interleaving of a receiver and a sender.
  \<^item> \<open>Audit_Opt\<close>: \<open>auditopt/config.go\<close>, clients and interceptors built from a configuration.
  \<^item> \<open>Server\<close>: \<open>pkg/server\<close>, \<open>cmd/server/main.go\<close>, \<open>clients/go/pkg/trace\<close>.
  \<^item> \<open>Puller\<close>, \<open>Cli\<close>: \<open>pkg/cloudlogging/puller.go\<close>; \<open>pkg/cli/tail.go\<close>, \<open>validate.go\<close>, \<open>root.go\<close>.
  \<^item> \<open>Cli_Pull\<close>: the commands over the puller: the contract \<open>log_pulling\<close> of a puller as a locale,
    with the Cloud Logging puller as its interpretation, and what \<open>StreamPull\<close> delivers.
  \<^item> \<open>Lumberctl\<close>: \<open>cmd/lumberctl/main.go\<close>, \<open>internal/version\<close>: the version and the exit status.
  \<^item> \<open>Talker\<close>, \<open>Talker_Client\<close>, \<open>Talker_Log\<close>: \<open>clients/go/test/grpc-app/main.go\<close> and both sides of
    the generated code of \<open>internal/talkerpb\<close>: the messages, the handlers, the client stubs, and the
    log of a call of each stream method; the server that implements no method.
  \<^item> \<open>Shell\<close>: \<open>clients/go/test/shell/main.go\<close>, \<open>test/util/public_key_server.go\<close>, and \<open>realMain\<close>
    and \<open>main\<close> of both test programs.
  \<^item> \<open>Testing\<close>, \<open>Testrunner\<close>: what a Go test reports; \<open>integration/testrunner\<close>: configuration, tokens,
    the HTTP and gRPC tests, the check of the logs.
  \<^item> \<open>Test_Log\<close>, \<open>Test_Run\<close>: the logs that a call of the test leaves on the server of \<open>Talker\<close>, the
    laws of the libraries of the test (\<open>connects\<close>, \<open>test_libraries\<close>), and that the subtests pass.
  \<^item> \<open>Main_Test\<close>: \<open>integration/testrunner/main_test.go\<close>: the flags, the identity token, the tests of all
    endpoints.
  \<^item> \<open>Testutil\<close>: \<open>clients/go/pkg/testutil\<close>.
  \<^item> \<open>Examples\<close>, \<open>Talker_Examples\<close>, \<open>Run_Examples\<close>, \<open>Program_Examples\<close>: concrete clients, requests, configurations,
    servers and environments, on which the properties with hypotheses are applied.

  \<^bold>\<open>State and effects.\<close>  A pointer that may be nil is an option; a map field that may be nil is
  an option of a map, so an assignment to a nil map is a panic.  A call that mutates its request
  returns the new request.  The world has three parts: the diagnostic log, the environment and
  \<open>w_ext\<close>, whatever is outside the process, of a type the properties leave open.  A function
  that returns an error returns an option of an error tree, so every error path is a value.

  \<^bold>\<open>Parameters.\<close>  Code outside the repository is an argument: protojson, the Cloud Logging client,
  gRPC connections and streams, the token sources, the JVS client, \<open>jwt.Parse\<close>, compiled regular
  expressions (their match function), the metadata server, the configuration loader, the clock, uuid,
  \<open>proto.Clone\<close>, OpenTelemetry, \<open>retry.Do\<close> (of which \<open>obeys_retry\<close> states the documented law: the
  function is called again after a retryable error, and nil is returned only if its last call
  returned nil; \<open>repeat_attempts\<close> is an instance with a limit); for the test programs the HTTP
  listener, the HTML sanitizer and the JWT parser; for the integration test the HTTP client, the
  gRPC connection, BigQuery, the JWT builder and signer, the sources of identity tokens; for the
  generated code the runtime of Protocol Buffers, which builds types from descriptors; for \<open>lumberctl\<close> the dispatch of the CLI
  library and the build information.  The order in which Go visits a map is an argument as well, and
  the results are shown not to depend on it, or to hold for each order.

  \<^bold>\<open>Lemmas.\<close>  For each processor: its result on every branch, and its contract.  For \<open>Log\<close>: the
  stages as one loop, and from it the error policy of the log modes.  For the unary interceptor:
  the result for calls it can and cannot prepare, and what it logs.  For streams: a simulation
  between runs of the wrapper and the specification, and from it the log of a whole call, for every
  handler, and then for the three stream handlers of the talker service; the account of the
  requests over every interleaving of receives and sends; and from the calls of the integration
  test, through its stubs, the interceptors and the justification processor, to its check of the logs.  For configurations: validation is exact, and
  every configured client meets the contracts that the theorems about \<open>Log\<close> ask for.  For the generated code:
  each raw descriptor decodes to the declarations, and what the package variables hold after any use.

  \<^bold>\<open>Loops.\<close>  Every range loop is a structural recursion.  \<open>Pull\<close>'s loop recurses on the number of
  entries still to be read (a measure); \<open>StreamPull\<close>'s receive loop may run forever and is a
  \<open>partial_function\<close> with the value None when it does.  The loop of a stream handler is a
  corecursive tree over the points of the loop, and the run of a tree on its stream is again a
  \<open>partial_function\<close>, with None for a call that does not return; that a call returns is proved
  as \<open>Some\<close>.  Fuel occurs once, in the reader of descriptors of \<open>Proto_Wire\<close>: messages nest, and the
  bound on the depth is the length of the descriptor, which is more than the depth as each level
  takes a byte; that the three descriptors are read is proved as \<open>Some\<close>.

  \<^bold>\<open>Not modelled.\<close>  The libraries, the runtime of Protocol Buffers among them; the signals that end
  a program (when they come is a parameter); the parsing of flags and environment variables (the flag
  tables are modelled); help texts and the format of diagnostic output; the unit tests; the Java
  client, a second implementation.  Messages are values: a handler that changes a message after it
  received or sent it is outside the model.  Concurrency is modelled where the code synchronises it,
  for one receiver and one sender of a stream (\<open>Stream_Conc\<close>); elsewhere a handler is sequential, the
  calls of a test are made one at a time, the tests of the endpoints are run one after the other, and
  channels are modelled by the sequence of values sent.
\<close>
section \<open>The audit client\<close>

text \<open>
  C1: \<open>Log\<close> returns an error only when the request is to fail close: the mode it works with (the
  request's own, or the client's when the request leaves it open) is FAIL_CLOSE.  A failed
  precondition is never returned.
\<close>
theorem Log_errors_only_fail_close:
  assumes "keeps_modes cl" and "Log (Some cl) c (Some q) w = (Ret (Some e, r'), w')"
  shows "effective_mode cl q = MODE_FAIL_CLOSE \<and> \<not> errors_is e ErrPreconditionFailed"
proof -
  from Log_keeps_mode [OF assms] have "GetMode r' = effective_mode cl q" by auto
  with Log_returned_error [OF assms(2)] show ?thesis by (simp add: ShouldFailClose_def)
qed

lemma Log_errors_only_fail_close_witness:
  "effective_mode (ex_client [broken_backend] MODE_BEST_EFFORT) ex_request = MODE_FAIL_CLOSE \<and>
     \<not> errors_is (wrapf ''failed to execute backend broken'' (Opaque ''down'')) ErrPreconditionFailed"
  by (rule Log_errors_only_fail_close [OF ex_client_modes ex_Log(1) [of _ ex_ctx ex_world]]) simp




text \<open>
  C4: a request that a validator rejects never reaches a mutator or a backend: the call behaves the
  same whatever they are, changes nothing but the mode of the request, and touches nothing outside.
\<close>
theorem Log_rejected_by_validator:
  assumes "\<forall>p \<in> set (validators cl). validator_process (p_process p)" and "p \<in> set (validators cl)"
    and "\<exists>e. p_process p c (Some (q\<lparr>mode := effective_mode cl q\<rparr>)) w =
               (Ret (Some e, Some (q\<lparr>mode := effective_mode cl q\<rparr>)), w)"
  shows "\<exists>ret w'. w_ext w' = w_ext w \<and>
     (\<forall>ms bs. Log (Some (cl\<lparr>mutators := ms, backends := bs\<rparr>)) c (Some q) w =
        (Ret (ret, Some (q\<lparr>mode := effective_mode cl q\<rparr>)), w'))"
proof -
  from assms(1,2) have vp: "validator_process (p_process p)" by blast
  from assms(3) validator_process.proc_eq [OF vp, of c "Some (q\<lparr>mode := effective_mode cl q\<rparr>)" w]
  have "validator_process.verdict (p_process p) c (Some (q\<lparr>mode := effective_mode cl q\<rparr>)) w \<noteq> None"
    by auto
  from Log_validator_rejects [OF assms(1,2) this] show ?thesis by (metis prod.inject)
qed

lemma Log_rejected_by_validator_witness:
  "\<exists>ret w'. w_ext w' = w_ext ex_world \<and>
     (\<forall>ms bs. Log (Some (ex_client [store_backend] MODE_FAIL_CLOSE\<lparr>mutators := ms, backends := bs\<rparr>)) ex_ctx
          (Some empty_log_request) ex_world =
        (Ret (ret, Some (empty_log_request\<lparr>mode := effective_mode
           (ex_client [store_backend] MODE_FAIL_CLOSE) empty_log_request\<rparr>)), w'))"
  by (rule Log_rejected_by_validator [where p = NewRequestValidator])
    (use ex_client_checks [of "[store_backend]" MODE_FAIL_CLOSE] in
      \<open>auto simp: checks_requests_def ex_client_def RequestValidator_Process_eq validate_request_def
         ValidateAuditLog_def empty_log_request_def\<close>)

text \<open>
  C5: only valid requests reach a backend.  With the default validator and contract-abiding
  validators and mutators, putting a guard in front of the first backend that panics on an invalid
  request changes nothing.
\<close>
theorem Log_backend_sees_valid_requests:
  assumes "checks_requests cl"
  shows "Log (Some cl) c (Some q) w =
         Log (Some (cl\<lparr>backends := guard_first (backends cl)\<rparr>)) c (Some q) w"
  by (rule Log_guard_first [OF assms])

lemma Log_backend_sees_valid_requests_witness:
  "Log (Some (ex_client [store_backend] MODE_FAIL_CLOSE)) ex_ctx (Some empty_log_request) ex_world =
     Log (Some (ex_client [store_backend] MODE_FAIL_CLOSE\<lparr>backends :=
        guard_first (backends (ex_client [store_backend] MODE_FAIL_CLOSE))\<rparr>)) ex_ctx
        (Some empty_log_request) ex_world"
  by (rule Log_backend_sees_valid_requests [OF ex_client_checks])

text \<open>
  C6: \<open>Stop\<close> stops every stoppable validator and backend, in order, each in the world the last one
  left, and returns all their errors joined; it does not stop at the first one.  It never looks at
  the mutators.
\<close>
theorem Stop_collects_all_errors:
  assumes "\<forall>p \<in> set (validators cl @ backends cl). stops_without_panic p"
  shows "\<exists>res. Stop cl w = (Ret res, stop_world (validators cl @ backends cl) w) \<and>
     leaves_of res = stop_results (validators cl @ backends cl) w \<and>
     (\<forall>ms. Stop (cl\<lparr>mutators := ms\<rparr>) w = Stop cl w)"
  using Stop_collects [OF assms, of w] by (simp add: Stop_def)

lemma Stop_collects_all_errors_witness:
  "\<exists>res. Stop (ex_client [broken_backend, store_backend, broken_backend] MODE_FAIL_CLOSE) ex_world =
     (Ret res, ex_world) \<and> leaves_of res = [Opaque ''stuck'', Opaque ''stuck'']"
  using Stop_collects_all_errors
    [of "ex_client [broken_backend, store_backend, broken_backend] MODE_FAIL_CLOSE" ex_world]
  by (simp add: ex_client_def stops_without_panic_def broken_backend_def store_backend_def) blast

section \<open>The interceptors\<close>

text \<open>
  C7: what an intercepted unary call returns.  Either the handler ran and the call returns its
  response with its error, which in fail-close mode may turn from none into an interceptor error;
  or, in fail-close mode only, it did not run and the call returns an interceptor error alone.
\<close>
theorem unary_call_returns:
  assumes "UnaryInterceptor env i c req m h w = (Ret (resp, err), w')"
  shows "(\<exists>c' w1 w2 e q. h c' req w1 = (Ret (resp, e, q), w2) \<and>
        (err = e \<or> e = None \<and> it_logMode i = MODE_FAIL_CLOSE \<and>
           (\<exists>x. err = Some x \<and> errors_is x ErrInterceptor))) \<or>
     it_logMode i = MODE_FAIL_CLOSE \<and> resp = GoNil \<and> (\<exists>x. err = Some x \<and> errors_is x ErrInterceptor)"
  using UnaryInterceptor_result [OF assms]
  by (simp add: ran_handler_def blocked_call_def ShouldFailClose_def)

lemma unary_call_returns_witness:
  "\<exists>x. UnaryInterceptor ex_env (ex_it [broken_backend] known) ex_ctx GoNil ''/svc/M'' ex_handler ex_world =
     (Ret (GoNil, Some x), ex_world) \<and> errors_is x ErrInterceptor"
proof -
  have n: "ex_handler c' req w1 \<noteq> (Ret (resp, Some x, q), w2)" for c' req w1 resp x q w2
    by (simp add: ex_handler_def)
  from unary_call_returns [OF ex_unary_log_fails [of ex_world]] n show ?thesis
    unfolding ex_unary_log_fails by blast
qed

text \<open>
  C8: in fail-close mode a unary call of a method with a rule returns no error only if the handler
  answered without error and the client's \<open>Log\<close> accepted the request the handler was given and
  may have changed, with the response in it where the rule says so.
\<close>
theorem unary_success_is_logged:
  assumes "UnaryInterceptor env i c req m h w = (Ret (resp, None), w')"
    and "it_logMode i = MODE_FAIL_CLOSE" "mostRelevantRule m (it_rules i) = Some r"
  shows "\<exists>q0 q1 q r' w1 w2 w3. h (with_log_req q0 c) req w1 = (Ret (resp, None, q1), w2) \<and>
     (if Directive r = DirectiveRequestAndResponse then setResp q1 resp else go_return (None, q1)) w2 =
       (Ret (None, q), w3) \<and>
     Log (it_Client i) (with_log_req q c) (Some q) w3 = (Ret (None, r'), w')"
  using UnaryInterceptor_success_logged [OF assms(1) _ assms(3)] assms(2)
  by (simp add: shouldLogResp_def)

lemma unary_success_is_logged_witness:
  "\<exists>q r' w3. Log (Some (ex_client [store_backend] MODE_FAIL_CLOSE)) (with_log_req q ex_ctx) (Some q) w3 =
     (Ret (None, r'), ex_world\<lparr>w_ext := w_ext ex_world @ [ex_logged]\<rparr>)"
  using unary_success_is_logged [OF ex_unary_ok [of ex_world] ex_it_fields(2) ex_rule_found]
  unfolding ex_it_fields by blast

text \<open>
  C9: in fail-close mode the handler never runs for a call the interceptor cannot prepare (no service
  name, no principal, or a request it should log and cannot convert): the outcome is the same for
  every handler, no response and an interceptor error.
\<close>
theorem unary_unprepared_is_blocked:
  assumes "unprepared i c req m" "it_logMode i = MODE_FAIL_CLOSE"
    and "\<And>v. \<exists>ts v'. time_Now env v = (Ret ts, v')"
  shows "\<exists>e w'. errors_is e ErrInterceptor \<and>
     (\<forall>h. UnaryInterceptor env i c req m h w = (Ret (GoNil, Some e), w'))"
  using UnaryInterceptor_unprepared [OF assms(1) _ assms(3)] assms(2) by simp

lemma unary_unprepared_is_blocked_witness:
  "\<exists>e w'. errors_is e ErrInterceptor \<and> (\<forall>h. UnaryInterceptor ex_env (ex_it [store_backend] unknown)
     ex_ctx GoNil ''/svc/M'' h ex_world = (Ret (GoNil, Some e), w'))"
  by (rule unary_unprepared_is_blocked)
    (use ex_rule_found in \<open>auto simp: unprepared_def ex_it_fields unknown_def ex_now\<close>)

text \<open>
  C10: an error of the handler is returned as it is, with the response, in every mode and whether or
  not it could be logged; the interceptor logs the request with the error's status in it.
\<close>
theorem unary_handler_error_kept:
  assumes "mostRelevantRule m (it_rules i) = Some r" "serviceName m = Inr svc"
    and "it_sc i = Some sc" "sc c = Inr p" "time_Now env w = (Ret ts, w1)"
    and "shouldLogReq r \<longrightarrow> (\<exists>s. toProtoStruct req = Inr s)"
    and "h (with_log_req (handler_request i c r svc m ts p req) c) req w1 = (Ret (resp, Some e, q), w2)"
    and "UnaryInterceptor env i c req m h w = (Ret res, w')"
  shows "res = (resp, Some e) \<and> (\<exists>q' a e' r' w3. setErrorStatus env e q w2 = (Ret q', w2) \<and>
     payload q' = Some a \<and> status a \<noteq> None \<and>
     Log (it_Client i) (with_log_req q' c) (Some q') w2 = (Ret (e', r'), w3))"
proof -
  from UnaryInterceptor_prepared [OF assms(1-5), of req h] assms(6,8) have
    "run_unary env i c r req h (handler_request i c r svc m ts p req) w1 = (Ret res, w')" by simp
  from run_unary_handler_error [of h _ c req, OF assms(7) this] obtain q' w3 r' e' where
    res: "res = (resp, Some e)" and s: "setErrorStatus env e q w2 = (Ret q', w2)"
    and l: "Log (it_Client i) (with_log_req q' c) (Some q') w2 = (Ret (e', r'), w3)" by blast
  from s have "\<exists>a. payload q' = Some a \<and> status a \<noteq> None"
    by (auto simp: setErrorStatus_def Let_def split: option.splits)
  with res s l show ?thesis by blast
qed

lemma unary_handler_error_kept_witness:
  "\<exists>res w'. UnaryInterceptor ex_env (ex_it [broken_backend] known) ex_ctx GoNil ''/svc/M'' failing_handler
     ex_world = (Ret res, w') \<and> res = (GoNil, Some (Opaque ''boom''))"
proof -
  obtain res w' where u: "UnaryInterceptor ex_env (ex_it [broken_backend] known) ex_ctx GoNil ''/svc/M''
     failing_handler ex_world = (Ret res, w')"
    using ex_unary_handler_fails by blast
  have c: "shouldLogReq (ex_rule ''*'') \<longrightarrow> (\<exists>s. toProtoStruct GoNil = Inr s)"
    by (simp add: toProtoStruct_def GoNil_def json_Marshal_def json_Unmarshal_map_def)
  have k: "known ex_ctx = Inr ''a@b''" by (simp add: known_def)
  from unary_handler_error_kept [OF ex_rule_found ex_service ex_it_fields(1) k ex_now c
      ex_handler_result(2) u] u
  show ?thesis by blast
qed



section \<open>Streams\<close>







text \<open>
  C15: when a stream call cannot be prepared, fail-close mode returns an error without running the
  handler; otherwise the handler runs with the context in the place of the service, so a handler
  that needs the service panics although the call is meant to go on without audit logging.
\<close>
theorem stream_unprepared_outcome:
  assumes "stream_unprepared i (ss_Context ss) m"
    and "\<And>v. \<exists>ts v'. time_Now env v = (Ret ts, v')" "\<And>v. \<exists>u v'. uuid_New env v = (Ret u, v')"
  shows "if it_logMode i = MODE_FAIL_CLOSE
     then \<exists>e w'. \<forall>h. StreamInterceptor env i ss m h w = Some (Ret (Some e), w')
     else \<exists>w'. \<forall>h s. h (SrvContext (ss_Context ss)) = HPanic s \<longrightarrow>
            StreamInterceptor env i ss m h w = Some (Panic s, w')"
proof -
  from stream_unprepared_handleReturn [OF assms, of w] obtain e v where
    "\<forall>h. StreamInterceptor env i ss m h w = handleReturnStream i (ss_Context ss) ss h (Some e) v" by blast
  then show ?thesis
    by (auto simp: handleReturnStream_def ShouldFailClose_def log_fail_open_def go_log_def dv_bind_def dv_of_def run_plain_simps split: option.splits)
qed

lemma stream_unprepared_outcome_witness:
  "\<exists>w'. StreamInterceptor ex_env (ex_it [] unknown\<lparr>it_logMode := MODE_BEST_EFFORT\<rparr>) ex_stream ''/svc/M''
     Talker_Addition_Handler ex_world = Some (Panic ''interface conversion: not a talkerpb.TalkerServer'', w')"
proof -
  have u: "stream_unprepared (ex_it [] unknown\<lparr>it_logMode := MODE_BEST_EFFORT\<rparr>) (ss_Context ex_stream) ''/svc/M''"
    using ex_rule_found [of "[]" unknown] by (simp add: stream_unprepared_def ex_it_def unknown_def)
  have t: "\<exists>ts v'. time_Now ex_env v = (Ret ts, v')" "\<exists>u v'. uuid_New ex_env v = (Ret u, v')" for v
    by (simp_all add: ex_env_def)
  from stream_unprepared_outcome [OF u t, of ex_world] show ?thesis
    by (auto simp: Talker_Addition_Handler_def as_TalkerServer_def)
qed

section \<open>The talker service\<close>

text \<open>
  C16: \<open>FailOnFour\<close> behind the stream interceptor, for a client whose first message with the value
  four comes after the messages \<open>pre\<close>: the call returns the handler's error, and the log gets one
  request more than \<open>pre\<close> has messages.  They hold the messages of \<open>pre\<close>, in order, and the last
  the error's status; the message that failed the call is in none of them.
\<close>
theorem talker_fail_on_four:
  assumes "talker_call v g env i st ''/abcxyz.test.Talker/FailOnFour'' r" "shouldLogReq r"
    and "reads v w (pre @ m # post) os qs"
    and "\<forall>x \<in> set pre. names_target x \<and> GetValue x \<noteq> 4" "names_target m" "GetValue m = 4"
  shows "\<exists>w' qs'. StreamInterceptor env i st ''/abcxyz.test.Talker/FailOnFour'' Talker_FailOnFour_Handler w =
       Some (Ret (Some (StatusError code_InvalidArgument ''this call will always fail on four'')), w') \<and>
     reads v w' post os (qs @ qs') \<and> length qs' = length pre + 1 \<and> logged request qs' = structs pre \<and>
     (\<exists>a. payload (last qs') = Some a \<and> status a \<noteq> None)"
proof -
  from four_call [OF assms(1,3-6)] obtain b w' where cb: "completable v b"
    and c: "StreamInterceptor env i st ''/abcxyz.test.Talker/FailOnFour'' Talker_FailOnFour_Handler w =
       Some (Ret (Some four_error), w')"
    and rd: "reads v w' post os (qs @ call_log g r b (recv_events (pre @ [m])) @
       [g (error_status env four_error (set_resource (GetTarget m) b))])" by blast
  note pl = talker_call_keeps [OF assms(1)]
  let ?qs = "call_log g r b (recv_events (pre @ [m])) @ [g (error_status env four_error (set_resource (GetTarget m) b))]"
  from call_log_requests [OF pl cb, of "recv_events (pre @ [m])" r] assms(2) keeps_blank_recv_events
  have "logged request (call_log g r b (recv_events (pre @ [m]))) = structs pre"
    using received_recv_events(1) [of "pre @ [m]" "[]"] by simp
  then have "logged request ?qs = structs pre" using error_request [OF pl cb, of env] by simp
  moreover have "length ?qs = length pre + 1"
    using length_call_log_recv [OF assms(2), of g b "pre @ [m]"] by simp
  moreover have "\<exists>a. payload (last ?qs) = Some a \<and> status a \<noteq> None"
    using error_request [OF pl cb, of env] by simp
  ultimately show ?thesis using c rd unfolding four_error_def by blast
qed

lemma talker_fail_on_four_witness:
  "\<exists>w'. StreamInterceptor tk_env tk_interceptor tk_stream ''/abcxyz.test.Talker/FailOnFour''
       Talker_FailOnFour_Handler (tk_world [FailOnFourRequest ''t'' 3, FailOnFourRequest ''t'' 4]) =
       Some (Ret (Some (StatusError code_InvalidArgument ''this call will always fail on four'')), w') \<and>
     length (snd (snd (w_ext w'))) = 2"
proof -
  let ?w = "tk_world [FailOnFourRequest ''t'' 3, FailOnFourRequest ''t'' 4]"
  have "reads tk_views ?w ([FailOnFourRequest ''t'' 3] @ FailOnFourRequest ''t'' 4 # []) [] []"
    using tk_reads by simp
  from talker_fail_on_four [OF tk_call tk_rule_logs(1) this] show ?thesis by (auto simp: reads_tk)
qed

text \<open>
  \<open>Addition\<close> behind the stream interceptor, for one message or more: the only response is the sum
  of the addends, in 64 bits, and the log gets one request per message, with the messages in order,
  the response in the last.
\<close>
lemma talker_addition:
  assumes "talker_call v g env i st ''/abcxyz.test.Talker/Addition'' r" "shouldLogReq r" "shouldLogResp r"
    and "reads v w ms os qs" "\<forall>x \<in> set ms. names_target x" "ms \<noteq> []"
  shows "\<exists>w' qs'. StreamInterceptor env i st ''/abcxyz.test.Talker/Addition'' Talker_Addition_Handler w =
       Some (Ret None, w') \<and>
     reads v w' [] (os @ [AdditionResponse (\<Sum>x\<leftarrow>ms. ucast (GetAddend x))]) (qs @ qs') \<and>
     length qs' = length ms \<and> logged request qs' = structs ms \<and>
     logged response qs' = structs [AdditionResponse (\<Sum>x\<leftarrow>ms. ucast (GetAddend x))]"
proof -
  define m where "m = AdditionResponse (\<Sum>x\<leftarrow>ms. ucast (GetAddend x))"
  then have "m = AdditionResponse (sum_list (map (ucast \<circ> GetAddend) ms))" by (simp add: comp_def)
  from add_call [OF assms(1,4-6) this] obtain b w' where cb: "completable v b"
    and c: "StreamInterceptor env i st ''/abcxyz.test.Talker/Addition'' Talker_Addition_Handler w = Some (Ret None, w')"
    and rd: "reads v w' [] (os @ [m]) (qs @ call_log g r b (recv_events ms @ [Sent m]))" by blast
  have "keeps_blank (recv_events ms @ [Sent m]) \<and> no_failure (recv_events ms @ [Sent m])"
    using keeps_blank_recv_events [of ms] by (auto simp: keeps_blank_def no_failure_def)
  with call_log_requests [OF talker_call_keeps [OF assms(1)] cb, of "recv_events ms @ [Sent m]" r] assms(2,3)
  have "logged request (call_log g r b (recv_events ms @ [Sent m])) = structs ms"
    "logged response (call_log g r b (recv_events ms @ [Sent m])) = structs [m]"
    by (simp_all add: stream_append)
  with c rd length_call_log_recv_send [OF assms(2,6), of g b m] show ?thesis unfolding m_def by blast
qed

lemma talker_addition_witness:
  "\<exists>w' qs. StreamInterceptor tk_env tk_interceptor tk_stream ''/abcxyz.test.Talker/Addition''
       Talker_Addition_Handler (tk_world [AdditionRequest 2 ''t'', AdditionRequest 3 ''t'']) = Some (Ret None, w') \<and>
     w_ext w' = ([], [AdditionResponse 5], qs) \<and> length qs = 2"
  using talker_addition [OF tk_call tk_rule_logs(1,2) tk_reads,
      of "[AdditionRequest 2 ''t'', AdditionRequest 3 ''t'']"]
  by (auto simp: reads_tk)

text \<open>
  C17: \<open>Fibonacci\<close> behind the stream interceptor, for \<open>n\<close> places: with less than the largest 32-bit
  number, the responses are the first \<open>n\<close> Fibonacci numbers modulo \<open>2 ^ 32\<close>, and the log gets one
  request per response, the message in the first (so none at all for no places); with the largest
  number the call does not return.
\<close>
theorem talker_fibonacci:
  assumes "talker_call v g env i st ''/abcxyz.test.Talker/Fibonacci'' r" "shouldLogReq r" "shouldLogResp r"
    and "reads v w (FibonacciRequest n t # ms) os qs" "t \<noteq> []"
  shows "if n = - 1
     then StreamInterceptor env i st ''/abcxyz.test.Talker/Fibonacci'' Talker_Fibonacci_Handler w = None
     else \<exists>w' qs'. StreamInterceptor env i st ''/abcxyz.test.Talker/Fibonacci'' Talker_Fibonacci_Handler w =
         Some (Ret None, w') \<and>
       reads v w' ms (os @ map (\<lambda>k. FibonacciResponse (of_nat (Suc k)) (of_nat (fib k))) [0..<unat n]) (qs @ qs') \<and>
       length qs' = unat n \<and> logged request qs' = structs (if n = 0 then [] else [FibonacciRequest n t]) \<and>
       logged response qs' = structs (map (\<lambda>k. FibonacciResponse (of_nat (Suc k)) (of_nat (fib k))) [0..<unat n])"
proof (cases "n = - 1")
  case True
  with fib_call_diverges [OF assms(1,4)] assms(5) show ?thesis by simp
next
  case False
  let ?m = "FibonacciRequest n t" and ?ks = "[0..<unat n]"
  let ?es = "recv_events [?m] @ map (Sent \<circ> fib_response) ?ks"
  have f: "fib_response = (\<lambda>k. FibonacciResponse (of_nat (Suc k)) (of_nat (fib k)))"
    by (simp add: fun_eq_iff fib_response_def)
  from fib_call [OF assms(1,4)] uint32_below_max [OF False] assms(5) obtain b w' where cb: "completable v b"
    and c: "StreamInterceptor env i st ''/abcxyz.test.Talker/Fibonacci'' Talker_Fibonacci_Handler w = Some (Ret None, w')"
    and rd: "reads v w' ms (os @ map fib_response ?ks) (qs @ call_log g r b ?es)" by auto
  have p: "stream_pending None ?es = (if n = 0 then Some ?m else None)"
    by (simp add: stream_pending_sends unat_eq_zero)
  have "keeps_blank ?es \<and> no_failure ?es"
    using keeps_blank_recv_events [of "[?m]"] by (auto simp: keeps_blank_def no_failure_def)
  with call_log_requests [OF talker_call_keeps [OF assms(1)] cb, of ?es r] assms(2,3) p
  have "logged request (call_log g r b ?es) = structs (if n = 0 then [] else [?m])"
    "logged response (call_log g r b ?es) = structs (map fib_response ?ks)"
    by (auto simp: split: if_splits)
  moreover have "length (call_log g r b ?es) = unat n" by (simp only: length_call_log_sends length_upt)
  ultimately show ?thesis using c rd unfolding f if_not_P [OF False] by blast
qed

lemma talker_fibonacci_witness:
  "\<exists>w' qs. StreamInterceptor tk_env tk_interceptor tk_stream ''/abcxyz.test.Talker/Fibonacci''
       Talker_Fibonacci_Handler (tk_world [FibonacciRequest 3 ''t'']) = Some (Ret None, w') \<and>
     w_ext w' = ([], [FibonacciResponse 1 0, FibonacciResponse 2 1, FibonacciResponse 3 1], qs) \<and> length qs = 3"
proof -
  have "(3 :: 32 word) \<noteq> - 1" "unat (3 :: 32 word) = 3" "[0..<3] = [0, 1, 2]" by (simp_all add: upt_rec)
  moreover have "fib 2 = 1" by (simp add: numeral_2_eq_2)
  ultimately show ?thesis
    using talker_fibonacci [OF tk_call tk_rule_logs(1,2) tk_reads [of "[FibonacciRequest 3 ''t'']"]]
    by (auto simp: reads_tk)
qed

section \<open>Configured clients\<close>

text \<open>
  C18: a client built from a configuration meets every contract \<open>Log\<close> and \<open>Stop\<close> rely on: it runs the
  default validator first, then the principal filter; its mutators (runtime information, labels,
  justification) keep the identity and mode of a request and its backends the mode; it has a
  backend; and its log mode is the configuration's, FAIL_CLOSE or BEST_EFFORT.
\<close>
theorem configured_client_meets_contracts:
  assumes "NewClient c [FromConfig d (Some cfg)] w = (Ret (Inr cl), w')"
  shows "checks_requests cl \<and> keeps_modes cl \<and> backends cl \<noteq> [] \<and>
     (\<exists>fs. validators cl = NewRequestValidator # fs \<and> filter_processors d (Config_SetDefault cfg) fs) \<and>
     (\<exists>info js. mutators cl = [runtime_log_processor info,
        label_log_processor (NewLabelProcessor (cfg_labels cfg))] @ js \<and>
        newRuntimeInfo (od_runtime d) = Inr info \<and> justification_processors d (Config_SetDefault cfg) js) \<and>
     logMode cl = GetLogMode (Config_SetDefault cfg) \<and> logMode cl \<in> {MODE_FAIL_CLOSE, MODE_BEST_EFFORT}"
proof -
  from NewClient_single [OF assms] have c: "clientFromConfig d (Some cfg) c default_client w = (Ret (None, cl), w')"
    by (simp add: FromConfig_def)
  have s: "snd (Config_Validate cfg) = Config_SetDefault cfg" by (simp add: Config_Validate_def Let_def)
  from clientFromConfig_sound [OF c] have "sound_client cl" .
  moreover from clientFromConfig_shape [OF c] obtain info fs js bs where
    "newRuntimeInfo (od_runtime d) = Inr info" "filter_processors d (Config_SetDefault cfg) fs"
    "justification_processors d (Config_SetDefault cfg) js"
    "cl = \<lparr>validators = validators default_client @ fs, mutators = mutators default_client @
       [runtime_log_processor info, label_log_processor (NewLabelProcessor (cfg_labels cfg))] @ js,
       backends = bs, logMode = GetLogMode (Config_SetDefault cfg)\<rparr>"
    unfolding s by auto
  ultimately show ?thesis by (simp add: sound_client_def default_client_def)
qed

lemma configured_client_meets_contracts_witness:
  "\<exists>cl. NewClient ex_ctx [FromConfig ex_deps (Some (Config_SetDefault ex_config))] ex_world =
     (Ret (Inr cl), ex_world) \<and> checks_requests cl \<and> logMode cl = MODE_FAIL_CLOSE"
proof -
  obtain cl where c: "clientFromConfig ex_deps (Some (Config_SetDefault ex_config)) ex_ctx default_client ex_world =
      (Ret (None, cl), ex_world)" using ex_client_from_config by blast
  have n: "NewClient ex_ctx [FromConfig ex_deps (Some (Config_SetDefault ex_config))] ex_world =
      (Ret (Inr cl), ex_world)" by (simp add: NewClient_def FromConfig_def go_bind_def c)
  from configured_client_meets_contracts [OF n] n show ?thesis
    unfolding Config_SetDefault_idem ex_config_mode by blast
qed

text \<open>
  C19: an interceptor configured from a file has a client that meets the contracts, the same log mode
  as that client, well-formed rules and a principal source that never gives a blank principal,
  provided the loader returns validated configurations.
\<close>
theorem configured_interceptor:
  assumes "interceptorFromConfigFile d path c i w = (Ret (None, i'), w')"
    and "\<forall>b cfg. load_config d b = Inr cfg \<longrightarrow> wf_config cfg"
  shows "\<exists>cl sc. it_Client i' = Some cl \<and> sound_client cl \<and> it_logMode i' = logMode cl \<and>
     it_sc i' = Some sc \<and> (\<forall>c p. sc c = Inr p \<longrightarrow> p \<noteq> []) \<and> (\<forall>r \<in> set (it_rules i'). wf_rule r)"
proof -
  from interceptorFromConfigFile_shape [OF assms(1)] obtain cfg and sc :: security_context and cl where
    r: "read_config d path = Inr cfg" and n: "NewClient c [clientFromConfig d (Some cfg)] w = (Ret (Inr cl), w')"
    and i': "i' = \<lparr>it_Client = Some cl,
           it_sc = Some (FromRawJWT_RequestPrincipal (jwt_Parse d) (from_raw_jwts sc)),
           it_rules = cfg_rules cfg, it_logMode = GetLogMode cfg\<rparr>" by blast
  from r assms(2) have wf: "wf_config cfg"
    by (auto simp: read_config_def loadConfig_def split: sum.splits if_splits)
  from NewClient_single [OF n] have cl: "clientFromConfig d (Some cfg) c default_client w = (Ret (None, cl), w')" .
  from clientFromConfig_shape [OF cl] have "logMode cl = GetLogMode cfg"
    by (auto simp: wf_config_Validate [OF wf])
  with clientFromConfig_sound [OF cl] wf show ?thesis
    by (auto simp: i' wf_config_def dest: raw_jwt.nonblank)
qed

lemma configured_interceptor_witness:
  "\<exists>i cl. interceptorFromConfigFile ex_deps ''f'' ex_ctx zero_interceptor ex_world = (Ret (None, i), ex_world) \<and>
     it_Client i = Some cl \<and> sound_client cl"
proof -
  obtain i where i: "interceptorFromConfigFile ex_deps ''f'' ex_ctx zero_interceptor ex_world =
      (Ret (None, i), ex_world)" using ex_interceptor_from_config by blast
  have "\<forall>b cfg. load_config ex_deps b = Inr cfg \<longrightarrow> wf_config cfg"
    using ex_config_wf by (simp add: ex_deps_def)
  from configured_interceptor [OF i this] i show ?thesis by blast
qed

section \<open>The agent\<close>



text \<open>
  C21: an invalid request stores nothing at the agent.  The answer is the code InvalidArgument if the
  request asks to fail close; a request that does not, which includes one that leaves its mode open,
  is answered as if it had been logged.
\<close>
theorem agent_rejects_invalid:
  assumes "\<not> valid_request q"
  shows "\<exists>msg w'. w_ext w' = w_ext w \<and> ProcessLog (agent_of p) c (Some q) w =
     (Ret (if mode q = MODE_FAIL_CLOSE then Inl (StatusError code_InvalidArgument msg)
           else Inr \<lparr>Result = Some q\<rparr>), w')"
  using ProcessLog_invalid [OF assms, of w p c] unfolding ShouldFailClose_def .

lemma agent_rejects_invalid_witness:
  "\<exists>w'. ProcessLog (agent_of ok_cl) ex_ctx (Some empty_log_request) ex_world = (Ret (Inr \<lparr>Result = Some empty_log_request\<rparr>), w')"
proof -
  have "\<not> valid_request empty_log_request"
    by (simp add: valid_request_def valid_audit_log_def empty_log_request_def)
  from agent_rejects_invalid [OF this, of ex_world ok_cl ex_ctx] show ?thesis
    by (auto simp: empty_log_request_def)
qed

text \<open>
  C22: the agent program, once its tracing and logging client are up, serves with a client whose
  Cloud Logging backend has a logger for every log type, then flushes that backend and shuts
  tracing down, in this order and whatever serving returned; it returns nil only if all three did.
\<close>
theorem agent_program_shuts_down:
  assumes "envconfig_Process d = Inr cfg" "trace_Init (md_otel d) (TraceRatio cfg) (configured w) = (Ret None, w1)"
    and "logging_NewClient d (gcputil_ProjectID d) = Inr lc" "visits_all_log_types (log_type_order d)"
    and "realMain d c w = (Ret r, w')"
  shows "\<exists>p r1 w2 e1 w3 e2. has_all_loggers lc p \<and>
     serve d cfg (agent_audit_client p) w1 = (Ret r1, w2) \<and>
     CloudLogging_Stop p w2 = (Ret e1, w3) \<and> trace_Shutdown (md_otel d) w3 = (Ret e2, w') \<and>
     (r = None \<longleftrightarrow> r1 = None \<and> e1 = None \<and> e2 = None)"
  by (rule realMain_shuts_down [OF assms])

lemma agent_program_shuts_down_witness:
  "\<exists>e w'. realMain ok_main ex_ctx ex_world = (Ret (Some e), w')"
proof -
  obtain r w' where m: "realMain ok_main ex_ctx ex_world = (Ret r, w')" using ok_main_runs by blast
  have i: "trace_Init (md_otel ok_main) (TraceRatio \<lparr>Port = ''8080'', TraceRatio = 0\<rparr>) (configured ex_world) = (Ret None, configured ex_world)"
    and e: "envconfig_Process ok_main = Inr \<lparr>Port = ''8080'', TraceRatio = 0\<rparr>"
    and l: "logging_NewClient ok_main (gcputil_ProjectID ok_main) = Inr ok_logging"
    and o1: "visits_all_log_types (log_type_order ok_main)"
    using ex_log_types_all by (simp_all add: ok_main_def trace_Init_def)
  from agent_program_shuts_down [OF e i l o1 m] obtain w3 e2 where
    "trace_Shutdown (md_otel ok_main) w3 = (Ret e2, w')" "r = None \<longrightarrow> e2 = None" by blast
  then have "r \<noteq> None" by (auto simp: ok_main_def trace_Shutdown_def)
  with m show ?thesis by auto
qed

section \<open>Reading logs back\<close>

text \<open>
  C23: \<open>Pull\<close> returns at most \<open>maxCount\<close> entries, and when the listing has no errors exactly its first
  entries, in order, up to that count or its end.
\<close>
theorem pull_returns_first_entries:
  assumes "obeys_retry R" "Pull R p fltr n w = (Ret (Inr ls), w')"
  shows "int (length ls) \<le> max n 0 \<and>
     (\<forall>it w0. ListLogEntries (pu_client p) (pull_request (resource p) fltr) w = (Ret it, w0) \<longrightarrow>
        (\<forall>v x v'. it v \<noteq> (Ret (NextError x), v')) \<longrightarrow>
        (\<exists>v. gives it w0 ls v \<and> (int (length ls) \<ge> n \<and> w' = v \<or> it v = (Ret NextDone, w'))))"
proof -
  note a = Pull_attempts [OF assms]
  from attempts_prefix [OF a refl] have "int (length ls) \<le> max n 0" by simp
  with pull_attempt_reads [OF _ _ a] show ?thesis by blast
qed

lemma pull_returns_first_entries_witness:
  "length [7, 7 :: nat] \<le> 10 \<and> (\<exists>w'. Pull try_twice flaky_puller ''f'' 10 fresh = (Ret (Inr [7, 7]), w'))"
proof -
  obtain w' where p: "Pull try_twice flaky_puller ''f'' 10 fresh = (Ret (Inr [7, 7]), w')"
    using flaky_pull by blast
  from pull_returns_first_entries [OF try_twice_retries p] p show ?thesis by simp
qed

text \<open>
  C24: \<open>StreamPull\<close> never returns nil; and when the server has closed the stream its receive loop,
  which skips \<open>io.EOF\<close>, does not return at all.
\<close>
theorem stream_pull_never_ends_well:
  "StreamPull R p fltr emit w \<noteq> Some (Ret None, w') \<and>
   (closed_stream (tc_Recv tc) \<and> tc_Send tc req w = (Ret None, w1) \<longrightarrow> stream_attempt tc req emit w = None)"
  using StreamPull_never_nil [of R p fltr emit w None w'] stream_loop_closed [of "tc_Recv tc" emit w1]
  by (auto simp: stream_attempt_def)

lemma stream_pull_never_ends_well_witness:
  "stream_attempt \<lparr>tc_Send = (\<lambda>r. go_return None), tc_Recv = go_return (RecvError io_EOF),
     tc_CloseSend = go_return None\<rparr> (tail_request [] []) (\<lambda>e :: nat. go_return ()) fresh = None"
  using stream_pull_never_ends_well [of "\<lambda>b f. f" flaky_puller "[]" "\<lambda>e. go_return ()" fresh fresh
      "\<lparr>tc_Send = (\<lambda>r. go_return None), tc_Recv = go_return (RecvError io_EOF), tc_CloseSend = go_return None\<rparr>"
      "tail_request [] []" fresh]
  by (simp add: closed_stream_def io_EOF_def)

text \<open>
  Listing and following the same entries print the same lines, one step per entry; both count
  the entries that fail validation, but only listing counts one that cannot be marshalled as failed.
\<close>
lemma tail_counts:
  "list_loop pj v extra ls 0 =
     (length (filter (\<lambda>l. marshal_fails pj l \<or> v \<and> entry_invalid pj extra l) ls),
      concat (map (step_prints pj v extra) ls)) \<and>
   tail_loop pj v extra ls 0 0 =
     (length (filter (\<lambda>l. v \<and> entry_invalid pj extra l) ls), length ls,
      concat (map (step_prints pj v extra) ls))"
  by (simp add: list_loop_eq tail_loop_eq)

section \<open>The test programs\<close>



text \<open>
  The HTTP integration test and the server it calls fit together.  With an identity token whose
  email claim is set and a trace the sanitizer keeps, the request the test makes is logged once, as
  a request with the test's trace as resource name and as its only label (what the test's query
  looks for), valid exactly when the email is well formed; the test sees 200 exactly when it was.
\<close>
lemma http_test_is_logged:
  assumes "ServeHTTP h (http_audit_request c q tok idToken trace) w = (Ret resp, w')"
    and "''trace_id'' \<notin> fst ` set q" "trace \<noteq> []" "TrimSpace tok \<noteq> []" "Sanitize h trace = trace"
    and "ParseString h (TrimSpace idToken) = Inr claims" "claims ''email'' = Some (JStr email)" "email \<noteq> []"
  shows "\<exists>w1 err r' w2 lr. w_ext w1 = w_ext w \<and> Log (sh_client h) c (Some lr) w1 = (Ret (err, r'), w2) \<and>
     req_labels lr = Some [''trace_id'' \<mapsto> trace] \<and> (\<exists>a. payload lr = Some a \<and> resource_name a = trace) \<and>
     justification_token lr = TrimSpace tok \<and> (valid_request lr \<longleftrightarrow> valid_email email) \<and>
     w_ext w' = w_ext w2 \<and> rs_status resp = (if err = None then 200 else 500)"
proof -
  from http_request_ready [OF assms(2-4,6-8), of c] have
    r: "shell_ready h (http_audit_request c q tok idToken trace) email (TrimSpace tok)"
    and t: "Query_Get (rq_query (http_audit_request c q tok idToken trace)) traceIDKey = trace" by simp_all
  let ?lr = "shell_log_request trace email (TrimSpace tok)"
  from ServeHTTP_logs [OF r assms(1)] obtain w1 err r' w2 where
    "w_ext w1 = w_ext w" "Log (sh_client h) c (Some ?lr) w1 = (Ret (err, r'), w2)"
    "w_ext w' = w_ext w2" "rs_status resp = (if err = None then 200 else 500)"
    unfolding t assms(5) by (auto simp: http_audit_request_def simp del: http_codes)
  moreover have "req_labels ?lr = Some [''trace_id'' \<mapsto> trace]" "justification_token ?lr = TrimSpace tok"
    "\<exists>a. payload ?lr = Some a \<and> resource_name a = trace"
    by (simp_all add: shell_log_request_def traceIDKey_def)
  ultimately show ?thesis using shell_request_valid [of trace email "TrimSpace tok"] assms(3) by blast
qed

lemma http_test_is_logged_witness:
  "\<exists>resp w'. ServeHTTP ex_shell ex_get ex_world = (Ret resp, w') \<and> rs_status resp = 200"
proof -
  obtain resp w' where s: "ServeHTTP ex_shell ex_get ex_world = (Ret resp, w')" using ex_shell_returns by blast
  have h: "''trace_id'' \<notin> fst ` set ([] :: (string \<times> string) list)" "''id'' \<noteq> []" "TrimSpace ''jvs'' \<noteq> []"
    "Sanitize ex_shell ''id'' = ''id''" "ParseString ex_shell (TrimSpace ''a@b'') = Inr [''email'' \<mapsto> JStr ''a@b'']"
    "[''email'' \<mapsto> JStr ''a@b''] ''email'' = Some (JStr ''a@b'')" "''a@b'' \<noteq> []" "sh_client ex_shell = Some ex_storing"
    by (simp_all add: ex_shell_def)
  from http_test_is_logged [OF s [unfolded ex_get_def] h(1-7)] have "rs_status resp = 200"
    unfolding h(8) ex_storing_Log by auto
  with s show ?thesis by blast
qed



section \<open>Listing and streaming logs\<close>





section \<open>The generated code and the test of all endpoints\<close>


text \<open>
  C30: the package of the audit log messages, initialized and asked for its compressed descriptors in
  any order and any number of times.  A file is built at most once, from what it held at the start,
  and the agent's only when the request's has been; and the compressed descriptor stays that of the
  raw descriptor, although the initialization drops the latter.
\<close>
theorem descriptor_survives_use:
  "let p = fold (do_op u Build gz) es v1alpha1_at_start
   in fst (rawDescGZIP gz (request_file p)) = gz (Some audit_log_request_rawDesc) \<and>
      fst (rawDescGZIP gz (agent_file p)) = gz (Some audit_log_agent_rawDesc) \<and>
      (File (request_file p), File (agent_file p)) \<in>
        {(None, None), (Some (Build (request_tb u)), None), (Some (Build (request_tb u)), Some (Build (agent_tb u)))}"
  unfolding Let_def
  using ops_inv_gzip [OF fold_inv [of u Build gz es]] ops_inv_files [OF fold_inv [of u Build gz es]] by blast

text \<open>
  C31: the identity token of the integration test.  A test case points to the configuration that all
  tests share, so when no token is configured and the endpoints are tested one after the other, the
  token made for the first endpoint is used for all of them: the run is the one with that token
  configured, and no token source is asked again, whatever the sources would give.
\<close>
theorem id_token_of_first_endpoint:
  assumes "IDToken (base_config cfg) = []" "e \<noteq> []" "el_NewTokenSource L e = Inr src"
    and "src w = (Ret (Inr t), w1)" "t \<noteq> []"
    and "el_NewBigQuery L (ProjectID (base_config cfg)) = Inr client"
  shows "run_in_order (map snd (endpoint_subtests L test (e # es))) cfg w =
     run_in_order (map snd (endpoint_subtests (L\<lparr>el_NewTokenSource := others\<rparr>) test (e # es)))
       (set_IDToken t cfg) w1"
proof -
  from assms(5) have t: "IDToken (base_config (set_IDToken t cfg)) \<noteq> []" by (simp add: set_IDToken_def)
  have "run_in_order (map snd (endpoint_subtests L test (e # es))) cfg w =
      run_in_order (map snd (endpoint_subtests L test (e # es))) (set_IDToken t cfg) w1"
    using first_endpoint_resolves [OF assms(1-6) refl, of test 0]
    by (simp add: map_snd_endpoint_subtests go_bind_def)
  also have "\<dots> = run_in_order (map snd (endpoint_subtests (L\<lparr>el_NewTokenSource := others\<rparr>) test (e # es)))
      (set_IDToken t cfg) w1"
    using run_in_order_present [OF t, of L test "enumerate 0 (e # es)" w1 others]
    by (simp only: map_snd_endpoint_subtests)
  finally show ?thesis .
qed

lemma id_token_of_first_endpoint_witness:
  "reported (run_in_order (map snd (endpoint_subtests
       (ex_endpoint_libs\<lparr>el_NewTokenSource := (\<lambda>e. Inr (go_return (Inr ''t'')))\<rparr>) token_report
       [''https://a'', ''https://b''])) ex_keyed_config ex_world) =
     [Some (''https://a'', ''t''), Some (''https://b'', ''t'')]"
proof -
  let ?L = "ex_endpoint_libs\<lparr>el_NewTokenSource := (\<lambda>e. Inr (go_return (Inr ''t'')))\<rparr>"
  have "run_in_order (map snd (endpoint_subtests ?L token_report (''https://a'' # [''https://b'']))) ex_keyed_config ex_world =
      run_in_order (map snd (endpoint_subtests (?L\<lparr>el_NewTokenSource := (\<lambda>_. Inl io_EOF)\<rparr>) token_report
        (''https://a'' # [''https://b'']))) (set_IDToken ''t'' ex_keyed_config) ex_world"
    by (rule id_token_of_first_endpoint [where src = "go_return (Inr ''t'')"])
      (simp_all add: ex_endpoint_libs_def ex_keyed_config_def run_config_def)
  then show ?thesis using ex_endpoints_with_token by simp
qed

section \<open>Validation\<close>

text \<open>
  C32: \<open>ValidateAuditLog\<close> accepts exactly the payloads with a service, a method, a resource and a
  principal whose email has one @ that is not its last character, and otherwise reports every
  violated requirement, once each and in order.
\<close>
theorem ValidateAuditLog_exact:
  "(ValidateAuditLog p = None \<longleftrightarrow> valid_audit_log p) \<and>
   leaves_of (ValidateAuditLog (Some a)) = audit_log_violations a"
  by (simp add: ValidateAuditLog_iff ValidateAuditLog_leaves)

text \<open>
  \<open>Validate\<close> accepts a log entry exactly when it parses, its payload decodes to a valid audit
  log, and every extra validator accepts it; otherwise the errors of all validators are reported.
\<close>
lemma Validate_exact:
  "Validate pj log extra = None \<longleftrightarrow>
     (\<exists>le p val al. unmarshal_entry pj log = Inr le \<and> json_payload le = Some p \<and>
        marshal_struct pj p = Inr val \<and> unmarshal_audit_log pj val = Inr al \<and>
        valid_audit_log (Some al) \<and> (\<forall>v \<in> set extra. v le = None))"
  by (auto simp: Validate_def run_validators_None validatePayload_None split: sum.splits
      simp del: run_validators.simps)

lemma Validate_exact_witness:
  "Validate \<lparr>unmarshal_entry = (\<lambda>_. Inr \<lparr>insert_id = [], entry_labels = None, json_payload = Some None\<rparr>),
     marshal_entry = (\<lambda>_. Inr []), marshal_struct = (\<lambda>_. Inr []),
     unmarshal_audit_log = (\<lambda>_. Inr ex_payload)\<rparr> [] [] = None"
  using ex_request_valid
  by (simp add: Validate_exact valid_request_def ex_request_def)

section \<open>The validators and mutators\<close>

text \<open>
  C33: the decision of the principal filter.  Without expressions everything passes.  Otherwise a
  request without authentication info is invalid; an include that matches wins over the excludes;
  and a principal that does not pass fails the precondition, which is not an error of the request.
\<close>
theorem principal_filter_decision:
  "PrincipalEmailMatcher_Process p c r w = (Ret (e, r'), w') \<Longrightarrow> r' = r \<and> w' = w \<and>
   (if m_includes p = [] \<and> m_excludes p = [] then e = None
    else case GetAuthenticationInfo (GetPayload r) of
      None \<Rightarrow> (\<exists>x. e = Some x \<and> errors_is x ErrInvalidRequest \<and> \<not> errors_is x ErrPreconditionFailed)
    | Some i \<Rightarrow> if principal_passes p (principal_email i) then e = None
        else (\<exists>x. e = Some x \<and> errors_is x ErrPreconditionFailed \<and> \<not> errors_is x ErrInvalidRequest))"
  using matcher_verdict_unset [of p r] matcher_verdict_no_principal [of p r]
  by (auto simp: PrincipalEmailMatcher_Process_def dest: matcher_verdict_principal split: option.splits)

lemma principal_filter_decision_witness:
  "PrincipalEmailMatcher_Process \<lparr>m_includes = [], m_excludes = [\<lparr>re_source = ''a.*'', MatchString = prefix ''a''\<rparr>]\<rparr>
     ex_ctx (Some ex_request) ex_world \<noteq> (Ret (None, Some ex_request), ex_world)"
proof
  assume "PrincipalEmailMatcher_Process \<lparr>m_includes = [], m_excludes = [\<lparr>re_source = ''a.*'', MatchString = prefix ''a''\<rparr>]\<rparr>
     ex_ctx (Some ex_request) ex_world = (Ret (None, Some ex_request), ex_world)"
  from principal_filter_decision [OF this] show False
    by (simp add: ex_request_def ex_payload_def principal_passes_def matches_any_def)
qed

text \<open>
  The label processor adds the configured labels a request lacks and keeps the ones it has; the
  order in which the map of configured labels is visited is irrelevant, and nothing else changes.
\<close>
lemma labels_added_not_overwritten:
  assumes "distinct (map fst ls)" "distinct (map fst ls')" "map_of ls' = map_of ls" "ls \<noteq> []"
  shows "LabelProcessor_Process (NewLabelProcessor ls) c (Some q) w =
           (Ret (None, Some (q\<lparr>req_labels := Some (map_of ls ++ labels_of q)\<rparr>)), w) \<and>
         LabelProcessor_Process (NewLabelProcessor ls') c (Some q) w =
           LabelProcessor_Process (NewLabelProcessor ls) c (Some q) w"
proof -
  have "ls' \<noteq> []" using assms(3,4) by (cases ls; cases ls') (auto simp: fun_eq_iff split: if_splits)
  with assms show ?thesis by (simp add: LabelProcessor_Process_eq NewLabelProcessor_labels)
qed

lemma labels_added_not_overwritten_witness:
  "LabelProcessor_Process (NewLabelProcessor [(''a'', ''1''), (''b'', ''2'')]) ex_ctx
     (Some (ex_request\<lparr>req_labels := Some [''a'' \<mapsto> ''0'']\<rparr>)) ex_world =
   LabelProcessor_Process (NewLabelProcessor [(''b'', ''2''), (''a'', ''1'')]) ex_ctx
     (Some (ex_request\<lparr>req_labels := Some [''a'' \<mapsto> ''0'']\<rparr>)) ex_world"
  using labels_added_not_overwritten
    [of "[(''a'', ''1''), (''b'', ''2'')]" "[(''b'', ''2''), (''a'', ''1'')]" ex_ctx
        "ex_request\<lparr>req_labels := Some [''a'' \<mapsto> ''0'']\<rparr>" ex_world]
  by (simp add: fun_upd_twist)



text \<open>
  C35: the justification processor panics, by an assignment to a nil map, exactly when the token is
  accepted and the payload carries metadata whose fields are nil; it panics in no other way.
\<close>
theorem justification_panics_iff:
  "(\<exists>s w'. Justification_Process v c (Some q) w = (Panic s, w')) \<longleftrightarrow>
     (\<exists>token tok a. token_accepted v c q token tok \<and> payload q = Some a \<and> metadata a = Some None)"
proof
  assume "\<exists>s w'. Justification_Process v c (Some q) w = (Panic s, w')"
  then obtain s w' where p: "Justification_Process v c (Some q) w = (Panic s, w')" by blast
  then have "\<exists>token tok. token_accepted v c q token tok"
    by (auto simp: token_accepted_def Justification_Process_def Let_def
        split: sum.splits if_splits)
  with Justification_Process_panics_only_nil_fields [OF p] show
    "\<exists>token tok a. token_accepted v c q token tok \<and> payload q = Some a \<and> metadata a = Some None"
    by auto
next
  assume "\<exists>token tok a. token_accepted v c q token tok \<and> payload q = Some a \<and> metadata a = Some None"
  then obtain token tok a where "token_accepted v c q token tok" "payload q = Some a" "metadata a = Some None"
    by blast
  from Justification_Process_nil_fields_panics [OF this, of w] show
    "\<exists>s w'. Justification_Process v c (Some q) w = (Panic s, w')" by blast
qed



section \<open>The backends\<close>

text \<open>
  C37: a Cloud Logging processor made by \<open>NewProcessor\<close> writes each request to the logger of its
  log type, the one for UNSPECIFIED when the type is not a declared one: buffered when the mode
  (the request's own, or else the processor's default) is BEST_EFFORT, synchronously otherwise,
  returning the wrapped error of the write.  It never changes the request.
\<close>
theorem cloud_logging_writes:
  assumes "NewProcessor projectID dc order opts = Inr p" "visits_all_log_types order"
  shows "\<exists>client. cl_client p = Some client \<and> (\<forall>c r. CloudLogging_Process p c r =
    (let l = client (if GetType r \<in> fst ` set LogType_entries then logNameFromLogType (GetType r)
                     else logNameFromLogType LT_UNSPECIFIED)
     in if GetMode r = MODE_BEST_EFFORT \<or> GetMode r = MODE_UNSPECIFIED \<and> bestEffort p
        then go_bind (lg_log l (make_entry r)) (\<lambda>_. go_return (None, r))
        else go_bind (lg_log_sync l c (make_entry r)) (\<lambda>err. go_return
               (map_option (wrapf ''synchronous write to Cloud logging failed'') err, r))))"
proof -
  from NewProcessor_has_all_loggers [OF assms] obtain client where
    c: "cl_client p = Some client" "has_all_loggers client p" by blast
  have m: "(if GetMode r \<noteq> MODE_UNSPECIFIED then GetMode r = MODE_BEST_EFFORT else bestEffort p) =
      (GetMode r = MODE_BEST_EFFORT \<or> GetMode r = MODE_UNSPECIFIED \<and> bestEffort p)" for r
    by auto
  show ?thesis
    by (rule exI [of _ client])
      (simp add: c CloudLogging_Process_eq [OF c(2)] m chosen_log_name_def)
qed

lemma cloud_logging_writes_witness:
  "\<exists>client. cl_client ex_cl = Some client \<and> CloudLogging_Process ex_cl ex_ctx
     (Some (ex_request\<lparr>req_type := 7\<rparr>)) ex_world =
   (Ret (Some (wrapf ''synchronous write to Cloud logging failed'' (Opaque ''audit.abcxyz/unspecified'')),
     Some (ex_request\<lparr>req_type := 7\<rparr>)), ex_world)"
proof -
  have n: "(7 :: log_type) \<notin> fst ` set LogType_entries" "logNameFromLogType LT_UNSPECIFIED = ''audit.abcxyz/unspecified''"
    by (simp_all add: LogType_entries_def log_type_defs logNameFromLogType_def log_name_annotations_def)
  from cloud_logging_writes [OF ex_cl_new ex_log_types_all] show ?thesis
    by (simp add: ex_cl_def n ex_mode ex_logging_def Let_def go_bind_def)
qed

text \<open>
  \<open>Stop\<close> of the Cloud Logging processor flushes every logger, whatever the others return, and
  returns all failures joined, each with its log type.
\<close>
lemma cloud_logging_stop_flushes_all:
  assumes "\<forall>(t, l) \<in> set (loggerByLogType p). \<forall>v. \<exists>e v'. lg_flush l v = (Ret e, v')"
  shows "\<exists>res. CloudLogging_Stop p w = (Ret res, flush_world (loggerByLogType p) w) \<and>
     leaves_of res = flush_results (loggerByLogType p) w"
  using flush_all_collects [OF assms, of None w] by (simp add: CloudLogging_Stop_def)

lemma cloud_logging_stop_flushes_all_witness:
  "\<exists>res. CloudLogging_Stop ex_cl ex_world = (Ret res, ex_world) \<and> length (leaves_of res) = 5"
proof -
  have "\<forall>(t, l) \<in> set (loggerByLogType ex_cl). \<forall>v. \<exists>e v'. lg_flush l v = (Ret e, v')"
    by (simp add: ex_cl_def ex_logging_def)
  from cloud_logging_stop_flushes_all [OF this, of ex_world] obtain res where
    "CloudLogging_Stop ex_cl ex_world = (Ret res, flush_world (loggerByLogType ex_cl) ex_world)"
    "leaves_of res = flush_results (loggerByLogType ex_cl) ex_world" by blast
  then show ?thesis by (simp add: ex_cl_def ex_logging_def ex_log_types_def LogType_entries_def)
qed

text \<open>
  A remote processor given a token option dials with TLS and sends the token with each
  call; one given no authentication dials insecurely and sends none.
\<close>
lemma remote_dials_securely_with_auth:
  assumes "NewRemoteProcessor d addr opts = Inr p" "opts = [] \<or> (\<exists>f. opts = [f] \<and> token_option d f)"
  shows "\<exists>conn. r_conn p = Some conn \<and> r_client p = Some (NewAuditLogAgentClient conn) \<and>
     NewGRPCClient d addr [WithAuthority addr, if opts = [] then WithInsecure else WithTLS] = Inr conn \<and>
     (opts = [] \<longrightarrow> auth_call_opts p = go_return (Inr [])) \<and>
     (opts \<noteq> [] \<longrightarrow> (\<forall>w os w'. auth_call_opts p w = (Ret (Inr os), w') \<longrightarrow> (\<exists>t. os = [PerRPCCredentials t])))"
proof (cases opts)
  case Nil
  with assms NewRemoteProcessor_no_auth [of d addr p] show ?thesis by (simp add: auth_call_opts_def)
next
  case (Cons f fs)
  with assms have f: "token_option d f" "opts = [f]" by auto
  with assms NewRemoteProcessor_token_dials_tls [of d f addr p] show ?thesis
    by (fastforce simp: auth_call_opts_def callOpts_def elim!: go_bind_RetE split: sum.splits)
qed

lemma remote_dials_securely_with_auth_witness:
  "\<exists>p conn. NewRemoteProcessor ex_remote ''h:443'' [WithDefaultAuth ex_remote] = Inr p \<and>
     r_conn p = Some conn"
proof -
  obtain p where "NewRemoteProcessor ex_remote ''h:443'' [WithDefaultAuth ex_remote] = Inr p"
    by (simp add: NewRemoteProcessor_def WithDefaultAuth_def WithIDTokenAuth_def setIDTokenAuth_def
        ex_remote_def remote_dial_options_def dialOpts_def)
  from remote_dials_securely_with_auth [OF this] this show ?thesis by (auto simp: token_option_def)
qed

text \<open>
  After a remote call the request has the labels, payload and type of the server's result and
  keeps its mode, operation, timestamp and token; if the call fails the request is unchanged.
\<close>
lemma remote_takes_result:
  assumes "Remote_Process p c (Some q) w = (Ret (e, r'), w')"
  shows "\<exists>q'. r' = Some q' \<and> (e \<noteq> None \<longrightarrow> q' = q) \<and>
     (q' = q \<or> (\<exists>res :: log_request. q' = q\<lparr>req_labels := req_labels res, payload := payload res, req_type := req_type res\<rparr>)) \<and>
     mode q' = mode q \<and> operation q' = operation q \<and> req_timestamp q' = req_timestamp q \<and>
     justification_token q' = justification_token q"
proof -
  from assms consider "r' = Some q" | res where "e = None" "r' = take_result (Some q) (Some res)"
    by (auto simp: Remote_Process_def take_result_def elim!: go_bind_RetE
        split: sum.splits option.splits if_splits)
  then show ?thesis
  proof cases
    case (2 res)
    let ?q = "q\<lparr>req_labels := req_labels res, payload := payload res, req_type := req_type res\<rparr>"
    have "\<exists>res :: log_request. ?q = q\<lparr>req_labels := req_labels res, payload := payload res, req_type := req_type res\<rparr>"
      by (rule exI [of _ res]) (rule refl)
    moreover from 2 have "r' = Some ?q" "e = None" by (simp_all add: take_result_def)
    ultimately show ?thesis by (intro exI [of _ ?q] conjI disjI2) (assumption | simp)+
  qed simp
qed

lemma remote_takes_result_witness:
  "\<exists>q'. Remote_Process (ex_remote_to ex_conn) ex_ctx
      (Some ex_request) ex_world = (Ret (None, Some q'), ex_world) \<and> mode q' = MODE_FAIL_CLOSE"
proof -
  have p: "Remote_Process (ex_remote_to ex_conn) ex_ctx
      (Some ex_request) ex_world = (Ret (None, Some ex_request), ex_world)"
    by (simp add: Remote_Process_def auth_call_opts_def ex_remote_to_def ex_conn_def client_ProcessLog_connected
        go_bind_def take_result_def)
  from remote_takes_result [OF p] p show ?thesis by (simp add: ex_mode)
qed

section \<open>Rules, names, values, principals, configuration\<close>

text \<open>A rule with a selector as long as the method name, at its place in the list.\<close>

lemma exact_rule_place:
  assumes "selects (Selector r) m" "length (Selector r) = length m" "m \<noteq> []"
  shows "mostRelevantRule m (pre @ r # rs) =
     (if \<exists>q \<in> set pre. selects (Selector q) m \<and> length m \<le> length (Selector q)
      then mostRelevantRule m (pre @ rs) else Some r)"
  using most_relevant_loop_exact [of r m 0 pre rs None] most_relevant_loop_no_use [of r m 0 pre rs None] assms
  by (auto simp: mostRelevantRule_def isRuleApplicable_iff not_le)

text \<open>
  C38: the rule for a method.  There is none exactly when no rule with a selector selects the method
  (the selector is \<open>*\<close>, or after leading slashes are cut it is the method or a prefix of it with
  \<open>*\<close>); the rule returned is such a rule, and unless its selector is as long as the method name
  no rule that selects the method has a longer selector.  A rule with a selector as long as the
  method name is chosen at its place in the list, unless a selector that is as long or longer
  selects the method before it; then the rule makes no difference, even if it names the method and
  the other one is a wildcard.
\<close>
theorem most_relevant_rule:
  "(mostRelevantRule m rs = None \<longleftrightarrow> (\<forall>r \<in> set rs. \<not> (selects (Selector r) m \<and> Selector r \<noteq> []))) \<and>
   (\<forall>r. mostRelevantRule m rs = Some r \<longrightarrow> r \<in> set rs \<and> selects (Selector r) m \<and> Selector r \<noteq> [] \<and>
      (length (Selector r) \<noteq> length m \<longrightarrow>
         (\<forall>r' \<in> set rs. selects (Selector r') m \<longrightarrow> length (Selector r') \<le> length (Selector r)))) \<and>
   (\<forall>pre r post. rs = pre @ r # post \<and> selects (Selector r) m \<and> length (Selector r) = length m \<and> m \<noteq> [] \<longrightarrow>
      mostRelevantRule m rs =
        (if \<exists>q \<in> set pre. selects (Selector q) m \<and> length m \<le> length (Selector q)
         then mostRelevantRule m (pre @ post) else Some r))"
proof (intro conjI)
  show "\<forall>pre r post. rs = pre @ r # post \<and> selects (Selector r) m \<and> length (Selector r) = length m \<and> m \<noteq> [] \<longrightarrow>
      mostRelevantRule m rs =
        (if \<exists>q \<in> set pre. selects (Selector q) m \<and> length m \<le> length (Selector q)
         then mostRelevantRule m (pre @ post) else Some r)"
    using exact_rule_place by blast
qed (use mostRelevantRule_None [of m rs] mostRelevantRule_Some [of m rs] mostRelevantRule_longest [of m rs]
    in \<open>simp_all add: relevant_def isRuleApplicable_iff\<close>)

lemma most_relevant_rule_witness:
  "mostRelevantRule ''a.b.C'' [ex_rule ''a.b.*'', ex_rule ''a.b.C''] = mostRelevantRule ''a.b.C'' [ex_rule ''a.b.*''] \<and>
   mostRelevantRule ''a.b.C'' [ex_rule ''a.b.C'', ex_rule ''a.b.*''] = Some (ex_rule ''a.b.C'')"
proof -
  have s: "selects (Selector (ex_rule ''a.b.*'')) ''a.b.C''" "selects (Selector (ex_rule ''a.b.C'')) ''a.b.C''"
    "Selector (ex_rule t) = t" for t
    by (simp_all add: selects_def TrimLeft_def suffix_def ex_rule_def)
  note th = most_relevant_rule [of "''a.b.C''", THEN conjunct2, THEN conjunct2, rule_format]
  have "mostRelevantRule ''a.b.C'' ([ex_rule ''a.b.*''] @ ex_rule ''a.b.C'' # []) =
      mostRelevantRule ''a.b.C'' ([ex_rule ''a.b.*''] @ [])"
    using th [of _ "[ex_rule ''a.b.*'']" "ex_rule ''a.b.C''" "[]"] s by simp
  moreover have "mostRelevantRule ''a.b.C'' ([] @ ex_rule ''a.b.C'' # [ex_rule ''a.b.*'']) = Some (ex_rule ''a.b.C'')"
    using th [of _ "[]" "ex_rule ''a.b.C''" "[ex_rule ''a.b.*'']"] s by simp
  ultimately show ?thesis by simp
qed

text \<open>In the end the order of the rules decides.\<close>

lemma most_relevant_rule_order_dependent:
  "mostRelevantRule ''a.b.C'' [ex_rule ''a.b.*'', ex_rule ''a.b.C''] = Some (ex_rule ''a.b.*'') \<and>
   mostRelevantRule ''a.b.C'' [ex_rule ''a.b.C'', ex_rule ''a.b.*''] = Some (ex_rule ''a.b.C'')"
  by (simp add: mostRelevantRule_def ex_rule_def isRuleApplicable_def wildcard_def TrimLeft_def
      HasSuffix_def HasPrefix_def suffix_def)

text \<open>
  The service name of a method is the nonempty text without a slash or newline between one or
  two leading slashes and the next slash; any other method name is an error.
\<close>
lemma service_name_exact:
  assumes "g \<noteq> []"
  shows "serviceName m = Inr g \<longleftrightarrow> CHR ''/'' \<notin> set g \<and> CHR 0x0A \<notin> set g \<and>
     (\<exists>rest. m = ''/'' @ g @ ''/'' @ rest \<or> m = ''//'' @ g @ ''/'' @ rest)"
  using assms by (simp add: serviceName_Inr serviceName_group_Some [OF assms])

lemma service_name_exact_witness: "serviceName ''//svc/M'' = Inr ''svc''"
  using service_name_exact [of "''svc''" "''//svc/M''"] by simp

text \<open>
  C39: \<open>toProtoStruct\<close> turns a value whose JSON is an object into a struct from which the JSON can be
  read back; null becomes the empty struct, a struct is passed through, a message becomes a struct
  of its fields that are set, and everything else is an error.
\<close>
theorem to_proto_struct_round_trip:
  "(\<forall>s. toProtoStruct (GoStruct s) = Inr s) \<and>
   (\<forall>m. \<exists>f. toProtoStruct (GoJson (JObj m)) = Inr (Some f) \<and> value_json (StructValue f) = JObj m) \<and>
   toProtoStruct GoNil = Inr (Some (Some Map.empty)) \<and>
   (\<forall>fs. toProtoStruct (GoMsg fs) = Inr (Some (Some (\<lambda>k. map_option jsonValueToStructValue
      (Option.bind (map_of fs k) field_json))))) \<and>
   (\<forall>v. (\<exists>s. toProtoStruct v = Inr s) \<longleftrightarrow>
      (\<exists>s. v = GoStruct s) \<or> v = GoNil \<or> (\<exists>m. v = GoJson (JObj m)) \<or> (\<exists>fs. v = GoMsg fs))"
proof (intro conjI allI)
  fix m :: "string \<rightharpoonup> json"
  have "map_option value_json \<circ> (\<lambda>k. map_option jsonValueToStructValue (m k)) = m"
    by (rule ext) (simp add: option.map_comp comp_def value_json_jsonValue option.map_ident)
  then show "\<exists>f. toProtoStruct (GoJson (JObj m)) = Inr (Some f) \<and> value_json (StructValue f) = JObj m"
    by (simp add: toProtoStruct_json jsonMapToProtoStruct_def)
qed (rule toProtoStruct_ok_iff toProtoStruct_msg | simp add: toProtoStruct_def GoNil_def json_Marshal_def
    json_Unmarshal_map_def jsonMapToProtoStruct_def)+

text \<open>
  The principal of a request is the nonblank \<open>email\<close> claim of the token in the first metadata key
  that is present with the rule's prefix, compared without case; nothing else is accepted.
\<close>
lemma request_principal_exact:
  "FromRawJWT_RequestPrincipal parse js c = Inr p \<longleftrightarrow>
     p \<noteq> [] \<and> (\<exists>m fj v vs token. incoming_md c = Some m \<and>
        List.find (\<lambda>fj. \<exists>v vs. m (jwt_key fj) = v # vs \<and> prefix (ToLower (jwt_prefix fj)) (ToLower v)) js = Some fj \<and>
        m (jwt_key fj) = v # vs \<and> parse (drop (length (jwt_prefix fj)) v) = Inr token \<and>
        token ''email'' = Some (JStr p))"
proof -
  have f: "jwt_rule_matches m = (\<lambda>fj. \<exists>v vs. m (jwt_key fj) = v # vs \<and>
      prefix (ToLower (jwt_prefix fj)) (ToLower v))" for m
    by (rule ext) (simp add: jwt_rule_matches_def)
  have h: "List.find (jwt_rule_matches m) js = Some fj \<Longrightarrow> \<exists>v vs. m (jwt_key fj) = v # vs" for m fj
    by (auto simp: find_Some_iff jwt_rule_matches_def)
  show ?thesis
    unfolding RequestPrincipal_Inr findJWT_find f [symmetric] emailKey_def
    by (auto split: option.splits dest: h) (metis h list.sel(1))+
qed

text \<open>
  C40: \<open>Validate\<close> of a configuration sets the defaults and then accepts exactly the well-formed
  configurations: the version, a backend, a security context with keys, rules with known directives
  and log types, a log mode, a key endpoint where justification is enabled.
\<close>
theorem config_validate_exact:
  "(fst (Config_Validate cfg) = None \<longleftrightarrow> wf_config (snd (Config_Validate cfg))) \<and>
   snd (Config_Validate cfg) = Config_SetDefault cfg \<and>
   Config_SetDefault (Config_SetDefault cfg) = Config_SetDefault cfg"
  using Config_Validate_None [of cfg] by (simp add: Config_SetDefault_idem) (simp add: Config_Validate_def Let_def)

text \<open>
  After validation the log mode is FAIL_CLOSE or BEST_EFFORT, and it is FAIL_CLOSE when the
  configuration left it open.
\<close>
lemma config_log_mode:
  assumes "Config_Validate cfg = (None, cfg1)"
  shows "GetLogMode cfg1 \<in> {MODE_FAIL_CLOSE, MODE_BEST_EFFORT} \<and>
     (cfg_log_mode cfg = [] \<longrightarrow> GetLogMode cfg1 = MODE_FAIL_CLOSE)"
proof -
  from assms have "wf_config cfg1" "cfg1 = Config_SetDefault cfg"
    using Config_Validate_None [of cfg] by (auto simp: Config_Validate_def Let_def)
  moreover have "cfg_log_mode cfg = [] \<longrightarrow> GetLogMode (Config_SetDefault cfg) = MODE_FAIL_CLOSE"
    by (simp add: GetLogMode_def ToUpper_FAIL_CLOSE LogMode_value_def LogMode_entries_def)
  ultimately show ?thesis using GetLogMode_wf [of cfg1] by blast
qed

lemma config_log_mode_witness: "GetLogMode (Config_SetDefault ex_config) = MODE_FAIL_CLOSE"
  using config_log_mode [OF ex_config_valid] by (simp add: ex_config_def)

end
